(* ===== verification/Prelude.thy ===== *)
theory Prelude
  imports Main "HOL-Library.Word" "HOL-Library.Char_ord" "HOL-Library.List_Lexorder"
begin

text \<open>
  What every theory of the development shares: the integer types of the Rust code, the
  error plumbing (the operator \<open>?\<close>, snafu's \<open>.context(..)\<close> on results and options) as
  functions on sums, the named collection of simplification rules, and generic facts on
  lists and association lists.
\<close>

named_theorems result_simps \<open>rewriting of the error plumbing\<close>

type_synonym u16 = "16 word"
type_synonym u32 = "32 word"
type_synonym i32 = "32 word"

section \<open>Results\<close>

text \<open>
  \<open>Result<T, E>\<close> is \<open>E + T\<close>. The operator \<open>?\<close> returns early with the error;
  \<open>r.context(X)\<close> wraps the error of a result, \<open>o.context(X)\<close> turns an absent value
  into an error.
\<close>

definition and_then :: "'e + 'a \<Rightarrow> ('a \<Rightarrow> 'e + 'b) \<Rightarrow> 'e + 'b" where
  "and_then r f = (case r of Inl e \<Rightarrow> Inl e | Inr x \<Rightarrow> f x)"

definition err_context :: "'e + 'a \<Rightarrow> ('e \<Rightarrow> 'f) \<Rightarrow> 'f + 'a" where
  "err_context r f = (case r of Inl e \<Rightarrow> Inl (f e) | Inr x \<Rightarrow> Inr x)"

definition or_missing :: "'a option \<Rightarrow> 'e \<Rightarrow> 'e + 'a" where
  "or_missing x e = (case x of None \<Rightarrow> Inl e | Some y \<Rightarrow> Inr y)"

definition fails_if :: "'e option \<Rightarrow> 'a \<Rightarrow> 'e + 'a" where
  "fails_if err x = (case err of Some e \<Rightarrow> Inl e | None \<Rightarrow> Inr x)"

lemma and_then_simps [simp]:
  "and_then (Inl e) f = Inl e"
  "and_then (Inr x) f = f x"
  by (simp_all add: and_then_def)

lemma err_context_simps [simp]:
  "err_context (Inl e) g = Inl (g e)"
  "err_context (Inr x) g = Inr x"
  by (simp_all add: err_context_def)

lemma or_missing_simps [simp]:
  "or_missing None e = Inl e"
  "or_missing (Some x) e = Inr x"
  by (simp_all add: or_missing_def)

lemma fails_if_simps [simp]:
  "fails_if (Some e) x = Inl e"
  "fails_if None x = Inr x"
  by (simp_all add: fails_if_def)

lemma and_then_Inr_iff [result_simps]:
  "and_then r f = Inr y \<longleftrightarrow> (\<exists>x. r = Inr x \<and> f x = Inr y)"
  by (cases r) auto

lemma and_then_Inl_iff [result_simps]:
  "and_then r f = Inl e \<longleftrightarrow> r = Inl e \<or> (\<exists>x. r = Inr x \<and> f x = Inl e)"
  by (cases r) auto

lemma err_context_Inr_iff [result_simps]: "err_context r g = Inr y \<longleftrightarrow> r = Inr y"
  by (cases r) auto

lemma err_context_Inl_iff [result_simps]:
  "err_context r g = Inl e \<longleftrightarrow> (\<exists>e'. r = Inl e' \<and> e = g e')"
  by (cases r) auto

lemma or_missing_Inr_iff [result_simps]: "or_missing x e = Inr y \<longleftrightarrow> x = Some y"
  by (cases x) auto

lemma or_missing_Inl_iff [result_simps]: "or_missing x e = Inl e' \<longleftrightarrow> x = None \<and> e' = e"
  by (cases x) auto

lemma fails_if_Inr_iff [result_simps]: "fails_if err x = Inr y \<longleftrightarrow> err = None \<and> x = y"
  by (cases err) auto

lemma fails_if_Inl_iff [result_simps]: "fails_if err x = Inl e \<longleftrightarrow> err = Some e"
  by (cases err) auto

text \<open>A list of fallible results, stopping at the first error (\<open>collect\<close> into a \<open>Result\<close>).\<close>

fun build_all :: "('a \<Rightarrow> 'e + 'b) \<Rightarrow> 'a list \<Rightarrow> 'e + 'b list" where
  "build_all f [] = Inr []"
| "build_all f (x # xs) = and_then (f x) (\<lambda>y. and_then (build_all f xs) (\<lambda>ys. Inr (y # ys)))"

lemma build_all_Inr_in:
  "build_all f xs = Inr ys \<Longrightarrow> x \<in> set xs \<Longrightarrow> \<exists>y \<in> set ys. f x = Inr y"
  by (induction xs arbitrary: ys) (auto simp: result_simps)

lemma build_all_perm_ok:
  "build_all f xs = Inr ys \<Longrightarrow> set xs' = set xs \<Longrightarrow> \<exists>ys'. build_all f xs' = Inr ys'"
proof -
  assume ok: "build_all f xs = Inr ys" and "set xs' = set xs"
  then have "\<forall>x \<in> set xs'. \<exists>y. f x = Inr y" using build_all_Inr_in by metis
  then show ?thesis by (induction xs') auto
qed

section \<open>Lists\<close>

text \<open>A separator that occurs in neither tail splits a list in one way only.\<close>

lemma append_sep_inj:
  assumes "xs @ c # us = ys @ c # vs" and "c \<notin> set us" and "c \<notin> set vs"
  shows "xs = ys \<and> us = vs"
  using assms
proof (induction xs arbitrary: ys)
  case Nil
  then show ?case by (cases ys) auto
next
  case (Cons x xs)
  then show ?case by (cases ys) auto
qed

text \<open>The same for a separator that occurs in neither head.\<close>

lemma sep_append_inj:
  assumes "us @ c # xs = vs @ c # ys" and "c \<notin> set us" and "c \<notin> set vs"
  shows "us = vs \<and> xs = ys"
  using assms
proof (induction us arbitrary: vs)
  case Nil
  then show ?case by (cases vs) auto
next
  case (Cons x us)
  then show ?case by (cases vs) auto
qed

lemma distinct_concat_map_tagged:
  assumes "distinct xs"
    and "\<And>x. x \<in> set xs \<Longrightarrow> distinct (f x)"
    and "\<And>x y. \<lbrakk>x \<in> set xs; y \<in> set xs; x \<noteq> y\<rbrakk> \<Longrightarrow> set (f x) \<inter> set (f y) = {}"
  shows "distinct (concat (map f xs))"
  using assms
proof (induction xs)
  case Nil
  then show ?case by simp
next
  case (Cons x xs)
  have "set (f x) \<inter> (\<Union>y \<in> set xs. set (f y)) = {}"
    using Cons.prems(1,3) by fastforce
  with Cons show ?case by simp
qed

end
