(* ===== verification/Rust_Text.thy ===== *)
theory Rust_Text
  imports Prelude
begin

text \<open>
  Text forms: the decimal \<open>Display\<close> of unsigned integers (\<open>to_string\<close> and \<open>format!\<close> on a
  \<open>u16\<close>), and the contract of a type that is written as a string and read back. The locale
  \<open>text_codec\<close> is what a reader owes its writer, \<open>exact_codec\<close> a reader that accepts nothing
  else; the enums of the CRD and the decimals are its instances.
\<close>

section \<open>Written and read back\<close>

locale text_codec =
  fixes enc :: "'a \<Rightarrow> string" and dec :: "string \<Rightarrow> 'a option"
  assumes dec_enc: "dec (enc a) = Some a"
begin

lemma enc_inj: "enc a = enc b \<longleftrightarrow> a = b"
  by (metis dec_enc option.inject)

lemma dec_None_notin: "dec s = None \<Longrightarrow> s \<notin> range enc"
  using dec_enc by auto

end

locale exact_codec = text_codec +
  assumes enc_dec: "dec s = Some a \<Longrightarrow> enc a = s"
begin

lemma dec_iff: "dec s = Some a \<longleftrightarrow> s = enc a"
  using dec_enc enc_dec by auto

lemma dec_None_iff: "dec s = None \<longleftrightarrow> s \<notin> range enc"
  using dec_None_notin enc_dec by (metis not_None_eq rangeI)

end

section \<open>Decimal integers\<close>

definition digit_char :: "nat \<Rightarrow> char" where
  "digit_char d = char_of (48 + d)"

definition char_digit :: "char \<Rightarrow> nat option" where
  "char_digit c = (if 48 \<le> (of_char c :: nat) \<and> (of_char c :: nat) < 58
     then Some (of_char c - 48) else None)"

fun show_nat :: "nat \<Rightarrow> string" where
  "show_nat n = (if n < 10 then [digit_char n] else show_nat (n div 10) @ [digit_char (n mod 10)])"

declare show_nat.simps [simp del]

definition show_u16 :: "u16 \<Rightarrow> string" where
  "show_u16 w = show_nat (unat w)"

fun read_digits :: "nat \<Rightarrow> string \<Rightarrow> nat option" where
  "read_digits acc [] = Some acc"
| "read_digits acc (c # cs) =
     (case char_digit c of None \<Rightarrow> None | Some d \<Rightarrow> read_digits (10 * acc + d) cs)"

definition read_nat :: "string \<Rightarrow> nat option" where
  "read_nat s = (if s = [] then None else read_digits 0 s)"

definition read_u16 :: "string \<Rightarrow> u16 option" where
  "read_u16 s = (case read_nat s of
     Some n \<Rightarrow> if n < 2 ^ 16 then Some (of_nat n) else None | None \<Rightarrow> None)"

lemma of_char_digit_char: "d < 10 \<Longrightarrow> (of_char (digit_char d) :: nat) = 48 + d"
  by (simp add: digit_char_def)

lemma char_digit_digit_char [simp]: "d < 10 \<Longrightarrow> char_digit (digit_char d) = Some d"
  by (simp add: char_digit_def of_char_digit_char)

lemma read_digits_append:
  "read_digits acc (xs @ [c]) =
     (case read_digits acc xs of None \<Rightarrow> None
      | Some n \<Rightarrow> map_option (\<lambda>d. 10 * n + d) (char_digit c))"
  by (induction xs arbitrary: acc) (auto split: option.split)

lemma read_digits_show_nat: "read_digits 0 (show_nat n) = Some n"
proof (induction n rule: show_nat.induct)
  case (1 n)
  then show ?case
    by (cases "n < 10") (simp_all add: show_nat.simps [of n] read_digits_append)
qed

lemma show_nat_nonempty: "show_nat n \<noteq> []"
  by (subst show_nat.simps) simp

lemma show_nat_digits: "c \<in> set (show_nat n) \<Longrightarrow> \<exists>d < 10. c = digit_char d"
proof (induction n rule: show_nat.induct)
  case (1 n)
  then show ?case
    by (cases "n < 10") (auto simp: show_nat.simps [of n] intro: exI [of _ "n mod 10"])
qed

text \<open>No separator of the names built from numbers is a digit.\<close>

lemma show_nat_no_dash: "CHR ''-'' \<notin> set (show_nat n)"
proof
  assume "CHR ''-'' \<in> set (show_nat n)"
  then obtain d where "d < 10" "CHR ''-'' = digit_char d" using show_nat_digits by blast
  then have "(of_char (CHR ''-'') :: nat) = 48 + d" by (simp only: of_char_digit_char)
  then show False by simp
qed

interpretation dec_nat: text_codec show_nat read_nat
  by unfold_locales (simp add: read_nat_def show_nat_nonempty read_digits_show_nat)

interpretation dec_u16: text_codec show_u16 read_u16
proof unfold_locales
  fix w :: u16
  have "unat w < 2 ^ LENGTH(16)" by (rule unsigned_less)
  then show "read_u16 (show_u16 w) = Some w"
    by (simp add: read_u16_def show_u16_def dec_nat.dec_enc)
qed

end
