(* ===== verification/Rust_Collections.thy ===== *)
theory Rust_Collections
  imports Prelude
begin

text \<open>
  The two maps of Rust's standard library that the code uses. A \<open>BTreeMap\<close> iterates in
  key order and is modelled by the association list it iterates over; a \<open>HashMap\<close>
  iterates in an order the language leaves open and is modelled by an association list
  in that (arbitrary) order. The locale \<open>finite_map\<close> states what both promise their
  clients, \<open>ordered_map\<close> what only the \<open>BTreeMap\<close> does: its iteration order is a function of
  its contents, which is what the code relies on where it must not depend on hashing.
\<close>

type_synonym ('k, 'v) btree_map = "('k \<times> 'v) list"
type_synonym ('k, 'v) hash_map = "('k \<times> 'v) list"
type_synonym str_map = "(string, string) btree_map"

section \<open>What a map promises\<close>

locale finite_map =
  fixes empty :: "'m"
    and insert :: "'k \<Rightarrow> 'v \<Rightarrow> 'm \<Rightarrow> 'm"
    and get :: "'m \<Rightarrow> 'k \<Rightarrow> 'v option"
    and entries :: "'m \<Rightarrow> ('k \<times> 'v) list"
    and invar :: "'m \<Rightarrow> bool"
  assumes invar_empty: "invar empty"
    and invar_insert: "invar m \<Longrightarrow> invar (insert k v m)"
    and entries_empty: "entries empty = []"
    and get_insert: "invar m \<Longrightarrow> get (insert k v m) k' = (if k' = k then Some v else get m k')"
    and get_entries: "invar m \<Longrightarrow> get m k = map_of (entries m) k"
    and distinct_entries: "invar m \<Longrightarrow> distinct (map fst (entries m))"
begin

lemma get_empty: "get empty k = None"
  by (simp add: get_entries invar_empty entries_empty)

lemma get_iff_entries: "invar m \<Longrightarrow> get m k = Some v \<longleftrightarrow> (k, v) \<in> set (entries m)"
  by (simp add: get_entries distinct_entries)

lemma collect_invar: "invar m \<Longrightarrow> invar (fold (\<lambda>(k, v). insert k v) kvs m)"
  by (induction kvs arbitrary: m) (auto simp: invar_insert)

text \<open>Collecting an iterator of pairs with distinct keys gives the map of those pairs.\<close>

lemma collect_get:
  assumes "invar m" and "distinct (map fst kvs)"
  shows "get (fold (\<lambda>(k, v). insert k v) kvs m) k =
    (case map_of kvs k of Some v \<Rightarrow> Some v | None \<Rightarrow> get m k)"
  using assms
proof (induction kvs arbitrary: m)
  case Nil
  then show ?case by simp
next
  case (Cons kv kvs)
  obtain k0 v0 where kv: "kv = (k0, v0)" by force
  have "map_of kvs k0 = None"
    using Cons.prems(2) kv by (simp add: map_of_eq_None_iff)
  with Cons kv show ?case
    by (auto simp: invar_insert get_insert split: option.splits)
qed

end

locale ordered_map = finite_map empty insert get entries invar
  for empty :: "'m" and insert :: "'k::linorder \<Rightarrow> 'v \<Rightarrow> 'm \<Rightarrow> 'm"
    and get :: "'m \<Rightarrow> 'k \<Rightarrow> 'v option" and entries :: "'m \<Rightarrow> ('k \<times> 'v) list"
    and invar :: "'m \<Rightarrow> bool" +
  assumes sorted_entries: "invar m \<Longrightarrow> sorted (map fst (entries m))"
begin

text \<open>The iteration order is a function of the contents.\<close>

lemma entries_canonical:
  assumes "invar m" and "invar n" and "\<And>k. get m k = get n k"
  shows "entries m = entries n"
proof -
  have set_eq: "set (entries m) = set (entries n)"
    using get_iff_entries[OF assms(1)] get_iff_entries[OF assms(2)] assms(3) by auto
  have "inj_on fst (set (entries m) \<union> set (entries n))"
    using distinct_entries[OF assms(1)] set_eq by (simp add: distinct_map)
  then show ?thesis
    using map_sorted_distinct_set_unique[OF _ sorted_entries[OF assms(1)]
        distinct_entries[OF assms(1)] sorted_entries[OF assms(2)] distinct_entries[OF assms(2)]] set_eq
    by blast
qed

text \<open>So collecting into an ordered map forgets the order in which the pairs came.\<close>

lemma collect_order_irrelevant:
  assumes "distinct (map fst xs)" and "set xs = set ys" and "distinct (map fst ys)"
  shows "entries (fold (\<lambda>(k, v). insert k v) xs empty) =
    entries (fold (\<lambda>(k, v). insert k v) ys empty)"
proof (rule entries_canonical)
  fix k
  have "map_of xs k = map_of ys k"
    using assms(2) map_of_inject_set[OF assms(1,3)] by simp
  then show "get (fold (\<lambda>(k, v). insert k v) xs empty) k =
      get (fold (\<lambda>(k, v). insert k v) ys empty) k"
    using assms by (simp add: collect_get invar_empty)
qed (simp_all add: collect_invar invar_empty)

end

section \<open>BTreeMap\<close>

fun bt_insert :: "'k::linorder \<Rightarrow> 'v \<Rightarrow> ('k, 'v) btree_map \<Rightarrow> ('k, 'v) btree_map" where
  "bt_insert k v [] = [(k, v)]"
| "bt_insert k v (p # m) =
     (if k < fst p then (k, v) # p # m
      else if k = fst p then (k, v) # m
      else p # bt_insert k v m)"

definition bt_get :: "('k, 'v) btree_map \<Rightarrow> 'k \<Rightarrow> 'v option" where
  "bt_get m k = map_of m k"

definition bt_collect :: "('k::linorder \<times> 'v) list \<Rightarrow> ('k, 'v) btree_map" where
  "bt_collect kvs = fold (\<lambda>(k, v). bt_insert k v) kvs []"

definition bt_invar :: "('k::linorder, 'v) btree_map \<Rightarrow> bool" where
  "bt_invar m \<longleftrightarrow> sorted (map fst m) \<and> distinct (map fst m)"

lemma bt_insert_keys: "set (map fst (bt_insert k v m)) = {k} \<union> set (map fst m)"
  by (induction m) auto

lemma bt_invar_Cons:
  "bt_invar (p # m) \<longleftrightarrow> (\<forall>q \<in> set m. fst p < fst q) \<and> bt_invar m"
  by (auto simp: bt_invar_def order.strict_iff_order image_iff)

lemma bt_invar_insert: "bt_invar m \<Longrightarrow> bt_invar (bt_insert k v m)"
proof (induction m)
  case Nil
  then show ?case by (simp add: bt_invar_def)
next
  case (Cons p m)
  have "\<And>q. q \<in> set (bt_insert k v m) \<Longrightarrow> fst q = k \<or> fst q \<in> fst ` set m"
    using bt_insert_keys[of k v m] by auto
  with Cons show ?case by (fastforce simp: bt_invar_Cons)
qed

lemma bt_get_insert: "bt_invar m \<Longrightarrow>
    bt_get (bt_insert k v m) k' = (if k' = k then Some v else bt_get m k')"
  by (induction m) (auto simp: bt_get_def bt_invar_Cons)

interpretation bt: ordered_map "[]" bt_insert bt_get "\<lambda>m. m" bt_invar
  by unfold_locales (auto simp: bt_invar_insert bt_get_insert, auto simp: bt_invar_def bt_get_def)

lemma bt_collect_invar [simp]: "bt_invar (bt_collect kvs)"
  by (simp add: bt_collect_def bt.collect_invar bt.invar_empty)

lemma bt_collect_get:
  "distinct (map fst kvs) \<Longrightarrow> bt_get (bt_collect kvs) k = map_of kvs k"
  by (simp add: bt_collect_def bt.collect_get bt.invar_empty bt.get_empty split: option.split)

lemma bt_collect_perm:
  "\<lbrakk>distinct (map fst xs); set xs = set ys; distinct (map fst ys)\<rbrakk> \<Longrightarrow> bt_collect xs = bt_collect ys"
  unfolding bt_collect_def by (rule bt.collect_order_irrelevant)

lemma bt_collect_set: "distinct (map fst kvs) \<Longrightarrow> set (bt_collect kvs) = set kvs"
  using bt.get_iff_entries[OF bt_collect_invar, of kvs] by (auto simp: bt_collect_get)

lemma bt_invar_distinct: "bt_invar m \<Longrightarrow> distinct (map fst m)"
  by (simp add: bt_invar_def)

section \<open>HashMap\<close>

fun hm_insert :: "'k \<Rightarrow> 'v \<Rightarrow> ('k, 'v) hash_map \<Rightarrow> ('k, 'v) hash_map" where
  "hm_insert k v [] = [(k, v)]"
| "hm_insert k v (p # m) = (if fst p = k then (k, v) # m else p # hm_insert k v m)"

definition hm_get :: "('k, 'v) hash_map \<Rightarrow> 'k \<Rightarrow> 'v option" where
  "hm_get m k = map_of m k"

definition hm_invar :: "('k, 'v) hash_map \<Rightarrow> bool" where
  "hm_invar m \<longleftrightarrow> distinct (map fst m)"

lemma hm_insert_keys: "set (map fst (hm_insert k v m)) = {k} \<union> set (map fst m)"
  by (induction m) auto

lemma hm_invar_insert: "hm_invar m \<Longrightarrow> hm_invar (hm_insert k v m)"
  unfolding hm_invar_def
proof (induction m)
  case Nil
  then show ?case by simp
next
  case (Cons p m)
  then show ?case using hm_insert_keys[of k v m] by auto
qed

lemma hm_get_insert: "hm_get (hm_insert k v m) k' = (if k' = k then Some v else hm_get m k')"
  by (induction m) (auto simp: hm_get_def)

interpretation hm: finite_map "[]" hm_insert hm_get "\<lambda>m. m" hm_invar
  by unfold_locales (auto simp: hm_invar_insert hm_get_insert, auto simp: hm_invar_def hm_get_def)

text \<open>Two hash maps with the same entries, iterated in different orders.\<close>

definition hm_same :: "('k, 'v) hash_map \<Rightarrow> ('k, 'v) hash_map \<Rightarrow> bool" where
  "hm_same m n \<longleftrightarrow> hm_invar m \<and> hm_invar n \<and> set m = set n"

lemma hm_same_refl: "hm_invar m \<Longrightarrow> hm_same m m"
  by (simp add: hm_same_def)

lemma hm_same_get: "hm_same m n \<Longrightarrow> hm_get m k = hm_get n k"
  unfolding hm_same_def hm_invar_def hm_get_def using map_of_inject_set[of m n] by simp

text \<open>Two hash maps with the same keys and related values, each in an order of its own.\<close>

definition hm_rel :: "('v \<Rightarrow> 'w \<Rightarrow> bool) \<Rightarrow> ('k, 'v) hash_map \<Rightarrow> ('k, 'w) hash_map \<Rightarrow> bool" where
  "hm_rel V m n \<longleftrightarrow> hm_invar m \<and> hm_invar n \<and> (\<forall>k. rel_option V (hm_get m k) (hm_get n k))"

lemma hm_rel_get:
  assumes "hm_rel V m n"
  shows "(hm_get m k = None \<and> hm_get n k = None) \<or> (\<exists>v w. hm_get m k = Some v \<and> hm_get n k = Some w \<and> V v w)"
  using assms unfolding hm_rel_def by (metis option.rel_cases)

lemma hm_rel_keys: "hm_rel V m n \<Longrightarrow> set (map fst n) = set (map fst m)"
  using hm_rel_get[of V m n] unfolding hm_get_def by (metis map_of_eq_None_iff option.discI set_map set_eqI)

lemma hm_rel_sym: "hm_rel V m n \<Longrightarrow> (\<And>v w. V v w \<Longrightarrow> V w v) \<Longrightarrow> hm_rel V n m"
  unfolding hm_rel_def by (metis option.rel_flip option.rel_mono_strong conversep_iff)

end
