(* ===== verification/Platform_Data.thy ===== *)
theory Platform_Data
  imports Rust_Collections Complex_Main "HOL-Library.Multiset"
begin

text \<open>
  The data of \<^verbatim>\<open>stackable_operator\<close>, \<^verbatim>\<open>kube\<close> and \<^verbatim>\<open>k8s_openapi\<close> that the operator's own
  code takes apart or builds field by field. Only the shape that the source (its struct
  literals and patterns) or the generated schema
  \<^verbatim>\<open>deploy/helm/hello-world-operator/crds/crds.yaml\<close> shows is modelled; a value the code only
  hands on is kept as uninterpreted JSON. Nothing here computes: the functions of those
  crates are parameters of the definitions that call them.
\<close>

datatype json =
    JNull | JBool bool | JNum int | JStr string | JArr "json list" | JObj "(string \<times> json) list"

text \<open>An error value of one of the libraries; the code only wraps it.\<close>

datatype ext_error = ExtError string

text \<open>\<open>strum::ParseError\<close>: a string names no variant.\<close>

datatype strum_parse_error = VariantNotFound

datatype quantity = Quantity string

text \<open>
  The library's \<open>Duration\<close> is a newtype of \<open>std::time::Duration\<close>: whole seconds and the nanoseconds
  of the rest. Equal durations are equal values, however they were written.
\<close>

record duration =
  dur_secs :: nat
  dur_nanos :: nat

definition from_minutes_unchecked :: "nat \<Rightarrow> duration" where
  "from_minutes_unchecked n = \<lparr> dur_secs = 60 * n, dur_nanos = 0 \<rparr>"

section \<open>Resources\<close>

record cpu_limits =
  cpu_min :: "quantity option"
  cpu_max :: "quantity option"

record memory_limits =
  mem_limit :: "quantity option"
  mem_runtime_limits :: unit

record pvc_config =
  pvc_capacity :: "quantity option"
  pvc_storage_class :: "string option"
  pvc_selectors :: "json option"

section \<open>Affinity\<close>

record label_selector =
  ls_match_expressions :: "json option"
  ls_match_labels :: "str_map option"

record pod_affinity_term =
  pat_label_selector :: "label_selector option"
  pat_topology_key :: string
  pat_other :: json \<comment> \<open>the fields the code leaves to \<open>..default()\<close>; JNull when they are\<close>

record weighted_pod_affinity_term =
  wt_pod_affinity_term :: pod_affinity_term
  wt_weight :: i32

record pod_anti_affinity =
  preferred_during_scheduling :: "weighted_pod_affinity_term list option"
  required_during_scheduling :: "pod_affinity_term list option"

record stackable_affinity =
  pod_affinity :: "json option"
  pod_anti_affinity_of :: "pod_anti_affinity option"
  node_affinity :: "json option"
  node_selector :: "json option"

section \<open>Logging\<close>

record automatic_container_log_config =
  log_console :: json
  log_file :: json
  log_loggers :: json

datatype container_log_config_choice =
    Automatic automatic_container_log_config
  | Custom string \<comment> \<open>\<open>CustomContainerLogConfig { custom: ConfigMapLogConfig { config_map } }\<close>\<close>

record container_log_config =
  choice :: "container_log_config_choice option"

record 'c logging =
  containers :: "('c, container_log_config) btree_map"
  enable_vector_agent :: bool

section \<open>Roles, images, operations\<close>

record pdb_config =
  pdb_enabled :: bool
  pdb_max_unavailable :: "u16 option"

record generic_role_config =
  pod_disruption_budget :: pdb_config

record 'cfg common_configuration =
  cc_config :: 'cfg
  cc_config_overrides :: "(string, (string, string) hash_map) hash_map"
  cc_env_overrides :: "(string, string) hash_map"
  cc_cli_overrides :: str_map
  cc_pod_overrides :: json

record 'cfg role_group =
  rg_config :: "'cfg common_configuration"
  rg_replicas :: "u16 option"

record 'cfg role =
  role_config_common :: "'cfg common_configuration"
  role_role_config :: generic_role_config
  role_groups :: "(string, 'cfg role_group) hash_map"

record product_image =
  img_custom :: "string option"
  img_product_version :: "string option"
  img_repo :: "string option"
  img_stackable_version :: "string option"
  img_pull_policy :: string
  img_pull_secrets :: "string list option"

record resolved_product_image =
  ri_product_version :: string
  ri_app_version_label :: string
  ri_image :: string
  ri_other :: json

record cluster_operation =
  reconciliation_paused :: bool
  stopped :: bool

type_synonym cluster_condition = json

record object_meta =
  om_name :: "string option"
  om_namespace :: "string option"
  om_other :: json

record cluster_info =
  cluster_domain :: string

section \<open>Memory quantities\<close>

datatype binary_multiple = Mebi | OtherMultiple string

record memory_quantity =
  mq_value :: rat \<comment> \<open>an \<open>f32\<close>\<close>
  mq_unit :: binary_multiple

section \<open>Product configuration\<close>

text \<open>The kind of a product configuration property (\<open>product_config::types::PropertyNameKind\<close>).\<close>

datatype property_name_kind = Env | Cli | File string

type_synonym role_group_properties = "(property_name_kind, str_map) hash_map"
type_synonym role_properties = "(string, role_group_properties) hash_map"

end
