(* ===== verification/Crd_Enums.thy ===== *)
theory Crd_Enums
  imports Rust_Text Platform_Data
begin

text \<open>
  The constants and the enums of \<^verbatim>\<open>rust/operator-binary/src/crd.rs\<close>: directory, file and
  property names, the listener classes, the roles and the containers, each enum with the
  text forms its derive attributes give it.
\<close>

section \<open>Constants\<close>

definition APP_NAME :: string where "APP_NAME = ''hello-world''"
definition STACKABLE_CONFIG_DIR :: string where "STACKABLE_CONFIG_DIR = ''/stackable/config''"
definition STACKABLE_CONFIG_DIR_NAME :: string where "STACKABLE_CONFIG_DIR_NAME = ''config''"
definition STACKABLE_LOG_DIR :: string where "STACKABLE_LOG_DIR = ''/stackable/log''"
definition STACKABLE_LOG_DIR_NAME :: string where "STACKABLE_LOG_DIR_NAME = ''log''"
definition STACKABLE_LOG_CONFIG_MOUNT_DIR :: string where
  "STACKABLE_LOG_CONFIG_MOUNT_DIR = ''/stackable/mount/log-config''"
definition STACKABLE_LOG_CONFIG_MOUNT_DIR_NAME :: string where
  "STACKABLE_LOG_CONFIG_MOUNT_DIR_NAME = ''log-config-mount''"
definition APPLICATION_PROPERTIES :: string where "APPLICATION_PROPERTIES = ''application.properties''"
definition LOGBACK_XML :: string where "LOGBACK_XML = ''logback.xml''"
definition HELLO_WORLD_LOG_FILE :: string where "HELLO_WORLD_LOG_FILE = ''hello-world.log4j.xml''"
definition JVM_SECURITY_PROPERTIES :: string where "JVM_SECURITY_PROPERTIES = ''security.properties''"
definition SERVER_PORT :: string where "SERVER_PORT = ''server.port''"
definition LOGGING_CONFIG :: string where "LOGGING_CONFIG = ''logging.config''"
definition GREETING_RECIPIENT :: string where "GREETING_RECIPIENT = ''greeting.recipient''"
definition GREETING_COLOR :: string where "GREETING_COLOR = ''greeting.color''"
definition HTTP_PORT_NAME :: string where "HTTP_PORT_NAME = ''http''"
definition HTTP_PORT :: u16 where "HTTP_PORT = 8080"
definition DEFAULT_HELLO_WORLD_GRACEFUL_SHUTDOWN_TIMEOUT :: duration where
  "DEFAULT_HELLO_WORLD_GRACEFUL_SHUTDOWN_TIMEOUT = from_minutes_unchecked 2"

text \<open>The files of the product configuration and the properties written into them are distinct.\<close>

lemma config_files_distinct [simp]:
  "distinct [APPLICATION_PROPERTIES, JVM_SECURITY_PROPERTIES, LOGBACK_XML]"
  by (simp add: APPLICATION_PROPERTIES_def JVM_SECURITY_PROPERTIES_def LOGBACK_XML_def)

lemma config_files_neq [simp]:
  "APPLICATION_PROPERTIES \<noteq> JVM_SECURITY_PROPERTIES" "JVM_SECURITY_PROPERTIES \<noteq> APPLICATION_PROPERTIES"
  "APPLICATION_PROPERTIES \<noteq> LOGBACK_XML" "LOGBACK_XML \<noteq> APPLICATION_PROPERTIES"
  "JVM_SECURITY_PROPERTIES \<noteq> LOGBACK_XML" "LOGBACK_XML \<noteq> JVM_SECURITY_PROPERTIES"
  by (simp_all add: APPLICATION_PROPERTIES_def JVM_SECURITY_PROPERTIES_def LOGBACK_XML_def)

section \<open>Listener classes\<close>

datatype CurrentlySupportedListenerClasses = ClusterInternal | ExternalUnstable | ExternalStable

fun k8s_service_type :: "CurrentlySupportedListenerClasses \<Rightarrow> string" where
  "k8s_service_type ClusterInternal = ''ClusterIP''"
| "k8s_service_type ExternalUnstable = ''NodePort''"
| "k8s_service_type ExternalStable = ''LoadBalancer''"

text \<open>The serde names (\<open>#[serde(rename = ..)]\<close>) and \<open>#[default]\<close> for a field left out.\<close>

fun listener_class_serialize :: "CurrentlySupportedListenerClasses \<Rightarrow> string" where
  "listener_class_serialize ClusterInternal = ''cluster-internal''"
| "listener_class_serialize ExternalUnstable = ''external-unstable''"
| "listener_class_serialize ExternalStable = ''external-stable''"

definition listener_class_deserialize :: "string \<Rightarrow> CurrentlySupportedListenerClasses option" where
  "listener_class_deserialize s =
     (if s = ''cluster-internal'' then Some ClusterInternal
      else if s = ''external-unstable'' then Some ExternalUnstable
      else if s = ''external-stable'' then Some ExternalStable
      else None)"

definition listener_class_default :: CurrentlySupportedListenerClasses where
  "listener_class_default = ClusterInternal"

definition listener_class_field :: "string option \<Rightarrow> CurrentlySupportedListenerClasses option" where
  "listener_class_field field =
     (case field of None \<Rightarrow> Some listener_class_default | Some s \<Rightarrow> listener_class_deserialize s)"

interpretation listener: exact_codec listener_class_serialize listener_class_deserialize
proof unfold_locales
  fix a
  show "listener_class_deserialize (listener_class_serialize a) = Some a"
    by (cases a) (simp_all add: listener_class_deserialize_def)
next
  fix s a
  assume "listener_class_deserialize s = Some a"
  then show "listener_class_serialize a = s"
    by (auto simp: listener_class_deserialize_def split: if_splits)
qed

section \<open>Roles\<close>

datatype HelloRole = Server

fun role_to_string :: "HelloRole \<Rightarrow> string" where
  "role_to_string Server = ''server''"

definition role_from_str :: "string \<Rightarrow> strum_parse_error + HelloRole" where
  "role_from_str s = (if s = ''server'' then Inr Server else Inl VariantNotFound)"

definition role_iter :: "HelloRole list" where
  "role_iter = [Server]"

text \<open>The loop of \<open>HelloRole::roles\<close> pushes each variant's name.\<close>

definition roles :: "string list" where
  "roles = fold (\<lambda>r acc. acc @ [role_to_string r]) role_iter []"

interpretation role_text: exact_codec role_to_string "\<lambda>s. case role_from_str s of Inl _ \<Rightarrow> None | Inr r \<Rightarrow> Some r"
proof unfold_locales
  fix a
  show "(case role_from_str (role_to_string a) of Inl _ \<Rightarrow> None | Inr r \<Rightarrow> Some r) = Some a"
    by (cases a) (simp add: role_from_str_def)
next
  fix s a
  assume "(case role_from_str s of Inl _ \<Rightarrow> None | Inr r \<Rightarrow> Some r) = Some a"
  then show "role_to_string a = s"
    by (cases a) (auto simp: role_from_str_def split: if_splits)
qed

lemma role_from_str_to_string [simp]: "role_from_str (role_to_string r) = Inr r"
  by (cases r) (simp add: role_from_str_def)

lemma roles_eq: "roles = map role_to_string role_iter"
proof -
  have "fold (\<lambda>r acc. acc @ [role_to_string r]) rs acc = acc @ map role_to_string rs" for rs acc
    by (induction rs arbitrary: acc) auto
  then show ?thesis by (simp add: roles_def)
qed

section \<open>Containers\<close>

datatype Container = Hello | Vector

fun container_to_string :: "Container \<Rightarrow> string" where
  "container_to_string Hello = ''hello''"
| "container_to_string Vector = ''vector''"

definition container_from_string :: "string \<Rightarrow> Container option" where
  "container_from_string s =
     (if s = ''hello'' then Some Hello else if s = ''vector'' then Some Vector else None)"

interpretation container_text: exact_codec container_to_string container_from_string
proof unfold_locales
  fix a
  show "container_from_string (container_to_string a) = Some a"
    by (cases a) (simp_all add: container_from_string_def)
next
  fix s a
  assume "container_from_string s = Some a"
  then show "container_to_string a = s"
    by (auto simp: container_from_string_def split: if_splits)
qed

text \<open>The derived \<open>Ord\<close> compares variants in declaration order; it keys the logging map.\<close>

fun container_rank :: "Container \<Rightarrow> nat" where
  "container_rank Hello = 0"
| "container_rank Vector = 1"

instantiation Container :: linorder
begin

definition less_eq_Container :: "Container \<Rightarrow> Container \<Rightarrow> bool" where
  "less_eq_Container a b \<longleftrightarrow> container_rank a \<le> container_rank b"

definition less_Container :: "Container \<Rightarrow> Container \<Rightarrow> bool" where
  "less_Container a b \<longleftrightarrow> container_rank a < container_rank b"

instance
proof
  fix x y :: Container
  show "x \<le> y \<Longrightarrow> y \<le> x \<Longrightarrow> x = y"
    by (cases x; cases y) (simp_all add: less_eq_Container_def)
qed (auto simp: less_eq_Container_def less_Container_def)

end

section \<open>Service types\<close>

datatype ServiceType = NodePort | ClusterIP

definition service_type_default :: ServiceType where
  "service_type_default = NodePort"

end
