(* ===== verification/Affinity.thy ===== *)
theory Affinity
  imports Crd_Enums
begin

text \<open>
  \<^verbatim>\<open>rust/operator-binary/src/affinity.rs\<close>: the default scheduling preference of a role. The
  library's \<open>affinity_between_role_pods\<close> is a parameter; its documented result, which the
  repository's own test \<open>test_affinity_defaults\<close> spells out, is \<open>affinity_term_contract\<close>.
\<close>

type_synonym affinity_fn = "string \<Rightarrow> string \<Rightarrow> string \<Rightarrow> i32 \<Rightarrow> weighted_pod_affinity_term"

definition get_affinity :: "affinity_fn \<Rightarrow> string \<Rightarrow> HelloRole \<Rightarrow> stackable_affinity" where
  "get_affinity affinity_between_role_pods cluster_name role =
     \<lparr> pod_affinity = None,
       pod_anti_affinity_of = Some
         \<lparr> preferred_during_scheduling =
             Some [affinity_between_role_pods APP_NAME cluster_name (role_to_string role) 70],
           required_during_scheduling = None \<rparr>,
       node_affinity = None,
       node_selector = None \<rparr>"

definition role_pod_labels :: "string \<Rightarrow> string \<Rightarrow> string \<Rightarrow> str_map" where
  "role_pod_labels app cluster role = bt_collect
     [(''app.kubernetes.io/name'', app),
      (''app.kubernetes.io/instance'', cluster),
      (''app.kubernetes.io/component'', role)]"

definition affinity_term_contract :: "affinity_fn \<Rightarrow> bool" where
  "affinity_term_contract f \<longleftrightarrow> (\<forall>app cluster role weight.
     f app cluster role weight =
       \<lparr> wt_pod_affinity_term =
           \<lparr> pat_label_selector = Some
               \<lparr> ls_match_expressions = None,
                 ls_match_labels = Some (role_pod_labels app cluster role) \<rparr>,
             pat_topology_key = ''kubernetes.io/hostname'',
             pat_other = JNull \<rparr>,
         wt_weight = weight \<rparr>)"

end
