(* ===== verification/Crd.thy ===== *)
theory Crd
  imports Affinity
begin

text \<open>
  The custom resource of \<^verbatim>\<open>rust/operator-binary/src/crd.rs\<close>: \<open>HelloCluster\<close> and its parts, the
  role and role group lookups with their errors, the configuration defaults and their
  merge, and the \<open>Configuration\<close> implementation that yields the product's properties.
\<close>

section \<open>Configuration\<close>

record server_storage_config =
  ssc_data :: pvc_config

record resources =
  res_cpu :: cpu_limits
  res_memory :: memory_limits
  res_storage :: server_storage_config

text \<open>
  The fragment a user writes (every part optional) and the validated configuration. The
  parts of \<open>Resources\<close> are optional on both sides. The logging fragment is only handed on.
\<close>

record hello_config_fragment =
  fr_resources :: resources
  fr_logging :: json
  fr_affinity :: stackable_affinity
  fr_graceful_shutdown_timeout :: "duration option"

record hello_config =
  hc_resources :: resources
  hc_logging :: "Container logging"
  hc_affinity :: stackable_affinity
  hc_graceful_shutdown_timeout :: "duration option"

section \<open>The cluster\<close>

record hello_cluster_config =
  vector_aggregator_config_map_name :: "string option"
  listener_class :: CurrentlySupportedListenerClasses

record hello_cluster_spec =
  cluster_config :: hello_cluster_config
  cluster_operation_of :: cluster_operation
  image :: product_image
  servers :: "hello_config_fragment role option"
  recipient :: string
  color :: string

record hello_cluster_status =
  conditions_of :: "cluster_condition list"

record hello_cluster =
  metadata :: object_meta
  spec :: hello_cluster_spec
  status :: "hello_cluster_status option"

text \<open>\<open>ObjectRef::from_obj\<close> is only handed to the library, so it is kept as the call.\<close>

datatype object_ref = ObjectRef_from_obj hello_cluster

record rolegroup_ref =
  rgr_cluster :: object_ref
  rgr_role :: string
  rgr_role_group :: string

text \<open>The library functions that \<^verbatim>\<open>crd.rs\<close> calls.\<close>

record crd_platform =
  object_name :: "rolegroup_ref \<Rightarrow> string"
  name_any :: "hello_cluster \<Rightarrow> string"
  default_logging :: json
  affinity_between_role_pods :: affinity_fn
  merge_fragment :: "hello_config_fragment \<Rightarrow> hello_config_fragment \<Rightarrow> hello_config_fragment"
  validate_fragment :: "hello_config_fragment \<Rightarrow> ext_error + hello_config"

section \<open>Errors\<close>

datatype crd_error =
    FragmentValidationFailure ext_error
  | UnknownHelloRole strum_parse_error string "string list"
  | CannotRetrieveHelloRole string
  | CannotRetrieveHelloRoleGroup string

datatype no_namespace_error = NoNamespaceError

section \<open>References to role groups\<close>

definition rolegroup_ref :: "HelloRole \<Rightarrow> hello_cluster \<Rightarrow> string \<Rightarrow> rolegroup_ref" where
  "rolegroup_ref self hello group_name =
     \<lparr> rgr_cluster = ObjectRef_from_obj hello,
       rgr_role = role_to_string self,
       rgr_role_group = group_name \<rparr>"

definition server_rolegroup_ref :: "hello_cluster \<Rightarrow> string \<Rightarrow> rolegroup_ref" where
  "server_rolegroup_ref self group_name =
     \<lparr> rgr_cluster = ObjectRef_from_obj self,
       rgr_role = role_to_string Server,
       rgr_role_group = group_name \<rparr>"

lemma server_rolegroup_ref_fields [simp]:
  "rgr_role (server_rolegroup_ref h g) = role_to_string Server"
  "rgr_role_group (server_rolegroup_ref h g) = g"
  "rgr_cluster (server_rolegroup_ref h g) = ObjectRef_from_obj h"
  by (simp_all add: server_rolegroup_ref_def)

section \<open>Lookups\<close>

fun role :: "hello_cluster \<Rightarrow> HelloRole \<Rightarrow> crd_error + hello_config_fragment role" where
  "role self Server =
     or_missing (servers (spec self)) (CannotRetrieveHelloRole (role_to_string Server))"

definition role_group ::
  "hello_cluster \<Rightarrow> rolegroup_ref \<Rightarrow> crd_error + hello_config_fragment role_group" where
  "role_group self rgref =
     and_then
       (err_context (role_from_str (rgr_role rgref))
         (\<lambda>source. UnknownHelloRole source (rgr_role rgref) roles))
       (\<lambda>role_variant. and_then (role self role_variant)
         (\<lambda>r. or_missing (hm_get (role_groups r) (rgr_role_group rgref))
           (CannotRetrieveHelloRoleGroup (rgr_role_group rgref))))"

definition server_role_service_name :: "hello_cluster \<Rightarrow> string option" where
  "server_role_service_name self = om_name (metadata self)"

fun role_config :: "hello_cluster \<Rightarrow> HelloRole \<Rightarrow> generic_role_config option" where
  "role_config self Server = map_option role_role_config (servers (spec self))"

definition conditions :: "hello_cluster \<Rightarrow> cluster_condition list" where
  "conditions self = (case status self of Some st \<Rightarrow> conditions_of st | None \<Rightarrow> [])"

lemma role_group_server:
  "role_group h (server_rolegroup_ref h' g) =
     (case servers (spec h) of
        None \<Rightarrow> Inl (CannotRetrieveHelloRole (role_to_string Server))
      | Some r \<Rightarrow> or_missing (hm_get (role_groups r) g) (CannotRetrieveHelloRoleGroup g))"
  by (simp add: role_group_def del: role_to_string.simps split: option.split)

section \<open>Defaults and merging\<close>

definition default_config :: "crd_platform \<Rightarrow> string \<Rightarrow> HelloRole \<Rightarrow> hello_config_fragment" where
  "default_config L cluster_name r =
     \<lparr> fr_resources =
         \<lparr> res_cpu = \<lparr> cpu_min = Some (Quantity ''100m''), cpu_max = Some (Quantity ''400m'') \<rparr>,
           res_memory = \<lparr> mem_limit = Some (Quantity ''256Mi''), mem_runtime_limits = () \<rparr>,
           res_storage = \<lparr> ssc_data =
             \<lparr> pvc_capacity = Some (Quantity ''256Mi''), pvc_storage_class = None,
               pvc_selectors = None \<rparr> \<rparr> \<rparr>,
       fr_logging = default_logging L,
       fr_affinity = get_affinity (affinity_between_role_pods L) cluster_name r,
       fr_graceful_shutdown_timeout = Some DEFAULT_HELLO_WORLD_GRACEFUL_SHUTDOWN_TIMEOUT \<rparr>"

definition merged_config ::
  "crd_platform \<Rightarrow> hello_cluster \<Rightarrow> HelloRole \<Rightarrow> rolegroup_ref \<Rightarrow> crd_error + hello_config" where
  "merged_config L self r rgref =
     (let conf_defaults = default_config L (name_any L self) r in
      and_then (role self r) (\<lambda>role_spec.
      let conf_role = cc_config (role_config_common role_spec) in
      and_then (role_group self rgref) (\<lambda>group.
      let conf_role_group = cc_config (rg_config group);
          conf_role = merge_fragment L conf_role conf_defaults;
          conf_role_group = merge_fragment L conf_role_group conf_role
      in err_context (validate_fragment L conf_role_group) FragmentValidationFailure)))"

section \<open>The Configuration implementation\<close>

type_synonym property_map = "(string, string option) btree_map"

definition compute_env ::
  "hello_config_fragment \<Rightarrow> hello_cluster \<Rightarrow> string \<Rightarrow> ext_error + property_map" where
  "compute_env self hello role_name = Inr []"

definition compute_cli ::
  "hello_config_fragment \<Rightarrow> hello_cluster \<Rightarrow> string \<Rightarrow> ext_error + property_map" where
  "compute_cli self hello role_name = Inr []"

definition compute_files ::
  "hello_config_fragment \<Rightarrow> hello_cluster \<Rightarrow> string \<Rightarrow> string \<Rightarrow> ext_error + property_map" where
  "compute_files self hello role_name file =
     (let result = [] in
      Inr (if file = APPLICATION_PROPERTIES then
        let result = bt_insert GREETING_RECIPIENT (Some (recipient (spec hello))) result;
            result = bt_insert GREETING_COLOR (Some (color (spec hello))) result;
            result = bt_insert SERVER_PORT (Some (show_u16 HTTP_PORT)) result
        in bt_insert LOGGING_CONFIG (Some (STACKABLE_CONFIG_DIR @ ''/'' @ LOGBACK_XML)) result
      else result))"

end
