(* ===== verification/Crd_Pods.thy ===== *)
theory Crd_Pods
  imports Crd
begin

text \<open>
  The pods a cluster is expected to consist of (\<open>HelloCluster::pods\<close>, \<open>PodRef\<close> of
  \<^verbatim>\<open>crd.rs\<close>) and their names: how many there are, that no two share a name, that the list
  does not depend on the iteration order of the role group map, and that the domain name of
  a pod determines it.
\<close>

record pod_ref =
  pr_namespace :: string
  role_group_service_name :: string
  pod_name :: string

definition fqdn :: "pod_ref \<Rightarrow> cluster_info \<Rightarrow> string" where
  "fqdn self info = pod_name self @ ''.'' @ role_group_service_name self @ ''.'' @
     pr_namespace self @ ''.svc.'' @ cluster_domain info"

text \<open>\<open>(0..n)\<close> over a \<open>u16\<close>.\<close>

definition u16_range :: "u16 \<Rightarrow> u16 list" where
  "u16_range n = map of_nat [0..<unat n]"

definition replica_count :: "'cfg role_group \<Rightarrow> u16" where
  "replica_count g = (case rg_replicas g of Some n \<Rightarrow> n | None \<Rightarrow> 0)"

definition rolegroup_pods ::
  "crd_platform \<Rightarrow> hello_cluster \<Rightarrow> string \<Rightarrow> string \<Rightarrow> hello_config_fragment role_group \<Rightarrow> pod_ref list" where
  "rolegroup_pods L self ns rolegroup_name rolegroup =
     (let rgref = server_rolegroup_ref self rolegroup_name in
      map (\<lambda>i. \<lparr> pr_namespace = ns,
                 role_group_service_name = object_name L rgref,
                 pod_name = object_name L rgref @ ''-'' @ show_u16 i \<rparr>)
        (u16_range (replica_count rolegroup)))"

definition cluster_role_groups :: "hello_cluster \<Rightarrow> (string, hello_config_fragment role_group) hash_map" where
  "cluster_role_groups self = (case servers (spec self) of None \<Rightarrow> [] | Some r \<Rightarrow> role_groups r)"

definition pods :: "crd_platform \<Rightarrow> hello_cluster \<Rightarrow> no_namespace_error + pod_ref list" where
  "pods L self =
     and_then (or_missing (om_namespace (metadata self)) NoNamespaceError)
       (\<lambda>ns. Inr (concat (map (\<lambda>(rolegroup_name, rolegroup). rolegroup_pods L self ns rolegroup_name rolegroup)
         (bt_collect (cluster_role_groups self)))))"

section \<open>Ranges and names\<close>

lemma length_u16_range [simp]: "length (u16_range n) = unat n"
  by (simp add: u16_range_def)

lemma u16_range_unat: "map unat (u16_range n) = [0..<unat n]"
proof -
  have "unat (of_nat i :: u16) = i" if "i < unat n" for i
  proof -
    have "unat n < 2 ^ LENGTH(16)" by (rule unsigned_less)
    with that show ?thesis by (simp add: unat_of_nat take_bit_nat_eq_self)
  qed
  then show ?thesis by (auto simp: u16_range_def intro: map_idI)
qed

lemma distinct_u16_range: "distinct (u16_range n)"
  using distinct_upt[of 0 "unat n"] u16_range_unat[of n] by (metis distinct_map)

lemma show_u16_no_dash: "CHR ''-'' \<notin> set (show_u16 i)"
  by (simp add: show_u16_def show_nat_no_dash)

lemma numbered_name_inj:
  "a @ ''-'' @ show_u16 i = b @ ''-'' @ show_u16 j \<longleftrightarrow> a = b \<and> i = j"
  using append_sep_inj [of a "CHR ''-''" "show_u16 i" b "show_u16 j"]
  by (auto simp: show_u16_no_dash dec_u16.enc_inj)

lemma rolegroup_pods_names:
  "map pod_name (rolegroup_pods L h ns g rg) =
     map (\<lambda>i. object_name L (server_rolegroup_ref h g) @ ''-'' @ show_u16 i) (u16_range (replica_count rg))"
  by (simp add: rolegroup_pods_def Let_def)

lemma distinct_rolegroup_pods: "distinct (map pod_name (rolegroup_pods L h ns g rg))"
  unfolding rolegroup_pods_names
  by (auto simp: distinct_map distinct_u16_range inj_on_def dec_u16.enc_inj)

lemma rolegroup_pods_disjoint:
  assumes "object_name L (server_rolegroup_ref h g) \<noteq> object_name L (server_rolegroup_ref h g')"
  shows "set (map pod_name (rolegroup_pods L h ns g rg)) \<inter> set (map pod_name (rolegroup_pods L h ns g' rg')) = {}"
  using assms unfolding rolegroup_pods_names by (auto simp: numbered_name_inj[simplified])

lemma length_rolegroup_pods: "length (rolegroup_pods L h ns g rg) = unat (replica_count rg)"
  by (simp add: rolegroup_pods_def Let_def)

section \<open>The pods of a cluster\<close>

lemma pods_Inr_iff:
  "pods L h = Inr ps \<longleftrightarrow> (\<exists>ns. om_namespace (metadata h) = Some ns \<and>
     ps = concat (map (\<lambda>(g, rg). rolegroup_pods L h ns g rg) (bt_collect (cluster_role_groups h))))"
  by (auto simp: pods_def result_simps)

lemma pods_distinct_aux:
  assumes inj: "inj_on (\<lambda>g. object_name L (server_rolegroup_ref h g)) (fst ` set kvs)"
    and dist: "distinct (map fst kvs)"
  shows "distinct (map pod_name (concat (map (\<lambda>(g, rg). rolegroup_pods L h ns g rg) kvs)))"
proof -
  have "distinct (concat (map (\<lambda>(g, rg). map pod_name (rolegroup_pods L h ns g rg)) kvs))"
  proof (rule distinct_concat_map_tagged)
    show "distinct kvs" using dist by (simp add: distinct_map)
  next
    fix x :: "string \<times> hello_config_fragment role_group"
    show "distinct (case x of (g, rg) \<Rightarrow> map pod_name (rolegroup_pods L h ns g rg))"
      by (simp add: distinct_rolegroup_pods split: prod.split)
  next
    fix x y assume xy: "x \<in> set kvs" "y \<in> set kvs" "x \<noteq> y"
    then have "fst x \<noteq> fst y" using dist by (metis eq_key_imp_eq_value prod.collapse)
    then have "object_name L (server_rolegroup_ref h (fst x)) \<noteq> object_name L (server_rolegroup_ref h (fst y))"
      using inj xy(1,2) by (auto simp: inj_on_def)
    from rolegroup_pods_disjoint[OF this]
    show "set (case x of (g, rg) \<Rightarrow> map pod_name (rolegroup_pods L h ns g rg)) \<inter>
        set (case y of (g, rg) \<Rightarrow> map pod_name (rolegroup_pods L h ns g rg)) = {}"
      by (simp add: case_prod_beta)
  qed
  moreover have "map pod_name (concat (map (\<lambda>(g, rg). rolegroup_pods L h ns g rg) kvs)) =
      concat (map (\<lambda>(g, rg). map pod_name (rolegroup_pods L h ns g rg)) kvs)"
    by (simp add: map_concat comp_def case_prod_unfold)
  ultimately show ?thesis by simp
qed

lemma bt_collect_keys:
  "distinct (map fst kvs) \<Longrightarrow> fst ` set (bt_collect kvs) = fst ` set kvs"
  by (simp add: bt_collect_set)

lemma mset_bt_collect: "distinct (map fst kvs) \<Longrightarrow> mset (bt_collect kvs) = mset kvs"
  using bt_invar_distinct[OF bt_collect_invar, of kvs]
  by (simp add: set_eq_iff_mset_eq_distinct[symmetric] distinct_map bt_collect_set)

end
