(* ===== verification/Kube_Objects.thy ===== *)
theory Kube_Objects
  imports Crd_Pods
begin

text \<open>
  The Kubernetes objects the operator sends and the library builders it makes them with.

  A builder of \<^verbatim>\<open>stackable_operator\<close> is represented by the history of the calls made on it.
  Its code is not in the repository, but whatever state it keeps is a function of that
  history, so the history stands for the builder, for what \<open>build()\<close> returns, and for
  anything a later library call can see in it. Whether a call is refused, and with which
  error, is a parameter: an arbitrary function of the history and the call
  (\<open>builder_platform\<close>). Objects whose fields the code writes itself are records.
\<close>

section \<open>Metadata\<close>

record object_labels =
  lb_owner :: hello_cluster
  lb_app_name :: string
  lb_app_version :: string
  lb_operator_name :: string
  lb_controller_name :: string
  lb_role :: string
  lb_role_group :: string

datatype meta_call =
    name_and_namespace hello_cluster
  | meta_name string
  | ownerreference_from_resource hello_cluster "bool option" "bool option"
  | with_recommended_labels object_labels

type_synonym built_meta = "meta_call list"

text \<open>The name an object ends up with: the last one its metadata was given.\<close>

fun meta_object_name :: "built_meta \<Rightarrow> string option" where
  "meta_object_name [] = None"
| "meta_object_name (c # cs) =
     (case meta_object_name cs of
        Some n \<Rightarrow> Some n
      | None \<Rightarrow> (case c of meta_name n \<Rightarrow> Some n
               | name_and_namespace h \<Rightarrow> om_name (metadata h)
               | _ \<Rightarrow> None))"

section \<open>Services\<close>

record service_port =
  sp_name :: "string option"
  sp_port :: i32
  sp_protocol :: "string option"

record service_spec =
  svc_type :: "string option"
  cluster_ip :: "string option"
  ports :: "service_port list option"
  selector :: "str_map option"
  publish_not_ready_addresses :: "bool option"

record service =
  service_metadata :: built_meta
  service_spec_of :: "service_spec option"

section \<open>ConfigMaps\<close>

datatype cm_call =
    cm_metadata built_meta
  | cm_add_data string string

type_synonym config_map = "cm_call list"

text \<open>The entries a ConfigMap was given: a later one replaces an earlier one of the same key.\<close>

fun cm_entry :: "config_map \<Rightarrow> string \<Rightarrow> string option" where
  "cm_entry [] k = None"
| "cm_entry (c # cs) k =
     (case cm_entry cs k of
        Some v \<Rightarrow> Some v
      | None \<Rightarrow> (case c of cm_add_data k' v \<Rightarrow> if k' = k then Some v else None | _ \<Rightarrow> None))"

definition cm_meta :: "config_map \<Rightarrow> built_meta" where
  "cm_meta cm = concat (map (\<lambda>c. case c of cm_metadata m \<Rightarrow> m | _ \<Rightarrow> []) cm)"

section \<open>Containers, volumes, pods\<close>

datatype int_or_string = IntValue i32 | StringValue string

record probe =
  initial_delay_seconds :: "i32 option"
  period_seconds :: "i32 option"
  failure_threshold :: "i32 option"
  tcp_socket_port :: "int_or_string option"

datatype resource_call =
    with_cpu_request string | with_cpu_limit string
  | with_memory_request string | with_memory_limit string

datatype resource_requirements =
    resources_into resources
  | resources_built "resource_call list"

datatype container_call =
    container_new string
  | add_env_var string string
  | command "string list"
  | args "string list"
  | image_from_product_image resolved_product_image
  | add_volume_mount string string
  | add_container_port string i32
  | container_resources resource_requirements
  | readiness_probe probe
  | liveness_probe probe

datatype container =
    container_built "container_call list"
  | vector_container resolved_product_image string string "container_log_config option"
      resource_requirements

record empty_dir =
  ed_medium :: "string option"
  ed_size_limit :: "quantity option"

record volume =
  vol_name :: string
  vol_config_map :: "string option"
  vol_empty_dir :: "empty_dir option"

datatype pod_call =
    termination_grace_period duration
  | pod_metadata built_meta
  | image_pull_secrets_from_product_image resolved_product_image
  | add_container container
  | add_volume volume
  | affinity stackable_affinity
  | service_account_name string

datatype pod_template =
    build_template "pod_call list"
  | merge_from pod_template json

datatype volume_claim = build_pvc pvc_config string "string list option"

section \<open>StatefulSets and disruption budgets\<close>

record stateful_set_spec =
  pod_management_policy :: "string option"
  replicas :: "i32 option"
  match_labels :: "str_map option"
  service_name :: string
  template :: pod_template
  volume_claim_templates :: "volume_claim list option"

record stateful_set =
  sts_metadata :: built_meta
  sts_spec :: "stateful_set_spec option"

record pod_disruption_budget =
  pdb_owner :: hello_cluster
  pdb_app_name :: string
  pdb_role :: string
  pdb_operator_name :: string
  pdb_controller_name :: string
  pdb_with_max_unavailable :: u16

section \<open>What the builders may refuse\<close>

record builder_platform =
  meta_err :: "meta_call list \<Rightarrow> meta_call \<Rightarrow> ext_error option"
  container_err :: "container_call list \<Rightarrow> container_call \<Rightarrow> ext_error option"
  pod_err :: "pod_call list \<Rightarrow> pod_call \<Rightarrow> ext_error option"
  config_map_err :: "cm_call list \<Rightarrow> ext_error option"
  vector_container_err :: "container \<Rightarrow> ext_error option"

text \<open>A fallible builder call: refused with an error, or added to the history.\<close>

definition try_call :: "('c list \<Rightarrow> 'c \<Rightarrow> ext_error option) \<Rightarrow> 'c list \<Rightarrow> 'c \<Rightarrow> ext_error + 'c list" where
  "try_call err h c = fails_if (err h c) (h @ [c])"

lemma try_call_Inr_iff [result_simps]: "try_call err h c = Inr h' \<longleftrightarrow> err h c = None \<and> h' = h @ [c]"
  by (auto simp: try_call_def result_simps)

lemma try_call_Inl_iff [result_simps]: "try_call err h c = Inl e \<longleftrightarrow> err h c = Some e"
  by (auto simp: try_call_def result_simps)

section \<open>What can be read off a finished history\<close>

definition volume_mounts :: "container_call list \<Rightarrow> (string \<times> string) list" where
  "volume_mounts cs = concat (map (\<lambda>c. case c of add_volume_mount v p \<Rightarrow> [(v, p)] | _ \<Rightarrow> []) cs)"

definition env_vars :: "container_call list \<Rightarrow> (string \<times> string) list" where
  "env_vars cs = concat (map (\<lambda>c. case c of add_env_var n v \<Rightarrow> [(n, v)] | _ \<Rightarrow> []) cs)"

definition container_ports :: "container_call list \<Rightarrow> (string \<times> i32) list" where
  "container_ports cs = concat (map (\<lambda>c. case c of add_container_port n p \<Rightarrow> [(n, p)] | _ \<Rightarrow> []) cs)"

definition pod_volumes :: "pod_call list \<Rightarrow> volume list" where
  "pod_volumes cs = concat (map (\<lambda>c. case c of add_volume v \<Rightarrow> [v] | _ \<Rightarrow> []) cs)"

definition pod_containers :: "pod_call list \<Rightarrow> container list" where
  "pod_containers cs = concat (map (\<lambda>c. case c of add_container k \<Rightarrow> [k] | _ \<Rightarrow> []) cs)"

lemmas history_defs = volume_mounts_def env_vars_def container_ports_def pod_volumes_def
  pod_containers_def cm_meta_def

lemma history_append [simp]:
  "volume_mounts (xs @ ys) = volume_mounts xs @ volume_mounts ys"
  "env_vars (xs @ ys) = env_vars xs @ env_vars ys"
  "container_ports (xs @ ys) = container_ports xs @ container_ports ys"
  "pod_volumes (us @ vs) = pod_volumes us @ pod_volumes vs"
  "pod_containers (us @ vs) = pod_containers us @ pod_containers vs"
  "cm_meta (as @ bs) = cm_meta as @ cm_meta bs"
  by (simp_all add: history_defs)

lemma history_Cons [simp]:
  "volume_mounts [] = []"
  "volume_mounts (c # cs) = (case c of add_volume_mount v p \<Rightarrow> [(v, p)] | _ \<Rightarrow> []) @ volume_mounts cs"
  "env_vars [] = []"
  "env_vars (c # cs) = (case c of add_env_var n v \<Rightarrow> [(n, v)] | _ \<Rightarrow> []) @ env_vars cs"
  "container_ports [] = []"
  "container_ports (c # cs) = (case c of add_container_port n p \<Rightarrow> [(n, p)] | _ \<Rightarrow> []) @ container_ports cs"
  "pod_volumes [] = []"
  "pod_volumes (d # ds) = (case d of add_volume v \<Rightarrow> [v] | _ \<Rightarrow> []) @ pod_volumes ds"
  "pod_containers [] = []"
  "pod_containers (d # ds) = (case d of add_container k \<Rightarrow> [k] | _ \<Rightarrow> []) @ pod_containers ds"
  "cm_meta [] = []"
  "cm_meta (a # as) = (case a of cm_metadata m \<Rightarrow> m | _ \<Rightarrow> []) @ cm_meta as"
  by (simp_all add: history_defs)

lemma cm_entry_append:
  "cm_entry (xs @ ys) k = (case cm_entry ys k of Some v \<Rightarrow> Some v | None \<Rightarrow> cm_entry xs k)"
  by (induction xs) (auto split: option.splits)

text \<open>The template the code built, before the user's overrides are merged into it.\<close>

fun template_base :: "pod_template \<Rightarrow> pod_call list" where
  "template_base (build_template cs) = cs"
| "template_base (merge_from t _) = template_base t"

fun template_overrides :: "pod_template \<Rightarrow> json list" where
  "template_overrides (build_template _) = []"
| "template_overrides (merge_from t j) = template_overrides t @ [j]"

end
