(* ===== verification/Trace_Monad.thy ===== *)
theory Trace_Monad
  imports Prelude
begin

text \<open>
  Effects as a trace of calls. An effectful function of the code is a function from the
  calls made so far to its result and the calls made by its end. The outside world answers
  a call by an arbitrary function of the history and of the call, so nothing is assumed
  about it. \<open>await\<close> only suspends: the awaits of the code are all in sequence.

  The second half is a small logic over such functions. A protocol is a step relation on
  phases labelled by calls; \<open>stage_ok\<close> says that a function, started in a phase, makes only
  calls the protocol allows and in which phase each of its two outcomes leaves it.
\<close>

type_synonym ('c, 'e, 'a) io = "'c list \<Rightarrow> ('e + 'a) \<times> 'c list"

section \<open>Combinators\<close>

definition io_lift :: "'e + 'a \<Rightarrow> ('c, 'e, 'a) io" where
  "io_lift r = (\<lambda>h. (r, h))"

definition io_bind :: "('c, 'e, 'a) io \<Rightarrow> ('a \<Rightarrow> ('c, 'e, 'b) io) \<Rightarrow> ('c, 'e, 'b) io" where
  "io_bind m f = (\<lambda>h. case m h of (Inl e, h') \<Rightarrow> (Inl e, h') | (Inr x, h') \<Rightarrow> f x h')"

definition io_context :: "('c, 'e, 'a) io \<Rightarrow> ('e \<Rightarrow> 'f) \<Rightarrow> ('c, 'f, 'a) io" where
  "io_context m f = (\<lambda>h. case m h of (r, h') \<Rightarrow> (err_context r f, h'))"

definition io_call :: "'c \<Rightarrow> ('c list \<Rightarrow> 'e + 'a) \<Rightarrow> ('c, 'e, 'a) io" where
  "io_call c answer = (\<lambda>h. (answer h, h @ [c]))"

lemma io_lift_apply [simp]: "io_lift r h = (r, h)"
  by (simp add: io_lift_def)

lemma io_call_apply [simp]: "io_call c answer h = (answer h, h @ [c])"
  by (simp add: io_call_def)

lemma io_bind_lift_Inr [simp]: "io_bind (io_lift (Inr x)) f = f x"
  by (simp add: io_bind_def fun_eq_iff)

lemma io_bind_lift_Inl [simp]: "io_bind (io_lift (Inl e)) f = io_lift (Inl e)"
  by (simp add: io_bind_def fun_eq_iff)

lemma io_bind_Inr_iff [result_simps]:
  "io_bind m f h = (Inr y, h') \<longleftrightarrow> (\<exists>x h1. m h = (Inr x, h1) \<and> f x h1 = (Inr y, h'))"
  by (auto simp: io_bind_def split: prod.splits sum.splits)

lemma io_bind_Inl_iff [result_simps]:
  "io_bind m f h = (Inl e, h') \<longleftrightarrow>
     m h = (Inl e, h') \<or> (\<exists>x h1. m h = (Inr x, h1) \<and> f x h1 = (Inl e, h'))"
  by (auto simp: io_bind_def split: prod.splits sum.splits)

lemma io_bind_step: "m h = (Inr x, h1) \<Longrightarrow> io_bind m f h = f x h1"
  by (simp add: io_bind_def)

lemma io_context_Inr_iff [result_simps]:
  "io_context m f h = (Inr y, h') \<longleftrightarrow> m h = (Inr y, h')"
  by (auto simp: io_context_def result_simps split: prod.splits)

lemma io_context_Inl_iff [result_simps]:
  "io_context m f h = (Inl e, h') \<longleftrightarrow> (\<exists>e'. m h = (Inl e', h') \<and> e = f e')"
  by (auto simp: io_context_def result_simps split: prod.splits)

section \<open>Completion\<close>

text \<open>
  Once enough calls have been made, the function returns a value that satisfies the
  postcondition, and has only added to the calls.
\<close>

definition completes :: "nat \<Rightarrow> ('c, 'e, 'a) io \<Rightarrow> ('a \<Rightarrow> bool) \<Rightarrow> bool" where
  "completes n m Q \<longleftrightarrow> (\<forall>h. n \<le> length h \<longrightarrow> (\<exists>x ds. m h = (Inr x, h @ ds) \<and> Q x))"

lemma completes_return: "Q x \<Longrightarrow> completes n (io_lift (Inr x)) Q"
  by (simp add: completes_def)

lemma completes_call:
  "(\<And>h. n \<le> length h \<Longrightarrow> \<exists>x. answer h = Inr x) \<Longrightarrow> completes n (io_call c answer) (\<lambda>_. True)"
  by (auto simp: completes_def)

lemma completes_context: "completes n m Q \<Longrightarrow> completes n (io_context m f) Q"
  by (fastforce simp: completes_def io_context_def)

lemma completes_bind:
  assumes "completes n m R" and "\<And>x. R x \<Longrightarrow> completes n (f x) Q"
  shows "completes n (io_bind m f) Q"
  unfolding completes_def
proof (intro allI impI)
  fix h :: "'a list"
  assume n: "n \<le> length h"
  then obtain x ds where m: "m h = (Inr x, h @ ds)" "R x"
    using assms(1) unfolding completes_def by blast
  obtain y es where "f x (h @ ds) = (Inr y, (h @ ds) @ es)" "Q y"
    using assms(2)[OF m(2)] n unfolding completes_def by (metis length_append trans_le_add1)
  with m(1) show "\<exists>y ds. io_bind m f h = (Inr y, h @ ds) \<and> Q y" by (simp add: io_bind_step)
qed

text \<open>The shape of the reconciler's steps, where the next does not need to know the answer.\<close>

lemma completes_then:
  "\<lbrakk>completes n m (\<lambda>_. True); \<And>x. completes n (f x) Q\<rbrakk> \<Longrightarrow>
     completes n (io_bind (io_context m g) f) Q"
  by (rule completes_bind[OF completes_context])

lemma completes_result:
  "\<lbrakk>completes n m Q; n \<le> length h\<rbrakk> \<Longrightarrow> \<exists>x ds. m h = (Inr x, h @ ds) \<and> Q x"
  by (simp add: completes_def)

section \<open>Protocols\<close>

inductive follows :: "('p \<Rightarrow> 'c \<Rightarrow> 'p \<Rightarrow> bool) \<Rightarrow> 'p \<Rightarrow> 'c list \<Rightarrow> 'p \<Rightarrow> bool" for step where
  follows_nil [intro, simp]: "follows step p [] p"
| follows_cons: "\<lbrakk>step p c q; follows step q cs r\<rbrakk> \<Longrightarrow> follows step p (c # cs) r"

inductive_simps follows_Nil_iff [simp]: "follows step p [] q"
inductive_simps follows_Cons_iff: "follows step p (c # cs) q"

lemma follows_append:
  "follows step p cs q \<Longrightarrow> follows step q ds r \<Longrightarrow> follows step p (cs @ ds) r"
  by (induction rule: follows.induct) (auto intro: follows_cons)

lemma follows_append_iff:
  "follows step p (cs @ ds) r \<longleftrightarrow> (\<exists>q. follows step p cs q \<and> follows step q ds r)"
  by (induction cs arbitrary: p) (auto simp: follows_Cons_iff)

definition stage_ok ::
  "('p \<Rightarrow> 'c \<Rightarrow> 'p \<Rightarrow> bool) \<Rightarrow> 'p \<Rightarrow> ('c, 'e, 'a) io \<Rightarrow> ('a \<Rightarrow> 'p \<Rightarrow> bool) \<Rightarrow> ('e \<Rightarrow> 'p \<Rightarrow> bool) \<Rightarrow> bool"
  where
  "stage_ok step p m Q E \<longleftrightarrow>
     (\<forall>h. \<exists>r cs q. m h = (r, h @ cs) \<and> follows step p cs q \<and>
        (case r of Inl e \<Rightarrow> E e q | Inr x \<Rightarrow> Q x q))"

lemma stage_lift:
  "(\<And>x. r = Inr x \<Longrightarrow> Q x p) \<Longrightarrow> (\<And>e. r = Inl e \<Longrightarrow> E e p) \<Longrightarrow> stage_ok step p (io_lift r) Q E"
  unfolding stage_ok_def by (auto split: sum.split)

lemma stage_call:
  assumes "step p c q" and "\<And>x. Q x q" and "\<And>e. E e q"
  shows "stage_ok step p (io_call c answer) Q E"
  unfolding stage_ok_def
proof (intro allI exI conjI)
  fix h
  show "io_call c answer h = (answer h, h @ [c])" by simp
  show "follows step p [c] q" using assms(1) by (simp add: follows_Cons_iff)
  show "case answer h of Inl e \<Rightarrow> E e q | Inr x \<Rightarrow> Q x q"
    using assms(2,3) by (simp split: sum.split)
qed

lemma stage_bind:
  assumes "stage_ok step p m R E" and "\<And>x q. R x q \<Longrightarrow> stage_ok step q (f x) Q E"
  shows "stage_ok step p (io_bind m f) Q E"
  unfolding stage_ok_def
proof
  fix h
  from assms(1) obtain r cs q where m: "m h = (r, h @ cs)" "follows step p cs q"
    "case r of Inl e \<Rightarrow> E e q | Inr x \<Rightarrow> R x q"
    unfolding stage_ok_def by blast
  show "\<exists>r cs q. io_bind m f h = (r, h @ cs) \<and> follows step p cs q \<and>
      (case r of Inl e \<Rightarrow> E e q | Inr x \<Rightarrow> Q x q)"
  proof (cases r)
    case (Inl e)
    with m show ?thesis by (auto simp: io_bind_def)
  next
    case (Inr x)
    with m(3) assms(2) have "stage_ok step q (f x) Q E" by simp
    then obtain r' ds q' where f: "f x (h @ cs) = (r', (h @ cs) @ ds)" "follows step q ds q'"
      "case r' of Inl e \<Rightarrow> E e q' | Inr x \<Rightarrow> Q x q'"
      unfolding stage_ok_def by blast
    have "io_bind m f h = (r', h @ (cs @ ds))" using m(1) f(1) Inr by (simp add: io_bind_def)
    moreover have "follows step p (cs @ ds) q'" using m(2) f(2) by (rule follows_append)
    ultimately show ?thesis using f(3) by blast
  qed
qed

lemma stage_context:
  assumes "stage_ok step p m Q (\<lambda>e. E (f e))"
  shows "stage_ok step p (io_context m f) Q E"
  unfolding stage_ok_def
proof
  fix h
  from assms obtain r cs q where m: "m h = (r, h @ cs)" "follows step p cs q"
    "case r of Inl e \<Rightarrow> E (f e) q | Inr x \<Rightarrow> Q x q"
    unfolding stage_ok_def by blast
  then have "io_context m f h = (err_context r f, h @ cs)" by (simp add: io_context_def)
  moreover have "case err_context r f of Inl e \<Rightarrow> E e q | Inr x \<Rightarrow> Q x q"
    using m(3) by (cases r) simp_all
  ultimately show "\<exists>r cs q. io_context m f h = (r, h @ cs) \<and> follows step p cs q \<and>
      (case r of Inl e \<Rightarrow> E e q | Inr x \<Rightarrow> Q x q)"
    using m(2) by blast
qed

text \<open>The shapes in which the reconciler composes its steps.\<close>

lemma stage_lift_then:
  assumes "\<And>e. r = Inl e \<Longrightarrow> E e p" and "\<And>x. r = Inr x \<Longrightarrow> stage_ok step p (f x) Q E"
  shows "stage_ok step p (io_bind (io_lift r) f) Q E"
  by (rule stage_bind[where R = "\<lambda>x q. r = Inr x \<and> q = p"]) (auto intro: stage_lift assms)

lemma stage_call_then:
  assumes "step p c q" and "\<And>e. E (f e) q" and "\<And>x. stage_ok step q (k x) Q E"
  shows "stage_ok step p (io_bind (io_context (io_call c answer) f) k) Q E"
  by (rule stage_bind[where R = "\<lambda>_ q'. q' = q"])
    (auto intro: stage_context stage_call[where q = q] assms)

lemma stage_weaken:
  assumes "stage_ok step p m Q E" and "\<And>x q. Q x q \<Longrightarrow> Q' x q" and "\<And>e q. E e q \<Longrightarrow> E' e q"
  shows "stage_ok step p m Q' E'"
  unfolding stage_ok_def
proof
  fix h
  from assms(1) obtain r cs q where "m h = (r, h @ cs)" "follows step p cs q"
    "case r of Inl e \<Rightarrow> E e q | Inr x \<Rightarrow> Q x q"
    unfolding stage_ok_def by blast
  with assms(2,3) show "\<exists>r cs q. m h = (r, h @ cs) \<and> follows step p cs q \<and>
      (case r of Inl e \<Rightarrow> E' e q | Inr x \<Rightarrow> Q' x q)"
    by (intro exI[of _ r] exI[of _ cs] exI[of _ q]) (auto split: sum.splits)
qed

lemma stage_then:
  assumes "stage_ok step p m R D" and "\<And>e q. D e q \<Longrightarrow> E e q"
    and "\<And>x q. R x q \<Longrightarrow> stage_ok step q (f x) Q E"
  shows "stage_ok step p (io_bind m f) Q E"
  by (rule stage_bind[OF stage_weaken[OF assms(1)] assms(3)]) (auto intro: assms(2))

lemma stage_context_then:
  assumes "stage_ok step p m R D" and "\<And>e q. D e q \<Longrightarrow> E (g e) q"
    and "\<And>x q. R x q \<Longrightarrow> stage_ok step q (f x) Q E"
  shows "stage_ok step p (io_bind (io_context m g) f) Q E"
  by (rule stage_bind[OF stage_context[OF stage_weaken[OF assms(1)]] assms(3)]) (auto intro: assms(2))

text \<open>
  A protocol with a destructive call that only leads to a final phase makes it the last
  call of any run.
\<close>

locale closing_protocol =
  fixes step :: "'p \<Rightarrow> 'c \<Rightarrow> 'p \<Rightarrow> bool" and closing :: "'c \<Rightarrow> bool" and final :: "'p \<Rightarrow> bool"
  assumes closing_final: "step p c q \<Longrightarrow> closing c \<Longrightarrow> final q"
    and final_stuck: "final p \<Longrightarrow> \<not> step p c q"
    and final_closing: "step p c q \<Longrightarrow> final q \<Longrightarrow> closing c"
begin

lemma final_no_more: "follows step p cs q \<Longrightarrow> final p \<Longrightarrow> cs = []"
  by (induction rule: follows.induct) (auto simp: final_stuck)

lemma closing_is_last:
  assumes "follows step p cs q" and "cs = xs @ c # ys" and "closing c"
  shows "ys = [] \<and> final q"
proof -
  from assms(1,2) obtain p1 p2 where "step p1 c p2" and rest: "follows step p2 ys q"
    by (auto simp: follows_append_iff follows_Cons_iff)
  then have "final p2" using assms(3) closing_final by blast
  with rest have "ys = []" using final_no_more by blast
  with rest \<open>final p2\<close> show ?thesis by simp
qed

lemma not_final_not_closed:
  assumes "follows step p cs q" and "\<not> final q"
  shows "\<forall>c \<in> set cs. \<not> closing c"
  using assms closing_is_last by (metis split_list)

lemma final_closed:
  assumes "follows step p cs q" and "final q" and "\<not> final p"
  shows "cs \<noteq> [] \<and> closing (last cs)"
proof -
  from assms have "cs \<noteq> []" by auto
  then obtain ds c where cs: "cs = ds @ [c]" by (metis append_butlast_last_id)
  with assms(1) obtain p1 where "step p1 c q" by (auto simp: follows_append_iff follows_Cons_iff)
  with assms(2) cs show ?thesis using final_closing by auto
qed

end

end
