(* ===== verification/Controller_Error.thy ===== *)
theory Controller_Error
  imports Crd
begin

text \<open>
  The error types above \<^verbatim>\<open>crd.rs\<close>: those of \<^verbatim>\<open>product_logging.rs\<close>, \<^verbatim>\<open>operations/pdb.rs\<close>,
  \<^verbatim>\<open>operations/graceful_shutdown.rs\<close> and the reconciler's own in \<^verbatim>\<open>controller.rs\<close>, with the
  category each error is reported under and the policy that follows from it.
\<close>

datatype logging_error =
    ObjectHasNoNamespace_logging
  | ConfigMapNotFound ext_error string
  | MissingConfigMapEntry string string
  | CrdValidationFailure crd_error
  | MissingVectorAggregatorAddress

datatype graceful_shutdown_error = SetTerminationGracePeriod ext_error

datatype pdb_error =
    CreatePdb ext_error string
  | ApplyPdb ext_error string

datatype controller_error =
    InternalOperatorFailure crd_error
  | ObjectHasNoNamespace
  | NoServerRole
  | GlobalServiceNameNotFound
  | ApplyRoleService ext_error
  | ApplyRoleGroupService ext_error rolegroup_ref
  | PropertiesWriteError ext_error
  | BuildRoleGroupConfig ext_error rolegroup_ref
  | ApplyRoleGroupConfig ext_error rolegroup_ref
  | ApplyRoleGroupStatefulSet ext_error rolegroup_ref
  | GenerateProductConfig ext_error
  | InvalidProductConfig ext_error
  | ObjectMissingMetadataForOwnerRef ext_error
  | ApplyStatus ext_error
  | FailedToResolveResourceConfig crd_error
  | FailedToCreateHelloContainer ext_error string
  | CreateClusterResources ext_error
  | DeleteOrphanedResources ext_error
  | ResolveVectorAggregatorAddress logging_error
  | InvalidLoggingConfig logging_error string
  | ApplyServiceAccount ext_error
  | ApplyRoleBinding ext_error
  | BuildRbacResources ext_error
  | JvmSecurityProperties ext_error string
  | FailedToCreatePdb pdb_error
  | GracefulShutdown graceful_shutdown_error
  | LabelBuild ext_error
  | MetadataBuild ext_error
  | GetRequiredLabels ext_error
  | ConfigureLogging ext_error
  | AddVolume ext_error
  | AddVolumeMount ext_error
  | InvalidHelloCluster ext_error

text \<open>\<open>ReconcilerError::category\<close>: the variant's name.\<close>

fun category :: "controller_error \<Rightarrow> string" where
  "category (InternalOperatorFailure _) = ''InternalOperatorFailure''"
| "category ObjectHasNoNamespace = ''ObjectHasNoNamespace''"
| "category NoServerRole = ''NoServerRole''"
| "category GlobalServiceNameNotFound = ''GlobalServiceNameNotFound''"
| "category (ApplyRoleService _) = ''ApplyRoleService''"
| "category (ApplyRoleGroupService _ _) = ''ApplyRoleGroupService''"
| "category (PropertiesWriteError _) = ''PropertiesWriteError''"
| "category (BuildRoleGroupConfig _ _) = ''BuildRoleGroupConfig''"
| "category (ApplyRoleGroupConfig _ _) = ''ApplyRoleGroupConfig''"
| "category (ApplyRoleGroupStatefulSet _ _) = ''ApplyRoleGroupStatefulSet''"
| "category (GenerateProductConfig _) = ''GenerateProductConfig''"
| "category (InvalidProductConfig _) = ''InvalidProductConfig''"
| "category (ObjectMissingMetadataForOwnerRef _) = ''ObjectMissingMetadataForOwnerRef''"
| "category (ApplyStatus _) = ''ApplyStatus''"
| "category (FailedToResolveResourceConfig _) = ''FailedToResolveResourceConfig''"
| "category (FailedToCreateHelloContainer _ _) = ''FailedToCreateHelloContainer''"
| "category (CreateClusterResources _) = ''CreateClusterResources''"
| "category (DeleteOrphanedResources _) = ''DeleteOrphanedResources''"
| "category (ResolveVectorAggregatorAddress _) = ''ResolveVectorAggregatorAddress''"
| "category (InvalidLoggingConfig _ _) = ''InvalidLoggingConfig''"
| "category (ApplyServiceAccount _) = ''ApplyServiceAccount''"
| "category (ApplyRoleBinding _) = ''ApplyRoleBinding''"
| "category (BuildRbacResources _) = ''BuildRbacResources''"
| "category (JvmSecurityProperties _ _) = ''JvmSecurityProperties''"
| "category (FailedToCreatePdb _) = ''FailedToCreatePdb''"
| "category (GracefulShutdown _) = ''GracefulShutdown''"
| "category (LabelBuild _) = ''LabelBuild''"
| "category (MetadataBuild _) = ''MetadataBuild''"
| "category (GetRequiredLabels _) = ''GetRequiredLabels''"
| "category (ConfigureLogging _) = ''ConfigureLogging''"
| "category (AddVolume _) = ''AddVolume''"
| "category (AddVolumeMount _) = ''AddVolumeMount''"
| "category (InvalidHelloCluster _) = ''InvalidHelloCluster''"

text \<open>What the controller does next: wait for the object to change, or run again after seconds.\<close>

datatype action = await_change | requeue nat

fun error_policy :: "controller_error \<Rightarrow> action" where
  "error_policy (InvalidHelloCluster _) = await_change"
| "error_policy _ = requeue 5"

lemma error_policy_by_category:
  "error_policy e = (if category e = ''InvalidHelloCluster'' then await_change else requeue 5)"
  by (cases e) simp_all

end
