(* ===== verification/Operator_World.thy ===== *)
theory Operator_World
  imports Kube_Objects Trace_Monad Controller_Error
begin

text \<open>
  The operator's dealings with the cluster: the objects it applies, the calls it makes on
  the Kubernetes client and on \<open>ClusterResources\<close>, and the world that answers them. The
  answers are arbitrary functions of everything done before (\<open>world\<close>). The names the operator
  identifies itself with (\<^verbatim>\<open>main.rs\<close>, \<^verbatim>\<open>controller.rs\<close>) are here too.
\<close>

definition OPERATOR_NAME :: string where "OPERATOR_NAME = ''hello.stackable.tech''"
definition HELLO_CONTROLLER_NAME :: string where "HELLO_CONTROLLER_NAME = ''hellocluster''"
definition HELLO_FULL_CONTROLLER_NAME :: string where
  "HELLO_FULL_CONTROLLER_NAME = HELLO_CONTROLLER_NAME @ ''.'' @ OPERATOR_NAME"
definition DOCKER_IMAGE_BASE_NAME :: string where "DOCKER_IMAGE_BASE_NAME = ''hello''"
definition MAX_LOG_FILES_SIZE :: memory_quantity where
  "MAX_LOG_FILES_SIZE = \<lparr> mq_value = 10, mq_unit = Mebi \<rparr>"

section \<open>Objects and calls\<close>

text \<open>
  What \<open>ClusterResources::new\<close> is given. The object reference is a function of the cluster
  object and the apply strategy one of the cluster operation, so these stand for them.
\<close>

record cluster_resources =
  cr_app_name :: string
  cr_operator_name :: string
  cr_controller_name :: string
  cr_cluster :: hello_cluster
  cr_apply_strategy :: cluster_operation

datatype kube_object =
    K_ServiceAccount json
  | K_RoleBinding json
  | K_Service service
  | K_ConfigMap config_map
  | K_StatefulSet stateful_set
  | K_PodDisruptionBudget pod_disruption_budget

datatype call =
    cr_add cluster_resources kube_object
  | client_get_config_map string string
  | apply_patch_status string hello_cluster hello_cluster_status
  | delete_orphaned_resources cluster_resources

section \<open>The world\<close>

text \<open>
  An object that was applied comes back as the API server holds it, which is for the library
  to read (\<open>json\<close>). A ConfigMap that was fetched shows its optional data.
\<close>

record world =
  answer_add :: "call list \<Rightarrow> call \<Rightarrow> ext_error + json"
  answer_get_config_map :: "call list \<Rightarrow> call \<Rightarrow> ext_error + str_map option"
  answer_patch_status :: "call list \<Rightarrow> call \<Rightarrow> ext_error + json"
  answer_delete_orphaned :: "call list \<Rightarrow> call \<Rightarrow> ext_error + unit"

definition io_add :: "world \<Rightarrow> cluster_resources \<Rightarrow> kube_object \<Rightarrow> (call, ext_error, json) io" where
  "io_add W cr obj = (let c = cr_add cr obj in io_call c (\<lambda>h. answer_add W h c))"

definition io_get_config_map ::
  "world \<Rightarrow> string \<Rightarrow> string \<Rightarrow> (call, ext_error, str_map option) io" where
  "io_get_config_map W name namespace =
     (let c = client_get_config_map name namespace in io_call c (\<lambda>h. answer_get_config_map W h c))"

definition io_patch_status ::
  "world \<Rightarrow> string \<Rightarrow> hello_cluster \<Rightarrow> hello_cluster_status \<Rightarrow> (call, ext_error, json) io" where
  "io_patch_status W manager hello st =
     (let c = apply_patch_status manager hello st in io_call c (\<lambda>h. answer_patch_status W h c))"

definition io_delete_orphaned :: "world \<Rightarrow> cluster_resources \<Rightarrow> (call, ext_error, unit) io" where
  "io_delete_orphaned W cr =
     (let c = delete_orphaned_resources cr in io_call c (\<lambda>h. answer_delete_orphaned W h c))"

lemmas io_calls = io_add_def io_get_config_map_def io_patch_status_def io_delete_orphaned_def

text \<open>The objects a run asked the cluster to hold.\<close>

definition applied :: "call list \<Rightarrow> kube_object list" where
  "applied cs = concat (map (\<lambda>c. case c of cr_add _ obj \<Rightarrow> [obj] | _ \<Rightarrow> []) cs)"

lemma applied_append [simp]: "applied (xs @ ys) = applied xs @ applied ys"
  by (simp add: applied_def)

lemma applied_Cons [simp]:
  "applied [] = []"
  "applied (cr_add cr obj # cs) = obj # applied cs"
  "applied (client_get_config_map n ns # cs) = applied cs"
  "applied (apply_patch_status m h st # cs) = applied cs"
  "applied (delete_orphaned_resources cr # cs) = applied cs"
  by (simp_all add: applied_def)

end
