(* ===== verification/Product_Logging.thy ===== *)
theory Product_Logging
  imports Operator_World
begin

text \<open>
  \<^verbatim>\<open>rust/operator-binary/src/product_logging.rs\<close>: finding the Vector aggregator's address and
  adding the logging files to a role group's ConfigMap. What the library generates (the
  Logback and Vector configurations, the arithmetic of memory quantities) is a parameter.
\<close>

record logging_platform =
  resource_namespace :: "hello_cluster \<Rightarrow> string option"
  create_logback_config ::
    "string \<Rightarrow> string \<Rightarrow> u32 \<Rightarrow> string \<Rightarrow> automatic_container_log_config \<Rightarrow> string option \<Rightarrow> string"
  create_vector_config ::
    "rolegroup_ref \<Rightarrow> string \<Rightarrow> automatic_container_log_config option \<Rightarrow> string"
  VECTOR_CONFIG_FILE :: string
  scale_to :: "memory_quantity \<Rightarrow> binary_multiple \<Rightarrow> memory_quantity"
  mq_floor :: "memory_quantity \<Rightarrow> memory_quantity"
  calculate_log_volume_size_limit :: "memory_quantity list \<Rightarrow> quantity"

definition VECTOR_AGGREGATOR_CM_ENTRY :: string where "VECTOR_AGGREGATOR_CM_ENTRY = ''ADDRESS''"
definition CONSOLE_CONVERSION_PATTERN :: string where
  "CONSOLE_CONVERSION_PATTERN = ''%d{ISO8601} %5p [%t] %c{2}: %m%n''"

text \<open>\<open>as u32\<close> on a float truncates and saturates at the bounds of the type.\<close>

definition f32_as_u32 :: "rat \<Rightarrow> u32" where
  "f32_as_u32 x = (if x < 0 then 0 else if 2 ^ 32 \<le> x then - 1 else word_of_int \<lfloor>x\<rfloor>)"

section \<open>The Vector aggregator's address\<close>

definition resolve_vector_aggregator_address ::
  "logging_platform \<Rightarrow> world \<Rightarrow> hello_cluster \<Rightarrow> (call, logging_error, string option) io" where
  "resolve_vector_aggregator_address LP W hbase =
     (case vector_aggregator_config_map_name (cluster_config (spec hbase)) of
        Some cm_name \<Rightarrow>
          io_bind (io_lift (or_missing (resource_namespace LP hbase) ObjectHasNoNamespace_logging)) (\<lambda>ns.
          io_bind (io_context (io_get_config_map W cm_name ns)
              (\<lambda>source. ConfigMapNotFound source cm_name)) (\<lambda>data.
          io_bind (io_lift (or_missing
              (Option.bind data (\<lambda>d. bt_get d VECTOR_AGGREGATOR_CM_ENTRY))
              (MissingConfigMapEntry VECTOR_AGGREGATOR_CM_ENTRY cm_name))) (\<lambda>address.
          io_lift (Inr (Some address)))))
      | None \<Rightarrow> io_lift (Inr None))"

section \<open>Logging files in the ConfigMap\<close>

fun automatic_config :: "container_log_config option \<Rightarrow> automatic_container_log_config option" where
  "automatic_config (Some clc) =
     (case choice clc of Some (Automatic log_config) \<Rightarrow> Some log_config | _ \<Rightarrow> None)"
| "automatic_config None = None"

definition logback_config :: "logging_platform \<Rightarrow> automatic_container_log_config \<Rightarrow> string" where
  "logback_config LP log_config =
     create_logback_config LP (STACKABLE_LOG_DIR @ ''/hello'') HELLO_WORLD_LOG_FILE
       (f32_as_u32 (mq_value (mq_floor LP (scale_to LP MAX_LOG_FILES_SIZE Mebi))))
       CONSOLE_CONVERSION_PATTERN log_config None"

definition extend_role_group_config_map ::
  "logging_platform \<Rightarrow> rolegroup_ref \<Rightarrow> string option \<Rightarrow> Container logging \<Rightarrow> cm_call list
     \<Rightarrow> logging_error + cm_call list" where
  "extend_role_group_config_map LP rolegroup vector_aggregator_address logging cm_builder =
     (let cm_builder =
        (case automatic_config (bt_get (containers logging) Hello) of
           Some log_config \<Rightarrow> cm_builder @ [cm_add_data LOGBACK_XML (logback_config LP log_config)]
         | None \<Rightarrow> cm_builder);
          vector_log_config = automatic_config (bt_get (containers logging) Vector)
      in if enable_vector_agent logging
         then and_then (or_missing vector_aggregator_address MissingVectorAggregatorAddress)
           (\<lambda>address. Inr (cm_builder @
              [cm_add_data (VECTOR_CONFIG_FILE LP) (create_vector_config LP rolegroup address vector_log_config)]))
         else Inr cm_builder)"

section \<open>Facts\<close>

text \<open>The library documents scaling to a quantity's own unit as the identity, floor as rounding down.\<close>

definition memory_contract :: "logging_platform \<Rightarrow> bool" where
  "memory_contract LP \<longleftrightarrow>
     (\<forall>m. scale_to LP m (mq_unit m) = m) \<and>
     (\<forall>m. mq_floor LP m = m\<lparr>mq_value := of_int \<lfloor>mq_value m\<rfloor>\<rparr>)"

lemma f32_as_u32_clamps: "uint (f32_as_u32 x) = max 0 (min (2 ^ 32 - 1) \<lfloor>x\<rfloor>)"
proof -
  consider "x < 0" | "0 \<le> x" "x < 2 ^ 32" | "2 ^ 32 \<le> x" by linarith
  then show ?thesis
  proof cases
    case 1
    then have "\<lfloor>x\<rfloor> < 0" by simp
    with 1 show ?thesis by (simp add: f32_as_u32_def)
  next
    case 2
    then have bounds: "0 \<le> \<lfloor>x\<rfloor>" "\<lfloor>x\<rfloor> < 2 ^ 32" by (simp_all add: floor_less_iff)
    then have "\<lfloor>x\<rfloor> mod 2 ^ 32 = \<lfloor>x\<rfloor>" by simp
    with 2 bounds show ?thesis by (simp add: f32_as_u32_def uint_word_of_int)
  next
    case 3
    then have "2 ^ 32 \<le> \<lfloor>x\<rfloor>" by (simp add: le_floor_iff)
    moreover have "(0 :: rat) < 2 ^ 32" by simp
    with 3 have "\<not> x < 0" by linarith
    ultimately show ?thesis using 3 by (simp add: f32_as_u32_def unsigned_minus_1_eq_mask mask_eq_exp_minus_1)
  qed
qed

lemma max_log_files_size_mebi:
  assumes "memory_contract LP"
  shows "f32_as_u32 (mq_value (mq_floor LP (scale_to LP MAX_LOG_FILES_SIZE Mebi))) = 10"
proof -
  have "scale_to LP MAX_LOG_FILES_SIZE (mq_unit MAX_LOG_FILES_SIZE) = MAX_LOG_FILES_SIZE"
    using assms by (simp add: memory_contract_def)
  then have "scale_to LP MAX_LOG_FILES_SIZE Mebi = MAX_LOG_FILES_SIZE"
    by (simp add: MAX_LOG_FILES_SIZE_def)
  then have "mq_value (mq_floor LP (scale_to LP MAX_LOG_FILES_SIZE Mebi)) = 10"
    using assms by (simp add: memory_contract_def MAX_LOG_FILES_SIZE_def)
  then show ?thesis by (simp add: f32_as_u32_def)
qed

lemma resolve_no_config_map:
  "vector_aggregator_config_map_name (cluster_config (spec h)) = None \<Longrightarrow>
     resolve_vector_aggregator_address LP W h = io_lift (Inr None)"
  by (simp add: resolve_vector_aggregator_address_def)

lemma resolve_Inr_iff:
  "resolve_vector_aggregator_address LP W h cs = (Inr (Some address), cs') \<longleftrightarrow>
     (\<exists>cm ns data. vector_aggregator_config_map_name (cluster_config (spec h)) = Some cm \<and>
        resource_namespace LP h = Some ns \<and>
        answer_get_config_map W cs (client_get_config_map cm ns) = Inr (Some data) \<and>
        bt_get data ''ADDRESS'' = Some address \<and> cs' = cs @ [client_get_config_map cm ns])"
  by (auto simp: resolve_vector_aggregator_address_def io_calls result_simps Let_def
      VECTOR_AGGREGATOR_CM_ENTRY_def bind_eq_Some_conv split: option.splits)

lemma resolve_None_iff:
  "resolve_vector_aggregator_address LP W h cs = (Inr None, cs') \<longleftrightarrow>
     vector_aggregator_config_map_name (cluster_config (spec h)) = None \<and> cs' = cs"
  by (auto simp: resolve_vector_aggregator_address_def result_simps split: option.splits)

lemma extend_Inr_cases:
  assumes "extend_role_group_config_map LP rg addr lg cm = Inr cm'"
  shows "cm' = cm
      @ (case automatic_config (bt_get (containers lg) Hello) of
           Some lc \<Rightarrow> [cm_add_data LOGBACK_XML (logback_config LP lc)] | None \<Rightarrow> [])
      @ (if enable_vector_agent lg
         then [cm_add_data (VECTOR_CONFIG_FILE LP) (create_vector_config LP rg (the addr)
                (automatic_config (bt_get (containers lg) Vector)))] else [])
    \<and> (enable_vector_agent lg \<longrightarrow> addr \<noteq> None)"
  using assms unfolding extend_role_group_config_map_def Let_def
  by (auto simp: result_simps split: option.splits if_splits)

end
