(* ===== verification/Operations.thy ===== *)
theory Operations
  imports Operator_World
begin

text \<open>
  \<^verbatim>\<open>rust/operator-binary/src/operations\<close>: the graceful shutdown period of a pod and the
  PodDisruptionBudget of a role. The library's budget builder is a parameter.
\<close>

section \<open>Graceful shutdown\<close>

definition add_graceful_shutdown_config ::
  "builder_platform \<Rightarrow> hello_config \<Rightarrow> pod_call list \<Rightarrow> graceful_shutdown_error + pod_call list" where
  "add_graceful_shutdown_config B merged pod_builder =
     (case hc_graceful_shutdown_timeout merged of
        Some timeout \<Rightarrow>
          err_context (try_call (pod_err B) pod_builder (termination_grace_period timeout))
            SetTerminationGracePeriod
      | None \<Rightarrow> Inr pod_builder)"

lemma add_graceful_shutdown_Inr:
  "add_graceful_shutdown_config B m pb = Inr pb' \<Longrightarrow>
     pb' = pb @ (case hc_graceful_shutdown_timeout m of Some t \<Rightarrow> [termination_grace_period t] | None \<Rightarrow> [])"
  by (auto simp: add_graceful_shutdown_config_def result_simps split: option.splits)

section \<open>PodDisruptionBudget\<close>

record pdb_platform =
  new_with_role_err :: "hello_cluster \<Rightarrow> string \<Rightarrow> string \<Rightarrow> string \<Rightarrow> string \<Rightarrow> ext_error option"
  pdb_name_any :: "pod_disruption_budget \<Rightarrow> string"

definition max_unavailable_servers :: u16 where
  "max_unavailable_servers = 1"

definition pdb_max_unavailable_or_default :: "pdb_config \<Rightarrow> HelloRole \<Rightarrow> u16" where
  "pdb_max_unavailable_or_default pdb r =
     (case pdb_max_unavailable pdb of
        Some n \<Rightarrow> n
      | None \<Rightarrow> (case r of Server \<Rightarrow> max_unavailable_servers))"

definition build_pdb ::
  "pdb_platform \<Rightarrow> hello_cluster \<Rightarrow> HelloRole \<Rightarrow> u16 \<Rightarrow> pdb_error + pod_disruption_budget" where
  "build_pdb D hello r max_unavailable =
     fails_if
       (map_option (\<lambda>source. CreatePdb source (role_to_string r))
         (new_with_role_err D hello APP_NAME (role_to_string r) OPERATOR_NAME HELLO_CONTROLLER_NAME))
       \<lparr> pdb_owner = hello, pdb_app_name = APP_NAME, pdb_role = role_to_string r,
         pdb_operator_name = OPERATOR_NAME, pdb_controller_name = HELLO_CONTROLLER_NAME,
         pdb_with_max_unavailable = max_unavailable \<rparr>"

definition add_pdbs ::
  "pdb_platform \<Rightarrow> world \<Rightarrow> pdb_config \<Rightarrow> hello_cluster \<Rightarrow> HelloRole \<Rightarrow> cluster_resources
     \<Rightarrow> (call, pdb_error, unit) io" where
  "add_pdbs D W pdb hello r cluster_resources =
     (if \<not> pdb_enabled pdb then io_lift (Inr ())
      else
        io_bind (io_lift (build_pdb D hello r (pdb_max_unavailable_or_default pdb r))) (\<lambda>budget.
        io_bind (io_context (io_add W cluster_resources (K_PodDisruptionBudget budget))
            (\<lambda>source. ApplyPdb source (pdb_name_any D budget))) (\<lambda>_.
        io_lift (Inr ()))))"

text \<open>The budget that \<open>add_pdbs\<close> applies, when it applies one.\<close>

definition role_budget :: "pdb_config \<Rightarrow> hello_cluster \<Rightarrow> HelloRole \<Rightarrow> pod_disruption_budget" where
  "role_budget pdb hello r =
     \<lparr> pdb_owner = hello, pdb_app_name = APP_NAME, pdb_role = role_to_string r,
       pdb_operator_name = OPERATOR_NAME, pdb_controller_name = HELLO_CONTROLLER_NAME,
       pdb_with_max_unavailable = pdb_max_unavailable_or_default pdb r \<rparr>"

lemma build_pdb_Inr: "build_pdb D h r (pdb_max_unavailable_or_default pdb r) = Inr b \<Longrightarrow> b = role_budget pdb h r"
  by (auto simp: build_pdb_def role_budget_def result_simps)

lemma add_pdbs_Inr:
  "add_pdbs D W pdb h r cr cs = (Inr u, cs') \<Longrightarrow>
     cs' = cs @ (if pdb_enabled pdb then [cr_add cr (K_PodDisruptionBudget (role_budget pdb h r))] else [])"
  by (auto simp: add_pdbs_def io_calls Let_def result_simps dest: build_pdb_Inr split: if_splits)

end
