(* ===== verification/Controller_Build.thy ===== *)
theory Controller_Build
  imports Product_Logging Operations
begin

text \<open>
  The pure half of \<^verbatim>\<open>rust/operator-binary/src/controller.rs\<close>: building the Services, the
  ConfigMap and the StatefulSet of a cluster from its specification, its merged
  configuration and the validated product properties.
\<close>

record kube_platform =
  to_java_properties_string :: "(string \<times> string option) list \<Rightarrow> ext_error + string"
  role_selector :: "hello_cluster \<Rightarrow> string \<Rightarrow> string \<Rightarrow> ext_error + str_map"
  role_group_selector :: "hello_cluster \<Rightarrow> string \<Rightarrow> string \<Rightarrow> string \<Rightarrow> ext_error + str_map"
  container_new_err :: "string \<Rightarrow> ext_error option"
  COMMON_BASH_TRAP_FUNCTIONS :: string
  create_vector_shutdown_file_command :: "string \<Rightarrow> string"
  remove_vector_shutdown_file_command :: "string \<Rightarrow> string"

text \<open>All the library functions the operator calls, by the part that calls them.\<close>

record platform =
  P_crd :: crd_platform
  P_builders :: builder_platform
  P_logging :: logging_platform
  P_pdb :: pdb_platform
  P_kube :: kube_platform

section \<open>Labels, ports, metadata\<close>

text \<open>\<open>i32::from\<close> on a \<open>u16\<close>.\<close>

definition i32_from_u16 :: "u16 \<Rightarrow> i32" where
  "i32_from_u16 w = ucast w"

definition service_ports :: "service_port list" where
  "service_ports =
     [\<lparr> sp_name = Some HTTP_PORT_NAME, sp_port = i32_from_u16 HTTP_PORT, sp_protocol = Some ''TCP'' \<rparr>]"

definition build_recommended_labels ::
  "hello_cluster \<Rightarrow> string \<Rightarrow> string \<Rightarrow> string \<Rightarrow> object_labels" where
  "build_recommended_labels owner app_version r rg =
     \<lparr> lb_owner = owner, lb_app_name = APP_NAME, lb_app_version = app_version,
       lb_operator_name = OPERATOR_NAME, lb_controller_name = HELLO_CONTROLLER_NAME,
       lb_role = r, lb_role_group = rg \<rparr>"

text \<open>
  The chain that every applied object's metadata goes through:
  \<open>name_and_namespace\<close>, \<open>name\<close>, \<open>ownerreference_from_resource\<close>, \<open>with_recommended_labels\<close>.
\<close>

definition object_metadata ::
  "builder_platform \<Rightarrow> hello_cluster \<Rightarrow> string \<Rightarrow> object_labels \<Rightarrow> controller_error + built_meta" where
  "object_metadata B hello name labels =
     (let m = [name_and_namespace hello, meta_name name] in
      and_then (err_context
          (try_call (meta_err B) m (ownerreference_from_resource hello None (Some True)))
          ObjectMissingMetadataForOwnerRef) (\<lambda>m.
      err_context (try_call (meta_err B) m (with_recommended_labels labels)) MetadataBuild))"

section \<open>Services\<close>

definition build_server_role_service ::
  "platform \<Rightarrow> hello_cluster \<Rightarrow> resolved_product_image \<Rightarrow> controller_error + service" where
  "build_server_role_service P hello resolved_product_image =
     (let role_name = role_to_string Server in
      and_then (or_missing (server_role_service_name hello) GlobalServiceNameNotFound) (\<lambda>role_svc_name.
      and_then (object_metadata (P_builders P) hello role_svc_name
          (build_recommended_labels hello (ri_app_version_label resolved_product_image)
            role_name ''global'')) (\<lambda>meta.
      and_then (err_context (role_selector (P_kube P) hello APP_NAME role_name) LabelBuild) (\<lambda>sel.
      Inr \<lparr> service_metadata = meta,
            service_spec_of = Some
              \<lparr> svc_type = Some (k8s_service_type (listener_class (cluster_config (spec hello)))),
                cluster_ip = None,
                ports = Some service_ports,
                selector = Some sel,
                publish_not_ready_addresses = None \<rparr> \<rparr>))))"

definition build_rolegroup_service ::
  "platform \<Rightarrow> hello_cluster \<Rightarrow> resolved_product_image \<Rightarrow> rolegroup_ref \<Rightarrow> controller_error + service" where
  "build_rolegroup_service P hello resolved_product_image rolegroup =
     and_then (object_metadata (P_builders P) hello (object_name (P_crd P) rolegroup)
          (build_recommended_labels hello (ri_app_version_label resolved_product_image)
            (rgr_role rolegroup) (rgr_role_group rolegroup))) (\<lambda>meta.
     and_then (err_context (role_group_selector (P_kube P) hello APP_NAME
            (rgr_role rolegroup) (rgr_role_group rolegroup)) LabelBuild) (\<lambda>sel.
     Inr \<lparr> service_metadata = meta,
           service_spec_of = Some
             \<lparr> svc_type = Some ''ClusterIP'',
               cluster_ip = Some ''None'',
               ports = Some service_ports,
               selector = Some sel,
               publish_not_ready_addresses = Some True \<rparr> \<rparr>))"

section \<open>The ConfigMap\<close>

text \<open>\<open>.map(|(k, v)| (k, Some(v))).collect()\<close> on an ordered map keeps its order.\<close>

definition all_some :: "str_map \<Rightarrow> (string \<times> string option) list" where
  "all_some m = map (\<lambda>(k, v). (k, Some v)) m"

text \<open>The loop over the (hashed) role group properties that writes the application properties.\<close>

fun application_properties_loop ::
  "kube_platform \<Rightarrow> role_group_properties \<Rightarrow> string \<Rightarrow> controller_error + string" where
  "application_properties_loop K [] acc = Inr acc"
| "application_properties_loop K ((kind, config) # rest) acc =
     (case kind of
        File file_name \<Rightarrow>
          (if file_name = APPLICATION_PROPERTIES
           then and_then (err_context (to_java_properties_string K (all_some config)) PropertiesWriteError)
             (application_properties_loop K rest)
           else application_properties_loop K rest acc)
      | _ \<Rightarrow> application_properties_loop K rest acc)"

definition jvm_sec_props :: "role_group_properties \<Rightarrow> (string \<times> string option) list" where
  "jvm_sec_props role_group_config =
     all_some (case hm_get role_group_config (File JVM_SECURITY_PROPERTIES) of Some m \<Rightarrow> m | None \<Rightarrow> [])"

definition build_server_rolegroup_config_map ::
  "platform \<Rightarrow> hello_cluster \<Rightarrow> resolved_product_image \<Rightarrow> rolegroup_ref \<Rightarrow> role_group_properties
     \<Rightarrow> hello_config \<Rightarrow> string option \<Rightarrow> controller_error + config_map" where
  "build_server_rolegroup_config_map P hello resolved_product_image rolegroup role_group_config
       merged vector_aggregator_address =
     and_then (application_properties_loop (P_kube P) role_group_config '''') (\<lambda>application_properties.
     and_then (object_metadata (P_builders P) hello (object_name (P_crd P) rolegroup)
          (build_recommended_labels hello (ri_app_version_label resolved_product_image)
            (rgr_role rolegroup) (rgr_role_group rolegroup))) (\<lambda>meta.
     and_then (err_context (to_java_properties_string (P_kube P) (jvm_sec_props role_group_config))
          (\<lambda>source. JvmSecurityProperties source (rgr_role_group rolegroup))) (\<lambda>jvm_properties.
     let cm_builder = [cm_metadata meta,
                       cm_add_data APPLICATION_PROPERTIES application_properties,
                       cm_add_data JVM_SECURITY_PROPERTIES jvm_properties] in
     and_then (err_context (extend_role_group_config_map (P_logging P) rolegroup
            vector_aggregator_address (hc_logging merged) cm_builder)
          (\<lambda>source. InvalidLoggingConfig source (object_name (P_crd P) rolegroup))) (\<lambda>cm_builder.
     fails_if (map_option (\<lambda>source. BuildRoleGroupConfig source rolegroup)
         (config_map_err (P_builders P) cm_builder)) cm_builder))))"

section \<open>The StatefulSet\<close>

subsection \<open>The hello container\<close>

fun push_env_vars :: "(string \<times> string) list \<Rightarrow> container_call list \<Rightarrow> container_call list" where
  "push_env_vars [] cb = cb"
| "push_env_vars ((property_name, property_value) # rest) cb =
     (if property_name = '''' then push_env_vars rest cb
      else push_env_vars rest (cb @ [add_env_var property_name property_value]))"

fun env_overrides_loop :: "role_group_properties \<Rightarrow> container_call list \<Rightarrow> container_call list" where
  "env_overrides_loop [] cb = cb"
| "env_overrides_loop ((kind, config) # rest) cb =
     env_overrides_loop rest (if kind = Env then push_env_vars config cb else cb)"

definition hello_command :: "kube_platform \<Rightarrow> string list" where
  "hello_command K =
     [COMMON_BASH_TRAP_FUNCTIONS K,
      remove_vector_shutdown_file_command K STACKABLE_LOG_DIR,
      ''prepare_signal_handlers'',
      ''containerdebug --output='' @ STACKABLE_LOG_DIR @ ''/containerdebug-state.json --loop &'',
      ''java -Djava.security.properties='' @ STACKABLE_CONFIG_DIR @ ''/'' @ JVM_SECURITY_PROPERTIES
        @ '' -Xmx100M -jar hello-world.jar &'',
      ''wait_for_termination $!'',
      create_vector_shutdown_file_command K STACKABLE_LOG_DIR]"

definition join_lines :: "string list \<Rightarrow> string" where
  "join_lines ls = (case ls of [] \<Rightarrow> '''' | l # rest \<Rightarrow> l @ concat (map (\<lambda>s. CHR 0x0A # s) rest))"

definition hello_readiness_probe :: probe where
  "hello_readiness_probe =
     \<lparr> initial_delay_seconds = Some 10, period_seconds = Some 10, failure_threshold = Some 5,
       tcp_socket_port = Some (StringValue HTTP_PORT_NAME) \<rparr>"

definition hello_liveness_probe :: probe where
  "hello_liveness_probe =
     \<lparr> initial_delay_seconds = Some 30, period_seconds = Some 10, failure_threshold = None,
       tcp_socket_port = Some (StringValue HTTP_PORT_NAME) \<rparr>"

definition hello_container ::
  "platform \<Rightarrow> resolved_product_image \<Rightarrow> role_group_properties \<Rightarrow> hello_config
     \<Rightarrow> controller_error + container" where
  "hello_container P resolved_product_image rolegroup_config merged =
     and_then (fails_if (map_option (\<lambda>source. FailedToCreateHelloContainer source APP_NAME)
          (container_new_err (P_kube P) APP_NAME)) [container_new APP_NAME]) (\<lambda>cb.
     let cb = env_overrides_loop rolegroup_config cb;
         cb = cb @ [add_env_var ''CONTAINERDEBUG_LOG_DIRECTORY'' (STACKABLE_LOG_DIR @ ''/containerdebug'')];
         cb = cb @ [command [''/bin/bash'', ''-x'', ''-euo'', ''pipefail'', ''-c''],
                    args [join_lines (hello_command (P_kube P))],
                    image_from_product_image resolved_product_image] in
     and_then (err_context (try_call (container_err (P_builders P)) cb
          (add_volume_mount STACKABLE_CONFIG_DIR_NAME STACKABLE_CONFIG_DIR)) AddVolumeMount) (\<lambda>cb.
     and_then (err_context (try_call (container_err (P_builders P)) cb
          (add_volume_mount STACKABLE_LOG_DIR_NAME STACKABLE_LOG_DIR)) AddVolumeMount) (\<lambda>cb.
     and_then (err_context (try_call (container_err (P_builders P)) cb
          (add_volume_mount STACKABLE_LOG_CONFIG_MOUNT_DIR_NAME STACKABLE_LOG_CONFIG_MOUNT_DIR))
          AddVolumeMount) (\<lambda>cb.
     Inr (container_built (cb @
       [add_container_port HTTP_PORT_NAME (i32_from_u16 HTTP_PORT),
        container_resources (resources_into (hc_resources merged)),
        readiness_probe hello_readiness_probe,
        liveness_probe hello_liveness_probe]))))))"

subsection \<open>The pod template\<close>

definition config_map_volume :: "string \<Rightarrow> string \<Rightarrow> volume" where
  "config_map_volume volume_name cm_name =
     \<lparr> vol_name = volume_name, vol_config_map = Some cm_name, vol_empty_dir = None \<rparr>"

definition log_volume :: "logging_platform \<Rightarrow> volume" where
  "log_volume LP =
     \<lparr> vol_name = STACKABLE_LOG_DIR_NAME, vol_config_map = None,
       vol_empty_dir = Some \<lparr> ed_medium = None,
         ed_size_limit = Some (calculate_log_volume_size_limit LP [MAX_LOG_FILES_SIZE]) \<rparr> \<rparr>"

text \<open>A custom logging ConfigMap is mounted if the hello container has one, the role group's otherwise.\<close>

definition log_config_volume :: "platform \<Rightarrow> hello_config \<Rightarrow> rolegroup_ref \<Rightarrow> volume" where
  "log_config_volume P merged rgref =
     (case bt_get (containers (hc_logging merged)) Hello of
        Some clc \<Rightarrow>
          (case choice clc of
             Some (Custom cm) \<Rightarrow> config_map_volume STACKABLE_LOG_CONFIG_MOUNT_DIR_NAME cm
           | _ \<Rightarrow> config_map_volume STACKABLE_LOG_CONFIG_MOUNT_DIR_NAME (object_name (P_crd P) rgref))
      | None \<Rightarrow> config_map_volume STACKABLE_LOG_CONFIG_MOUNT_DIR_NAME (object_name (P_crd P) rgref))"

definition vector_agent_container :: "resolved_product_image \<Rightarrow> hello_config \<Rightarrow> container" where
  "vector_agent_container resolved_product_image merged =
     vector_container resolved_product_image STACKABLE_CONFIG_DIR_NAME STACKABLE_LOG_DIR_NAME
       (bt_get (containers (hc_logging merged)) Vector)
       (resources_built [with_cpu_request ''250m'', with_cpu_limit ''500m'',
          with_memory_request ''128Mi'', with_memory_limit ''128Mi''])"

definition hello_pod_template ::
  "platform \<Rightarrow> hello_cluster \<Rightarrow> resolved_product_image \<Rightarrow> rolegroup_ref \<Rightarrow> hello_config \<Rightarrow> string
     \<Rightarrow> container \<Rightarrow> controller_error + pod_call list" where
  "hello_pod_template P hello resolved_product_image role_group_ref merged sa_name container_hello =
     (let try_volume = (\<lambda>pb v. err_context (try_call (pod_err (P_builders P)) pb (add_volume v)) AddVolume) in
      and_then (err_context (add_graceful_shutdown_config (P_builders P) merged []) GracefulShutdown) (\<lambda>pb.
      and_then (err_context (try_call (meta_err (P_builders P)) []
          (with_recommended_labels (build_recommended_labels hello
            (ri_app_version_label resolved_product_image)
            (rgr_role role_group_ref) (rgr_role_group role_group_ref)))) MetadataBuild) (\<lambda>meta.
      let pb = pb @ [pod_metadata meta,
                     image_pull_secrets_from_product_image resolved_product_image,
                     add_container container_hello] in
      and_then (try_volume pb
          (config_map_volume STACKABLE_CONFIG_DIR_NAME (object_name (P_crd P) role_group_ref))) (\<lambda>pb.
      and_then (try_volume pb (log_volume (P_logging P))) (\<lambda>pb.
      let pb = pb @ [affinity (hc_affinity merged), service_account_name sa_name] in
      and_then (try_volume pb (log_config_volume P merged role_group_ref)) (\<lambda>pb.
      if enable_vector_agent (hc_logging merged)
      then let vector = vector_agent_container resolved_product_image merged in
        fails_if (map_option ConfigureLogging (vector_container_err (P_builders P) vector))
          (pb @ [add_container vector])
      else Inr pb))))))"

subsection \<open>The StatefulSet\<close>

definition hello_stateful_set ::
  "platform \<Rightarrow> hello_cluster \<Rightarrow> resolved_product_image \<Rightarrow> rolegroup_ref \<Rightarrow> hello_config_fragment role
     \<Rightarrow> hello_config_fragment role_group \<Rightarrow> hello_config \<Rightarrow> pod_call list \<Rightarrow> controller_error + stateful_set" where
  "hello_stateful_set P hello resolved_product_image role_group_ref r rg merged pod_builder =
     (let pod_template = build_template pod_builder;
          pod_template = merge_from pod_template (cc_pod_overrides (role_config_common r));
          pod_template = merge_from pod_template (cc_pod_overrides (rg_config rg)) in
      and_then (object_metadata (P_builders P) hello (object_name (P_crd P) role_group_ref)
           (build_recommended_labels hello (ri_app_version_label resolved_product_image)
             (rgr_role role_group_ref) (rgr_role_group role_group_ref))) (\<lambda>meta.
      and_then (err_context (role_group_selector (P_kube P) hello APP_NAME
           (rgr_role role_group_ref) (rgr_role_group role_group_ref)) LabelBuild) (\<lambda>sel.
      Inr \<lparr> sts_metadata = meta,
            sts_spec = Some
              \<lparr> pod_management_policy = Some ''Parallel'',
                replicas = map_option i32_from_u16 (rg_replicas rg),
                match_labels = Some sel,
                service_name = object_name (P_crd P) role_group_ref,
                template = pod_template,
                volume_claim_templates = Some [build_pvc (ssc_data (res_storage (hc_resources merged)))
                  ''data'' (Some [''ReadWriteOnce''])] \<rparr> \<rparr>)))"

definition build_server_rolegroup_statefulset ::
  "platform \<Rightarrow> hello_cluster \<Rightarrow> resolved_product_image \<Rightarrow> HelloRole \<Rightarrow> rolegroup_ref
     \<Rightarrow> role_group_properties \<Rightarrow> hello_config \<Rightarrow> string \<Rightarrow> controller_error + stateful_set" where
  "build_server_rolegroup_statefulset P hello resolved_product_image hello_role role_group_ref
       rolegroup_config merged sa_name =
     and_then (err_context (role hello hello_role) InternalOperatorFailure) (\<lambda>r.
     and_then (err_context (role_group hello role_group_ref) InternalOperatorFailure) (\<lambda>rg.
     and_then (hello_container P resolved_product_image rolegroup_config merged) (\<lambda>container_hello.
     and_then (hello_pod_template P hello resolved_product_image role_group_ref merged sa_name
         container_hello) (\<lambda>pod_builder.
     hello_stateful_set P hello resolved_product_image role_group_ref r rg merged pod_builder))))"

end
