(* ===== verification/Reconcile.thy ===== *)
theory Reconcile
  imports Controller_Build
begin

text \<open>
  \<open>reconcile_hello\<close> of \<^verbatim>\<open>rust/operator-binary/src/controller.rs\<close>: from a (possibly undecodable)
  HelloCluster to the sequence of calls that brings the cluster to its specification. The
  code before the first call is a pure prefix; the rest is a function over traces
  (\<open>Trace_Monad\<close>), with the early returns of every \<open>?\<close>.
\<close>

section \<open>The library's side\<close>

text \<open>The \<open>Configuration\<close> trait as the dictionary of the functions the library calls back.\<close>

record configuration_impl =
  impl_compute_env :: "hello_config_fragment \<Rightarrow> hello_cluster \<Rightarrow> string \<Rightarrow> ext_error + property_map"
  impl_compute_cli :: "hello_config_fragment \<Rightarrow> hello_cluster \<Rightarrow> string \<Rightarrow> ext_error + property_map"
  impl_compute_files ::
    "hello_config_fragment \<Rightarrow> hello_cluster \<Rightarrow> string \<Rightarrow> string \<Rightarrow> ext_error + property_map"

definition hello_configuration :: configuration_impl where
  "hello_configuration =
     \<lparr> impl_compute_env = compute_env, impl_compute_cli = compute_cli,
       impl_compute_files = compute_files \<rparr>"

type_synonym role_request =
  "(string, property_name_kind list \<times> hello_config_fragment role) hash_map"

text \<open>
  The library as it behaves in one run: a hash map it returns is listed in the order in which it
  is iterated in that run, which differs from run to run. (What two runs for the same input have
  in common is \<open>reordered_library\<close> of \<open>Hash_Order\<close>.) The intermediate result of \<open>transform_all_roles_to_config\<close> and the product configuration
  manager are only handed on and stay uninterpreted.
\<close>

record reconcile_platform =
  image_resolve :: "product_image \<Rightarrow> string \<Rightarrow> string \<Rightarrow> resolved_product_image"
  PKG_VERSION :: string
  transform_all_roles_to_config ::
    "configuration_impl \<Rightarrow> hello_cluster \<Rightarrow> role_request \<Rightarrow> ext_error + json"
  validate_all_roles_and_groups_config ::
    "string \<Rightarrow> json \<Rightarrow> json \<Rightarrow> bool \<Rightarrow> bool \<Rightarrow> ext_error + (string, role_properties) hash_map"
  cluster_resources_new_err :: "cluster_resources \<Rightarrow> ext_error option"
  get_required_labels :: "cluster_resources \<Rightarrow> ext_error + str_map"
  build_rbac_resources :: "hello_cluster \<Rightarrow> string \<Rightarrow> str_map \<Rightarrow> ext_error + json \<times> json"
  sa_name_any :: "json \<Rightarrow> string"
  compute_conditions :: "hello_cluster \<Rightarrow> json list \<Rightarrow> cluster_operation \<Rightarrow> cluster_condition list"

section \<open>Before the first call\<close>

definition hello_resolved_image :: "reconcile_platform \<Rightarrow> hello_cluster \<Rightarrow> resolved_product_image" where
  "hello_resolved_image R hello =
     image_resolve R (image (spec hello)) DOCKER_IMAGE_BASE_NAME (PKG_VERSION R)"

definition role_request_of :: "hello_config_fragment role \<Rightarrow> role_request" where
  "role_request_of server_role =
     [(role_to_string Server,
       ([Env, Cli, File APPLICATION_PROPERTIES, File JVM_SECURITY_PROPERTIES], server_role))]"

definition server_config_of ::
  "reconcile_platform \<Rightarrow> json \<Rightarrow> hello_cluster \<Rightarrow> controller_error + role_properties" where
  "server_config_of R product_config hello =
     and_then (or_missing (servers (spec hello)) NoServerRole) (\<lambda>server_role.
     and_then (err_context (transform_all_roles_to_config R hello_configuration hello
          (role_request_of server_role)) GenerateProductConfig) (\<lambda>transformed.
     and_then (err_context (validate_all_roles_and_groups_config R
          (ri_product_version (hello_resolved_image R hello)) transformed product_config False False)
          InvalidProductConfig) (\<lambda>validated_config.
     Inr (case hm_get validated_config (role_to_string Server) of Some m \<Rightarrow> m | None \<Rightarrow> []))))"

definition hello_cluster_resources :: "hello_cluster \<Rightarrow> cluster_resources" where
  "hello_cluster_resources hello =
     \<lparr> cr_app_name = APP_NAME, cr_operator_name = OPERATOR_NAME,
       cr_controller_name = HELLO_CONTROLLER_NAME, cr_cluster = hello,
       cr_apply_strategy = cluster_operation_of (spec hello) \<rparr>"

definition rbac_resources :: "reconcile_platform \<Rightarrow> hello_cluster \<Rightarrow> controller_error + json \<times> json" where
  "rbac_resources R hello =
     (let cluster_resources = hello_cluster_resources hello in
      and_then (fails_if (map_option CreateClusterResources
          (cluster_resources_new_err R cluster_resources)) cluster_resources) (\<lambda>cr.
      and_then (err_context (get_required_labels R cr) GetRequiredLabels) (\<lambda>labels.
      err_context (build_rbac_resources R hello APP_NAME labels) BuildRbacResources)))"

section \<open>One role group\<close>

definition build_role_group ::
  "platform \<Rightarrow> hello_cluster \<Rightarrow> resolved_product_image \<Rightarrow> string option \<Rightarrow> string
     \<Rightarrow> string \<times> role_group_properties \<Rightarrow> controller_error + service \<times> config_map \<times> stateful_set" where
  "build_role_group P hello img address sa_name rg =
     (case rg of (rolegroup_name, rolegroup_config) \<Rightarrow>
      let role_group_ref = server_rolegroup_ref hello rolegroup_name in
      and_then (err_context (merged_config (P_crd P) hello Server role_group_ref)
          FailedToResolveResourceConfig) (\<lambda>config.
      and_then (build_rolegroup_service P hello img role_group_ref) (\<lambda>rg_service.
      and_then (build_server_rolegroup_config_map P hello img role_group_ref rolegroup_config config
          address) (\<lambda>rg_configmap.
      and_then (build_server_rolegroup_statefulset P hello img Server role_group_ref rolegroup_config
          config sa_name) (\<lambda>rg_statefulset.
      Inr (rg_service, rg_configmap, rg_statefulset))))))"

definition reconcile_role_group ::
  "platform \<Rightarrow> world \<Rightarrow> hello_cluster \<Rightarrow> resolved_product_image \<Rightarrow> string option \<Rightarrow> string
     \<Rightarrow> string \<times> role_group_properties \<Rightarrow> json list \<Rightarrow> (call, controller_error, json list) io" where
  "reconcile_role_group P W hello img address sa_name rg ss_cond_builder =
     (let role_group_ref = server_rolegroup_ref hello (fst rg);
          cr = hello_cluster_resources hello in
      io_bind (io_lift (build_role_group P hello img address sa_name rg))
        (\<lambda>(rg_service, rg_configmap, rg_statefulset).
      io_bind (io_context (io_add W cr (K_Service rg_service))
          (\<lambda>source. ApplyRoleGroupService source role_group_ref)) (\<lambda>_.
      io_bind (io_context (io_add W cr (K_ConfigMap rg_configmap))
          (\<lambda>source. ApplyRoleGroupConfig source role_group_ref)) (\<lambda>_.
      io_bind (io_context (io_add W cr (K_StatefulSet rg_statefulset))
          (\<lambda>source. ApplyRoleGroupStatefulSet source role_group_ref)) (\<lambda>applied_sts.
      io_lift (Inr (ss_cond_builder @ [applied_sts])))))))"

fun reconcile_role_groups ::
  "platform \<Rightarrow> world \<Rightarrow> hello_cluster \<Rightarrow> resolved_product_image \<Rightarrow> string option \<Rightarrow> string
     \<Rightarrow> role_properties \<Rightarrow> json list \<Rightarrow> (call, controller_error, json list) io" where
  "reconcile_role_groups P W hello img address sa_name [] ss_cond_builder =
     io_lift (Inr ss_cond_builder)"
| "reconcile_role_groups P W hello img address sa_name (rg # rest) ss_cond_builder =
     io_bind (reconcile_role_group P W hello img address sa_name rg ss_cond_builder)
       (reconcile_role_groups P W hello img address sa_name rest)"

section \<open>The stages\<close>

definition apply_rbac ::
  "world \<Rightarrow> hello_cluster \<Rightarrow> json \<times> json \<Rightarrow> (call, controller_error, json) io" where
  "apply_rbac W hello rbac =
     (let cr = hello_cluster_resources hello in
      io_bind (io_context (io_add W cr (K_ServiceAccount (fst rbac))) ApplyServiceAccount) (\<lambda>rbac_sa.
      io_bind (io_context (io_add W cr (K_RoleBinding (snd rbac))) ApplyRoleBinding) (\<lambda>_.
      io_lift (Inr rbac_sa))))"

definition apply_role_service ::
  "platform \<Rightarrow> world \<Rightarrow> hello_cluster \<Rightarrow> resolved_product_image \<Rightarrow> (call, controller_error, unit) io" where
  "apply_role_service P W hello img =
     io_bind (io_lift (build_server_role_service P hello img)) (\<lambda>server_role_service.
     io_bind (io_context (io_add W (hello_cluster_resources hello) (K_Service server_role_service))
         ApplyRoleService) (\<lambda>_.
     io_lift (Inr ())))"

definition apply_budget :: "platform \<Rightarrow> world \<Rightarrow> hello_cluster \<Rightarrow> (call, controller_error, unit) io" where
  "apply_budget P W hello =
     (case role_config hello Server of
        Some rc \<Rightarrow>
          io_context (add_pdbs (P_pdb P) W (pod_disruption_budget rc) hello Server
              (hello_cluster_resources hello)) FailedToCreatePdb
      | None \<Rightarrow> io_lift (Inr ()))"

definition reconciled_status :: "reconcile_platform \<Rightarrow> hello_cluster \<Rightarrow> json list \<Rightarrow> hello_cluster_status" where
  "reconciled_status R hello ss_cond_builder =
     \<lparr> conditions_of = compute_conditions R hello ss_cond_builder (cluster_operation_of (spec hello)) \<rparr>"

definition finish_reconcile ::
  "reconcile_platform \<Rightarrow> world \<Rightarrow> hello_cluster \<Rightarrow> json list \<Rightarrow> (call, controller_error, action) io" where
  "finish_reconcile R W hello ss_cond_builder =
     io_bind (io_context (io_patch_status W OPERATOR_NAME hello (reconciled_status R hello ss_cond_builder))
         ApplyStatus) (\<lambda>_.
     io_bind (io_context (io_delete_orphaned W (hello_cluster_resources hello)) DeleteOrphanedResources) (\<lambda>_.
     io_lift (Inr await_change)))"

section \<open>The reconciler\<close>

text \<open>\<open>hello\<close> is the deserialize guard's content: the cluster, or why it could not be decoded.\<close>

definition reconcile_hello ::
  "platform \<Rightarrow> reconcile_platform \<Rightarrow> world \<Rightarrow> json \<Rightarrow> ext_error + hello_cluster
     \<Rightarrow> (call, controller_error, action) io" where
  "reconcile_hello P R W product_config guarded =
     io_bind (io_lift (err_context guarded InvalidHelloCluster)) (\<lambda>hello.
     let img = hello_resolved_image R hello in
     io_bind (io_lift (server_config_of R product_config hello)) (\<lambda>server_config.
     io_bind (io_lift (rbac_resources R hello)) (\<lambda>rbac.
     io_bind (apply_rbac W hello rbac) (\<lambda>rbac_sa.
     io_bind (apply_role_service P W hello img) (\<lambda>_.
     io_bind (io_context (resolve_vector_aggregator_address (P_logging P) W hello)
         ResolveVectorAggregatorAddress) (\<lambda>vector_aggregator_address.
     io_bind (reconcile_role_groups P W hello img vector_aggregator_address (sa_name_any R rbac_sa)
         server_config []) (\<lambda>ss_cond_builder.
     io_bind (apply_budget P W hello) (\<lambda>_.
     finish_reconcile R W hello ss_cond_builder))))))))"

text \<open>
  What the controller runtime does with the outcome, as \<open>Controller::run\<close> is given it: the
  reconciler's action, or the one the error policy chooses.
\<close>

definition next_action :: "controller_error + action \<Rightarrow> action" where
  "next_action r = (case r of Inr a \<Rightarrow> a | Inl e \<Rightarrow> error_policy e)"

end
