(* ===== verification/Reconcile_Protocol.thy ===== *)
theory Reconcile_Protocol
  imports Reconcile
begin

text \<open>
  The order in which a reconciliation may call the cluster, as a labelled step relation over
  phases, and the proof that \<open>reconcile_hello\<close> keeps to it whatever the world answers. The
  deletion of orphaned objects closes the protocol: nothing may follow it, and only the
  status update may come right before it.
\<close>

datatype phase =
    P_Start | P_Account | P_Rbac | P_RoleService | P_Address
  | P_GroupService | P_GroupConfig | P_Groups | P_Budget | P_Status | P_Done

text \<open>The phases in which the next role group, the budget or the status may follow.\<close>

fun before_groups :: "phase \<Rightarrow> bool" where
  "before_groups P_RoleService = True"
| "before_groups P_Address = True"
| "before_groups P_Groups = True"
| "before_groups _ = False"

inductive phase_step :: "phase \<Rightarrow> call \<Rightarrow> phase \<Rightarrow> bool" where
  step_account: "phase_step P_Start (cr_add cr (K_ServiceAccount a)) P_Account"
| step_binding: "phase_step P_Account (cr_add cr (K_RoleBinding b)) P_Rbac"
| step_role_service: "phase_step P_Rbac (cr_add cr (K_Service s)) P_RoleService"
| step_address: "phase_step P_RoleService (client_get_config_map n ns) P_Address"
| step_group_service: "before_groups p \<Longrightarrow>
    phase_step p (cr_add cr (K_Service s)) P_GroupService"
| step_group_config: "phase_step P_GroupService (cr_add cr (K_ConfigMap c)) P_GroupConfig"
| step_group_set: "phase_step P_GroupConfig (cr_add cr (K_StatefulSet t)) P_Groups"
| step_budget: "before_groups p \<Longrightarrow>
    phase_step p (cr_add cr (K_PodDisruptionBudget b)) P_Budget"
| step_status: "before_groups p \<or> p = P_Budget \<Longrightarrow>
    phase_step p (apply_patch_status m h st) P_Status"
| step_delete: "phase_step P_Status (delete_orphaned_resources cr) P_Done"

inductive_cases phase_step_from_status: "phase_step P_Status c q"
inductive_cases phase_step_from_done: "phase_step P_Done c q"
inductive_cases phase_step_delete: "phase_step p (delete_orphaned_resources cr) q"
inductive_cases phase_step_to_done: "phase_step p c P_Done"
inductive_cases phase_step_to_status: "phase_step p c P_Status"

fun is_delete :: "call \<Rightarrow> bool" where
  "is_delete (delete_orphaned_resources _) = True"
| "is_delete _ = False"

interpretation orphan_deletion: closing_protocol phase_step is_delete "\<lambda>p. p = P_Done"
proof unfold_locales
  fix p c q
  show "phase_step p c q \<Longrightarrow> is_delete c \<Longrightarrow> q = P_Done"
    by (cases c) (auto elim: phase_step_delete)
  show "p = P_Done \<Longrightarrow> \<not> phase_step p c q"
    by (auto elim: phase_step_from_done)
  show "phase_step p c q \<Longrightarrow> q = P_Done \<Longrightarrow> is_delete c"
    by (auto elim: phase_step_to_done)
qed

section \<open>The stages keep to the protocol\<close>

abbreviation not_done :: "phase \<Rightarrow> bool" where
  "not_done p \<equiv> p \<noteq> P_Done"

text \<open>
  Two errors tell where a run ended: before it began, because the object could not be
  decoded, and at the deletion. Every other step leaves the run unfinished with another error.
\<close>

fun reserved_error :: "controller_error \<Rightarrow> bool" where
  "reserved_error (DeleteOrphanedResources _) = True"
| "reserved_error (InvalidHelloCluster _) = True"
| "reserved_error _ = False"

abbreviation early_error :: "controller_error \<Rightarrow> phase \<Rightarrow> bool" where
  "early_error e q \<equiv> not_done q \<and> \<not> reserved_error e"

lemma before_groups_not_done: "before_groups p \<Longrightarrow> not_done p"
  by auto

text \<open>No builder's error is one of the two.\<close>

lemma metadata_error:
  "object_metadata B h n l = Inl e \<Longrightarrow> \<not> reserved_error e"
  by (auto simp: object_metadata_def Let_def result_simps)

lemma role_service_error:
  "build_server_role_service P h img = Inl e \<Longrightarrow> \<not> reserved_error e"
  by (auto simp: build_server_role_service_def Let_def result_simps dest: metadata_error)

lemma rolegroup_service_error:
  "build_rolegroup_service P h img rg = Inl e \<Longrightarrow> \<not> reserved_error e"
  by (auto simp: build_rolegroup_service_def Let_def result_simps dest: metadata_error)

lemma application_properties_error:
  "application_properties_loop K cfg acc = Inl e \<Longrightarrow> \<exists>x. e = PropertiesWriteError x"
  by (induction K cfg acc rule: application_properties_loop.induct)
    (auto simp: result_simps split: property_name_kind.splits if_splits)

lemma config_map_error:
  "build_server_rolegroup_config_map P h img rg cfg m addr = Inl e \<Longrightarrow> \<not> reserved_error e"
  by (auto simp: build_server_rolegroup_config_map_def Let_def result_simps
      dest: metadata_error application_properties_error)

lemma hello_container_error:
  "hello_container P img cfg m = Inl e \<Longrightarrow> \<not> reserved_error e"
  by (auto simp: hello_container_def Let_def result_simps)

lemma pod_template_error:
  "hello_pod_template P h img rg m sa c = Inl e \<Longrightarrow> \<not> reserved_error e"
  by (auto simp: hello_pod_template_def Let_def result_simps split: if_splits)

lemma statefulset_error:
  "build_server_rolegroup_statefulset P h img r rg cfg m sa = Inl e \<Longrightarrow> \<not> reserved_error e"
  by (auto simp: build_server_rolegroup_statefulset_def hello_stateful_set_def Let_def result_simps
      dest: metadata_error hello_container_error pod_template_error)

lemma build_role_group_error:
  "build_role_group P h img addr sa rg = Inl e \<Longrightarrow> \<not> reserved_error e"
  by (auto simp: build_role_group_def Let_def result_simps split: prod.splits
      dest: rolegroup_service_error config_map_error statefulset_error)

lemma server_config_error:
  "server_config_of R pc h = Inl e \<Longrightarrow> \<not> reserved_error e"
  by (auto simp: server_config_of_def Let_def result_simps)

lemma rbac_error:
  "rbac_resources R h = Inl e \<Longrightarrow> \<not> reserved_error e"
  by (auto simp: rbac_resources_def Let_def result_simps)

lemma stage_add_then:
  assumes "phase_step p (cr_add cr obj) q" and "\<And>e. E (f e) q" and "\<And>x. stage_ok phase_step q (k x) Q E"
  shows "stage_ok phase_step p (io_bind (io_context (io_add W cr obj) f) k) Q E"
  unfolding io_add_def Let_def by (rule stage_call_then[OF assms])

lemma stage_apply_rbac:
  "stage_ok phase_step P_Start (apply_rbac W h rbac) (\<lambda>_ q. q = P_Rbac) early_error"
  unfolding apply_rbac_def Let_def
  by (rule stage_add_then[OF step_account], simp, rule stage_add_then[OF step_binding], simp,
      rule stage_lift) auto

lemma stage_apply_role_service:
  "stage_ok phase_step P_Rbac (apply_role_service P W h img) (\<lambda>_ q. q = P_RoleService) early_error"
  unfolding apply_role_service_def
  by (rule stage_lift_then, use role_service_error in force, rule stage_add_then[OF step_role_service],
      simp, rule stage_lift) auto

lemma stage_resolve_address:
  "stage_ok phase_step P_RoleService (resolve_vector_aggregator_address LP W h)
     (\<lambda>_ q. before_groups q) (\<lambda>_ q. not_done q)"
proof (cases "vector_aggregator_config_map_name (cluster_config (spec h))")
  case None
  then show ?thesis
    by (simp only: resolve_vector_aggregator_address_def option.case) (rule stage_lift, simp_all)
next
  case (Some cm)
  show ?thesis
    unfolding resolve_vector_aggregator_address_def io_get_config_map_def Let_def Some option.case
    by (rule stage_lift_then, simp, rule stage_call_then, rule step_address, simp,
        rule stage_lift_then, simp, rule stage_lift) auto
qed

lemma stage_role_group:
  assumes "before_groups p"
  shows "stage_ok phase_step p (reconcile_role_group P W h img addr sa rg conds)
    (\<lambda>_ q. q = P_Groups) early_error"
  unfolding reconcile_role_group_def Let_def case_prod_beta
  by (rule stage_lift_then, use before_groups_not_done[OF assms] build_role_group_error in blast, rule stage_add_then[OF step_group_service[OF assms]], simp,
      rule stage_add_then[OF step_group_config], simp, rule stage_add_then[OF step_group_set], simp,
      rule stage_lift) auto

lemma stage_role_groups:
  "before_groups p \<Longrightarrow> stage_ok phase_step p (reconcile_role_groups P W h img addr sa groups conds)
    (\<lambda>_ q. before_groups q) early_error"
proof (induction groups arbitrary: p conds)
  case Nil
  then show ?case unfolding reconcile_role_groups.simps by (intro stage_lift) auto
next
  case (Cons rg rest)
  show ?case
    unfolding reconcile_role_groups.simps
    by (rule stage_bind[OF stage_role_group[OF Cons.prems]]) (simp add: Cons.IH)
qed

lemma stage_apply_budget:
  assumes "before_groups p"
  shows "stage_ok phase_step p (apply_budget P W h) (\<lambda>_ q. before_groups q \<or> q = P_Budget) early_error"
proof -
  have added: "stage_ok phase_step p (add_pdbs D W pdb h Server cr)
      (\<lambda>_ q. before_groups q \<or> q = P_Budget) (\<lambda>_ q. not_done q)" for D pdb cr
  proof (cases "pdb_enabled pdb")
    case True
    then have body: "add_pdbs D W pdb h Server cr =
        io_bind (io_lift (build_pdb D h Server (pdb_max_unavailable_or_default pdb Server))) (\<lambda>budget.
        io_bind (io_context (io_add W cr (K_PodDisruptionBudget budget))
            (\<lambda>source. ApplyPdb source (pdb_name_any D budget))) (\<lambda>_. io_lift (Inr ())))"
      by (simp add: add_pdbs_def)
    show ?thesis
      unfolding body
      by (rule stage_lift_then, use assms in force, rule stage_add_then[OF step_budget[OF assms]], simp,
          rule stage_lift) auto
  next
    case False
    then show ?thesis
      using assms by (simp only: add_pdbs_def simp_thms if_True) (rule stage_lift, auto)
  qed
  show ?thesis
  proof (cases "role_config h Server")
    case None
    then show ?thesis
      using assms by (simp only: apply_budget_def option.case) (rule stage_lift, auto)
  next
    case (Some rc)
    show ?thesis
      unfolding apply_budget_def Some option.case by (rule stage_context) (rule stage_weaken[OF added], auto)
  qed
qed

lemma stage_finish:
  assumes "before_groups p \<or> p = P_Budget"
  shows "stage_ok phase_step p (finish_reconcile R W h conds)
    (\<lambda>a q. q = P_Done \<and> a = await_change)
    (\<lambda>e q. (q = P_Done \<longleftrightarrow> (\<exists>s. e = DeleteOrphanedResources s)) \<and> (\<forall>s. e \<noteq> InvalidHelloCluster s))"
  unfolding finish_reconcile_def io_patch_status_def io_delete_orphaned_def Let_def
  by (rule stage_call_then, rule step_status[OF assms], simp, rule stage_call_then, rule step_delete, simp,
      rule stage_lift) auto

section \<open>The whole reconciliation\<close>

lemma stage_reconcile_hello:
  "stage_ok phase_step P_Start (reconcile_hello P R W pc guarded)
    (\<lambda>a q. q = P_Done \<and> a = await_change)
    (\<lambda>e q. (q = P_Done \<longleftrightarrow> (\<exists>s. e = DeleteOrphanedResources s)) \<and>
       (\<forall>s. e = InvalidHelloCluster s \<longleftrightarrow> guarded = Inl s))"
  unfolding reconcile_hello_def Let_def
proof (rule stage_lift_then, goal_cases)
  case (1 e)
  then show ?case by (auto simp: result_simps)
next
  case (2 h)
  have errs: "(q = P_Done \<longleftrightarrow> (\<exists>s. e = DeleteOrphanedResources s)) \<and>
      (\<forall>s. e = InvalidHelloCluster s \<longleftrightarrow> guarded = Inl s)" if "early_error e q" for e q
    using that 2 by (cases e) (auto simp: result_simps)
  have start: "early_error e P_Start" if "\<not> reserved_error e" for e
    using that by simp
  show ?case
  proof (rule stage_lift_then, use server_config_error errs[OF start] in blast, rule stage_lift_then,
      use rbac_error errs[OF start] in blast, rule stage_then[OF stage_apply_rbac], rule errs, assumption,
      hypsubst, rule stage_then[OF stage_apply_role_service], rule errs, assumption, hypsubst,
      rule stage_context_then[OF stage_resolve_address], rule errs, simp, goal_cases)
    case (1 config rbac sa svc addr p)
    show ?case
      by (rule stage_then[OF stage_role_groups[OF 1(3)]], rule errs, assumption,
          rule stage_then[OF stage_apply_budget], assumption, rule errs, assumption,
          rule stage_weaken[OF stage_finish], assumption)
        (use 2 in \<open>auto simp: result_simps\<close>)
  qed
qed

text \<open>A stage's error satisfies what the logic says of its errors.\<close>

lemma stage_error: "stage_ok step p m Q E \<Longrightarrow> m h = (Inl e, h') \<Longrightarrow> \<exists>q. E e q"
  unfolding stage_ok_def by (metis Pair_inject sum.simps(5))

lemma stage_run_errors:
  "apply_rbac W h rbac cs = (Inl e, cs') \<Longrightarrow> \<not> reserved_error e"
  "apply_role_service P W h img cs = (Inl e, cs') \<Longrightarrow> \<not> reserved_error e"
  "reconcile_role_groups P W h img addr sa groups conds cs = (Inl e, cs') \<Longrightarrow> \<not> reserved_error e"
  "apply_budget P W h cs = (Inl e, cs') \<Longrightarrow> \<not> reserved_error e"
proof -
  have start: "before_groups P_Groups" by simp
  show "apply_rbac W h rbac cs = (Inl e, cs') \<Longrightarrow> \<not> reserved_error e"
    using stage_error[OF stage_apply_rbac] by blast
  show "apply_role_service P W h img cs = (Inl e, cs') \<Longrightarrow> \<not> reserved_error e"
    using stage_error[OF stage_apply_role_service] by blast
  show "reconcile_role_groups P W h img addr sa groups conds cs = (Inl e, cs') \<Longrightarrow> \<not> reserved_error e"
    using stage_error[OF stage_role_groups[OF start]] by blast
  show "apply_budget P W h cs = (Inl e, cs') \<Longrightarrow> \<not> reserved_error e"
    using stage_error[OF stage_apply_budget[OF start]] by blast
qed

end
