(* ===== verification/Reconcile_Spec.thy ===== *)
theory Reconcile_Spec
  imports Reconcile_Protocol
begin

text \<open>
  What a reconciliation is for, without its effects: the calls that a cluster's
  specification asks for (\<open>reconcile_plan\<close>), as a pure function of the two things only the
  world knows, the service account's name and the aggregator's address. The lemmas relate
  each stage of \<open>reconcile_hello\<close> to its part of the plan: a stage that succeeds has made
  exactly its calls, and it does succeed when the plan can be built and the world agrees.
\<close>

fun group_calls :: "cluster_resources \<Rightarrow> service \<times> config_map \<times> stateful_set \<Rightarrow> call list" where
  "group_calls cr (s, c, t) =
     [cr_add cr (K_Service s), cr_add cr (K_ConfigMap c), cr_add cr (K_StatefulSet t)]"

definition address_calls :: "platform \<Rightarrow> hello_cluster \<Rightarrow> call list" where
  "address_calls P hello =
     (case vector_aggregator_config_map_name (cluster_config (spec hello)) of
        Some cm \<Rightarrow> (case resource_namespace (P_logging P) hello of
           Some ns \<Rightarrow> [client_get_config_map cm ns] | None \<Rightarrow> [])
      | None \<Rightarrow> [])"

definition planned_budget ::
  "platform \<Rightarrow> hello_cluster \<Rightarrow> controller_error + pod_disruption_budget list" where
  "planned_budget P hello =
     (case role_config hello Server of
        None \<Rightarrow> Inr []
      | Some rc \<Rightarrow>
          (let pdb = pod_disruption_budget rc in
           if pdb_enabled pdb
           then and_then (err_context (build_pdb (P_pdb P) hello Server
               (pdb_max_unavailable_or_default pdb Server)) FailedToCreatePdb) (\<lambda>b. Inr [b])
           else Inr []))"

definition reconcile_plan ::
  "platform \<Rightarrow> reconcile_platform \<Rightarrow> json \<Rightarrow> hello_cluster \<Rightarrow> string option \<Rightarrow> string
     \<Rightarrow> controller_error + call list" where
  "reconcile_plan P R product_config hello address sa_name =
     (let cr = hello_cluster_resources hello; img = hello_resolved_image R hello in
      and_then (server_config_of R product_config hello) (\<lambda>server_config.
      and_then (rbac_resources R hello) (\<lambda>rbac.
      and_then (build_server_role_service P hello img) (\<lambda>role_service.
      and_then (build_all (build_role_group P hello img address sa_name) server_config) (\<lambda>groups.
      and_then (planned_budget P hello) (\<lambda>budgets.
      Inr ([cr_add cr (K_ServiceAccount (fst rbac)), cr_add cr (K_RoleBinding (snd rbac)),
            cr_add cr (K_Service role_service)]
        @ address_calls P hello
        @ concat (map (group_calls cr) groups)
        @ map (\<lambda>b. cr_add cr (K_PodDisruptionBudget b)) budgets)))))))"

text \<open>What the world answered to the StatefulSets among a sequence of calls, in order.\<close>

fun sts_answers :: "world \<Rightarrow> call list \<Rightarrow> call list \<Rightarrow> json list" where
  "sts_answers W h [] = []"
| "sts_answers W h (c # cs) =
     (case c of
        cr_add _ (K_StatefulSet _) \<Rightarrow> (case answer_add W h c of Inr j \<Rightarrow> [j] | Inl _ \<Rightarrow> [])
      | _ \<Rightarrow> []) @ sts_answers W (h @ [c]) cs"

lemma sts_answers_append [simp]:
  "sts_answers W h (xs @ ys) = sts_answers W h xs @ sts_answers W (h @ xs) ys"
  by (induction xs arbitrary: h) simp_all

lemma sts_answers_address [simp]: "sts_answers W h (address_calls P hello) = []"
  by (simp add: address_calls_def split: option.split)

lemma sts_answers_budgets [simp]:
  "sts_answers W h (map (\<lambda>b. cr_add cr (K_PodDisruptionBudget b)) bs) = []"
  by (induction bs arbitrary: h) simp_all

section \<open>Each stage makes its calls\<close>

lemma apply_rbac_Inr:
  "apply_rbac W h rbac cs = (Inr sa, cs') \<Longrightarrow>
     cs' = cs @ [cr_add (hello_cluster_resources h) (K_ServiceAccount (fst rbac)),
                 cr_add (hello_cluster_resources h) (K_RoleBinding (snd rbac))]"
  by (auto simp: apply_rbac_def io_calls Let_def result_simps)

lemma apply_role_service_Inr:
  "apply_role_service P W h img cs = (Inr u, cs') \<Longrightarrow>
     \<exists>svc. build_server_role_service P h img = Inr svc \<and>
       cs' = cs @ [cr_add (hello_cluster_resources h) (K_Service svc)]"
  by (auto simp: apply_role_service_def io_calls Let_def result_simps)

lemma resolve_address_Inr:
  "resolve_vector_aggregator_address (P_logging P) W h cs = (Inr addr, cs') \<Longrightarrow>
     cs' = cs @ address_calls P h"
  by (cases addr) (auto simp: resolve_None_iff resolve_Inr_iff address_calls_def)

lemma reconcile_role_group_Inr:
  assumes "reconcile_role_group P W h img addr sa rg conds cs = (Inr conds', cs')"
  shows "\<exists>objs. build_role_group P h img addr sa rg = Inr objs \<and>
    cs' = cs @ group_calls (hello_cluster_resources h) objs \<and>
    conds' = conds @ sts_answers W cs (group_calls (hello_cluster_resources h) objs)"
  using assms
  by (auto simp: reconcile_role_group_def io_calls Let_def result_simps split: prod.splits)

lemma reconcile_role_groups_Inr:
  "reconcile_role_groups P W h img addr sa groups conds cs = (Inr conds', cs') \<Longrightarrow>
     \<exists>objs. build_all (build_role_group P h img addr sa) groups = Inr objs \<and>
       cs' = cs @ concat (map (group_calls (hello_cluster_resources h)) objs) \<and>
       conds' = conds @ sts_answers W cs (concat (map (group_calls (hello_cluster_resources h)) objs))"
proof (induction groups arbitrary: conds cs)
  case Nil
  then show ?case by simp
next
  case (Cons rg rest)
  from Cons.prems obtain conds1 cs1 where
    first: "reconcile_role_group P W h img addr sa rg conds cs = (Inr conds1, cs1)" and
    rest: "reconcile_role_groups P W h img addr sa rest conds1 cs1 = (Inr conds', cs')"
    by (auto simp: result_simps)
  from reconcile_role_group_Inr[OF first] Cons.IH[OF rest] show ?case by auto
qed

lemma apply_budget_Inr:
  "apply_budget P W h cs = (Inr u, cs') \<Longrightarrow>
     \<exists>bs. planned_budget P h = Inr bs \<and>
       cs' = cs @ map (\<lambda>b. cr_add (hello_cluster_resources h) (K_PodDisruptionBudget b)) bs"
  by (cases "role_config h Server")
    (auto simp: apply_budget_def planned_budget_def add_pdbs_def io_calls Let_def result_simps
      split: if_splits)

lemma finish_reconcile_Inr:
  "finish_reconcile R W h conds cs = (Inr a, cs') \<Longrightarrow>
     a = await_change \<and>
     cs' = cs @ [apply_patch_status OPERATOR_NAME h (reconciled_status R h conds),
                 delete_orphaned_resources (hello_cluster_resources h)]"
  by (auto simp: finish_reconcile_def io_calls Let_def result_simps)

text \<open>
  A run that is not stopped before the deletion has carried out a whole plan, for the service
  account name and the address that the world answered.
\<close>

lemma reconcile_reaches_finish:
  assumes run: "reconcile_hello P R W pc guarded cs = (r, cs')"
    and r: "\<forall>e. r = Inl e \<longrightarrow> (\<exists>s. e = DeleteOrphanedResources s)"
  shows "\<exists>h addr sa_name plan. guarded = Inr h \<and>
    reconcile_plan P R pc h addr sa_name = Inr plan \<and>
    (\<exists>j. answer_add W cs (hd plan) = Inr j \<and> sa_name = sa_name_any R j) \<and>
    (\<exists>c c'. resolve_vector_aggregator_address (P_logging P) W h c = (Inr addr, c')) \<and>
    finish_reconcile R W h (sts_answers W cs plan) (cs @ plan) = (r, cs')"
proof -
  from run r obtain h config rbac sa c1 c2 addr c3 conds c4 c5 u v where
    g: "guarded = Inr h" and config: "server_config_of R pc h = Inr config"
    and rbac: "rbac_resources R h = Inr rbac"
    and s1: "apply_rbac W h rbac cs = (Inr sa, c1)"
    and s2: "apply_role_service P W h (hello_resolved_image R h) c1 = (Inr u, c2)"
    and s3: "resolve_vector_aggregator_address (P_logging P) W h c2 = (Inr addr, c3)"
    and s4: "reconcile_role_groups P W h (hello_resolved_image R h) addr (sa_name_any R sa) config [] c3 =
      (Inr conds, c4)"
    and s5: "apply_budget P W h c4 = (Inr v, c5)"
    and s6: "finish_reconcile R W h conds c5 = (r, cs')"
    unfolding reconcile_hello_def Let_def
    by (cases r)
      (auto simp: result_simps dest: server_config_error rbac_error stage_run_errors)
  obtain svc objs bs where parts:
    "build_server_role_service P h (hello_resolved_image R h) = Inr svc"
    "c2 = c1 @ [cr_add (hello_cluster_resources h) (K_Service svc)]"
    "build_all (build_role_group P h (hello_resolved_image R h) addr (sa_name_any R sa)) config = Inr objs"
    "c4 = c3 @ concat (map (group_calls (hello_cluster_resources h)) objs)"
    "conds = sts_answers W c3 (concat (map (group_calls (hello_cluster_resources h)) objs))"
    "planned_budget P h = Inr bs"
    "c5 = c4 @ map (\<lambda>b. cr_add (hello_cluster_resources h) (K_PodDisruptionBudget b)) bs"
    using apply_role_service_Inr[OF s2] reconcile_role_groups_Inr[OF s4] apply_budget_Inr[OF s5] by auto
  have answer: "answer_add W cs (cr_add (hello_cluster_resources h) (K_ServiceAccount (fst rbac))) = Inr sa"
    using s1 by (auto simp: apply_rbac_def io_calls Let_def result_simps)
  have "\<exists>plan. reconcile_plan P R pc h addr (sa_name_any R sa) = Inr plan \<and> c5 = cs @ plan \<and>
      conds = sts_answers W cs plan \<and> answer_add W cs (hd plan) = Inr sa"
    using config rbac answer parts apply_rbac_Inr[OF s1] resolve_address_Inr[OF s3]
    by (simp add: reconcile_plan_def Let_def)
  with g s3 s6 show ?thesis by blast
qed

lemma finish_reconcile_calls:
  assumes "finish_reconcile R W h conds cs = (r, cs')"
    and "\<forall>e. r = Inl e \<longrightarrow> (\<exists>s. e = DeleteOrphanedResources s)"
  shows "cs' = cs @ [apply_patch_status OPERATOR_NAME h (reconciled_status R h conds),
      delete_orphaned_resources (hello_cluster_resources h)]"
  using assms by (cases r) (auto simp: finish_reconcile_def io_calls Let_def result_simps)

section \<open>Each stage succeeds when the world agrees\<close>

text \<open>A world that accepts every call, and one that does so once \<open>n\<close> calls have been made.\<close>

definition agreeable :: "world \<Rightarrow> bool" where
  "agreeable W \<longleftrightarrow>
     (\<forall>h c. \<exists>j. answer_add W h c = Inr j) \<and>
     (\<forall>h c. \<exists>j. answer_patch_status W h c = Inr j) \<and>
     (\<forall>h c. answer_delete_orphaned W h c = Inr ())"

definition agreeable_from :: "nat \<Rightarrow> world \<Rightarrow> bool" where
  "agreeable_from n W \<longleftrightarrow>
     (\<forall>h c. n \<le> length h \<longrightarrow> (\<exists>j. answer_add W h c = Inr j) \<and>
        (\<exists>j. answer_patch_status W h c = Inr j) \<and> answer_delete_orphaned W h c = Inr ())"

lemma agreeable_from_0: "agreeable_from 0 W \<longleftrightarrow> agreeable W"
  by (auto simp: agreeable_from_def agreeable_def)

lemma calls_complete:
  assumes "agreeable_from n W"
  shows "completes n (io_add W cr obj) (\<lambda>_. True)"
    and "completes n (io_patch_status W manager hello st) (\<lambda>_. True)"
    and "completes n (io_delete_orphaned W cr) (\<lambda>_. True)"
  using assms unfolding io_calls Let_def agreeable_from_def by (auto intro!: completes_call)

lemmas completes_rules = completes_then calls_complete completes_return

lemma apply_rbac_ok: "agreeable_from n W \<Longrightarrow> completes n (apply_rbac W h rbac) (\<lambda>_. True)"
  unfolding apply_rbac_def Let_def by (intro completes_rules refl TrueI)

lemma apply_role_service_ok:
  "\<lbrakk>agreeable_from n W; build_server_role_service P h img = Inr svc\<rbrakk> \<Longrightarrow>
     completes n (apply_role_service P W h img) (\<lambda>_. True)"
  unfolding apply_role_service_def
  by (simp only: io_bind_lift_Inr, intro completes_rules refl TrueI)

lemma reconcile_role_group_ok:
  assumes "agreeable_from n W" and "build_role_group P h img addr sa rg = Inr objs"
  shows "completes n (reconcile_role_group P W h img addr sa rg conds) (\<lambda>_. True)"
  unfolding reconcile_role_group_def Let_def assms(2) io_bind_lift_Inr
  by (cases objs) (simp only: case_prod_conv, intro completes_rules assms(1) refl TrueI)

lemma reconcile_role_groups_ok:
  "\<lbrakk>agreeable_from n W; build_all (build_role_group P h img addr sa) groups = Inr objs\<rbrakk> \<Longrightarrow>
     completes n (reconcile_role_groups P W h img addr sa groups conds) (\<lambda>_. True)"
proof (induction groups arbitrary: conds objs)
  case Nil
  show ?case unfolding reconcile_role_groups.simps by (rule completes_return) simp
next
  case (Cons rg rest)
  then obtain o1 os where "build_role_group P h img addr sa rg = Inr o1"
    and "build_all (build_role_group P h img addr sa) rest = Inr os"
    by (auto simp: result_simps)
  with Cons show ?case
    unfolding reconcile_role_groups.simps by (blast intro: completes_bind reconcile_role_group_ok)
qed

lemma apply_budget_ok:
  assumes "agreeable_from n W" and "planned_budget P h = Inr bs"
  shows "completes n (apply_budget P W h) (\<lambda>_. True)"
proof (cases "role_config h Server")
  case None
  then show ?thesis unfolding apply_budget_def by (simp only: option.case) (rule completes_return, simp)
next
  case (Some rc)
  have "completes n (add_pdbs (P_pdb P) W (pod_disruption_budget rc) h Server (hello_cluster_resources h))
      (\<lambda>_. True)"
  proof (cases "pdb_enabled (pod_disruption_budget rc)")
    case True
    with assms(2) Some obtain b where
      "build_pdb (P_pdb P) h Server (pdb_max_unavailable_or_default (pod_disruption_budget rc) Server) = Inr b"
      by (auto simp: planned_budget_def Let_def result_simps)
    then show ?thesis using True
      by (simp only: add_pdbs_def io_bind_lift_Inr simp_thms if_False,
          intro completes_rules assms(1) refl TrueI)
  next
    case False
    then show ?thesis unfolding add_pdbs_def by (simp only: simp_thms if_True) (rule completes_return, simp)
  qed
  with Some show ?thesis by (simp only: apply_budget_def option.case) (rule completes_context)
qed

lemma finish_reconcile_ok:
  "agreeable_from n W \<Longrightarrow> completes n (finish_reconcile R W h conds) (\<lambda>a. a = await_change)"
  unfolding finish_reconcile_def by (intro completes_rules refl)

text \<open>
  Together: the run completes if the address it resolves has a plan, whatever the service
  account is called.
\<close>

lemma reconcile_completes:
  assumes W: "agreeable_from n W"
    and plan: "completes n (resolve_vector_aggregator_address (P_logging P) W h)
      (\<lambda>addr. \<forall>sa. \<exists>plan. reconcile_plan P R pc h addr sa = Inr plan)"
  shows "completes n (reconcile_hello P R W pc (Inr h)) (\<lambda>a. a = await_change)"
proof -
  let ?img = "hello_resolved_image R h"
  obtain a0 where "\<forall>sa. \<exists>plan. reconcile_plan P R pc h a0 sa = Inr plan"
    using completes_result[OF plan, of "replicate n undefined"] by auto
  then obtain config rbac svc bs where pure:
    "server_config_of R pc h = Inr config" "rbac_resources R h = Inr rbac"
    "build_server_role_service P h ?img = Inr svc" "planned_budget P h = Inr bs"
    by (fastforce simp: reconcile_plan_def Let_def result_simps)
  have groups: "completes n (reconcile_role_groups P W h ?img a (sa_name_any R sa) config []) (\<lambda>_. True)"
    if a: "\<forall>sa. \<exists>plan. reconcile_plan P R pc h a sa = Inr plan" for a sa
  proof -
    obtain plan where "reconcile_plan P R pc h a (sa_name_any R sa) = Inr plan" using a by blast
    with pure obtain objs where "build_all (build_role_group P h ?img a (sa_name_any R sa)) config = Inr objs"
      by (auto simp: reconcile_plan_def Let_def result_simps)
    then show ?thesis by (rule reconcile_role_groups_ok[OF W])
  qed
  show ?thesis
    unfolding reconcile_hello_def Let_def
    by (simp only: pure err_context_simps io_bind_lift_Inr)
      (intro completes_bind[OF apply_rbac_ok[OF W]] completes_bind[OF apply_role_service_ok[OF W pure(3)]]
        completes_bind[OF completes_context[OF plan]] completes_bind[OF groups]
        completes_bind[OF apply_budget_ok[OF W pure(4)]] finish_reconcile_ok[OF W])
qed

end
