(* ===== verification/Operator_Main.thy ===== *)
theory Operator_Main
  imports Reconcile
begin

text \<open>
  \<^verbatim>\<open>rust/operator-binary/src/main.rs\<close>: the two commands of the binary and the set-up of the
  controller. As with the other library builders, the controller is the history of the calls
  that configure it; starting it is the last call \<open>main\<close> makes. Parsing the command line,
  building the client, running the controller and reporting results are the libraries' part.
\<close>

datatype watched_kind = W_HelloCluster | W_Service | W_StatefulSet | W_ConfigMap

datatype controller_call =
    controller_new watched_kind "string option"
  | owns watched_kind "string option"
  | shutdown_on_signal
  | run_reconciler json
  | for_each_concurrent nat string \<comment> \<open>at most so many at a time, each result reported for this controller\<close>

text \<open>The watched namespace: one, or all of them (None).\<close>

record product_operator_run =
  run_product_config :: json
  run_watch_namespace :: "string option"
  run_tracing_target :: json
  run_cluster_info_opts :: json

datatype cli_command = Command_Crd | Command_Run product_operator_run

record opts =
  opts_cmd :: cli_command

datatype main_call =
    print_yaml_schema string
  | initialize_logging string string json
  | print_startup_string "string list"
  | load_product_config json "string list"
  | initialize_operator "string option" json
  | recorder_new string "string option"
  | start_controller "controller_call list"

record main_platform =
  parse_args :: "string list \<Rightarrow> ext_error + opts" \<comment> \<open>\<open>Opts::parse\<close>\<close>
  built_info :: "string list" \<comment> \<open>git version, target, build time, compiler: filled in by the build\<close>
  built_pkg_version :: string
  answer_print_schema :: "main_call list \<Rightarrow> ext_error + unit"
  answer_load :: "main_call list \<Rightarrow> ext_error + json"
  answer_initialize :: "main_call list \<Rightarrow> ext_error + unit"

definition CRATE_DESCRIPTION :: string where
  "CRATE_DESCRIPTION = ''Stackable Hello World Operator - An example Operator''"
definition CRATE_VERSION :: string where "CRATE_VERSION = ''0.0.0-dev''"

definition product_config_paths :: "string list" where
  "product_config_paths =
     [''deploy/config-spec/properties.yaml'',
      ''/etc/stackable/hello-world-operator/config-spec/properties.yaml'']"

definition controller_setup :: "string option \<Rightarrow> json \<Rightarrow> controller_call list" where
  "controller_setup watch_namespace product_config =
     [controller_new W_HelloCluster watch_namespace,
      owns W_Service watch_namespace,
      owns W_StatefulSet watch_namespace,
      owns W_ConfigMap watch_namespace,
      shutdown_on_signal,
      run_reconciler product_config,
      for_each_concurrent 16 HELLO_FULL_CONTROLLER_NAME]"

definition unit_call :: "main_call \<Rightarrow> (main_call, ext_error, unit) io" where
  "unit_call c = io_call c (\<lambda>_. Inr ())"

definition main :: "main_platform \<Rightarrow> cli_command \<Rightarrow> (main_call, ext_error, unit) io" where
  "main M cmd =
     (case cmd of
        Command_Crd \<Rightarrow> io_call (print_yaml_schema (built_pkg_version M)) (answer_print_schema M)
      | Command_Run opts \<Rightarrow>
          io_bind (unit_call (initialize_logging ''HELLO_OPERATOR_LOG'' APP_NAME (run_tracing_target opts))) (\<lambda>_.
          io_bind (unit_call (print_startup_string
              ([CRATE_DESCRIPTION, CRATE_VERSION] @ built_info M))) (\<lambda>_.
          io_bind (io_call (load_product_config (run_product_config opts) product_config_paths)
              (answer_load M)) (\<lambda>product_config.
          io_bind (io_call (initialize_operator (Some OPERATOR_NAME) (run_cluster_info_opts opts))
              (answer_initialize M)) (\<lambda>_.
          io_bind (unit_call (recorder_new HELLO_FULL_CONTROLLER_NAME None)) (\<lambda>_.
          unit_call (start_controller (controller_setup (run_watch_namespace opts) product_config))))))))"

text \<open>
  The process: \<open>Opts::parse\<close> ends it itself when the arguments are wrong (or ask for help), before
  anything is done.
\<close>

datatype exit = Usage_exit ext_error | Main_returned "ext_error + unit"

definition operator_process :: "main_platform \<Rightarrow> string list \<Rightarrow> exit \<times> main_call list" where
  "operator_process M argv =
     (case parse_args M argv of
        Inl e \<Rightarrow> (Usage_exit e, [])
      | Inr o' \<Rightarrow> (case main M (opts_cmd o') [] of (r, calls) \<Rightarrow> (Main_returned r, calls)))"

section \<open>The build script\<close>

text \<open>
  \<^verbatim>\<open>rust/operator-binary/build.rs\<close>: one call, whose error is unwrapped. Without the file it writes
  there is no \<open>built_info\<close>, so a failure ends the build.
\<close>

datatype build_call = write_built_file
datatype panic = Unwrapped ext_error

definition build_main :: "(build_call list \<Rightarrow> ext_error + unit) \<Rightarrow> (build_call, panic, unit) io" where
  "build_main answer_write = io_context (io_call write_built_file answer_write) Unwrapped"

section \<open>What the controller watches\<close>

definition watched_kinds :: "controller_call list \<Rightarrow> watched_kind list" where
  "watched_kinds cs = concat (map (\<lambda>c. case c of controller_new k _ \<Rightarrow> [k] | owns k _ \<Rightarrow> [k] | _ \<Rightarrow> []) cs)"

fun watched_as :: "kube_object \<Rightarrow> watched_kind option" where
  "watched_as (K_Service _) = Some W_Service"
| "watched_as (K_ConfigMap _) = Some W_ConfigMap"
| "watched_as (K_StatefulSet _) = Some W_StatefulSet"
| "watched_as (K_ServiceAccount _) = None"
| "watched_as (K_RoleBinding _) = None"
| "watched_as (K_PodDisruptionBudget _) = None"

lemma watched_kinds_setup [simp]:
  "watched_kinds (controller_setup ns pc) = [W_HelloCluster, W_Service, W_StatefulSet, W_ConfigMap]"
  by (simp add: watched_kinds_def controller_setup_def)

lemma watched_as_kinds: "{k. \<exists>obj. watched_as obj = Some k} = {W_Service, W_StatefulSet, W_ConfigMap}"
proof (rule set_eqI)
  fix k
  have "\<exists>obj. watched_as obj = Some W_Service" "\<exists>obj. watched_as obj = Some W_StatefulSet"
    "\<exists>obj. watched_as obj = Some W_ConfigMap"
    using watched_as.simps(1-3) by blast+
  moreover have "watched_as obj \<noteq> Some W_HelloCluster" for obj by (cases obj) simp_all
  ultimately show "k \<in> {k. \<exists>obj. watched_as obj = Some k} \<longleftrightarrow> k \<in> {W_Service, W_StatefulSet, W_ConfigMap}"
    by (cases k) simp_all
qed

end
