(* ===== verification/Build_Facts.thy ===== *)
theory Build_Facts
  imports Controller_Build
begin

text \<open>
  What the builders of \<open>Controller_Build\<close> produce when they succeed: the exact metadata,
  container, pod template, ConfigMap and StatefulSet, and what the loops over hashed maps
  compute, which does not depend on the iteration order.
\<close>

section \<open>Loops over hashed maps\<close>

text \<open>A loop that acts on one key only sees that key's value, wherever it comes.\<close>

lemma concat_map_at_key:
  "hm_invar m \<Longrightarrow> concat (map (\<lambda>(k, v). if k = k0 then f v else []) m) =
     (case hm_get m k0 of Some v \<Rightarrow> f v | None \<Rightarrow> [])"
proof (induction m)
  case Nil
  then show ?case by (simp add: hm_get_def)
next
  case (Cons p m)
  obtain k v where p: "p = (k, v)" by force
  from Cons.prems p have inv: "hm_invar m" and fresh: "map_of m k = None"
    by (auto simp: hm_invar_def map_of_eq_None_iff)
  with Cons.IH p show ?case by (auto simp: hm_get_def)
qed

lemma push_env_vars_eq:
  "push_env_vars kvs cb = cb @ map (\<lambda>(n, v). add_env_var n v) (filter (\<lambda>(n, _). n \<noteq> '''') kvs)"
  by (induction kvs cb rule: push_env_vars.induct) auto

lemma env_overrides_loop_eq:
  "env_overrides_loop cfg cb = cb @ concat (map (\<lambda>(k, m). if k = Env
     then map (\<lambda>(n, v). add_env_var n v) (filter (\<lambda>(n, _). n \<noteq> '''') m) else []) cfg)"
  by (induction cfg cb rule: env_overrides_loop.induct) (auto simp: push_env_vars_eq)

text \<open>The environment overrides that are set: those of the \<open>Env\<close> properties with a name.\<close>

definition env_overrides :: "role_group_properties \<Rightarrow> (string \<times> string) list" where
  "env_overrides cfg =
     filter (\<lambda>(n, _). n \<noteq> '''') (case hm_get cfg Env of Some m \<Rightarrow> m | None \<Rightarrow> [])"

lemma env_overrides_loop_hm:
  "hm_invar cfg \<Longrightarrow> env_overrides_loop cfg cb = cb @ map (\<lambda>(n, v). add_env_var n v) (env_overrides cfg)"
  by (simp add: env_overrides_loop_eq concat_map_at_key env_overrides_def split: option.split)

lemma env_vars_of_overrides [simp]: "env_vars (map (\<lambda>(n, v). add_env_var n v) kvs) = kvs"
  by (induction kvs) auto

lemma volume_mounts_of_overrides [simp]: "volume_mounts (map (\<lambda>(n, v). add_env_var n v) kvs) = []"
  by (induction kvs) auto

lemma container_ports_of_overrides [simp]: "container_ports (map (\<lambda>(n, v). add_env_var n v) kvs) = []"
  by (induction kvs) auto

lemma application_properties_loop_none:
  "File APPLICATION_PROPERTIES \<notin> fst ` set cfg \<Longrightarrow> application_properties_loop K cfg acc = Inr acc"
  by (induction K cfg acc rule: application_properties_loop.induct)
    (auto split: property_name_kind.split)

lemma application_properties_loop_hm:
  "hm_invar cfg \<Longrightarrow> application_properties_loop K cfg acc =
     (case hm_get cfg (File APPLICATION_PROPERTIES) of
        None \<Rightarrow> Inr acc
      | Some m \<Rightarrow> err_context (to_java_properties_string K (all_some m)) PropertiesWriteError)"
proof (induction K cfg acc rule: application_properties_loop.induct)
  case (1 K acc)
  then show ?case by (simp add: hm_get_def)
next
  case (2 K kind config rest acc)
  then have inv: "hm_invar rest" and fresh: "kind \<notin> fst ` set rest"
    by (auto simp: hm_invar_def)
  show ?case
  proof (cases "kind = File APPLICATION_PROPERTIES")
    case True
    with fresh have "application_properties_loop K rest a = Inr a" for a
      by (simp add: application_properties_loop_none)
    with True show ?thesis
      by (cases "to_java_properties_string K (all_some config)") (simp_all add: hm_get_def)
  next
    case False
    then have step: "application_properties_loop K ((kind, config) # rest) acc =
        application_properties_loop K rest acc"
      by (cases kind) auto
    from False inv 2 show ?thesis
      unfolding step by (cases kind) (auto simp: hm_get_def split: if_splits)
  qed
qed

section \<open>Metadata and Services\<close>

lemma object_metadata_Inr:
  "object_metadata B h n l = Inr m \<Longrightarrow>
     m = [name_and_namespace h, meta_name n, ownerreference_from_resource h None (Some True),
          with_recommended_labels l]"
  by (auto simp: object_metadata_def Let_def result_simps)

lemma object_metadata_name: "object_metadata B h n l = Inr m \<Longrightarrow> meta_object_name m = Some n"
  by (drule object_metadata_Inr) simp

text \<open>
  Metadata of an object that belongs to a cluster: its name in the cluster's namespace, one
  owner reference, to the cluster as its controller, and the recommended labels for it.
\<close>

definition owned_by :: "hello_cluster \<Rightarrow> built_meta \<Rightarrow> bool" where
  "owned_by h m \<longleftrightarrow> (\<exists>n r g v.
     m = [name_and_namespace h, meta_name n, ownerreference_from_resource h None (Some True),
       with_recommended_labels (build_recommended_labels h v r g)])"

lemma object_metadata_owned:
  "object_metadata B h n (build_recommended_labels h v r g) = Inr m \<Longrightarrow> owned_by h m"
  by (drule object_metadata_Inr) (auto simp: owned_by_def)

lemma role_service_owned:
  "build_server_role_service P h img = Inr svc \<Longrightarrow> owned_by h (service_metadata svc)"
  by (auto simp: build_server_role_service_def Let_def result_simps dest: object_metadata_owned)

lemma rolegroup_service_owned:
  "build_rolegroup_service P h img rg = Inr svc \<Longrightarrow> owned_by h (service_metadata svc)"
  by (auto simp: build_rolegroup_service_def result_simps dest: object_metadata_owned)

lemma statefulset_owned:
  "build_server_rolegroup_statefulset P h img r rg cfg m sa = Inr sts \<Longrightarrow> owned_by h (sts_metadata sts)"
  by (auto simp: build_server_rolegroup_statefulset_def hello_stateful_set_def Let_def result_simps dest: object_metadata_owned)

lemma role_service_Inr:
  assumes "build_server_role_service P h img = Inr svc"
  shows "\<exists>n sel. om_name (metadata h) = Some n \<and> meta_object_name (service_metadata svc) = Some n \<and>
    role_selector (P_kube P) h APP_NAME ''server'' = Inr sel \<and>
    service_spec_of svc = Some
      \<lparr> svc_type = Some (k8s_service_type (listener_class (cluster_config (spec h)))),
        cluster_ip = None, ports = Some service_ports, selector = Some sel,
        publish_not_ready_addresses = None \<rparr>"
  using assms
  by (auto simp: build_server_role_service_def server_role_service_name_def Let_def result_simps
      dest: object_metadata_name)

lemma rolegroup_service_Inr:
  assumes "build_rolegroup_service P h img rg = Inr svc"
  shows "\<exists>sel. meta_object_name (service_metadata svc) = Some (object_name (P_crd P) rg) \<and>
    role_group_selector (P_kube P) h APP_NAME (rgr_role rg) (rgr_role_group rg) = Inr sel \<and>
    service_spec_of svc = Some
      \<lparr> svc_type = Some ''ClusterIP'', cluster_ip = Some ''None'', ports = Some service_ports,
        selector = Some sel, publish_not_ready_addresses = Some True \<rparr>"
  using assms by (auto simp: build_rolegroup_service_def result_simps dest: object_metadata_name)

section \<open>The ConfigMap\<close>

lemma config_map_Inr:
  assumes "build_server_rolegroup_config_map P h img rg cfg m addr = Inr cm"
  shows "\<exists>app meta jvm. application_properties_loop (P_kube P) cfg '''' = Inr app \<and>
    object_metadata (P_builders P) h (object_name (P_crd P) rg)
      (build_recommended_labels h (ri_app_version_label img) (rgr_role rg) (rgr_role_group rg)) = Inr meta \<and>
    to_java_properties_string (P_kube P) (jvm_sec_props cfg) = Inr jvm \<and>
    extend_role_group_config_map (P_logging P) rg addr (hc_logging m)
      [cm_metadata meta, cm_add_data APPLICATION_PROPERTIES app, cm_add_data JVM_SECURITY_PROPERTIES jvm] = Inr cm"
  using assms
  by (auto simp: build_server_rolegroup_config_map_def Let_def result_simps)

lemma config_map_owned:
  assumes "build_server_rolegroup_config_map P h img rg cfg m addr = Inr cm"
  shows "owned_by h (cm_meta cm)"
proof -
  obtain app meta jvm where
    meta: "object_metadata (P_builders P) h (object_name (P_crd P) rg)
      (build_recommended_labels h (ri_app_version_label img) (rgr_role rg) (rgr_role_group rg)) = Inr meta"
    and ext: "extend_role_group_config_map (P_logging P) rg addr (hc_logging m)
      [cm_metadata meta, cm_add_data APPLICATION_PROPERTIES app, cm_add_data JVM_SECURITY_PROPERTIES jvm] = Inr cm"
    using config_map_Inr[OF assms] by blast
  have "cm_meta cm = meta" using extend_Inr_cases[OF ext] by (auto split: option.split)
  with object_metadata_owned[OF meta] show ?thesis by simp
qed

text \<open>The logging entries of the ConfigMap, after the two properties files.\<close>

definition logging_entries ::
  "logging_platform \<Rightarrow> rolegroup_ref \<Rightarrow> string option \<Rightarrow> Container logging \<Rightarrow> cm_call list" where
  "logging_entries LP rg addr lg =
     (case automatic_config (bt_get (containers lg) Hello) of
        Some lc \<Rightarrow> [cm_add_data LOGBACK_XML (logback_config LP lc)] | None \<Rightarrow> [])
     @ (if enable_vector_agent lg
        then [cm_add_data (VECTOR_CONFIG_FILE LP) (create_vector_config LP rg (the addr)
               (automatic_config (bt_get (containers lg) Vector)))] else [])"

lemma config_map_contents:
  assumes "build_server_rolegroup_config_map P h img rg cfg m addr = Inr cm"
  shows "\<exists>app meta jvm. application_properties_loop (P_kube P) cfg '''' = Inr app \<and>
    meta_object_name meta = Some (object_name (P_crd P) rg) \<and>
    to_java_properties_string (P_kube P) (jvm_sec_props cfg) = Inr jvm \<and>
    cm = [cm_metadata meta, cm_add_data APPLICATION_PROPERTIES app, cm_add_data JVM_SECURITY_PROPERTIES jvm]
      @ logging_entries (P_logging P) rg addr (hc_logging m)"
  using config_map_Inr[OF assms]
  by (auto simp: logging_entries_def dest!: extend_Inr_cases object_metadata_name)

lemma cm_entry_logging_entries:
  "cm_entry (logging_entries LP rg addr lg) k =
     (if enable_vector_agent lg \<and> k = VECTOR_CONFIG_FILE LP
      then Some (create_vector_config LP rg (the addr) (automatic_config (bt_get (containers lg) Vector)))
      else if k = LOGBACK_XML
      then map_option (logback_config LP) (automatic_config (bt_get (containers lg) Hello))
      else None)"
  by (auto simp: logging_entries_def cm_entry_append split: option.split)

lemma cm_meta_logging_entries [simp]: "cm_meta (logging_entries LP rg addr lg) = []"
  by (auto simp: logging_entries_def split: option.split)

section \<open>The hello container\<close>

definition hello_container_calls ::
  "platform \<Rightarrow> resolved_product_image \<Rightarrow> role_group_properties \<Rightarrow> hello_config \<Rightarrow> container_call list" where
  "hello_container_calls P img cfg m =
     env_overrides_loop cfg [container_new APP_NAME]
     @ [add_env_var ''CONTAINERDEBUG_LOG_DIRECTORY'' (STACKABLE_LOG_DIR @ ''/containerdebug''),
        command [''/bin/bash'', ''-x'', ''-euo'', ''pipefail'', ''-c''],
        args [join_lines (hello_command (P_kube P))],
        image_from_product_image img,
        add_volume_mount STACKABLE_CONFIG_DIR_NAME STACKABLE_CONFIG_DIR,
        add_volume_mount STACKABLE_LOG_DIR_NAME STACKABLE_LOG_DIR,
        add_volume_mount STACKABLE_LOG_CONFIG_MOUNT_DIR_NAME STACKABLE_LOG_CONFIG_MOUNT_DIR,
        add_container_port HTTP_PORT_NAME (i32_from_u16 HTTP_PORT),
        container_resources (resources_into (hc_resources m)),
        readiness_probe hello_readiness_probe,
        liveness_probe hello_liveness_probe]"

lemma hello_container_Inr:
  "hello_container P img cfg m = Inr c \<Longrightarrow> c = container_built (hello_container_calls P img cfg m)"
  by (auto simp: hello_container_def hello_container_calls_def Let_def result_simps)

lemma hello_container_mounts:
  "volume_mounts (hello_container_calls P img cfg m) =
     [(STACKABLE_CONFIG_DIR_NAME, STACKABLE_CONFIG_DIR), (STACKABLE_LOG_DIR_NAME, STACKABLE_LOG_DIR),
      (STACKABLE_LOG_CONFIG_MOUNT_DIR_NAME, STACKABLE_LOG_CONFIG_MOUNT_DIR)]"
proof -
  have "volume_mounts (concat (map (\<lambda>(k, m). if k = Env
     then map (\<lambda>(n, v). add_env_var n v) (filter (\<lambda>(n, _). n \<noteq> '''') m) else []) xs)) = []" for xs
    by (induction xs) auto
  then show ?thesis
    by (simp add: hello_container_calls_def env_overrides_loop_eq)
qed

lemma hello_container_env:
  "hm_invar cfg \<Longrightarrow> env_vars (hello_container_calls P img cfg m) =
     env_overrides cfg @ [(''CONTAINERDEBUG_LOG_DIRECTORY'', ''/stackable/log/containerdebug'')]"
  by (simp add: hello_container_calls_def env_overrides_loop_hm STACKABLE_LOG_DIR_def)

lemma hello_container_ports:
  "hm_invar cfg \<Longrightarrow> container_ports (hello_container_calls P img cfg m) =
     [(HTTP_PORT_NAME, i32_from_u16 HTTP_PORT)]"
  by (simp add: hello_container_calls_def env_overrides_loop_hm)

section \<open>The pod template and the StatefulSet\<close>

definition hello_pod_calls ::
  "platform \<Rightarrow> hello_cluster \<Rightarrow> resolved_product_image \<Rightarrow> rolegroup_ref \<Rightarrow> hello_config \<Rightarrow> string
     \<Rightarrow> container \<Rightarrow> pod_call list" where
  "hello_pod_calls P h img rg m sa c =
     (case hc_graceful_shutdown_timeout m of Some t \<Rightarrow> [termination_grace_period t] | None \<Rightarrow> [])
     @ [pod_metadata [with_recommended_labels (build_recommended_labels h (ri_app_version_label img)
          (rgr_role rg) (rgr_role_group rg))],
        image_pull_secrets_from_product_image img,
        add_container c,
        add_volume (config_map_volume STACKABLE_CONFIG_DIR_NAME (object_name (P_crd P) rg)),
        add_volume (log_volume (P_logging P)),
        affinity (hc_affinity m),
        service_account_name sa,
        add_volume (log_config_volume P m rg)]
     @ (if enable_vector_agent (hc_logging m) then [add_container (vector_agent_container img m)] else [])"

lemma hello_pod_template_Inr:
  "hello_pod_template P h img rg m sa c = Inr pb \<Longrightarrow> pb = hello_pod_calls P h img rg m sa c"
  by (auto simp: hello_pod_template_def hello_pod_calls_def Let_def result_simps
      dest!: add_graceful_shutdown_Inr split: if_splits)

lemma pod_volumes_hello:
  "pod_volumes (hello_pod_calls P h img rg m sa c) =
     [config_map_volume STACKABLE_CONFIG_DIR_NAME (object_name (P_crd P) rg), log_volume (P_logging P),
      log_config_volume P m rg]"
  by (auto simp: hello_pod_calls_def split: option.split)

lemma pod_containers_hello:
  "pod_containers (hello_pod_calls P h img rg m sa c) =
     c # (if enable_vector_agent (hc_logging m) then [vector_agent_container img m] else [])"
  by (auto simp: hello_pod_calls_def split: option.split)

lemma log_config_volume_name [simp]:
  "vol_name (log_config_volume P m rg) = STACKABLE_LOG_CONFIG_MOUNT_DIR_NAME"
  by (auto simp: log_config_volume_def config_map_volume_def
      split: option.split container_log_config_choice.split)

lemma statefulset_Inr:
  assumes "build_server_rolegroup_statefulset P h img r rg cfg m sa = Inr sts"
  shows "\<exists>rl grp sel meta. role h r = Inr rl \<and> role_group h rg = Inr grp \<and>
    role_group_selector (P_kube P) h APP_NAME (rgr_role rg) (rgr_role_group rg) = Inr sel \<and>
    sts_metadata sts = meta \<and> meta_object_name meta = Some (object_name (P_crd P) rg) \<and>
    sts_spec sts = Some
      \<lparr> pod_management_policy = Some ''Parallel'',
        replicas = map_option i32_from_u16 (rg_replicas grp),
        match_labels = Some sel,
        service_name = object_name (P_crd P) rg,
        template = merge_from (merge_from (build_template (hello_pod_calls P h img rg m sa
            (container_built (hello_container_calls P img cfg m))))
            (cc_pod_overrides (role_config_common rl))) (cc_pod_overrides (rg_config grp)),
        volume_claim_templates = Some [build_pvc (ssc_data (res_storage (hc_resources m)))
          ''data'' (Some [''ReadWriteOnce''])] \<rparr>"
  using assms
  by (auto simp: build_server_rolegroup_statefulset_def hello_stateful_set_def Let_def result_simps
      dest!: hello_pod_template_Inr hello_container_Inr object_metadata_name)

lemma sint_i32_from_u16 [simp]: "sint (i32_from_u16 w) = int (unat w)"
proof -
  have "uint w < 2 ^ LENGTH(16)" by (rule unsigned_less)
  then have "uint w < 2 ^ 31" by simp
  moreover have "- (2 ^ 31) \<le> uint w" by (rule order_trans[of _ 0]) simp_all
  ultimately have "signed_take_bit 31 (uint w) = uint w" by (rule signed_take_bit_int_eq_self[rotated])
  then show ?thesis by (simp add: i32_from_u16_def signed_ucast_eq)
qed

end
