(* ===== verification/Example_Platform.thy ===== *)
theory Example_Platform
  imports Reconcile_Spec Operator_Main Build_Facts
begin

text \<open>
  A concrete instance of every parameter of the model, for the witnesses: a cluster like the
  one of \<^verbatim>\<open>hello.yaml\<close>, library functions that behave as documented (names are
  cluster-role-group, a fragment keeps its own settings when merged, nothing is refused) and
  a world that accepts everything. No theorem about the operator rests on it.
\<close>

section \<open>A cluster\<close>

definition ex_no_pvc :: pvc_config where
  "ex_no_pvc = \<lparr> pvc_capacity = None, pvc_storage_class = None, pvc_selectors = None \<rparr>"

definition ex_empty_fragment :: hello_config_fragment where
  "ex_empty_fragment =
     \<lparr> fr_resources =
         \<lparr> res_cpu = \<lparr> cpu_min = None, cpu_max = None \<rparr>,
           res_memory = \<lparr> mem_limit = None, mem_runtime_limits = () \<rparr>,
           res_storage = \<lparr> ssc_data = ex_no_pvc \<rparr> \<rparr>,
       fr_logging = JNull,
       fr_affinity = \<lparr> pod_affinity = None, pod_anti_affinity_of = None, node_affinity = None,
         node_selector = None \<rparr>,
       fr_graceful_shutdown_timeout = None \<rparr>"

definition ex_common :: "hello_config_fragment \<Rightarrow> json \<Rightarrow> hello_config_fragment common_configuration" where
  "ex_common frag overrides =
     \<lparr> cc_config = frag, cc_config_overrides = [], cc_env_overrides = [], cc_cli_overrides = [],
       cc_pod_overrides = overrides \<rparr>"

definition ex_group :: "u16 option \<Rightarrow> hello_config_fragment role_group" where
  "ex_group n = \<lparr> rg_config = ex_common ex_empty_fragment (JStr ''group''), rg_replicas = n \<rparr>"

definition ex_role :: "hello_config_fragment \<Rightarrow> (string \<times> hello_config_fragment role_group) list
    \<Rightarrow> hello_config_fragment role" where
  "ex_role frag groups =
     \<lparr> role_config_common = ex_common frag (JStr ''role''),
       role_role_config = \<lparr> pod_disruption_budget = \<lparr> pdb_enabled = True, pdb_max_unavailable = None \<rparr> \<rparr>,
       role_groups = groups \<rparr>"

definition ex_cluster_with :: "hello_config_fragment role option \<Rightarrow> string option \<Rightarrow> hello_cluster" where
  "ex_cluster_with server_role aggregator =
     \<lparr> metadata = \<lparr> om_name = Some ''hello-world'', om_namespace = Some ''default'', om_other = JNull \<rparr>,
       spec = \<lparr> cluster_config = \<lparr> vector_aggregator_config_map_name = aggregator,
                                     listener_class = ExternalUnstable \<rparr>,
                cluster_operation_of = \<lparr> reconciliation_paused = False, stopped = False \<rparr>,
                image = \<lparr> img_custom = None, img_product_version = Some ''0.0.1'', img_repo = None,
                  img_stackable_version = None, img_pull_policy = ''Always'', img_pull_secrets = None \<rparr>,
                servers = server_role,
                recipient = ''Stackable'',
                color = ''blue'' \<rparr>,
       status = None \<rparr>"

definition ex_groups :: "(string \<times> hello_config_fragment role_group) list" where
  "ex_groups = [(''default'', ex_group (Some 2)), (''backup'', ex_group (Some 1))]"

definition ex_cluster :: hello_cluster where
  "ex_cluster = ex_cluster_with (Some (ex_role ex_empty_fragment ex_groups)) None"

section \<open>Library functions\<close>

definition ex_or :: "'a option \<Rightarrow> 'a option \<Rightarrow> 'a option" where
  "ex_or a b = (case a of Some x \<Rightarrow> Some x | None \<Rightarrow> b)"

definition ex_merge :: "hello_config_fragment \<Rightarrow> hello_config_fragment \<Rightarrow> hello_config_fragment" where
  "ex_merge a b =
     \<lparr> fr_resources =
         \<lparr> res_cpu = \<lparr> cpu_min = ex_or (cpu_min (res_cpu (fr_resources a))) (cpu_min (res_cpu (fr_resources b))),
                        cpu_max = ex_or (cpu_max (res_cpu (fr_resources a))) (cpu_max (res_cpu (fr_resources b))) \<rparr>,
           res_memory = \<lparr> mem_limit = ex_or (mem_limit (res_memory (fr_resources a)))
                            (mem_limit (res_memory (fr_resources b))), mem_runtime_limits = () \<rparr>,
           res_storage = \<lparr> ssc_data =
             (let pa = ssc_data (res_storage (fr_resources a)); pb = ssc_data (res_storage (fr_resources b)) in
              \<lparr> pvc_capacity = ex_or (pvc_capacity pa) (pvc_capacity pb),
                pvc_storage_class = ex_or (pvc_storage_class pa) (pvc_storage_class pb),
                pvc_selectors = ex_or (pvc_selectors pa) (pvc_selectors pb) \<rparr>) \<rparr> \<rparr>,
       fr_logging = (if fr_logging a = JNull then fr_logging b else fr_logging a),
       fr_affinity =
         \<lparr> pod_affinity = ex_or (pod_affinity (fr_affinity a)) (pod_affinity (fr_affinity b)),
           pod_anti_affinity_of = ex_or (pod_anti_affinity_of (fr_affinity a)) (pod_anti_affinity_of (fr_affinity b)),
           node_affinity = ex_or (node_affinity (fr_affinity a)) (node_affinity (fr_affinity b)),
           node_selector = ex_or (node_selector (fr_affinity a)) (node_selector (fr_affinity b)) \<rparr>,
       fr_graceful_shutdown_timeout =
         ex_or (fr_graceful_shutdown_timeout a) (fr_graceful_shutdown_timeout b) \<rparr>"

definition ex_automatic :: automatic_container_log_config where
  "ex_automatic = \<lparr> log_console = JNull, log_file = JNull, log_loggers = JNull \<rparr>"

text \<open>The logging a fragment's text stands for: custom, automatic with or without Vector.\<close>

definition ex_logging_of :: "json \<Rightarrow> Container logging" where
  "ex_logging_of j =
     (if j = JStr ''custom''
      then \<lparr> containers = [(Hello, \<lparr> choice = Some (Custom ''my-logging'') \<rparr>)], enable_vector_agent = False \<rparr>
      else \<lparr> containers = [(Hello, \<lparr> choice = Some (Automatic ex_automatic) \<rparr>)],
             enable_vector_agent = (j = JStr ''vector'') \<rparr>)"

definition ex_validate :: "hello_config_fragment \<Rightarrow> ext_error + hello_config" where
  "ex_validate f =
     (if fr_logging f = JBool False then Inl (ExtError ''invalid logging'')
      else Inr \<lparr> hc_resources = fr_resources f, hc_logging = ex_logging_of (fr_logging f),
                 hc_affinity = fr_affinity f,
                 hc_graceful_shutdown_timeout = fr_graceful_shutdown_timeout f \<rparr>)"

definition ex_affinity_term :: affinity_fn where
  "ex_affinity_term app cluster r weight =
     \<lparr> wt_pod_affinity_term =
         \<lparr> pat_label_selector = Some \<lparr> ls_match_expressions = None,
             ls_match_labels = Some (role_pod_labels app cluster r) \<rparr>,
           pat_topology_key = ''kubernetes.io/hostname'', pat_other = JNull \<rparr>,
       wt_weight = weight \<rparr>"

fun ex_cluster_name :: "object_ref \<Rightarrow> string" where
  "ex_cluster_name (ObjectRef_from_obj h) = (case om_name (metadata h) of Some n \<Rightarrow> n | None \<Rightarrow> '''')"

definition ex_crd :: crd_platform where
  "ex_crd =
     \<lparr> object_name = (\<lambda>r. ex_cluster_name (rgr_cluster r) @ ''-'' @ rgr_role r @ ''-'' @ rgr_role_group r),
       name_any = (\<lambda>h. ex_cluster_name (ObjectRef_from_obj h)),
       default_logging = JStr ''automatic'',
       affinity_between_role_pods = ex_affinity_term,
       merge_fragment = ex_merge,
       validate_fragment = ex_validate \<rparr>"

definition ex_builders :: builder_platform where
  "ex_builders =
     \<lparr> meta_err = (\<lambda>_ _. None), container_err = (\<lambda>_ _. None), pod_err = (\<lambda>_ _. None),
       config_map_err = (\<lambda>_. None), vector_container_err = (\<lambda>_. None) \<rparr>"

definition ex_logging :: logging_platform where
  "ex_logging =
     \<lparr> resource_namespace = (\<lambda>h. om_namespace (metadata h)),
       create_logback_config = (\<lambda>dir file _ _ _ _. dir @ ''/'' @ file),
       create_vector_config = (\<lambda>_ address _. address),
       VECTOR_CONFIG_FILE = ''vector.yaml'',
       scale_to = (\<lambda>m u. m\<lparr>mq_unit := u\<rparr>),
       mq_floor = (\<lambda>m. m\<lparr>mq_value := of_int \<lfloor>mq_value m\<rfloor>\<rparr>),
       calculate_log_volume_size_limit = (\<lambda>_. Quantity ''30Mi'') \<rparr>"

definition ex_pdb :: pdb_platform where
  "ex_pdb =
     \<lparr> new_with_role_err = (\<lambda>_ _ _ _ _. None), pdb_name_any = (\<lambda>b. pdb_role b) \<rparr>"

definition ex_kube :: kube_platform where
  "ex_kube =
     \<lparr> to_java_properties_string = (\<lambda>kvs. Inr (concat (map (\<lambda>(k, v).
         k @ ''='' @ (case v of Some x \<Rightarrow> x | None \<Rightarrow> '''') @ [CHR 0x0A]) kvs))),
       role_selector = (\<lambda>h app r. Inr (role_pod_labels app ''hello-world'' r)),
       role_group_selector = (\<lambda>h app r g. Inr (bt_insert ''app.kubernetes.io/role-group'' g
         (role_pod_labels app ''hello-world'' r))),
       container_new_err = (\<lambda>_. None),
       COMMON_BASH_TRAP_FUNCTIONS = ''trap'',
       create_vector_shutdown_file_command = (\<lambda>d. ''touch '' @ d),
       remove_vector_shutdown_file_command = (\<lambda>d. ''rm '' @ d) \<rparr>"

definition ex_platform :: platform where
  "ex_platform =
     \<lparr> P_crd = ex_crd, P_builders = ex_builders, P_logging = ex_logging, P_pdb = ex_pdb, P_kube = ex_kube \<rparr>"

section \<open>The reconciler's library functions and the world\<close>

definition ex_properties :: role_group_properties where
  "ex_properties =
     [(Env, [('''', ''dropped''), (''COMMON_VAR'', ''group-value'')]),
      (File JVM_SECURITY_PROPERTIES, [(''networkaddress.cache.ttl'', ''30'')]),
      (File APPLICATION_PROPERTIES, [(''greeting.color'', ''blue''), (''server.port'', ''8080'')])]"

definition ex_reconcile :: reconcile_platform where
  "ex_reconcile =
     \<lparr> image_resolve = (\<lambda>img base version.
         \<lparr> ri_product_version = ''0.0.1'', ri_app_version_label = ''0.0.1-stackable'' @ version,
           ri_image = base, ri_other = JNull \<rparr>),
       PKG_VERSION = ''0.0.0-dev'',
       transform_all_roles_to_config = (\<lambda>_ _ _. Inr JNull),
       validate_all_roles_and_groups_config = (\<lambda>_ _ _ _ _.
         Inr [(''server'', [(''default'', ex_properties), (''backup'', ex_properties)])]),
       cluster_resources_new_err = (\<lambda>_. None),
       get_required_labels = (\<lambda>_. Inr []),
       build_rbac_resources = (\<lambda>_ app _. Inr (JStr app, JStr (app @ ''-clusterrole''))),
       sa_name_any = (\<lambda>_. ''hello-serviceaccount''),
       compute_conditions = (\<lambda>_ stss _. stss) \<rparr>"

definition ex_world :: world where
  "ex_world =
     \<lparr> answer_add = (\<lambda>_ _. Inr JNull),
       answer_get_config_map = (\<lambda>_ _. Inr (Some [(''ADDRESS'', ''vector:6000'')])),
       answer_patch_status = (\<lambda>_ _. Inr JNull),
       answer_delete_orphaned = (\<lambda>_ _. Inr ()) \<rparr>"

section \<open>They meet the contracts\<close>

lemma ex_affinity_contract: "affinity_term_contract (affinity_between_role_pods ex_crd)"
  by (simp add: affinity_term_contract_def ex_crd_def ex_affinity_term_def)

lemma ex_memory_contract: "memory_contract ex_logging"
  by (simp add: memory_contract_def ex_logging_def)

lemma ex_agreeable: "agreeable ex_world"
  by (simp add: agreeable_def ex_world_def)

lemma ex_run:
  "\<exists>cs. reconcile_hello ex_platform ex_reconcile ex_world JNull (Inr ex_cluster) [] = (Inr await_change, cs)"
proof -
  have "fst (reconcile_hello ex_platform ex_reconcile ex_world JNull (Inr ex_cluster) []) = Inr await_change"
    by code_simp
  then show ?thesis by (metis prod.collapse)
qed

end
