(* ===== verification/Crd_Properties.thy ===== *)
theory Crd_Properties
  imports Example_Platform
begin

text \<open>
  The properties of \<^verbatim>\<open>crd.rs\<close> and \<^verbatim>\<open>affinity.rs\<close>: how a role group's configuration is looked up
  and merged, the files the operator computes for the product, and the pods it predicts.
  Each property that has hypotheses is followed by its witness on \<open>Example_Platform\<close>.
\<close>

section \<open>Contracts of the fragment library\<close>

text \<open>
  \<open>a.merge(b)\<close> keeps what \<open>a\<close> sets and takes the rest from \<open>b\<close>, field by field; validation
  turns a complete fragment into the configuration without changing what it says. Stated
  for the two fields the properties below speak of.
\<close>

definition merge_contract :: "crd_platform \<Rightarrow> bool" where
  "merge_contract L \<longleftrightarrow> (\<forall>a b.
     fr_graceful_shutdown_timeout (merge_fragment L a b) =
       (case fr_graceful_shutdown_timeout a of Some t \<Rightarrow> Some t | None \<Rightarrow> fr_graceful_shutdown_timeout b) \<and>
     pod_anti_affinity_of (fr_affinity (merge_fragment L a b)) =
       (case pod_anti_affinity_of (fr_affinity a) of Some t \<Rightarrow> Some t
        | None \<Rightarrow> pod_anti_affinity_of (fr_affinity b)))"

definition validate_contract :: "crd_platform \<Rightarrow> bool" where
  "validate_contract L \<longleftrightarrow> (\<forall>f c. validate_fragment L f = Inr c \<longrightarrow>
     hc_graceful_shutdown_timeout c = fr_graceful_shutdown_timeout f \<and> hc_affinity c = fr_affinity f)"

lemma ex_merge_contract: "merge_contract ex_crd"
  by (simp add: merge_contract_def ex_crd_def ex_merge_def ex_or_def split: option.split)

lemma ex_validate_contract: "validate_contract ex_crd"
  by (auto simp: validate_contract_def ex_crd_def ex_validate_def split: if_splits)

section \<open>Merging the configuration\<close>

lemma role_from_str_cases:
  "role_from_str s = (if s = ''server'' then Inr Server else Inl VariantNotFound)"
  by (simp add: role_from_str_def)

text \<open>
  The outcome of \<open>merged_config\<close> on every branch. Without a server role it reports
  the role, before it looks at the reference; a reference to another role is unknown, and the
  error lists the valid roles; a missing role group is reported by name; otherwise the role
  group's fragment is merged over the role's, that over the defaults, and the result validated.
\<close>
theorem merged_config_every_branch:
  "merged_config L h r rgref =
     (case servers (spec h) of
        None \<Rightarrow> Inl (CannotRetrieveHelloRole ''server'')
      | Some rl \<Rightarrow>
          if rgr_role rgref \<noteq> ''server''
          then Inl (UnknownHelloRole VariantNotFound (rgr_role rgref) [''server''])
          else case hm_get (role_groups rl) (rgr_role_group rgref) of
            None \<Rightarrow> Inl (CannotRetrieveHelloRoleGroup (rgr_role_group rgref))
          | Some g \<Rightarrow> err_context
              (validate_fragment L (merge_fragment L (cc_config (rg_config g))
                (merge_fragment L (cc_config (role_config_common rl))
                  (default_config L (name_any L h) r)))) FragmentValidationFailure)"
  by (cases r)
    (simp add: merged_config_def role_group_def role_from_str_cases roles_eq role_iter_def Let_def
      split: option.split)

lemma merged_config_Inr:
  assumes "merged_config L h r rgref = Inr c"
  shows "\<exists>rl g. servers (spec h) = Some rl \<and> hm_get (role_groups rl) (rgr_role_group rgref) = Some g \<and>
    validate_fragment L (merge_fragment L (cc_config (rg_config g))
      (merge_fragment L (cc_config (role_config_common rl)) (default_config L (name_any L h) r))) = Inr c"
  using assms
  by (cases r) (auto simp: merged_config_def role_group_def role_from_str_cases Let_def result_simps
      split: if_splits)

text \<open>The most specific setting: the role group's, else the role's.\<close>

definition user_setting ::
  "hello_cluster \<Rightarrow> string \<Rightarrow> (hello_config_fragment \<Rightarrow> 'a option) \<Rightarrow> 'a option" where
  "user_setting h g field =
     (case servers (spec h) of None \<Rightarrow> None
      | Some rl \<Rightarrow> (case Option.bind (hm_get (role_groups rl) g) (\<lambda>rg. field (cc_config (rg_config rg))) of
          Some x \<Rightarrow> Some x
        | None \<Rightarrow> field (cc_config (role_config_common rl))))"

text \<open>
  Graceful shutdown cannot be switched off. Under the merge contract every merged
  configuration has a shutdown timeout: the role group's, else the role's, else two minutes.
\<close>
theorem graceful_shutdown_timeout_resolved:
  assumes "merge_contract L" and "validate_contract L"
    and "merged_config L h r (server_rolegroup_ref h' g) = Inr c"
  shows "hc_graceful_shutdown_timeout c =
    Some (case user_setting h g fr_graceful_shutdown_timeout of
      Some t \<Rightarrow> t | None \<Rightarrow> from_minutes_unchecked 2)"
proof -
  obtain rl rg where found: "servers (spec h) = Some rl" "hm_get (role_groups rl) g = Some rg"
    and valid: "validate_fragment L (merge_fragment L (cc_config (rg_config rg))
      (merge_fragment L (cc_config (role_config_common rl)) (default_config L (name_any L h) r))) = Inr c"
    using merged_config_Inr[OF assms(3)] by auto
  have default: "fr_graceful_shutdown_timeout (default_config L n r) = Some (from_minutes_unchecked 2)" for n
    by (simp add: default_config_def DEFAULT_HELLO_WORLD_GRACEFUL_SHUTDOWN_TIMEOUT_def)
  from valid assms(2) have "hc_graceful_shutdown_timeout c =
      fr_graceful_shutdown_timeout (merge_fragment L (cc_config (rg_config rg))
        (merge_fragment L (cc_config (role_config_common rl)) (default_config L (name_any L h) r)))"
    unfolding validate_contract_def by blast
  with assms(1) found default show ?thesis
    by (simp add: merge_contract_def user_setting_def split: option.split)
qed

lemma ex_merged: "\<exists>c. merged_config ex_crd ex_cluster Server (server_rolegroup_ref ex_cluster ''default'') = Inr c"
  by (simp add: merged_config_def role_group_def ex_cluster_def ex_cluster_with_def ex_role_def ex_groups_def
      hm_get_def role_from_str_def ex_crd_def ex_validate_def ex_merge_def ex_group_def ex_common_def
      ex_empty_fragment_def default_config_def Let_def)

theorem graceful_shutdown_timeout_resolved_witness:
  "\<exists>c. merged_config ex_crd ex_cluster Server (server_rolegroup_ref ex_cluster ''default'') = Inr c \<and>
     hc_graceful_shutdown_timeout c = Some (from_minutes_unchecked 2)"
proof -
  obtain c where c: "merged_config ex_crd ex_cluster Server (server_rolegroup_ref ex_cluster ''default'') = Inr c"
    using ex_merged by blast
  have "user_setting ex_cluster ''default'' fr_graceful_shutdown_timeout = None" by code_simp
  with graceful_shutdown_timeout_resolved[OF ex_merge_contract ex_validate_contract c] c
  show ?thesis by simp
qed

text \<open>
  C32: The default affinity, as the repository's test spells it out. Where neither the role
  group nor the role sets a pod anti-affinity, the merged configuration prefers, with weight
  70 and without requiring it, to keep the role's pods of one cluster on different hosts.
\<close>
theorem default_affinity_spreads_hosts:
  assumes "merge_contract L" and "validate_contract L"
    and "affinity_term_contract (affinity_between_role_pods L)"
    and "merged_config L h Server (server_rolegroup_ref h' g) = Inr c"
    and "user_setting h g (\<lambda>f. pod_anti_affinity_of (fr_affinity f)) = None"
  shows "pod_anti_affinity_of (hc_affinity c) = Some
    \<lparr> preferred_during_scheduling = Some
        [\<lparr> wt_pod_affinity_term =
             \<lparr> pat_label_selector = Some
                 \<lparr> ls_match_expressions = None,
                   ls_match_labels = Some
                     [(''app.kubernetes.io/component'', ''server''),
                      (''app.kubernetes.io/instance'', name_any L h),
                      (''app.kubernetes.io/name'', ''hello-world'')] \<rparr>,
               pat_topology_key = ''kubernetes.io/hostname'',
               pat_other = JNull \<rparr>,
           wt_weight = 70 \<rparr>],
      required_during_scheduling = None \<rparr>"
proof -
  obtain rl rg where found: "servers (spec h) = Some rl" "hm_get (role_groups rl) g = Some rg"
    and valid: "validate_fragment L (merge_fragment L (cc_config (rg_config rg))
      (merge_fragment L (cc_config (role_config_common rl)) (default_config L (name_any L h) Server))) = Inr c"
    using merged_config_Inr[OF assms(4)] by auto
  have unset: "pod_anti_affinity_of (fr_affinity (cc_config (rg_config rg))) = None"
    "pod_anti_affinity_of (fr_affinity (cc_config (role_config_common rl))) = None"
    using assms(5) found by (simp_all add: user_setting_def split: option.splits)
  have labels: "role_pod_labels app cluster r =
      [(''app.kubernetes.io/component'', r), (''app.kubernetes.io/instance'', cluster),
       (''app.kubernetes.io/name'', app)]" for app cluster r
    by (simp add: role_pod_labels_def bt_collect_def)
  from valid assms(2) have "hc_affinity c =
      fr_affinity (merge_fragment L (cc_config (rg_config rg))
        (merge_fragment L (cc_config (role_config_common rl)) (default_config L (name_any L h) Server)))"
    unfolding validate_contract_def by blast
  then have "pod_anti_affinity_of (hc_affinity c) =
      pod_anti_affinity_of (get_affinity (affinity_between_role_pods L) (name_any L h) Server)"
    using assms(1) unset by (simp add: merge_contract_def default_config_def)
  with assms(3) labels show ?thesis
    by (simp add: get_affinity_def affinity_term_contract_def APP_NAME_def)
qed

theorem default_affinity_spreads_hosts_witness:
  "\<exists>c. merged_config ex_crd ex_cluster Server (server_rolegroup_ref ex_cluster ''default'') = Inr c \<and>
     map_option required_during_scheduling (pod_anti_affinity_of (hc_affinity c)) = Some None"
proof -
  obtain c where c: "merged_config ex_crd ex_cluster Server (server_rolegroup_ref ex_cluster ''default'') = Inr c"
    using ex_merged by blast
  have "user_setting ex_cluster ''default'' (\<lambda>f. pod_anti_affinity_of (fr_affinity f)) = None" by code_simp
  from default_affinity_spreads_hosts[OF ex_merge_contract ex_validate_contract ex_affinity_contract c this] c
  show ?thesis by simp
qed

section \<open>Product files\<close>

lemma show_http_port: "show_u16 HTTP_PORT = ''8080''"
  by (simp add: show_u16_def HTTP_PORT_def digit_char_def show_nat.simps[of 8080] show_nat.simps[of 808]
      show_nat.simps[of 80] show_nat.simps[of 8], code_simp)

lemma application_properties_computed:
  "compute_files frag h role_name APPLICATION_PROPERTIES = Inr
     [(''greeting.color'', Some (color (spec h))),
      (''greeting.recipient'', Some (recipient (spec h))),
      (''logging.config'', Some ''/stackable/config/logback.xml''),
      (''server.port'', Some ''8080'')]"
proof -
  have path: "STACKABLE_CONFIG_DIR @ ''/'' @ LOGBACK_XML = ''/stackable/config/logback.xml''" by code_simp
  have sorted_by_key: "bt_insert LOGGING_CONFIG l (bt_insert SERVER_PORT p (bt_insert GREETING_COLOR c
      (bt_insert GREETING_RECIPIENT r []))) = [(''greeting.color'', c), (''greeting.recipient'', r),
      (''logging.config'', l), (''server.port'', p)]" for l p c r :: "string option"
    unfolding LOGGING_CONFIG_def SERVER_PORT_def GREETING_COLOR_def GREETING_RECIPIENT_def by simp
  show ?thesis
    unfolding compute_files_def Let_def show_http_port path sorted_by_key by simp
qed

lemma compute_files_other: "file \<noteq> APPLICATION_PROPERTIES \<Longrightarrow> compute_files frag h role_name file = Inr []"
  by (simp add: compute_files_def)

text \<open>
  The properties the operator computes for the product. For \<open>application.properties\<close> they
  are exactly four, in key order: the colour and the recipient of the specification, the path
  of the Logback configuration and the HTTP port; for every other file there are none; the
  result never depends on the fragment and never fails.
\<close>
theorem compute_files_exact:
  "compute_files frag h role_name file = Inr (if file = APPLICATION_PROPERTIES then
     [(''greeting.color'', Some (color (spec h))),
      (''greeting.recipient'', Some (recipient (spec h))),
      (''logging.config'', Some ''/stackable/config/logback.xml''),
      (''server.port'', Some ''8080'')] else [])"
  by (cases "file = APPLICATION_PROPERTIES") (simp_all add: application_properties_computed compute_files_other)

section \<open>Pods\<close>

text \<open>
  How many pods are predicted: as many as the role groups have replicas in total, a group
  without a replica count having none. Without a namespace there is no prediction.
\<close>
theorem pods_count:
  assumes "hm_invar (cluster_role_groups h)"
  shows "map_sum id length (pods L h) = (case om_namespace (metadata h) of
      None \<Rightarrow> Inl NoNamespaceError
    | Some _ \<Rightarrow> Inr (\<Sum>(g, rg) \<leftarrow> cluster_role_groups h. unat (replica_count rg)))"
proof (cases "om_namespace (metadata h)")
  case None
  then show ?thesis by (simp add: pods_def)
next
  case (Some ns)
  let ?n = "\<lambda>(g, rg). unat (replica_count rg)"
  have "mset (map ?n (bt_collect (cluster_role_groups h))) = mset (map ?n (cluster_role_groups h))"
    using mset_bt_collect[of "cluster_role_groups h"] assms by (simp add: hm_invar_def)
  then have "sum_list (map ?n (bt_collect (cluster_role_groups h))) = sum_list (map ?n (cluster_role_groups h))"
    by (metis sum_mset_sum_list)
  then show ?thesis
    using Some by (simp add: pods_def length_concat comp_def case_prod_unfold length_rolegroup_pods)
qed

theorem pods_count_witness:
  "map_sum id length (pods ex_crd ex_cluster) = Inr 3"
proof -
  have "hm_invar (cluster_role_groups ex_cluster)"
    by (simp add: hm_invar_def cluster_role_groups_def ex_cluster_def ex_cluster_with_def ex_role_def ex_groups_def)
  from pods_count[OF this, of ex_crd] show ?thesis
    by (simp add: cluster_role_groups_def ex_cluster_def ex_cluster_with_def ex_role_def ex_groups_def
        ex_group_def replica_count_def)
qed

text \<open>
  No two predicted pods have the same name, if the library gives different role groups of
  the cluster different object names. This needs the number after the last dash to be told
  apart from the group's name, which may itself contain dashes and digits.
\<close>
theorem pods_distinct_names:
  assumes "hm_invar (cluster_role_groups h)"
    and "inj_on (\<lambda>g. object_name L (server_rolegroup_ref h g)) (fst ` set (cluster_role_groups h))"
    and "pods L h = Inr ps"
  shows "distinct (map pod_name ps)"
proof -
  have dist: "distinct (map fst (cluster_role_groups h))" using assms(1) by (simp add: hm_invar_def)
  obtain ns where ps: "ps = concat (map (\<lambda>(g, rg). rolegroup_pods L h ns g rg)
      (bt_collect (cluster_role_groups h)))"
    using assms(3) by (auto simp: pods_Inr_iff)
  show ?thesis
    unfolding ps
    by (rule pods_distinct_aux) (simp_all add: bt_collect_keys dist assms(2) bt_invar_distinct)
qed

theorem pods_distinct_names_witness:
  "\<exists>ps. pods ex_crd ex_cluster = Inr ps \<and> distinct (map pod_name ps)"
proof -
  have inv: "hm_invar (cluster_role_groups ex_cluster)"
    by (simp add: hm_invar_def cluster_role_groups_def ex_cluster_def ex_cluster_with_def ex_role_def ex_groups_def)
  have inj: "inj_on (\<lambda>g. object_name ex_crd (server_rolegroup_ref ex_cluster g)) A" for A
    by (simp add: inj_on_def ex_crd_def)
  obtain ps where ps: "pods ex_crd ex_cluster = Inr ps"
    by (simp add: pods_def ex_cluster_def ex_cluster_with_def)
  from pods_distinct_names[OF inv inj ps] ps show ?thesis by blast
qed

text \<open>
  The prediction does not depend on the order in which the hash map of role groups is
  iterated: two clusters that differ in that order only get the same list, pod for pod. This
  is what the detour over a \<open>BTreeMap\<close> is for.
\<close>
theorem pods_independent_of_hash_order:
  assumes "hm_same (role_groups r) gs" and "servers (spec h) = Some r"
    and "\<And>g. object_name L (server_rolegroup_ref h' g) = object_name L (server_rolegroup_ref h g)"
    and "h' = h\<lparr>spec := (spec h)\<lparr>servers := Some (r\<lparr>role_groups := gs\<rparr>)\<rparr>\<rparr>"
  shows "pods L h' = pods L h"
proof -
  have groups: "cluster_role_groups h = role_groups r" "cluster_role_groups h' = gs"
    using assms(2,4) by (simp_all add: cluster_role_groups_def)
  have "bt_collect (cluster_role_groups h') = bt_collect (cluster_role_groups h)"
    unfolding groups using assms(1) by (intro bt_collect_perm) (auto simp: hm_same_def hm_invar_def)
  moreover have "rolegroup_pods L h' ns g rg = rolegroup_pods L h ns g rg" for ns g rg
    by (simp add: rolegroup_pods_def Let_def assms(3))
  moreover have "om_namespace (metadata h') = om_namespace (metadata h)" using assms(4) by simp
  ultimately show ?thesis by (simp add: pods_def)
qed

theorem pods_independent_of_hash_order_witness:
  "pods ex_crd (ex_cluster_with (Some (ex_role ex_empty_fragment (rev ex_groups))) None) = pods ex_crd ex_cluster"
proof -
  let ?r = "ex_role ex_empty_fragment ex_groups"
  have same: "hm_same (role_groups ?r) (rev ex_groups)"
    by (auto simp: hm_same_def hm_invar_def ex_role_def ex_groups_def)
  have found: "servers (spec ex_cluster) = Some ?r" by (simp add: ex_cluster_def ex_cluster_with_def)
  have upd: "ex_cluster_with (Some (ex_role ex_empty_fragment (rev ex_groups))) None =
      ex_cluster\<lparr>spec := (spec ex_cluster)\<lparr>servers := Some (?r\<lparr>role_groups := rev ex_groups\<rparr>)\<rparr>\<rparr>"
    by (simp add: ex_cluster_def ex_cluster_with_def ex_role_def)
  show ?thesis
    by (rule pods_independent_of_hash_order[OF same found _ upd])
      (simp add: ex_crd_def ex_cluster_def ex_cluster_with_def)
qed

text \<open>
  C40: A pod's domain name determines the pod. For names without dots, which Kubernetes
  requires of all three parts, equal names in one cluster domain come from equal references.
\<close>
theorem fqdn_determines_pod:
  assumes "fqdn p info = fqdn q info"
    and "CHR ''.'' \<notin> set (pod_name p @ role_group_service_name p @ pr_namespace p)"
    and "CHR ''.'' \<notin> set (pod_name q @ role_group_service_name q @ pr_namespace q)"
  shows "p = q"
proof -
  from assms(1) have "pod_name p @ CHR ''.'' # (role_group_service_name p @ CHR ''.'' # (pr_namespace p @
      CHR ''.'' # (''svc.'' @ cluster_domain info))) =
    pod_name q @ CHR ''.'' # (role_group_service_name q @ CHR ''.'' # (pr_namespace q @
      CHR ''.'' # (''svc.'' @ cluster_domain info)))"
    by (simp add: fqdn_def)
  from sep_append_inj[OF this] assms(2,3) have pod: "pod_name p = pod_name q"
    and "role_group_service_name p @ CHR ''.'' # (pr_namespace p @ CHR ''.'' # (''svc.'' @ cluster_domain info)) =
      role_group_service_name q @ CHR ''.'' # (pr_namespace q @ CHR ''.'' # (''svc.'' @ cluster_domain info))"
    by simp_all
  from sep_append_inj[OF this(2)] assms(2,3) have service: "role_group_service_name p = role_group_service_name q"
    and "pr_namespace p @ CHR ''.'' # (''svc.'' @ cluster_domain info) =
      pr_namespace q @ CHR ''.'' # (''svc.'' @ cluster_domain info)"
    by simp_all
  from sep_append_inj[OF this(2)] assms(2,3) have "pr_namespace p = pr_namespace q" by simp
  with pod service show ?thesis by simp
qed

theorem fqdn_determines_pod_witness:
  "(\<lparr> pr_namespace = ''default'', role_group_service_name = ''hello'', pod_name = ''hello-0'' \<rparr> :: pod_ref) =
     \<lparr> pr_namespace = ''default'', role_group_service_name = ''hello'', pod_name = ''hello-'' @ show_u16 0 \<rparr>"
proof -
  have zero: "show_u16 0 = ''0''" by code_simp
  show ?thesis
    by (rule fqdn_determines_pod[where info = "\<lparr> cluster_domain = ''cluster.local'' \<rparr>"])
      (simp_all add: zero)
qed

section \<open>The text forms of the enums\<close>

text \<open>
  The enums are read back as they are written, and nothing else is accepted: listener
  classes and containers by their serialized names, roles by theirs, with an unknown role an
  error that the caller reports. A listener class that is left out is the internal one.
\<close>
theorem enum_texts_exact:
  "(listener_class_field (Some s) = Some lc \<longleftrightarrow> s = listener_class_serialize lc) \<and>
   listener_class_field None = Some ClusterInternal \<and>
   (container_from_string s = Some ct \<longleftrightarrow> s = container_to_string ct) \<and>
   (role_from_str s = Inr r \<longleftrightarrow> s = role_to_string r) \<and>
   (role_from_str s = Inl VariantNotFound \<longleftrightarrow> s \<notin> set roles)"
proof (intro conjI)
  show "listener_class_field (Some s) = Some lc \<longleftrightarrow> s = listener_class_serialize lc"
    using listener.dec_iff[of s lc] by (auto simp: listener_class_field_def)
  show "listener_class_field None = Some ClusterInternal"
    by (simp add: listener_class_field_def listener_class_default_def)
  show "container_from_string s = Some ct \<longleftrightarrow> s = container_to_string ct"
    using container_text.dec_iff[of s ct] by auto
  show "role_from_str s = Inr r \<longleftrightarrow> s = role_to_string r"
    by (cases r) (simp add: role_from_str_def)
  show "role_from_str s = Inl VariantNotFound \<longleftrightarrow> s \<notin> set roles"
    by (simp add: role_from_str_def roles_eq role_iter_def)
qed

end
