(* ===== verification/Build_Properties.thy ===== *)
theory Build_Properties
  imports Crd_Properties
begin

text \<open>
  The properties of the object builders: how the Service, the ConfigMap and the StatefulSet
  of a role group fit together, what the product container is given, which logging files are
  written, and that hashing decides nothing. The properties with hypotheses are followed by
  their witnesses on \<open>Example_Platform\<close>.
\<close>

section \<open>What a built role group consists of\<close>

lemma build_role_group_Inr:
  assumes "build_role_group P h img addr sa (g, cfg) = Inr (s, c, t)"
  shows "\<exists>m. merged_config (P_crd P) h Server (server_rolegroup_ref h g) = Inr m \<and>
    build_rolegroup_service P h img (server_rolegroup_ref h g) = Inr s \<and>
    build_server_rolegroup_config_map P h img (server_rolegroup_ref h g) cfg m addr = Inr c \<and>
    build_server_rolegroup_statefulset P h img Server (server_rolegroup_ref h g) cfg m sa = Inr t"
  using assms by (auto simp: build_role_group_def Let_def result_simps)

text \<open>The pod template of a StatefulSet, as the code built it and with what is merged into it.\<close>

definition sts_pod :: "stateful_set \<Rightarrow> pod_call list" where
  "sts_pod t = (case sts_spec t of Some ss \<Rightarrow> template_base (template ss) | None \<Rightarrow> [])"

definition sts_overrides :: "stateful_set \<Rightarrow> json list" where
  "sts_overrides t = (case sts_spec t of Some ss \<Rightarrow> template_overrides (template ss) | None \<Rightarrow> [])"

text \<open>The calls that made the product container, the first of the pod.\<close>

definition product_container :: "stateful_set \<Rightarrow> container_call list" where
  "product_container t =
     (case pod_containers (sts_pod t) of container_built cs # _ \<Rightarrow> cs | _ \<Rightarrow> [])"

lemma built_role_group:
  assumes "build_role_group P h img addr sa (g, cfg) = Inr (s, c, t)"
  obtains m rl rg sel ss where
    "merged_config (P_crd P) h Server (server_rolegroup_ref h g) = Inr m"
    "servers (spec h) = Some rl" "hm_get (role_groups rl) g = Some rg"
    "sts_spec t = Some ss"
    "meta_object_name (sts_metadata t) = Some (object_name (P_crd P) (server_rolegroup_ref h g))"
    "service_name ss = object_name (P_crd P) (server_rolegroup_ref h g)"
    "match_labels ss = Some sel"
    "replicas ss = map_option i32_from_u16 (rg_replicas rg)"
    "sts_pod t = hello_pod_calls P h img (server_rolegroup_ref h g) m sa
       (container_built (hello_container_calls P img cfg m))"
    "sts_overrides t = [cc_pod_overrides (role_config_common rl), cc_pod_overrides (rg_config rg)]"
    "meta_object_name (service_metadata s) = Some (object_name (P_crd P) (server_rolegroup_ref h g))"
    "service_spec_of s = Some
      \<lparr> svc_type = Some ''ClusterIP'', cluster_ip = Some ''None'', ports = Some service_ports,
        selector = Some sel, publish_not_ready_addresses = Some True \<rparr>"
proof -
  let ?ref = "server_rolegroup_ref h g"
  from build_role_group_Inr[OF assms] obtain m where
    m: "merged_config (P_crd P) h Server ?ref = Inr m"
    and s: "build_rolegroup_service P h img ?ref = Inr s"
    and t: "build_server_rolegroup_statefulset P h img Server ?ref cfg m sa = Inr t"
    by blast
  from statefulset_Inr[OF t] obtain rl rg sel where
    found: "role h Server = Inr rl" "role_group h ?ref = Inr rg"
    and sel: "role_group_selector (P_kube P) h APP_NAME (rgr_role ?ref) (rgr_role_group ?ref) = Inr sel"
    and name: "meta_object_name (sts_metadata t) = Some (object_name (P_crd P) ?ref)"
    and ss: "sts_spec t = Some
      \<lparr> pod_management_policy = Some ''Parallel'',
        replicas = map_option i32_from_u16 (rg_replicas rg),
        match_labels = Some sel,
        service_name = object_name (P_crd P) ?ref,
        template = merge_from (merge_from (build_template (hello_pod_calls P h img ?ref m sa
            (container_built (hello_container_calls P img cfg m))))
            (cc_pod_overrides (role_config_common rl))) (cc_pod_overrides (rg_config rg)),
        volume_claim_templates = Some [build_pvc (ssc_data (res_storage (hc_resources m)))
          ''data'' (Some [''ReadWriteOnce''])] \<rparr>" by blast
  from found have rl: "servers (spec h) = Some rl" and rg: "hm_get (role_groups rl) g = Some rg"
    by (auto simp: role_group_server result_simps split: option.splits)
  from rolegroup_service_Inr[OF s] sel show thesis
    by (intro that[OF m rl rg ss name]) (simp_all add: sts_pod_def sts_overrides_def ss)
qed

lemma product_container_built:
  assumes "sts_pod t = hello_pod_calls P h img rg m sa (container_built cs)"
  shows "product_container t = cs"
  using assms by (simp add: product_container_def pod_containers_hello)

section \<open>A role group of the example\<close>

abbreviation ex_img :: resolved_product_image where
  "ex_img \<equiv> hello_resolved_image ex_reconcile ex_cluster"

text \<open>A server role with one role group whose logging is what the given text stands for.\<close>

definition ex_logging_cluster :: "json \<Rightarrow> hello_cluster" where
  "ex_logging_cluster j =
     ex_cluster_with (Some (ex_role (ex_empty_fragment\<lparr>fr_logging := j\<rparr>) ex_groups)) None"

definition ex_objects :: "json \<Rightarrow> string option \<Rightarrow> controller_error + service \<times> config_map \<times> stateful_set" where
  "ex_objects j addr = build_role_group ex_platform (ex_logging_cluster j)
     (hello_resolved_image ex_reconcile (ex_logging_cluster j)) addr ''sa'' (''default'', ex_properties)"

fun succeeds :: "'e + 'a \<Rightarrow> bool" where
  "succeeds (Inl _) = False"
| "succeeds (Inr _) = True"

lemma succeeds_obtain: "succeeds (r :: 'e + 'a \<times> 'b \<times> 'c) \<Longrightarrow> \<exists>x y z. r = Inr (x, y, z)"
  by (cases r) auto

lemma ex_objects_built:
  "\<exists>s c t. ex_objects JNull None = Inr (s, c, t)"
  "\<exists>s c t. ex_objects (JStr ''custom'') None = Inr (s, c, t)"
  "\<exists>s c t. ex_objects (JStr ''vector'') (Some ''vector:6000'') = Inr (s, c, t)"
  by (rule succeeds_obtain, code_simp)+

lemma ex_properties_invar: "hm_invar ex_properties"
  by (simp add: hm_invar_def ex_properties_def)

section \<open>The objects of a role group refer to each other\<close>

text \<open>
  C16: The three objects built for a role group belong together. The Service, the ConfigMap and
  the StatefulSet carry the role group's object name; the StatefulSet names that Service as its
  governing one, which is headless and selects exactly the labels the StatefulSet matches; the
  pods mount that ConfigMap as their configuration directory, under the expected volume name.
\<close>
theorem role_group_objects_linked:
  assumes "build_role_group P h img addr sa (g, cfg) = Inr (s, c, t)"
  shows "let n = object_name (P_crd P) (server_rolegroup_ref h g) in
    meta_object_name (service_metadata s) = Some n \<and>
    meta_object_name (cm_meta c) = Some n \<and>
    meta_object_name (sts_metadata t) = Some n \<and>
    map_option service_name (sts_spec t) = Some n \<and>
    Option.bind (service_spec_of s) cluster_ip = Some ''None'' \<and>
    Option.bind (service_spec_of s) selector = Option.bind (sts_spec t) match_labels \<and>
    Option.bind (sts_spec t) match_labels \<noteq> None \<and>
    config_map_volume ''config'' n \<in> set (pod_volumes (sts_pod t))"
proof -
  obtain m where "build_server_rolegroup_config_map P h img (server_rolegroup_ref h g) cfg m addr = Inr c"
    using build_role_group_Inr[OF assms] by blast
  from config_map_contents[OF this]
  have cm: "meta_object_name (cm_meta c) = Some (object_name (P_crd P) (server_rolegroup_ref h g))" by auto
  from assms show ?thesis
    by (rule built_role_group)
      (simp add: Let_def cm pod_volumes_hello STACKABLE_CONFIG_DIR_NAME_def)
qed

theorem role_group_objects_linked_witness:
  "\<exists>s c t. ex_objects JNull None = Inr (s, c, t) \<and>
     map_option service_name (sts_spec t) = Some ''hello-world-server-default''"
proof -
  obtain s c t where built: "ex_objects JNull None = Inr (s, c, t)" using ex_objects_built(1) by blast
  have "object_name (P_crd ex_platform) (server_rolegroup_ref (ex_logging_cluster JNull) ''default'') =
      ''hello-world-server-default''" by code_simp
  with role_group_objects_linked[OF built[unfolded ex_objects_def]] built show ?thesis
    by (simp add: Let_def)
qed

text \<open>
  C17: Every volume the product container mounts is defined by its pod, and every defined one is
  mounted, each name once: configuration, log directory and logging configuration. The Vector
  container's two volumes are among them.
\<close>
theorem container_mounts_are_pod_volumes:
  assumes "build_role_group P h img addr sa (g, cfg) = Inr (s, c, t)"
  shows "map fst (volume_mounts (product_container t)) = map vol_name (pod_volumes (sts_pod t)) \<and>
    distinct (map vol_name (pod_volumes (sts_pod t))) \<and>
    (\<forall>vimg config log lc res. vector_container vimg config log lc res \<in> set (pod_containers (sts_pod t)) \<longrightarrow>
       {config, log} \<subseteq> set (map vol_name (pod_volumes (sts_pod t))))"
proof -
  have names: "STACKABLE_CONFIG_DIR_NAME = ''config''" "STACKABLE_LOG_DIR_NAME = ''log''"
    "STACKABLE_LOG_CONFIG_MOUNT_DIR_NAME = ''log-config-mount''"
    by (simp_all add: STACKABLE_CONFIG_DIR_NAME_def STACKABLE_LOG_DIR_NAME_def
        STACKABLE_LOG_CONFIG_MOUNT_DIR_NAME_def)
  from assms show ?thesis
    by (rule built_role_group)
      (auto simp: product_container_built hello_container_mounts pod_volumes_hello pod_containers_hello
        config_map_volume_def log_volume_def vector_agent_container_def names)
qed

theorem container_mounts_are_pod_volumes_witness:
  "\<exists>s c t. ex_objects (JStr ''vector'') (Some ''vector:6000'') = Inr (s, c, t) \<and>
     map fst (volume_mounts (product_container t)) = map vol_name (pod_volumes (sts_pod t))"
proof -
  obtain s c t where built: "ex_objects (JStr ''vector'') (Some ''vector:6000'') = Inr (s, c, t)"
    using ex_objects_built(3) by blast
  with container_mounts_are_pod_volumes[OF built[unfolded ex_objects_def]] show ?thesis by blast
qed

text \<open>
  C18: One port, everywhere. The role's Service and the role group's Service forward one TCP
  port, 8080, whose name is the one the container's only port and both probes use; the product
  is told to listen on it in the \<open>server.port\<close> property the operator computes.
\<close>
theorem http_port_agrees:
  assumes "build_role_group P h img addr sa (g, cfg) = Inr (s, c, t)"
    and "build_server_role_service P h img = Inr role_svc"
    and "hm_invar cfg"
  shows "\<exists>sp. Option.bind (service_spec_of s) ports = Some [sp] \<and>
    Option.bind (service_spec_of role_svc) ports = Some [sp] \<and>
    container_ports (product_container t) = [(the (sp_name sp), sp_port sp)] \<and>
    sint (sp_port sp) = 8080 \<and> sp_protocol sp = Some ''TCP'' \<and>
    (\<exists>rp lp. readiness_probe rp \<in> set (product_container t) \<and> liveness_probe lp \<in> set (product_container t) \<and>
       {tcp_socket_port rp, tcp_socket_port lp} = {Some (StringValue (the (sp_name sp)))}) \<and>
    (\<forall>frag role_name kvs. compute_files frag h role_name APPLICATION_PROPERTIES = Inr kvs \<longrightarrow>
       bt_get kvs SERVER_PORT = Some (Some (show_nat (nat (sint (sp_port sp))))))"
proof -
  have port: "uint HTTP_PORT = 8080" "unat HTTP_PORT = 8080" by (simp_all add: HTTP_PORT_def)
  have listens: "bt_get kvs SERVER_PORT = Some (Some (show_nat 8080))"
    if "compute_files frag h role_name APPLICATION_PROPERTIES = Inr kvs" for frag role_name kvs
    using that show_http_port
    by (auto simp: application_properties_computed bt_get_def SERVER_PORT_def show_u16_def HTTP_PORT_def)
  from role_service_Inr[OF assms(2)]
  have role_ports: "Option.bind (service_spec_of role_svc) ports = Some service_ports" by auto
  from assms(1) show ?thesis
  proof (rule built_role_group, goal_cases)
    case (1 m rl rg sel ss)
    have cont: "product_container t = hello_container_calls P img cfg m"
      by (rule product_container_built[OF 1(9)])
    have probes: "readiness_probe hello_readiness_probe \<in> set (hello_container_calls P img cfg m)"
      "liveness_probe hello_liveness_probe \<in> set (hello_container_calls P img cfg m)"
      by (simp_all add: hello_container_calls_def)
    have probe_ports: "tcp_socket_port hello_readiness_probe = Some (StringValue HTTP_PORT_NAME)"
      "tcp_socket_port hello_liveness_probe = Some (StringValue HTTP_PORT_NAME)"
      by (simp_all add: hello_readiness_probe_def hello_liveness_probe_def)
    show ?case
      by (rule exI[of _ "hd service_ports"])
        (use 1(12) role_ports listens probes probe_ports hello_container_ports[OF assms(3)] in
          \<open>auto simp: service_ports_def cont port\<close>)
  qed
qed

theorem http_port_agrees_witness:
  "\<exists>s c t svc. ex_objects JNull None = Inr (s, c, t) \<and>
     build_server_role_service ex_platform (ex_logging_cluster JNull)
       (hello_resolved_image ex_reconcile (ex_logging_cluster JNull)) = Inr svc \<and>
     Option.bind (service_spec_of svc) ports = Option.bind (service_spec_of s) ports"
proof -
  obtain s c t where built: "ex_objects JNull None = Inr (s, c, t)" using ex_objects_built(1) by blast
  have "succeeds (build_server_role_service ex_platform (ex_logging_cluster JNull)
       (hello_resolved_image ex_reconcile (ex_logging_cluster JNull)))" by code_simp
  then obtain svc where svc: "build_server_role_service ex_platform (ex_logging_cluster JNull)
       (hello_resolved_image ex_reconcile (ex_logging_cluster JNull)) = Inr svc"
    by (metis succeeds.elims(2))
  from http_port_agrees[OF built[unfolded ex_objects_def] svc ex_properties_invar] built svc
  show ?thesis by metis
qed

section \<open>Hash maps decide nothing\<close>

lemma hm_same_invar: "hm_same m n \<Longrightarrow> hm_invar m" "hm_same m n \<Longrightarrow> hm_invar n"
  by (simp_all add: hm_same_def)

lemma env_overrides_loop_same:
  "hm_same cfg cfg' \<Longrightarrow> env_overrides_loop cfg' cb = env_overrides_loop cfg cb"
  by (simp add: env_overrides_loop_hm hm_same_invar env_overrides_def hm_same_get)

lemma application_properties_loop_same:
  "hm_same cfg cfg' \<Longrightarrow> application_properties_loop K cfg' acc = application_properties_loop K cfg acc"
  by (simp add: application_properties_loop_hm hm_same_get hm_same_invar)

lemma jvm_sec_props_same: "hm_same cfg cfg' \<Longrightarrow> jvm_sec_props cfg' = jvm_sec_props cfg"
  by (simp add: jvm_sec_props_def hm_same_get)

lemma build_role_group_same:
  assumes "hm_same cfg cfg'"
  shows "build_role_group P h img addr sa (g, cfg') = build_role_group P h img addr sa (g, cfg)"
  by (simp add: build_role_group_def build_server_rolegroup_config_map_def
      build_server_rolegroup_statefulset_def hello_stateful_set_def hello_container_def Let_def
      application_properties_loop_same[OF assms] jvm_sec_props_same[OF assms]
      env_overrides_loop_same[OF assms])

text \<open>
  C21: What is built for a role group does not depend on the order in which its hashed
  properties are iterated, neither the objects nor, when building fails, the error. A repeated
  reconciliation therefore never changes a pod template, which would restart the pods.
\<close>
theorem role_group_ignores_hash_order:
  assumes "hm_same cfg cfg'"
  shows "build_role_group P h img addr sa (g, cfg') = build_role_group P h img addr sa (g, cfg)"
  by (rule build_role_group_same[OF assms])

theorem role_group_ignores_hash_order_witness:
  "build_role_group ex_platform ex_cluster ex_img None ''sa'' (''default'', rev ex_properties) =
   build_role_group ex_platform ex_cluster ex_img None ''sa'' (''default'', ex_properties)"
  by (rule role_group_ignores_hash_order) (auto simp: hm_same_def hm_invar_def ex_properties_def)

text \<open>
  C33: The environment of the product container. The overrides come first, in key order and
  without those that have an empty name; the directory of \<open>containerdebug\<close> comes last. No
  other variable is set.
\<close>
theorem container_environment_exact:
  assumes "build_role_group P h img addr sa (g, cfg) = Inr (s, c, t)" and "hm_invar cfg"
  shows "env_vars (product_container t) =
    (case hm_get cfg Env of None \<Rightarrow> [] | Some m \<Rightarrow> filter (\<lambda>(n, v). n \<noteq> []) m)
      @ [(''CONTAINERDEBUG_LOG_DIRECTORY'', ''/stackable/log/containerdebug'')]"
  using assms(1)
  by (rule built_role_group)
    (simp add: product_container_built hello_container_env[OF assms(2)] env_overrides_def split: option.split)

theorem container_environment_exact_witness:
  "\<exists>s c t. ex_objects JNull None = Inr (s, c, t) \<and>
     env_vars (product_container t) = [(''COMMON_VAR'', ''group-value''),
       (''CONTAINERDEBUG_LOG_DIRECTORY'', ''/stackable/log/containerdebug'')]"
proof -
  obtain s c t where built: "ex_objects JNull None = Inr (s, c, t)" using ex_objects_built(1) by blast
  have env: "hm_get ex_properties Env = Some [('''', ''dropped''), (''COMMON_VAR'', ''group-value'')]"
    by (simp add: ex_properties_def hm_get_def)
  from container_environment_exact[OF built[unfolded ex_objects_def] ex_properties_invar] built env
  show ?thesis by simp
qed

section \<open>The ConfigMap and the logging files\<close>

lemma built_config_map:
  assumes "build_role_group P h img addr sa (g, cfg) = Inr (s, c, t)"
    and "merged_config (P_crd P) h Server (server_rolegroup_ref h g) = Inr m"
  shows "build_server_rolegroup_config_map P h img (server_rolegroup_ref h g) cfg m addr = Inr c"
  using build_role_group_Inr[OF assms(1)] assms(2) by auto

text \<open>
  C22: The ConfigMap of a role group, key by key. \<open>application.properties\<close> is the rendering of
  the validated properties of that file (empty if there are none), \<open>security.properties\<close> that
  of the JVM properties, \<open>logback.xml\<close> is there exactly for an automatic log configuration of
  the product container, the Vector file exactly if the agent is on; there is no other key.
\<close>
theorem config_map_exact:
  assumes "build_role_group P h img addr sa (g, cfg) = Inr (s, c, t)" and "hm_invar cfg"
    and "merged_config (P_crd P) h Server (server_rolegroup_ref h g) = Inr m"
    and "VECTOR_CONFIG_FILE (P_logging P) \<notin> {APPLICATION_PROPERTIES, JVM_SECURITY_PROPERTIES, LOGBACK_XML}"
  shows "\<exists>app jvm.
    (case hm_get cfg (File APPLICATION_PROPERTIES) of None \<Rightarrow> app = ''''
     | Some kvs \<Rightarrow> to_java_properties_string (P_kube P) (all_some kvs) = Inr app) \<and>
    to_java_properties_string (P_kube P) (jvm_sec_props cfg) = Inr jvm \<and>
    cm_entry c = (\<lambda>k.
      if k = APPLICATION_PROPERTIES then Some app
      else if k = JVM_SECURITY_PROPERTIES then Some jvm
      else if k = LOGBACK_XML then map_option (logback_config (P_logging P))
        (automatic_config (bt_get (containers (hc_logging m)) Hello))
      else if enable_vector_agent (hc_logging m) \<and> k = VECTOR_CONFIG_FILE (P_logging P)
        then Some (create_vector_config (P_logging P) (server_rolegroup_ref h g) (the addr)
          (automatic_config (bt_get (containers (hc_logging m)) Vector)))
      else None)"
proof -
  obtain app meta jvm where app: "application_properties_loop (P_kube P) cfg '''' = Inr app"
    and jvm: "to_java_properties_string (P_kube P) (jvm_sec_props cfg) = Inr jvm"
    and c: "c = [cm_metadata meta, cm_add_data APPLICATION_PROPERTIES app,
      cm_add_data JVM_SECURITY_PROPERTIES jvm]
      @ logging_entries (P_logging P) (server_rolegroup_ref h g) addr (hc_logging m)"
    using config_map_contents[OF built_config_map[OF assms(1,3)]] by auto
  have "cm_entry c k = (if k = APPLICATION_PROPERTIES then Some app
      else if k = JVM_SECURITY_PROPERTIES then Some jvm
      else if k = LOGBACK_XML then map_option (logback_config (P_logging P))
        (automatic_config (bt_get (containers (hc_logging m)) Hello))
      else if enable_vector_agent (hc_logging m) \<and> k = VECTOR_CONFIG_FILE (P_logging P)
        then Some (create_vector_config (P_logging P) (server_rolegroup_ref h g) (the addr)
          (automatic_config (bt_get (containers (hc_logging m)) Vector)))
      else None)" for k
    unfolding c cm_entry_append using assms(4)
    by (auto simp: cm_entry_logging_entries split: option.splits)
  with app jvm show ?thesis
    by (intro exI[of _ app] exI[of _ jvm])
      (auto simp: application_properties_loop_hm[OF assms(2)] result_simps split: option.splits)
qed

lemma ex_vector_file: "VECTOR_CONFIG_FILE (P_logging ex_platform) = ''vector.yaml''"
  by (simp add: ex_platform_def ex_logging_def)

lemma ex_files: "VECTOR_CONFIG_FILE (P_logging ex_platform) \<notin>
    {APPLICATION_PROPERTIES, JVM_SECURITY_PROPERTIES, LOGBACK_XML}"
  by (simp add: ex_vector_file APPLICATION_PROPERTIES_def JVM_SECURITY_PROPERTIES_def LOGBACK_XML_def)

theorem config_map_exact_witness:
  "\<exists>s c t. ex_objects JNull None = Inr (s, c, t) \<and> cm_entry c ''vector.yaml'' = None \<and>
     cm_entry c APPLICATION_PROPERTIES = Some (''greeting.color=blue'' @ [CHR 0x0A] @ ''server.port=8080'' @ [CHR 0x0A])"
proof -
  obtain s c t where built: "ex_objects JNull None = Inr (s, c, t)" using ex_objects_built(1) by blast
  note group = built[unfolded ex_objects_def]
  obtain m where m: "merged_config (P_crd ex_platform) (ex_logging_cluster JNull) Server
      (server_rolegroup_ref (ex_logging_cluster JNull) ''default'') = Inr m"
    using build_role_group_Inr[OF group] by blast
  have "map_sum id (enable_vector_agent \<circ> hc_logging) (merged_config (P_crd ex_platform)
      (ex_logging_cluster JNull) Server
      (server_rolegroup_ref (ex_logging_cluster JNull) ''default'')) = Inr False" by code_simp
  then have off: "\<not> enable_vector_agent (hc_logging m)" by (simp add: m)
  have get: "hm_get ex_properties (File APPLICATION_PROPERTIES) =
      Some [(''greeting.color'', ''blue''), (''server.port'', ''8080'')]" by code_simp
  have rendered: "to_java_properties_string (P_kube ex_platform)
      (all_some [(''greeting.color'', ''blue''), (''server.port'', ''8080'')]) =
      Inr (''greeting.color=blue'' @ [CHR 0x0A] @ ''server.port=8080'' @ [CHR 0x0A])" by code_simp
  from config_map_exact[OF group ex_properties_invar m ex_files] off get rendered built ex_files show ?thesis
    by (auto simp: ex_vector_file)
qed

text \<open>
  C25: A custom log configuration is not used. With a custom ConfigMap for the product container
  the ConfigMap built for the role group has no \<open>logback.xml\<close>, and the custom one is mounted at
  the log configuration directory only; but the configuration directory, where the property
  \<open>logging.config\<close> makes the product look for \<open>logback.xml\<close>, is the role group's ConfigMap.
\<close>
theorem custom_log_config_not_found:
  assumes "build_role_group P h img addr sa (g, cfg) = Inr (s, c, t)"
    and "merged_config (P_crd P) h Server (server_rolegroup_ref h g) = Inr m"
    and "map_option choice (bt_get (containers (hc_logging m)) Hello) = Some (Some (Custom cm))"
    and "VECTOR_CONFIG_FILE (P_logging P) \<noteq> LOGBACK_XML"
  shows "config_map_volume ''log-config-mount'' cm \<in> set (pod_volumes (sts_pod t)) \<and>
    (''log-config-mount'', ''/stackable/mount/log-config'') \<in> set (volume_mounts (product_container t)) \<and>
    (''config'', ''/stackable/config'') \<in> set (volume_mounts (product_container t)) \<and>
    (\<forall>v \<in> set (pod_volumes (sts_pod t)). vol_name v = ''config'' \<longrightarrow>
       vol_config_map v = meta_object_name (cm_meta c)) \<and>
    cm_entry c ''logback.xml'' = None \<and>
    (\<forall>frag r. \<exists>kvs. compute_files frag h r APPLICATION_PROPERTIES = Inr kvs \<and>
       bt_get kvs LOGGING_CONFIG = Some (Some ''/stackable/config/logback.xml''))"
proof -
  obtain app meta jvm where name: "meta_object_name meta = Some (object_name (P_crd P) (server_rolegroup_ref h g))"
    and c: "c = [cm_metadata meta, cm_add_data APPLICATION_PROPERTIES app,
      cm_add_data JVM_SECURITY_PROPERTIES jvm]
      @ logging_entries (P_logging P) (server_rolegroup_ref h g) addr (hc_logging m)"
    using config_map_contents[OF built_config_map[OF assms(1,2)]] by auto
  have custom: "automatic_config (bt_get (containers (hc_logging m)) Hello) = None"
    "log_config_volume P m (server_rolegroup_ref h g) = config_map_volume STACKABLE_LOG_CONFIG_MOUNT_DIR_NAME cm"
    using assms(3) by (auto simp: log_config_volume_def)
  have no_logback: "cm_entry c LOGBACK_XML = None"
    unfolding c cm_entry_append using custom(1) assms(4) by (simp add: cm_entry_logging_entries)
  have meta: "meta_object_name (cm_meta c) = Some (object_name (P_crd P) (server_rolegroup_ref h g))"
    by (simp add: c name)
  have points: "\<exists>kvs. compute_files frag h r APPLICATION_PROPERTIES = Inr kvs \<and>
      bt_get kvs LOGGING_CONFIG = Some (Some ''/stackable/config/logback.xml'')" for frag r
    by (simp add: application_properties_computed bt_get_def LOGGING_CONFIG_def)
  from assms(1) show ?thesis
  proof (rule built_role_group, goal_cases)
    case (1 m' rl rg sel ss)
    have "m' = m" using 1(1) assms(2) by simp
    with 1(9) custom have pod: "pod_volumes (sts_pod t) =
        [config_map_volume ''config'' (object_name (P_crd P) (server_rolegroup_ref h g)),
         log_volume (P_logging P), config_map_volume ''log-config-mount'' cm]"
      by (simp add: pod_volumes_hello STACKABLE_CONFIG_DIR_NAME_def STACKABLE_LOG_CONFIG_MOUNT_DIR_NAME_def)
    have mounts: "volume_mounts (product_container t) = [(''config'', ''/stackable/config''),
        (''log'', ''/stackable/log''), (''log-config-mount'', ''/stackable/mount/log-config'')]"
      by (simp add: product_container_built[OF 1(9)] hello_container_mounts STACKABLE_CONFIG_DIR_NAME_def
          STACKABLE_CONFIG_DIR_def STACKABLE_LOG_DIR_NAME_def STACKABLE_LOG_DIR_def
          STACKABLE_LOG_CONFIG_MOUNT_DIR_NAME_def STACKABLE_LOG_CONFIG_MOUNT_DIR_def)
    show ?case
      using points no_logback meta
      by (simp add: pod mounts config_map_volume_def log_volume_def STACKABLE_LOG_DIR_NAME_def LOGBACK_XML_def)
  qed
qed

theorem custom_log_config_not_found_witness:
  "\<exists>s c t. ex_objects (JStr ''custom'') None = Inr (s, c, t) \<and> cm_entry c ''logback.xml'' = None"
proof -
  let ?h = "ex_logging_cluster (JStr ''custom'')"
  obtain s c t where built: "ex_objects (JStr ''custom'') None = Inr (s, c, t)" using ex_objects_built(2) by blast
  note group = built[unfolded ex_objects_def]
  obtain m where m: "merged_config (P_crd ex_platform) ?h Server (server_rolegroup_ref ?h ''default'') = Inr m"
    using build_role_group_Inr[OF group] by blast
  have "map_sum id (\<lambda>m. map_option choice (bt_get (containers (hc_logging m)) Hello))
      (merged_config (P_crd ex_platform) ?h Server (server_rolegroup_ref ?h ''default'')) =
      Inr (Some (Some (Custom ''my-logging'')))" by code_simp
  then have custom: "map_option choice (bt_get (containers (hc_logging m)) Hello) =
      Some (Some (Custom ''my-logging''))" by (simp add: m)
  from custom_log_config_not_found[OF group m custom] ex_files built show ?thesis by auto
qed

text \<open>
  C23: The Vector agent is complete or absent. If the merged configuration enables it, the
  aggregator's address was resolved, the ConfigMap has the agent's configuration for that
  address, and the pod has the agent's container; otherwise it has the product container only.
\<close>
theorem vector_agent_complete:
  assumes "build_role_group P h img addr sa (g, cfg) = Inr (s, c, t)"
    and "merged_config (P_crd P) h Server (server_rolegroup_ref h g) = Inr m"
  shows "if enable_vector_agent (hc_logging m)
    then \<exists>a. addr = Some a \<and>
      cm_entry c (VECTOR_CONFIG_FILE (P_logging P)) = Some (create_vector_config (P_logging P)
        (server_rolegroup_ref h g) a (automatic_config (bt_get (containers (hc_logging m)) Vector))) \<and>
      pod_containers (sts_pod t) = [container_built (product_container t), vector_agent_container img m]
    else pod_containers (sts_pod t) = [container_built (product_container t)]"
proof -
  note cm = built_config_map[OF assms]
  obtain app meta jvm where c: "c = [cm_metadata meta, cm_add_data APPLICATION_PROPERTIES app,
      cm_add_data JVM_SECURITY_PROPERTIES jvm]
      @ logging_entries (P_logging P) (server_rolegroup_ref h g) addr (hc_logging m)"
    using config_map_contents[OF cm] by auto
  have addr: "enable_vector_agent (hc_logging m) \<longrightarrow> addr \<noteq> None"
    using config_map_Inr[OF cm] extend_Inr_cases by blast
  from assms(1) show ?thesis
  proof (rule built_role_group, goal_cases)
    case (1 m' rl rg sel ss)
    have "m' = m" using 1(1) assms(2) by simp
    with 1(9) addr show ?case
      by (auto simp: product_container_built[OF 1(9)] pod_containers_hello c cm_entry_append
          cm_entry_logging_entries)
  qed
qed

theorem vector_agent_complete_witness:
  "\<exists>s c t. ex_objects (JStr ''vector'') (Some ''vector:6000'') = Inr (s, c, t) \<and>
     cm_entry c ''vector.yaml'' = Some ''vector:6000'' \<and> length (pod_containers (sts_pod t)) = 2"
proof -
  let ?h = "ex_logging_cluster (JStr ''vector'')"
  obtain s c t where built: "ex_objects (JStr ''vector'') (Some ''vector:6000'') = Inr (s, c, t)"
    using ex_objects_built(3) by blast
  note group = built[unfolded ex_objects_def]
  obtain m where m: "merged_config (P_crd ex_platform) ?h Server (server_rolegroup_ref ?h ''default'') = Inr m"
    using build_role_group_Inr[OF group] by blast
  have "map_sum id (enable_vector_agent \<circ> hc_logging)
      (merged_config (P_crd ex_platform) ?h Server (server_rolegroup_ref ?h ''default'')) = Inr True" by code_simp
  then have "enable_vector_agent (hc_logging m)" by (simp add: m)
  with vector_agent_complete[OF group m] built show ?thesis
    by (simp add: ex_vector_file) (simp add: ex_platform_def ex_logging_def)
qed

section \<open>What users can set on a pod\<close>

definition termination_grace_periods :: "pod_call list \<Rightarrow> duration list" where
  "termination_grace_periods cs =
     concat (map (\<lambda>c. case c of termination_grace_period d \<Rightarrow> [d] | _ \<Rightarrow> []) cs)"

lemma termination_grace_periods_hello:
  "termination_grace_periods (hello_pod_calls P h img rg m sa c) =
     (case hc_graceful_shutdown_timeout m of Some d \<Rightarrow> [d] | None \<Rightarrow> [])"
  by (auto simp: termination_grace_periods_def hello_pod_calls_def split: option.split)

text \<open>
  The configured shutdown timeout reaches the pod: the termination grace period is set
  once, to the merged configuration's timeout, and not at all if that has none.
\<close>
theorem grace_period_reaches_pod:
  assumes "build_role_group P h img addr sa (g, cfg) = Inr (s, c, t)"
    and "merged_config (P_crd P) h Server (server_rolegroup_ref h g) = Inr m"
  shows "termination_grace_periods (sts_pod t) =
    (case hc_graceful_shutdown_timeout m of Some d \<Rightarrow> [d] | None \<Rightarrow> [])"
  using assms(1)
  by (rule built_role_group) (use assms(2) in \<open>simp add: termination_grace_periods_hello\<close>)

theorem grace_period_reaches_pod_witness:
  "\<exists>s c t. ex_objects JNull None = Inr (s, c, t) \<and>
     termination_grace_periods (sts_pod t) = [from_minutes_unchecked 2]"
proof -
  obtain s c t where built: "ex_objects JNull None = Inr (s, c, t)" using ex_objects_built(1) by blast
  note group = built[unfolded ex_objects_def]
  obtain m where m: "merged_config (P_crd ex_platform) (ex_logging_cluster JNull) Server
      (server_rolegroup_ref (ex_logging_cluster JNull) ''default'') = Inr m"
    using build_role_group_Inr[OF group] by blast
  have "map_sum id hc_graceful_shutdown_timeout (merged_config (P_crd ex_platform)
      (ex_logging_cluster JNull) Server (server_rolegroup_ref (ex_logging_cluster JNull) ''default'')) =
      Inr (Some (from_minutes_unchecked 2))" by code_simp
  then have "hc_graceful_shutdown_timeout m = Some (from_minutes_unchecked 2)" by (simp add: m)
  with grace_period_reaches_pod[OF group m] built show ?thesis by simp
qed

text \<open>
  Pod overrides are merged over everything the operator sets, and the role group's over the
  role's: they are the last two merges into the template, in this order, and nothing else is.
\<close>
theorem pod_overrides_order:
  assumes "build_role_group P h img addr sa (g, cfg) = Inr (s, c, t)"
  shows "\<exists>rl rg. servers (spec h) = Some rl \<and> hm_get (role_groups rl) g = Some rg \<and>
    map_option template (sts_spec t) = Some (merge_from (merge_from (build_template (sts_pod t))
      (cc_pod_overrides (role_config_common rl))) (cc_pod_overrides (rg_config rg)))"
proof -
  from build_role_group_Inr[OF assms] obtain m where
    "build_server_rolegroup_statefulset P h img Server (server_rolegroup_ref h g) cfg m sa = Inr t"
    by blast
  from statefulset_Inr[OF this] show ?thesis
    by (auto simp: role_group_server result_simps sts_pod_def split: option.splits)
qed

theorem pod_overrides_order_witness:
  "\<exists>s c t. ex_objects JNull None = Inr (s, c, t) \<and> sts_overrides t = [JStr ''role'', JStr ''group'']"
proof -
  obtain s c t where built: "ex_objects JNull None = Inr (s, c, t)" using ex_objects_built(1) by blast
  from pod_overrides_order[OF built[unfolded ex_objects_def]] obtain rl rg ss where
    found: "servers (spec (ex_logging_cluster JNull)) = Some rl" "hm_get (role_groups rl) ''default'' = Some rg"
    and ss: "sts_spec t = Some ss" "template ss = merge_from (merge_from (build_template (sts_pod t))
      (cc_pod_overrides (role_config_common rl))) (cc_pod_overrides (rg_config rg))"
    by auto
  from found have "cc_pod_overrides (role_config_common rl) = JStr ''role''"
    "cc_pod_overrides (rg_config rg) = JStr ''group''"
    by (auto simp: ex_logging_cluster_def ex_cluster_with_def ex_role_def ex_common_def ex_groups_def
        ex_group_def hm_get_def)
  with ss built show ?thesis by (simp add: sts_overrides_def)
qed

section \<open>Replicas\<close>

text \<open>How many pods Kubernetes runs for a StatefulSet: its replica count, or one.\<close>

definition kube_pod_count :: "stateful_set \<Rightarrow> int" where
  "kube_pod_count t = (case Option.bind (sts_spec t) replicas of Some n \<Rightarrow> sint n | None \<Rightarrow> 1)"

text \<open>
  C34: The StatefulSet's replica count is the role group's, widened without changing its value
  (so never negative), and where it is given, \<open>pods\<close> predicts as many pods as Kubernetes runs.
  Where it is left out Kubernetes runs one pod while \<open>pods\<close> predicts none.
\<close>
theorem replicas_and_predicted_pods:
  assumes "build_role_group P h img addr sa (g, cfg) = Inr (s, c, t)"
  shows "\<exists>rg. hm_get (cluster_role_groups h) g = Some rg \<and>
    (case rg_replicas rg of
       Some n \<Rightarrow> map_option sint (Option.bind (sts_spec t) replicas) = Some (int (unat n)) \<and>
         int (length (rolegroup_pods L h ns g rg)) = kube_pod_count t
     | None \<Rightarrow> Option.bind (sts_spec t) replicas = None \<and>
         rolegroup_pods L h ns g rg = [] \<and> kube_pod_count t = 1)"
  using assms
proof (rule built_role_group, goal_cases)
  case (1 m rl rg sel ss)
  then show ?case
    by (intro exI[of _ rg])
      (auto simp: cluster_role_groups_def kube_pod_count_def rolegroup_pods_def Let_def
        replica_count_def u16_range_def split: option.split)
qed

theorem replicas_and_predicted_pods_witness:
  "\<exists>s c t. ex_objects JNull None = Inr (s, c, t) \<and> kube_pod_count t = 2"
proof -
  obtain s c t where built: "ex_objects JNull None = Inr (s, c, t)" using ex_objects_built(1) by blast
  have "hm_get (cluster_role_groups (ex_logging_cluster JNull)) ''default'' = Some (ex_group (Some 2))"
    by (simp add: cluster_role_groups_def ex_logging_cluster_def ex_cluster_with_def ex_role_def ex_groups_def
        hm_get_def)
  with replicas_and_predicted_pods[OF built[unfolded ex_objects_def], of ex_crd ns] built show ?thesis
    by (auto simp: ex_group_def rolegroup_pods_def Let_def replica_count_def)
qed

section \<open>The role's Service and budget\<close>

text \<open>
  The role's Service has the cluster's name and is reachable as the listener class asks:
  inside the cluster only, on the nodes, or through a load balancer, each class another Service
  type; it selects the pods of the role whatever their role group.
\<close>
theorem role_service_by_listener_class:
  assumes "build_server_role_service P h img = Inr svc"
  shows "meta_object_name (service_metadata svc) = om_name (metadata h) \<and> om_name (metadata h) \<noteq> None \<and>
    Option.bind (service_spec_of svc) svc_type = Some (case listener_class (cluster_config (spec h)) of
      ClusterInternal \<Rightarrow> ''ClusterIP'' | ExternalUnstable \<Rightarrow> ''NodePort'' | ExternalStable \<Rightarrow> ''LoadBalancer'') \<and>
    (\<exists>sel. role_selector (P_kube P) h ''hello-world'' ''server'' = Inr sel \<and>
      Option.bind (service_spec_of svc) selector = Some sel)"
  using role_service_Inr[OF assms]
  by (auto simp: APP_NAME_def split: CurrentlySupportedListenerClasses.split)

theorem role_service_by_listener_class_witness:
  "\<exists>svc. build_server_role_service ex_platform ex_cluster ex_img = Inr svc \<and>
     Option.bind (service_spec_of svc) svc_type = Some ''NodePort''"
proof -
  have "succeeds (build_server_role_service ex_platform ex_cluster ex_img)" by code_simp
  then obtain svc where svc: "build_server_role_service ex_platform ex_cluster ex_img = Inr svc"
    by (metis succeeds.elims(2))
  have "listener_class (cluster_config (spec ex_cluster)) = ExternalUnstable"
    by (simp add: ex_cluster_def ex_cluster_with_def)
  with role_service_by_listener_class[OF svc] svc show ?thesis by simp
qed

text \<open>
  C35: The disruption budget. A role without one enabled causes no call and no failure; an
  enabled one causes the application of a single budget for the role's pods, which allows as
  many unavailable pods as the user asked for, or one.
\<close>
theorem disruption_budget_exact:
  assumes "apply_budget P W h cs = (Inr u, cs')" and "servers (spec h) = Some rl"
  shows "let pdb = pod_disruption_budget (role_role_config rl) in
    cs' = cs @ (if pdb_enabled pdb
      then [cr_add (hello_cluster_resources h) (K_PodDisruptionBudget
        \<lparr> pdb_owner = h, pdb_app_name = ''hello-world'', pdb_role = ''server'',
          pdb_operator_name = ''hello.stackable.tech'', pdb_controller_name = ''hellocluster'',
          pdb_with_max_unavailable = (case pdb_max_unavailable pdb of Some n \<Rightarrow> n | None \<Rightarrow> 1) \<rparr>)]
      else [])"
proof -
  have "add_pdbs (P_pdb P) W (pod_disruption_budget (role_role_config rl)) h Server
      (hello_cluster_resources h) cs = (Inr u, cs')"
    using assms by (auto simp: apply_budget_def result_simps)
  from add_pdbs_Inr[OF this] show ?thesis
    by (simp add: Let_def role_budget_def APP_NAME_def OPERATOR_NAME_def HELLO_CONTROLLER_NAME_def
        pdb_max_unavailable_or_default_def max_unavailable_servers_def split: option.split)
qed

theorem disruption_budget_exact_witness:
  "length (snd (apply_budget ex_platform ex_world ex_cluster [])) = 1"
proof -
  have rl: "servers (spec ex_cluster) = Some (ex_role ex_empty_fragment ex_groups)"
    by (simp add: ex_cluster_def ex_cluster_with_def)
  have "succeeds (fst (apply_budget ex_platform ex_world ex_cluster []))" by code_simp
  then obtain u where "apply_budget ex_platform ex_world ex_cluster [] =
      (Inr u, snd (apply_budget ex_platform ex_world ex_cluster []))"
    by (metis succeeds.elims(2) prod.collapse)
  from disruption_budget_exact[OF this rl] show ?thesis
    by (simp add: Let_def ex_role_def)
qed

section \<open>Log files and the aggregator\<close>

text \<open>
  The product's log files are limited to ten mebibytes: by the documented behaviour of
  memory quantities the size handed to the Logback generator, a float converted to an unsigned
  integer, is exactly 10, for a file under the directory the log volume is mounted at. The
  conversion can only clamp to the bounds of the type, whatever the configured size.
\<close>
theorem log_files_limited:
  assumes "memory_contract LP"
  shows "logback_config LP lc = create_logback_config LP ''/stackable/log/hello'' ''hello-world.log4j.xml'' 10
      ''%d{ISO8601} %5p [%t] %c{2}: %m%n'' lc None \<and>
    uint (f32_as_u32 x) = max 0 (min (2 ^ 32 - 1) \<lfloor>x\<rfloor>)"
  by (simp add: logback_config_def max_log_files_size_mebi[OF assms] STACKABLE_LOG_DIR_def
      HELLO_WORLD_LOG_FILE_def CONSOLE_CONVERSION_PATTERN_def f32_as_u32_clamps)

theorem log_files_limited_witness:
  "logback_config ex_logging ex_automatic = ''/stackable/log/hello/hello-world.log4j.xml''"
  using log_files_limited[OF ex_memory_contract, of ex_automatic] by (simp add: ex_logging_def)

lemma resolve_only_reads:
  "\<exists>r ds. resolve_vector_aggregator_address LP W h cs = (r, cs @ ds) \<and> length ds \<le> 1 \<and> applied ds = []"
  by (auto simp: resolve_vector_aggregator_address_def io_calls Let_def io_bind_def io_context_def
      err_context_def or_missing_def split: sum.split option.split)

text \<open>
  Resolving the aggregator's address only reads: at most one ConfigMap is fetched and
  nothing is applied. An address comes out exactly if the cluster names a ConfigMap, has a
  namespace, and the fetched ConfigMap has an entry \<open>ADDRESS\<close>; then it is that entry. Where
  the cluster names no ConfigMap there is no call and no address, which is not an error.
\<close>
theorem aggregator_address_exact:
  "\<exists>r ds. resolve_vector_aggregator_address LP W h cs = (r, cs @ ds) \<and> length ds \<le> 1 \<and> applied ds = [] \<and>
    (\<forall>a. r = Inr (Some a) \<longleftrightarrow> (\<exists>cm ns data.
       vector_aggregator_config_map_name (cluster_config (spec h)) = Some cm \<and>
       resource_namespace LP h = Some ns \<and>
       answer_get_config_map W cs (client_get_config_map cm ns) = Inr (Some data) \<and>
       bt_get data ''ADDRESS'' = Some a)) \<and>
    (r = Inr None \<longleftrightarrow> vector_aggregator_config_map_name (cluster_config (spec h)) = None) \<and>
    (r = Inr None \<longrightarrow> ds = [])"
proof -
  let ?run = "resolve_vector_aggregator_address LP W h cs"
  obtain r ds where run: "?run = (r, cs @ ds)" and reads: "length ds \<le> 1" "applied ds = []"
    using resolve_only_reads by blast
  have some: "r = Inr (Some a) \<longleftrightarrow> (\<exists>cm ns data.
       vector_aggregator_config_map_name (cluster_config (spec h)) = Some cm \<and>
       resource_namespace LP h = Some ns \<and>
       answer_get_config_map W cs (client_get_config_map cm ns) = Inr (Some data) \<and>
       bt_get data ''ADDRESS'' = Some a)" for a
    using resolve_Inr_iff[of LP W h cs a] run by (metis prod.inject)
  have none: "r = Inr None \<longleftrightarrow> vector_aggregator_config_map_name (cluster_config (spec h)) = None"
    "r = Inr None \<longrightarrow> ds = []"
    using resolve_None_iff[of LP W h cs] run by auto
  show ?thesis
    by (intro exI[of _ r] exI[of _ ds]) (use run reads some none in blast)
qed

theorem aggregator_address_exact_witness:
  "\<exists>r ds. resolve_vector_aggregator_address ex_logging ex_world (ex_cluster_with None (Some ''aggregator'')) []
     = (r, ds) \<and> r = Inr (Some ''vector:6000'')"
proof -
  have "resource_namespace ex_logging (ex_cluster_with None (Some ''aggregator'')) = Some ''default''"
    "vector_aggregator_config_map_name (cluster_config (spec (ex_cluster_with None (Some ''aggregator'')))) =
      Some ''aggregator''"
    "answer_get_config_map ex_world [] (client_get_config_map ''aggregator'' ''default'') =
      Inr (Some [(''ADDRESS'', ''vector:6000'')])"
    "bt_get [(''ADDRESS'', ''vector:6000'')] ''ADDRESS'' = Some ''vector:6000''"
    by (simp_all add: ex_logging_def ex_cluster_with_def ex_world_def bt_get_def)
  then show ?thesis
    using aggregator_address_exact[of ex_logging ex_world "ex_cluster_with None (Some ''aggregator'')" "[]"]
    by fastforce
qed

end
