(* ===== verification/Plan_Facts.thy ===== *)
theory Plan_Facts
  imports Build_Properties
begin

text \<open>
  What the properties of the whole reconciliation rest on: every call of a run is made for the
  cluster it reconciles (\<open>call_sat\<close>, carried through the reconciler by the logic of
  \<open>Trace_Monad\<close>), how a plan follows the order of the role groups, and the identities of the
  objects it applies.
\<close>

section \<open>Every call is made for the cluster\<close>

text \<open>
  The service account and the role binding are the two objects that the library has built for this
  cluster, the product's name and the labels it requires of the cluster's resources.
\<close>

definition rbac_built_for :: "reconcile_platform \<Rightarrow> hello_cluster \<Rightarrow> json \<times> json \<Rightarrow> bool" where
  "rbac_built_for R h rbac \<longleftrightarrow> (\<exists>labels. get_required_labels R (hello_cluster_resources h) = Inr labels \<and>
     build_rbac_resources R h ''hello-world'' labels = Inr rbac)"

lemma rbac_resources_built: "rbac_resources R h = Inr rbac \<Longrightarrow> rbac_built_for R h rbac"
  by (auto simp: rbac_resources_def rbac_built_for_def Let_def APP_NAME_def result_simps)

fun object_owned :: "reconcile_platform \<Rightarrow> hello_cluster \<Rightarrow> kube_object \<Rightarrow> bool" where
  "object_owned R h (K_Service s) = owned_by h (service_metadata s)"
| "object_owned R h (K_ConfigMap c) = owned_by h (cm_meta c)"
| "object_owned R h (K_StatefulSet t) = owned_by h (sts_metadata t)"
| "object_owned R h (K_PodDisruptionBudget b) = (pdb_owner b = h)"
| "object_owned R h (K_ServiceAccount account) = (\<exists>binding. rbac_built_for R h (account, binding))"
| "object_owned R h (K_RoleBinding binding) = (\<exists>account. rbac_built_for R h (account, binding))"

text \<open>
  An invariant of the objects is one of the calls. A protocol with one phase states it of every
  call of a run.
\<close>

fun call_sat :: "platform \<Rightarrow> (kube_object \<Rightarrow> bool) \<Rightarrow> hello_cluster \<Rightarrow> call \<Rightarrow> bool" where
  "call_sat P I h (cr_add cr obj) = (cr = hello_cluster_resources h \<and> I obj)"
| "call_sat P I h (client_get_config_map cm ns) =
     (vector_aggregator_config_map_name (cluster_config (spec h)) = Some cm \<and>
      resource_namespace (P_logging P) h = Some ns)"
| "call_sat P I h (apply_patch_status manager h' st) = (manager = ''hello.stackable.tech'' \<and> h' = h)"
| "call_sat P I h (delete_orphaned_resources cr) = (cr = hello_cluster_resources h)"

abbreviation call_ok :: "platform \<Rightarrow> reconcile_platform \<Rightarrow> hello_cluster \<Rightarrow> call \<Rightarrow> bool" where
  "call_ok P R h \<equiv> call_sat P (object_owned R h) h"

text \<open>A call made for the cluster, whatever the object applied.\<close>

abbreviation call_for :: "platform \<Rightarrow> hello_cluster \<Rightarrow> call \<Rightarrow> bool" where
  "call_for P h \<equiv> call_sat P (\<lambda>_. True) h"

abbreviation each_call :: "(call \<Rightarrow> bool) \<Rightarrow> unit \<Rightarrow> call \<Rightarrow> unit \<Rightarrow> bool" where
  "each_call J \<equiv> \<lambda>_ c _. J c"

abbreviation calls_all :: "(call \<Rightarrow> bool) \<Rightarrow> (call, 'e, 'a) io \<Rightarrow> bool" where
  "calls_all J m \<equiv> stage_ok (each_call J) () m (\<lambda>_ _. True) (\<lambda>_ _. True)"

lemma follows_each_call: "follows (each_call J) p cs q \<Longrightarrow> \<forall>c \<in> set cs. J c"
  by (induction rule: follows.induct) auto

lemma calls_all_bind:
  "calls_all J m \<Longrightarrow> (\<And>x. calls_all J (f x)) \<Longrightarrow> calls_all J (io_bind m f)"
  by (rule stage_bind) auto

lemma calls_all_lift: "calls_all J (io_lift r)"
  by (rule stage_lift) auto

lemma calls_all_lift_then:
  "(\<And>x. r = Inr x \<Longrightarrow> calls_all J (f x)) \<Longrightarrow> calls_all J (io_bind (io_lift r) f)"
  by (rule stage_lift_then) auto

lemma calls_all_context: "calls_all J m \<Longrightarrow> calls_all J (io_context m f)"
  by (rule stage_context)

lemma calls_all_call: "J c \<Longrightarrow> calls_all J (io_call c answer)"
  by (rule stage_call) auto

lemma calls_all_add:
  "I obj \<Longrightarrow> calls_all (call_sat P I h) (io_add W (hello_cluster_resources h) obj)"
  unfolding io_add_def Let_def by (rule calls_all_call) simp

lemmas calls_all_rules = calls_all_context calls_all_lift calls_all_add

lemma calls_all_run:
  assumes "calls_all J m"
  obtains r ds where "m cs = (r, cs @ ds)" and "\<forall>c \<in> set ds. J c"
  using assms follows_each_call unfolding stage_ok_def by metis

text \<open>
  What every builder establishes for the objects it builds holds for all objects of a run,
  however it ends.
\<close>

locale applied_invariant =
  fixes P :: platform and R :: reconcile_platform and I :: "hello_cluster \<Rightarrow> kube_object \<Rightarrow> bool"
  assumes service_account: "rbac_resources R h = Inr rbac \<Longrightarrow> I h (K_ServiceAccount (fst rbac))"
    and role_binding: "rbac_resources R h = Inr rbac \<Longrightarrow> I h (K_RoleBinding (snd rbac))"
    and role_service: "build_server_role_service P h img = Inr s \<Longrightarrow> I h (K_Service s)"
    and role_group_service: "build_role_group P h img addr sa rg = Inr (s, c, t) \<Longrightarrow> I h (K_Service s)"
    and role_group_config_map: "build_role_group P h img addr sa rg = Inr (s, c, t) \<Longrightarrow> I h (K_ConfigMap c)"
    and role_group_stateful_set: "build_role_group P h img addr sa rg = Inr (s, c, t) \<Longrightarrow> I h (K_StatefulSet t)"
    and budget: "build_pdb (P_pdb P) h Server (pdb_max_unavailable_or_default pdb Server) = Inr b \<Longrightarrow>
      I h (K_PodDisruptionBudget b)"
begin

lemma apply_rbac_calls: "rbac_resources R h = Inr rbac \<Longrightarrow> calls_all (call_sat P (I h) h) (apply_rbac W h rbac)"
  unfolding apply_rbac_def Let_def by (intro calls_all_bind calls_all_rules service_account role_binding)

lemma apply_role_service_calls: "calls_all (call_sat P (I h) h) (apply_role_service P W h img)"
  unfolding apply_role_service_def
  by (rule calls_all_lift_then, intro calls_all_bind calls_all_rules) (rule role_service)

lemma resolve_calls: "calls_all (call_sat P (I h) h) (resolve_vector_aggregator_address (P_logging P) W h)"
proof (cases "vector_aggregator_config_map_name (cluster_config (spec h))")
  case None
  then show ?thesis by (simp only: resolve_no_config_map calls_all_lift)
next
  case (Some cm)
  show ?thesis
    unfolding resolve_vector_aggregator_address_def io_get_config_map_def Let_def Some option.case
    by (rule calls_all_lift_then, intro calls_all_bind calls_all_context calls_all_lift calls_all_call)
      (simp add: Some result_simps)
qed

lemma role_group_calls: "calls_all (call_sat P (I h) h) (reconcile_role_group P W h img addr sa rg conds)"
  unfolding reconcile_role_group_def Let_def case_prod_beta
  by (rule calls_all_lift_then, intro calls_all_bind calls_all_rules)
    (metis prod.collapse role_group_service role_group_config_map role_group_stateful_set)+

lemma role_groups_calls: "calls_all (call_sat P (I h) h) (reconcile_role_groups P W h img addr sa groups conds)"
  by (induction groups arbitrary: conds)
    (simp_all only: reconcile_role_groups.simps calls_all_lift calls_all_bind role_group_calls)

lemma budget_calls: "calls_all (call_sat P (I h) h) (apply_budget P W h)"
proof (cases "role_config h Server")
  case None
  then show ?thesis by (simp only: apply_budget_def option.case calls_all_lift)
next
  case (Some rc)
  have "calls_all (call_sat P (I h) h) (add_pdbs (P_pdb P) W pdb h Server (hello_cluster_resources h))" for pdb
  proof (cases "pdb_enabled pdb")
    case False
    then show ?thesis by (simp only: add_pdbs_def if_True simp_thms calls_all_lift)
  next
    case True
    show ?thesis
      unfolding add_pdbs_def using True
      by (simp only: simp_thms if_False, rule_tac calls_all_lift_then, intro calls_all_bind calls_all_rules)
        (rule budget)
  qed
  then show ?thesis unfolding apply_budget_def Some option.case by (rule calls_all_context)
qed

lemma finish_calls: "calls_all (call_sat P (I h) h) (finish_reconcile R W h conds)"
  unfolding finish_reconcile_def io_patch_status_def io_delete_orphaned_def Let_def
  by (intro calls_all_bind calls_all_context calls_all_lift calls_all_call) (simp_all add: OPERATOR_NAME_def)

lemma reconcile_calls: "calls_all (call_sat P (I h) h) (reconcile_hello P R W pc (Inr h))"
  unfolding reconcile_hello_def Let_def err_context_simps io_bind_lift_Inr
  by (intro calls_all_bind calls_all_lift_then calls_all_context apply_rbac_calls apply_role_service_calls
      resolve_calls role_groups_calls budget_calls finish_calls)

lemma run_calls:
  assumes "reconcile_hello P R W pc guarded cs = (r, cs @ ds)" and "c \<in> set ds"
  obtains h where "guarded = Inr h" and "call_sat P (I h) h c"
proof (cases guarded)
  case (Inl e)
  then show thesis using assms by (simp add: reconcile_hello_def)
next
  case (Inr h)
  have "\<forall>c \<in> set ds. call_sat P (I h) h c"
    using calls_all_run[OF reconcile_calls] assms(1) by (metis Inr Pair_inject same_append_eq)
  with Inr assms(2) that show thesis by blast
qed

lemma run_objects:
  assumes "reconcile_hello P R W pc (Inr h) cs = (r, cs @ ds)" and "obj \<in> set (applied ds)"
  shows "I h obj"
proof -
  have "\<exists>cr. cr_add cr obj \<in> set ds"
    using assms(2) by (auto simp: applied_def split: call.splits)
  then obtain cr where "cr_add cr obj \<in> set ds" by blast
  with assms(1) show ?thesis by (rule run_calls) simp
qed

end

interpretation ownership: applied_invariant P R "object_owned R" for P R
proof unfold_locales
  fix h img addr sa rg s c t
  assume "build_role_group P h img addr sa rg = Inr (s, c, t)"
  then show "object_owned R h (K_Service s)" "object_owned R h (K_ConfigMap c)" "object_owned R h (K_StatefulSet t)"
    by (cases rg; auto dest!: build_role_group_Inr intro: rolegroup_service_owned config_map_owned statefulset_owned)+
next
  fix h rbac
  assume "rbac_resources R h = Inr rbac"
  then obtain account binding where "rbac = (account, binding)" "rbac_built_for R h (account, binding)"
    by (metis rbac_resources_built prod.collapse)
  then show "object_owned R h (K_ServiceAccount (fst rbac))" "object_owned R h (K_RoleBinding (snd rbac))"
    by auto
qed (auto simp: role_service_owned role_budget_def dest: build_pdb_Inr)

interpretation addressed: applied_invariant P R "\<lambda>_ _. True" for P R
  by unfold_locales simp_all

section \<open>A plan and the order of the role groups\<close>

lemma build_all_mset:
  assumes "build_all f xs = Inr ys" and "mset xs' = mset xs"
  shows "\<exists>ys'. build_all f xs' = Inr ys' \<and> mset ys' = mset ys"
proof -
  have all: "build_all f zs = Inr vs \<Longrightarrow> vs = map (\<lambda>x. projr (f x)) zs" for zs vs
    by (induction zs arbitrary: vs) (auto simp: result_simps)
  have "set xs' = set xs" using assms(2) by (rule mset_eq_setD)
  from build_all_perm_ok[OF assms(1) this] obtain ys' where ys': "build_all f xs' = Inr ys'" by blast
  moreover have "mset ys' = mset ys"
    unfolding all[OF ys'] all[OF assms(1)] using assms(2) by simp
  ultimately show ?thesis by blast
qed

lemma hm_same_mset: "hm_same m n \<Longrightarrow> mset n = mset m"
  by (simp add: hm_same_def hm_invar_def distinct_map set_eq_iff_mset_eq_distinct[symmetric])

lemma mset_concat_map: "mset (concat (map f xs)) = (\<Sum>x \<in># mset xs. mset (f x))"
  by (induction xs) simp_all

lemma reconcile_plan_Inr:
  "reconcile_plan P R pc h addr sa = Inr plan \<longleftrightarrow>
    (\<exists>config rbac svc groups budgets. server_config_of R pc h = Inr config \<and>
      rbac_resources R h = Inr rbac \<and>
      build_server_role_service P h (hello_resolved_image R h) = Inr svc \<and>
      build_all (build_role_group P h (hello_resolved_image R h) addr sa) config = Inr groups \<and>
      planned_budget P h = Inr budgets \<and>
      plan = [cr_add (hello_cluster_resources h) (K_ServiceAccount (fst rbac)),
              cr_add (hello_cluster_resources h) (K_RoleBinding (snd rbac)),
              cr_add (hello_cluster_resources h) (K_Service svc)]
        @ address_calls P h
        @ concat (map (group_calls (hello_cluster_resources h)) groups)
        @ map (\<lambda>b. cr_add (hello_cluster_resources h) (K_PodDisruptionBudget b)) budgets)"
  unfolding reconcile_plan_def Let_def by (auto simp: result_simps)

lemma plan_not_delete: "reconcile_plan P R pc h addr sa = Inr plan \<Longrightarrow> \<forall>c \<in> set plan. \<not> is_delete c"
  by (auto simp: reconcile_plan_Inr address_calls_def split: option.splits)

section \<open>The identities of the applied objects\<close>

text \<open>Objects with the same kind and name are the same object to the cluster.\<close>

fun object_identity :: "kube_object \<Rightarrow> string \<times> string option" where
  "object_identity (K_ServiceAccount _) = (''ServiceAccount'', None)"
| "object_identity (K_RoleBinding _) = (''RoleBinding'', None)"
| "object_identity (K_Service s) = (''Service'', meta_object_name (service_metadata s))"
| "object_identity (K_ConfigMap c) = (''ConfigMap'', meta_object_name (cm_meta c))"
| "object_identity (K_StatefulSet t) = (''StatefulSet'', meta_object_name (sts_metadata t))"
| "object_identity (K_PodDisruptionBudget _) = (''PodDisruptionBudget'', None)"

lemma group_identities:
  assumes "build_role_group P h img addr sa (g, cfg) = Inr objs"
  shows "map object_identity (applied (group_calls cr objs)) =
    map (\<lambda>kind. (kind, Some (object_name (P_crd P) (server_rolegroup_ref h g))))
      [''Service'', ''ConfigMap'', ''StatefulSet'']"
proof -
  obtain s c t where objs: "objs = (s, c, t)" by (cases objs)
  from build_role_group_Inr[OF assms[unfolded objs]] obtain m where
    "build_server_rolegroup_config_map P h img (server_rolegroup_ref h g) cfg m addr = Inr c"
    by blast
  from config_map_contents[OF this]
  have "meta_object_name (cm_meta c) = Some (object_name (P_crd P) (server_rolegroup_ref h g))" by auto
  with assms show ?thesis unfolding objs by (elim built_role_group) simp
qed

lemma groups_identities:
  "build_all (build_role_group P h img addr sa) config = Inr groups \<Longrightarrow>
    map object_identity (applied (concat (map (group_calls cr) groups))) =
    concat (map (\<lambda>g. map (\<lambda>kind. (kind, Some (object_name (P_crd P) (server_rolegroup_ref h g))))
      [''Service'', ''ConfigMap'', ''StatefulSet'']) (map fst config))"
proof (induction config arbitrary: groups)
  case Nil
  then show ?case by simp
next
  case (Cons rg rest)
  obtain g cfg where rg: "rg = (g, cfg)" by force
  from Cons.prems obtain o1 os where first: "build_role_group P h img addr sa (g, cfg) = Inr o1"
    and "build_all (build_role_group P h img addr sa) rest = Inr os" "groups = o1 # os"
    by (auto simp: result_simps rg)
  with Cons.IH[of os] group_identities[OF first, of cr] show ?case by (simp add: rg)
qed

lemma distinct_group_identities:
  assumes "distinct gs" and "inj_on n (set gs)"
  shows "distinct (concat (map (\<lambda>g. map (\<lambda>kind. (kind, Some (n g)))
    [''Service'', ''ConfigMap'', ''StatefulSet'']) gs))"
  by (rule distinct_concat_map_tagged[OF assms(1)]) (use assms(2) in \<open>auto simp: inj_on_def\<close>)

lemma applied_address_calls [simp]: "applied (address_calls P h) = []"
  by (simp add: address_calls_def split: option.split)

lemma applied_budgets [simp]:
  "applied (map (\<lambda>b. cr_add cr (K_PodDisruptionBudget b)) bs) = map K_PodDisruptionBudget bs"
  by (induction bs) simp_all

lemma length_planned_budget: "planned_budget P h = Inr bs \<Longrightarrow> bs = [] \<or> (\<exists>b. bs = [b])"
  by (auto simp: planned_budget_def Let_def result_simps split: option.splits if_splits)

text \<open>
  If object names tell role groups apart and none is the cluster's, no two objects of a plan are
  the same.
\<close>

lemma plan_identities_distinct:
  assumes "reconcile_plan P R pc h addr sa_name = Inr plan"
    and "server_config_of R pc h = Inr config" and "hm_invar config"
    and "inj_on (\<lambda>g. object_name (P_crd P) (server_rolegroup_ref h g)) (fst ` set config)"
    and "om_name (metadata h) \<notin> (\<lambda>g. Some (object_name (P_crd P) (server_rolegroup_ref h g))) ` fst ` set config"
  shows "distinct (map object_identity (applied plan))"
proof -
  let ?n = "\<lambda>g. object_name (P_crd P) (server_rolegroup_ref h g)"
  let ?ids = "concat (map (\<lambda>g. map (\<lambda>kind. (kind, Some (?n g)))
    [''Service'', ''ConfigMap'', ''StatefulSet'']) (map fst config))"
  obtain rbac svc groups budgets where
    svc: "build_server_role_service P h (hello_resolved_image R h) = Inr svc"
    and groups: "build_all (build_role_group P h (hello_resolved_image R h) addr sa_name) config = Inr groups"
    and budgets: "planned_budget P h = Inr budgets"
    and plan: "plan = [cr_add (hello_cluster_resources h) (K_ServiceAccount (fst rbac)),
              cr_add (hello_cluster_resources h) (K_RoleBinding (snd rbac)),
              cr_add (hello_cluster_resources h) (K_Service svc)]
        @ address_calls P h
        @ concat (map (group_calls (hello_cluster_resources h)) groups)
        @ map (\<lambda>b. cr_add (hello_cluster_resources h) (K_PodDisruptionBudget b)) budgets"
    using assms(1,2) unfolding reconcile_plan_Inr by auto
  have dist: "distinct ?ids"
    by (rule distinct_group_identities) (use assms(3,4) in \<open>simp_all add: hm_invar_def\<close>)
  have service: "meta_object_name (service_metadata svc) = om_name (metadata h)"
    using role_service_Inr[OF svc] by auto
  have ids: "map object_identity (applied plan) =
      [(''ServiceAccount'', None), (''RoleBinding'', None), (''Service'', om_name (metadata h))] @ ?ids
      @ map (\<lambda>b. (''PodDisruptionBudget'', None)) budgets"
    unfolding plan using groups_identities[OF groups] by (simp add: service)
  show ?thesis
    unfolding ids using dist assms(5) length_planned_budget[OF budgets] by auto
qed

section \<open>The example, from any history\<close>

lemma ex_run_from:
  "\<exists>ds. reconcile_hello ex_platform ex_reconcile ex_world JNull (Inr ex_cluster) cs =
     (Inr await_change, cs @ ds)"
proof -
  have "fst (reconcile_hello ex_platform ex_reconcile ex_world JNull (Inr ex_cluster) cs) = Inr await_change"
    by code_simp
  moreover obtain r ds where
    "reconcile_hello ex_platform ex_reconcile ex_world JNull (Inr ex_cluster) cs = (r, cs @ ds)"
    using addressed.reconcile_calls[where P = ex_platform and R = ex_reconcile and h = ex_cluster]
    unfolding stage_ok_def by blast
  ultimately show ?thesis by simp
qed

end
