(* ===== verification/Hash_Order.thy ===== *)
theory Hash_Order
  imports Plan_Facts
begin

text \<open>
  Runs and the order of hash maps. A \<open>HashMap\<close> of Rust is iterated in an order that differs from
  one map to the next, so the validated configuration of the same object comes in another order in
  every run. A \<open>reconcile_platform\<close> is therefore the library as it behaves in one run, with its
  maps listed in that run's order; what the library does in several runs for the same input is the
  same up to that order (\<open>reordered_library\<close>). Plans are then the same up to the order of the
  role groups.
\<close>

section \<open>The library in another run\<close>

text \<open>
  The order of the role groups, and of the kinds of properties of a role group, may be another;
  of a failure only that it happens is the same, as the first of several errors may be another.
\<close>

definition same_up_to_order :: "ext_error + (string, role_properties) hash_map
    \<Rightarrow> ext_error + (string, role_properties) hash_map \<Rightarrow> bool" where
  "same_up_to_order = rel_sum (\<lambda>_ _. True) (hm_rel (hm_rel hm_same))"

definition reordered_library :: "reconcile_platform \<Rightarrow> reconcile_platform \<Rightarrow> bool" where
  "reordered_library R R' \<longleftrightarrow> R' = R \<or>
     (\<exists>t v. R' = R\<lparr> transform_all_roles_to_config := t, validate_all_roles_and_groups_config := v \<rparr> \<and>
       (\<forall>impl h request version pc ignore_unknown ignore_err.
          same_up_to_order
            (and_then (transform_all_roles_to_config R impl h request) (\<lambda>transformed.
               validate_all_roles_and_groups_config R version transformed pc ignore_unknown ignore_err))
            (and_then (t impl h request) (\<lambda>transformed. v version transformed pc ignore_unknown ignore_err))))"

lemma reordered_refl: "reordered_library R R"
  by (simp add: reordered_library_def)

lemma reordered_same:
  assumes "reordered_library R R'"
  shows "hello_resolved_image R' h = hello_resolved_image R h" and "rbac_resources R' h = rbac_resources R h"
    and "sa_name_any R' = sa_name_any R" and "reconciled_status R' h conds = reconciled_status R h conds"
  using assms
  by (auto simp: reordered_library_def hello_resolved_image_def rbac_resources_def reconciled_status_def)

text \<open>The validated configuration of all roles, and the server role's part of it.\<close>

definition validated_roles ::
  "reconcile_platform \<Rightarrow> json \<Rightarrow> hello_cluster \<Rightarrow> hello_config_fragment role
     \<Rightarrow> ext_error + (string, role_properties) hash_map" where
  "validated_roles R pc h server =
     and_then (transform_all_roles_to_config R hello_configuration h (role_request_of server)) (\<lambda>transformed.
     validate_all_roles_and_groups_config R (ri_product_version (hello_resolved_image R h)) transformed pc
       False False)"

definition server_entry :: "(string, role_properties) hash_map \<Rightarrow> role_properties" where
  "server_entry validated = (case hm_get validated (role_to_string Server) of Some m \<Rightarrow> m | None \<Rightarrow> [])"

lemma server_config_of_Inr:
  "server_config_of R pc h = Inr config \<longleftrightarrow> (\<exists>server validated. servers (spec h) = Some server \<and>
     validated_roles R pc h server = Inr validated \<and> config = server_entry validated)"
proof (cases "servers (spec h)")
  case None
  then show ?thesis by (simp add: server_config_of_def)
next
  case (Some server)
  then show ?thesis
    by (cases "transform_all_roles_to_config R hello_configuration h (role_request_of server)")
      (auto simp: server_config_of_def validated_roles_def server_entry_def result_simps)
qed

lemma server_entry_rel:
  assumes "hm_rel (hm_rel V) m n"
  shows "hm_rel V (server_entry m) (server_entry n)"
  using hm_rel_get[OF assms, of "role_to_string Server"]
  by (auto simp: server_entry_def hm_rel_def hm_invar_def hm_get_def)

lemma reordered_validated:
  "reordered_library R R' \<Longrightarrow> R' = R \<or> same_up_to_order (validated_roles R pc h server) (validated_roles R' pc h server)"
  by (auto simp: reordered_library_def validated_roles_def hello_resolved_image_def)

lemma reordered_config:
  assumes "reordered_library R R'" and "R' \<noteq> R"
  shows "server_config_of R pc h = Inr config \<Longrightarrow>
      \<exists>config'. server_config_of R' pc h = Inr config' \<and> hm_rel hm_same config config'"
    and "server_config_of R' pc h = Inr config' \<Longrightarrow>
      \<exists>config. server_config_of R pc h = Inr config \<and> hm_rel hm_same config config'"
proof -
  have rel: "same_up_to_order (validated_roles R pc h server) (validated_roles R' pc h server)" for server
    using reordered_validated assms by blast
  show "\<exists>config'. server_config_of R' pc h = Inr config' \<and> hm_rel hm_same config config'"
    if config: "server_config_of R pc h = Inr config"
  proof -
    obtain server m where m: "servers (spec h) = Some server" "validated_roles R pc h server = Inr m"
      "config = server_entry m" using config unfolding server_config_of_Inr by blast
    obtain n where "validated_roles R' pc h server = Inr n" "hm_rel (hm_rel hm_same) m n"
      using rel[of server] unfolding m(2) same_up_to_order_def by (auto elim: rel_sum.cases)
    with m show ?thesis unfolding server_config_of_Inr by (blast intro: server_entry_rel)
  qed
  show "\<exists>config. server_config_of R pc h = Inr config \<and> hm_rel hm_same config config'"
    if config': "server_config_of R' pc h = Inr config'"
  proof -
    obtain server n where n: "servers (spec h) = Some server" "validated_roles R' pc h server = Inr n"
      "config' = server_entry n" using config' unfolding server_config_of_Inr by blast
    obtain m where "validated_roles R pc h server = Inr m" "hm_rel (hm_rel hm_same) m n"
      using rel[of server] unfolding n(2) same_up_to_order_def by (auto elim: rel_sum.cases)
    with n show ?thesis unfolding server_config_of_Inr by (blast intro: server_entry_rel)
  qed
qed

section \<open>Plans up to order\<close>

lemma build_all_map: "(\<And>x. x \<in> set xs \<Longrightarrow> f (g x) = f x) \<Longrightarrow> build_all f (map g xs) = build_all f xs"
  by (induction xs) simp_all

text \<open>Of related maps, one has the entries of the other up to the order and that of the values.\<close>

lemma hm_rel_map:
  assumes "hm_rel V m n"
  shows "mset (map (\<lambda>(k, v). (k, the (hm_get n k))) m) = mset n"
    and "(k, v) \<in> set m \<Longrightarrow> V v (the (hm_get n k))"
proof -
  have dist: "distinct (map fst m)" "distinct (map fst n)"
    using assms by (simp_all add: hm_rel_def hm_invar_def)
  have "map fst (map (\<lambda>(k, v). (k, the (hm_get n k))) m) = map fst m" by (simp add: case_prod_beta)
  with dist(1) have "distinct (map fst (map (\<lambda>(k, v). (k, the (hm_get n k))) m))" by (simp only:)
  then have "distinct (map (\<lambda>(k, v). (k, the (hm_get n k))) m)" unfolding distinct_map[of fst] by (rule conjunct1)
  moreover have "distinct n" using dist(2) unfolding distinct_map by (rule conjunct1)
  moreover have "set (map (\<lambda>(k, v). (k, the (hm_get n k))) m) = set n"
  proof (intro set_eqI iffI)
    fix p
    assume "p \<in> set (map (\<lambda>(k, v). (k, the (hm_get n k))) m)"
    then obtain k v where p: "p = (k, the (hm_get n k))" "(k, v) \<in> set m" by auto
    then have "hm_get m k = Some v" using dist by (simp add: hm_get_def)
    with hm_rel_get[OF assms, of k] obtain w where "hm_get n k = Some w" by auto
    then show "p \<in> set n" unfolding p by (auto simp: hm_get_def dest: map_of_SomeD)
  next
    fix p
    assume p: "p \<in> set n"
    then have n: "hm_get n (fst p) = Some (snd p)" using dist by (simp add: hm_get_def)
    with hm_rel_get[OF assms, of "fst p"] obtain v where "(fst p, v) \<in> set m"
      by (auto simp: hm_get_def dest: map_of_SomeD)
    with n show "p \<in> set (map (\<lambda>(k, v). (k, the (hm_get n k))) m)" by force
  qed
  ultimately show "mset (map (\<lambda>(k, v). (k, the (hm_get n k))) m) = mset n"
    using set_eq_iff_mset_eq_distinct by blast
  show "V v (the (hm_get n k))" if "(k, v) \<in> set m"
  proof -
    have "hm_get m k = Some v" using that dist by (simp add: hm_get_def)
    then show ?thesis using hm_rel_get[OF assms, of k] by auto
  qed
qed

lemma build_groups_reordered:
  assumes "build_all (build_role_group P h img addr sa) config = Inr groups" and "hm_rel hm_same config config'"
  shows "\<exists>groups'. build_all (build_role_group P h img addr sa) config' = Inr groups' \<and> mset groups' = mset groups"
proof -
  let ?g = "\<lambda>(k, v). (k, the (hm_get config' k))"
  have "build_all (build_role_group P h img addr sa) (map ?g config) = Inr groups"
    unfolding assms(1)[symmetric]
    by (rule build_all_map) (auto intro!: build_role_group_same hm_rel_map(2)[OF assms(2)])
  from build_all_mset[OF this hm_rel_map(1)[OF assms(2), symmetric]] show ?thesis .
qed

text \<open>
  With the library of another run there is a plan exactly if there is one with this run's, and it
  has the same calls.
\<close>

lemma plan_reordered:
  assumes "reconcile_plan P R pc h addr sa = Inr plan"
    and "server_config_of R pc h = Inr config" and "server_config_of R' pc h = Inr config'"
    and "hm_rel hm_same config config'"
    and "hello_resolved_image R' h = hello_resolved_image R h" and "rbac_resources R' h = rbac_resources R h"
  shows "\<exists>plan'. reconcile_plan P R' pc h addr sa = Inr plan' \<and> mset plan' = mset plan \<and> take 3 plan' = take 3 plan"
proof -
  obtain rbac svc groups budgets where parts: "rbac_resources R h = Inr rbac"
    "build_server_role_service P h (hello_resolved_image R h) = Inr svc"
    "planned_budget P h = Inr budgets"
    and groups: "build_all (build_role_group P h (hello_resolved_image R h) addr sa) config = Inr groups"
    and plan: "plan = [cr_add (hello_cluster_resources h) (K_ServiceAccount (fst rbac)),
              cr_add (hello_cluster_resources h) (K_RoleBinding (snd rbac)),
              cr_add (hello_cluster_resources h) (K_Service svc)]
        @ address_calls P h
        @ concat (map (group_calls (hello_cluster_resources h)) groups)
        @ map (\<lambda>b. cr_add (hello_cluster_resources h) (K_PodDisruptionBudget b)) budgets"
    using assms(1,2) unfolding reconcile_plan_Inr by auto
  obtain groups' where groups': "mset groups' = mset groups"
    "build_all (build_role_group P h (hello_resolved_image R h) addr sa) config' = Inr groups'"
    using build_groups_reordered[OF groups assms(4)] by blast
  then have "mset (concat (map (group_calls cr) groups')) = mset (concat (map (group_calls cr) groups))" for cr
    by (simp only: mset_concat_map)
  with parts groups' assms(3,5,6) show ?thesis
    unfolding reconcile_plan_Inr plan by simp
qed

lemma reordered_plan:
  assumes "reordered_library R R'"
  shows "reconcile_plan P R pc h addr sa = Inr plan \<Longrightarrow>
      \<exists>plan'. reconcile_plan P R' pc h addr sa = Inr plan' \<and> mset plan' = mset plan \<and> take 3 plan' = take 3 plan"
    and "reconcile_plan P R' pc h addr sa = Inr plan' \<Longrightarrow>
      \<exists>plan. reconcile_plan P R pc h addr sa = Inr plan \<and> mset plan' = mset plan \<and> take 3 plan' = take 3 plan"
proof -
  note same = reordered_same(1,2)[OF assms]
  show "\<exists>plan'. reconcile_plan P R' pc h addr sa = Inr plan' \<and> mset plan' = mset plan \<and> take 3 plan' = take 3 plan"
    if plan: "reconcile_plan P R pc h addr sa = Inr plan"
  proof (cases "R' = R")
    case False
    obtain config where config: "server_config_of R pc h = Inr config"
      using plan unfolding reconcile_plan_Inr by blast
    from reordered_config(1)[OF assms False config] show ?thesis
      using plan_reordered[OF plan config _ _ same] by blast
  qed (use plan in blast)
  show "\<exists>plan. reconcile_plan P R pc h addr sa = Inr plan \<and> mset plan' = mset plan \<and> take 3 plan' = take 3 plan"
    if plan: "reconcile_plan P R' pc h addr sa = Inr plan'"
  proof (cases "R' = R")
    case False
    obtain config' where config': "server_config_of R' pc h = Inr config'"
      using plan unfolding reconcile_plan_Inr by blast
    from reordered_config(2)[OF assms False config'] obtain config where
      config: "server_config_of R pc h = Inr config" and "hm_rel hm_same config config'" by blast
    then have "hm_rel hm_same config' config" by (rule_tac hm_rel_sym) (auto simp: hm_same_def)
    from plan_reordered[OF plan config' config this same[symmetric]] show ?thesis by metis
  qed (use plan in blast)
qed

lemma applied_mset: "mset plan' = mset plan \<Longrightarrow> mset (applied plan') = mset (applied plan)"
  by (simp add: applied_def mset_concat_map)

section \<open>The library of the example, in another run\<close>

definition ex_reordered :: reconcile_platform where
  "ex_reordered = ex_reconcile\<lparr> validate_all_roles_and_groups_config := (\<lambda>_ _ _ _ _.
     Inr [(''server'', [(''backup'', rev ex_properties), (''default'', ex_properties)])]) \<rparr>"

lemma ex_reordered_library: "reordered_library ex_reconcile ex_reordered"
proof -
  have "hm_same ex_properties ex_properties" "hm_same ex_properties (rev ex_properties)"
    using ex_properties_invar by (auto simp: hm_same_def hm_invar_def rev_map[symmetric])
  then have "hm_rel hm_same [(''default'', ex_properties), (''backup'', ex_properties)]
      [(''backup'', rev ex_properties), (''default'', ex_properties)]"
    by (simp add: hm_rel_def hm_invar_def hm_get_def)
  then have "same_up_to_order (Inr [(''server'', [(''default'', ex_properties), (''backup'', ex_properties)])])
      (Inr [(''server'', [(''backup'', rev ex_properties), (''default'', ex_properties)])])"
    by (simp add: same_up_to_order_def hm_rel_def hm_invar_def hm_get_def)
  then show ?thesis
    unfolding reordered_library_def ex_reordered_def
    by (intro disjI2 exI[of _ "transform_all_roles_to_config ex_reconcile"] exI conjI[rotated])
      (auto simp: ex_reconcile_def)
qed

end
