(* ===== verification/Cluster_Store.thy ===== *)
theory Cluster_Store
  imports Hash_Order
begin

text \<open>
  What a run means for the cluster. The objects that belong to one HelloCluster are a store, of
  which only lookups by identity are used; executing a call on it is the API server's part and a
  parameter. \<open>store_contract\<close> states what the cluster and \<open>ClusterResources\<close> document: applying an
  object makes it the one of its identity, deleting orphans keeps exactly the objects applied in
  this run, other calls change none. Of an application or a deletion that fails nothing is stated.
  To use it, it has to be known that a successful run was answered successfully throughout
  (\<open>answered\<close>).
\<close>

section \<open>Successful runs have successful answers\<close>

fun succeeded :: "world \<Rightarrow> call list \<Rightarrow> call \<Rightarrow> bool" where
  "succeeded W h (cr_add cr obj) = succeeds (answer_add W h (cr_add cr obj))"
| "succeeded W h (client_get_config_map cm ns) =
     succeeds (answer_get_config_map W h (client_get_config_map cm ns))"
| "succeeded W h (apply_patch_status m hello st) =
     succeeds (answer_patch_status W h (apply_patch_status m hello st))"
| "succeeded W h (delete_orphaned_resources cr) =
     succeeds (answer_delete_orphaned W h (delete_orphaned_resources cr))"

fun answered :: "world \<Rightarrow> call list \<Rightarrow> call list \<Rightarrow> bool" where
  "answered W h [] = True"
| "answered W h (c # cs) = (succeeded W h c \<and> answered W (h @ [c]) cs)"

lemma answered_append: "answered W h (xs @ ys) \<longleftrightarrow> answered W h xs \<and> answered W (h @ xs) ys"
  by (induction xs arbitrary: h) simp_all

definition answers_ok :: "world \<Rightarrow> (call, 'e, 'a) io \<Rightarrow> bool" where
  "answers_ok W m \<longleftrightarrow> (\<forall>h. \<exists>r ds. m h = (r, h @ ds) \<and> (succeeds r \<longrightarrow> answered W h ds))"

lemma answers_ok_lift: "answers_ok W (io_lift r)"
  by (simp add: answers_ok_def)

lemma answers_ok_context: "answers_ok W m \<Longrightarrow> answers_ok W (io_context m f)"
  unfolding answers_ok_def
proof
  fix h
  assume "\<forall>h. \<exists>r ds. m h = (r, h @ ds) \<and> (succeeds r \<longrightarrow> answered W h ds)"
  then obtain r ds where "m h = (r, h @ ds)" "succeeds r \<longrightarrow> answered W h ds" by blast
  then show "\<exists>r ds. io_context m f h = (r, h @ ds) \<and> (succeeds r \<longrightarrow> answered W h ds)"
    by (intro exI[of _ "err_context r f"] exI[of _ ds]) (cases r, simp_all add: io_context_def)
qed

lemma answers_ok_bind:
  assumes "answers_ok W m" and "\<And>x. answers_ok W (f x)"
  shows "answers_ok W (io_bind m f)"
  unfolding answers_ok_def
proof
  fix h
  obtain r ds where m: "m h = (r, h @ ds)" "succeeds r \<longrightarrow> answered W h ds"
    using assms(1) unfolding answers_ok_def by blast
  show "\<exists>r ds. io_bind m f h = (r, h @ ds) \<and> (succeeds r \<longrightarrow> answered W h ds)"
  proof (cases r)
    case (Inl e)
    with m show ?thesis by (simp add: io_bind_def)
  next
    case (Inr x)
    obtain r' ds' where f: "f x (h @ ds) = (r', (h @ ds) @ ds')" "succeeds r' \<longrightarrow> answered W (h @ ds) ds'"
      using assms(2) unfolding answers_ok_def by blast
    with m Inr show ?thesis
      by (intro exI[of _ r'] exI[of _ "ds @ ds'"]) (simp add: io_bind_def answered_append)
  qed
qed

lemma answers_ok_calls:
  "answers_ok W (io_add W cr obj)"
  "answers_ok W (io_get_config_map W cm ns)"
  "answers_ok W (io_patch_status W manager hello st)"
  "answers_ok W (io_delete_orphaned W cr)"
  by (simp_all add: answers_ok_def io_calls Let_def)

lemmas answers_ok_rules = answers_ok_bind answers_ok_context answers_ok_lift answers_ok_calls

lemma answers_ok_role_groups: "answers_ok W (reconcile_role_groups P W h img addr sa groups conds)"
  by (induction groups arbitrary: conds)
    (simp_all only: reconcile_role_groups.simps reconcile_role_group_def Let_def case_prod_beta answers_ok_rules)

lemma answers_ok_budget: "answers_ok W (apply_budget P W h)"
  by (cases "role_config h Server")
    (auto simp only: apply_budget_def add_pdbs_def option.case intro!: answers_ok_rules split: if_split)

lemma answers_ok_resolve: "answers_ok W (resolve_vector_aggregator_address LP W h)"
  by (cases "vector_aggregator_config_map_name (cluster_config (spec h))")
    (simp_all only: resolve_vector_aggregator_address_def option.case answers_ok_rules)

lemma answers_ok_reconcile: "answers_ok W (reconcile_hello P R W pc guarded)"
  unfolding reconcile_hello_def apply_rbac_def apply_role_service_def finish_reconcile_def Let_def
  by (intro answers_ok_rules answers_ok_role_groups answers_ok_budget answers_ok_resolve)

lemma successful_run_answered:
  assumes "reconcile_hello P R W pc guarded cs = (Inr a, cs @ ds)"
  shows "answered W cs ds"
proof -
  obtain r ds' where "reconcile_hello P R W pc guarded cs = (r, cs @ ds')" "succeeds r \<longrightarrow> answered W cs ds'"
    using answers_ok_reconcile unfolding answers_ok_def by blast
  with assms show ?thesis by simp
qed

section \<open>The store\<close>

type_synonym identity = "string \<times> string option"
type_synonym 's lookup = "'s \<Rightarrow> identity \<Rightarrow> kube_object option"
type_synonym 's exec = "call list \<Rightarrow> call \<Rightarrow> 's \<Rightarrow> 's"

text \<open>
  \<open>exec run c\<close> is the effect of the call \<open>c\<close> after the calls \<open>run\<close> of the same run; \<open>cs\<close> is what
  happened before it. The contract is for a cluster that is neither paused nor stopped: the
  apply strategies for those keep the API server from applying what it is given.
\<close>

definition store_contract :: "world \<Rightarrow> call list \<Rightarrow> 's lookup \<Rightarrow> 's exec \<Rightarrow> bool" where
  "store_contract W cs lookup exec \<longleftrightarrow>
     (\<forall>run cr obj s. \<not> reconciliation_paused (cr_apply_strategy cr) \<and> \<not> stopped (cr_apply_strategy cr) \<and>
        succeeded W (cs @ run) (cr_add cr obj) \<longrightarrow>
        lookup (exec run (cr_add cr obj) s) = (lookup s)(object_identity obj \<mapsto> obj)) \<and>
     (\<forall>run cr s. \<not> reconciliation_paused (cr_apply_strategy cr) \<and> \<not> stopped (cr_apply_strategy cr) \<and>
        succeeded W (cs @ run) (delete_orphaned_resources cr) \<longrightarrow>
        lookup (exec run (delete_orphaned_resources cr) s) =
          lookup s |` (object_identity ` set (applied run))) \<and>
     (\<forall>run cm ns s. lookup (exec run (client_get_config_map cm ns) s) = lookup s) \<and>
     (\<forall>run m h st s. lookup (exec run (apply_patch_status m h st) s) = lookup s)"

fun exec_calls :: "'s exec \<Rightarrow> call list \<Rightarrow> call list \<Rightarrow> 's \<Rightarrow> 's" where
  "exec_calls exec run [] s = s"
| "exec_calls exec run (c # cs) s = exec_calls exec (run @ [c]) cs (exec run c s)"

lemma exec_calls_append:
  "exec_calls exec run (xs @ ys) s = exec_calls exec (run @ xs) ys (exec_calls exec run xs s)"
  by (induction xs arbitrary: run s) simp_all

text \<open>A run without a deletion adds its objects; a later one replaces an earlier of its identity.\<close>

definition objects_by :: "(kube_object \<Rightarrow> 'k) \<Rightarrow> kube_object list \<Rightarrow> 'k \<Rightarrow> kube_object option" where
  "objects_by key objs = map_of (rev (map (\<lambda>obj. (key obj, obj)) objs))"

abbreviation objects_map :: "kube_object list \<Rightarrow> identity \<Rightarrow> kube_object option" where
  "objects_map \<equiv> objects_by object_identity"

lemma objects_by_Nil [simp]: "objects_by key [] = Map.empty"
  by (simp add: objects_by_def)

lemma objects_by_snoc [simp]: "objects_by key (objs @ [obj]) = (objects_by key objs)(key obj \<mapsto> obj)"
  by (simp add: objects_by_def)

lemma objects_by_Cons:
  "m ++ objects_by key (obj # objs) = m(key obj \<mapsto> obj) ++ objects_by key objs"
  by (simp add: objects_by_def)

lemma exec_calls_adds:
  assumes "store_contract W cs lookup exec" and "\<not> reconciliation_paused (cluster_operation_of (spec h))"
    and "\<not> stopped (cluster_operation_of (spec h))"
    and "\<forall>c \<in> set ds. \<not> is_delete c \<and> call_for P h c" and "answered W (cs @ run) ds"
  shows "lookup (exec_calls exec run ds s) = lookup s ++ objects_map (applied ds)"
  using assms(4,5)
proof (induction ds arbitrary: run s)
  case Nil
  then show ?case by (simp add: objects_by_def)
next
  case (Cons c ds)
  have IH: "lookup (exec_calls exec (run @ [c]) ds (exec run c s)) =
      lookup (exec run c s) ++ objects_map (applied ds)"
    using Cons.prems by (intro Cons.IH) simp_all
  show ?case
  proof (cases c)
    case (cr_add cr obj)
    have "\<not> reconciliation_paused (cr_apply_strategy cr) \<and> \<not> stopped (cr_apply_strategy cr)"
      using Cons.prems(1) assms(2,3) by (simp add: cr_add hello_cluster_resources_def)
    then have "lookup (exec run c s) = (lookup s)(object_identity obj \<mapsto> obj)"
      using assms(1) Cons.prems(2) unfolding store_contract_def cr_add by simp
    with IH show ?thesis by (simp add: cr_add objects_by_Cons)
  next
    case (client_get_config_map cm ns)
    then have "lookup (exec run c s) = lookup s" using assms(1) unfolding store_contract_def by simp
    with IH client_get_config_map show ?thesis by simp
  next
    case (apply_patch_status m hello st)
    then have "lookup (exec run c s) = lookup s" using assms(1) unfolding store_contract_def by simp
    with IH apply_patch_status show ?thesis by simp
  next
    case (delete_orphaned_resources cr)
    with Cons.prems(1) show ?thesis by simp
  qed
qed

lemma objects_by_dom: "dom (objects_by key objs) = key ` set objs"
  by (force simp: objects_by_def dom_map_of_conv_image_fst)

lemma objects_by_distinct:
  "distinct (map key objs) \<Longrightarrow> objects_by key objs = map_of (map (\<lambda>obj. (key obj, obj)) objs)"
  unfolding objects_by_def
  by (subst map_of_inject_set) (simp_all add: comp_def rev_map[symmetric] distinct_rev)

lemma objects_by_perm:
  assumes "distinct (map key objs)" and "mset objs' = mset objs"
  shows "objects_by key objs' = objects_by key objs"
proof -
  have "mset (map key objs') = mset (map key objs)" using assms(2) by simp
  then have "distinct (map key objs')" using assms(1) by (metis mset_eq_imp_distinct_iff)
  then have "objects_by key objs' = map_of (map (\<lambda>obj. (key obj, obj)) objs')" by (rule objects_by_distinct)
  also have "\<dots> = map_of (map (\<lambda>obj. (key obj, obj)) objs)"
    using assms \<open>distinct (map key objs')\<close> mset_eq_setD[OF assms(2)]
    by (subst map_of_inject_set) (simp_all add: comp_def)
  finally show ?thesis using objects_by_distinct[OF assms(1)] by simp
qed

text \<open>
  A successful run leaves exactly what it applied.
\<close>

lemma successful_run_store:
  assumes run: "reconcile_hello P R W pc (Inr h) cs = (Inr a, cs @ ds)"
    and contract: "store_contract W cs lookup exec"
    and active: "\<not> reconciliation_paused (cluster_operation_of (spec h))"
      "\<not> stopped (cluster_operation_of (spec h))"
  shows "lookup (exec_calls exec [] ds s) = objects_map (applied ds)"
proof -
  have ok: "\<forall>e. (Inr a :: controller_error + action) = Inl e \<longrightarrow> (\<exists>s. e = DeleteOrphanedResources s)" by simp
  obtain addr sa plan where plan: "reconcile_plan P R pc h addr sa = Inr plan"
    and fin: "finish_reconcile R W h (sts_answers W cs plan) (cs @ plan) = (Inr a, cs @ ds)"
    using reconcile_reaches_finish[OF run ok] by blast
  let ?del = "delete_orphaned_resources (hello_cluster_resources h)"
  obtain pre where ds: "ds = pre @ [?del]" and pre_calls: "\<forall>c \<in> set pre. \<not> is_delete c"
    using finish_reconcile_Inr[OF fin] plan_not_delete[OF plan]
    by (intro that[of "plan @ [apply_patch_status OPERATOR_NAME h (reconciled_status R h (sts_answers W cs plan))]"])
      auto
  have all_ok: "\<forall>c \<in> set ds. call_for P h c"
    using calls_all_run[OF addressed.reconcile_calls] run by (metis Pair_inject same_append_eq)
  have answered: "answered W cs pre" "succeeded W (cs @ pre) ?del"
    using successful_run_answered[OF run] unfolding ds answered_append by simp_all
  have pre: "lookup (exec_calls exec [] pre s) = lookup s ++ objects_map (applied pre)"
    using answered(1) all_ok pre_calls by (intro exec_calls_adds[OF contract active]) (simp_all add: ds)
  have "lookup (exec pre ?del (exec_calls exec [] pre s)) =
      lookup (exec_calls exec [] pre s) |` (object_identity ` set (applied pre))"
    using contract active answered(2)
    unfolding store_contract_def by (simp add: hello_cluster_resources_def)
  then have "lookup (exec_calls exec [] ds s) =
      (lookup s ++ objects_map (applied pre)) |` dom (objects_map (applied pre))"
    by (simp only: ds exec_calls_append exec_calls.simps append_Nil pre objects_by_dom)
  also have "\<dots> = objects_map (applied pre)"
    by (auto simp: fun_eq_iff restrict_map_def map_add_def domIff split: option.split)
  finally show ?thesis by (simp add: ds)
qed

section \<open>A store for the example\<close>

fun ex_exec :: "(identity \<Rightarrow> kube_object option) exec" where
  "ex_exec run (cr_add cr obj) s = s(object_identity obj \<mapsto> obj)"
| "ex_exec run (delete_orphaned_resources cr) s = s |` (object_identity ` set (applied run))"
| "ex_exec run _ s = s"

lemma ex_store_contract: "store_contract W cs (\<lambda>s. s) ex_exec"
  unfolding store_contract_def by simp

lemma ex_active:
  "\<not> reconciliation_paused (cluster_operation_of (spec ex_cluster))"
  "\<not> stopped (cluster_operation_of (spec ex_cluster))"
  by (simp_all add: ex_cluster_def ex_cluster_with_def)

lemma ex_run_distinct:
  "distinct (map object_identity (applied (snd (reconcile_hello ex_platform ex_reconcile ex_world JNull
     (Inr ex_cluster) []))))"
  by code_simp

end
