(* ===== verification/Controller_Loop.thy ===== *)
theory Controller_Loop
  imports Cluster_Store
begin

text \<open>
  The controller over time. \<^verbatim>\<open>main.rs\<close> hands \<open>reconcile_hello\<close>, \<open>error_policy\<close> and the context
  \<open>Ctx\<close> to the controller runtime, which calls the reconciler for an object whenever it has
  changed or the last action asks for it. The runtime is not part of the repository: the
  sequence of runs it makes for one object is a parameter (\<open>runs\<close>), and \<open>runtime_contract\<close> states
  what the runtime documents of it. The lemmas say what follows for a sequence of runs.
\<close>

record ctx =
  ctx_client :: world
  ctx_product_config :: json

text \<open>
  One run: what the runtime passes in, the calls made for the object until then, and the library
  as it behaves in this run.
\<close>

record attempt =
  at_object :: "ext_error + hello_cluster"
  at_calls :: "call list"
  at_library :: reconcile_platform

definition run_attempt ::
  "platform \<Rightarrow> ctx \<Rightarrow> attempt \<Rightarrow> (controller_error + action) \<times> call list" where
  "run_attempt P cx a =
     reconcile_hello P (at_library a) (ctx_client cx) (ctx_product_config cx) (at_object a) (at_calls a)"

definition attempt_action :: "platform \<Rightarrow> ctx \<Rightarrow> attempt \<Rightarrow> action" where
  "attempt_action P cx a = next_action (fst (run_attempt P cx a))"

definition attempt_failed :: "platform \<Rightarrow> ctx \<Rightarrow> attempt \<Rightarrow> bool" where
  "attempt_failed P cx a \<longleftrightarrow> \<not> succeeds (fst (run_attempt P cx a))"

text \<open>
  The runs for one object, numbered from 0, and the object as it is when it has stopped
  changing: runs do not overlap, a requested requeue does happen, and a run that is the last
  one has seen the latest object (a change of the object causes another run). Further runs may
  happen at any time, for a change of an owned object or for no reason. The library is the same in
  all runs but for the order of its hash maps.
\<close>

definition runtime_contract ::
  "platform \<Rightarrow> reconcile_platform \<Rightarrow> ctx \<Rightarrow> (nat \<Rightarrow> attempt option) \<Rightarrow> ext_error + hello_cluster \<Rightarrow> bool"
  where
  "runtime_contract P R cx runs latest \<longleftrightarrow>
     (\<forall>i a b. runs i = Some a \<and> runs (Suc i) = Some b \<longrightarrow> at_calls b = snd (run_attempt P cx a)) \<and>
     (\<forall>i. runs (Suc i) \<noteq> None \<longrightarrow> runs i \<noteq> None) \<and>
     (\<forall>i a d. runs i = Some a \<and> attempt_action P cx a = requeue d \<longrightarrow> runs (Suc i) \<noteq> None) \<and>
     (\<forall>i a. runs i = Some a \<and> runs (Suc i) = None \<longrightarrow> at_object a = latest) \<and>
     (\<forall>i a. runs i = Some a \<longrightarrow> reordered_library R (at_library a))"

lemma runtime_contract_next:
  assumes "runtime_contract P R cx runs latest" and "runs i = Some a" and "attempt_action P cx a = requeue d"
  obtains b where "runs (Suc i) = Some b" and "at_calls b = snd (run_attempt P cx a)"
  using assms unfolding runtime_contract_def by blast

lemma runtime_contract_library:
  "runtime_contract P R cx runs latest \<Longrightarrow> runs i = Some a \<Longrightarrow> reordered_library R (at_library a)"
  unfolding runtime_contract_def by blast

lemma runtime_contract_last:
  assumes "runtime_contract P R cx runs latest" and "runs i = Some a" and "runs (Suc i) = None"
  shows "at_object a = latest" and "attempt_action P cx a = await_change"
proof -
  show "at_object a = latest" using assms unfolding runtime_contract_def by blast
  have "attempt_action P cx a \<noteq> requeue d" for d
    using assms unfolding runtime_contract_def by blast
  then show "attempt_action P cx a = await_change" by (cases "attempt_action P cx a") auto
qed

section \<open>What a run asks for next\<close>

lemma failed_run_requeues:
  assumes "at_object a = Inr h" and "attempt_failed P cx a"
  shows "\<exists>e. fst (run_attempt P cx a) = Inl e \<and> attempt_action P cx a = requeue 5"
proof -
  obtain r ds q where run: "run_attempt P cx a = (r, at_calls a @ ds)"
    and res: "case r of Inl e \<Rightarrow> (q = P_Done \<longleftrightarrow> (\<exists>s. e = DeleteOrphanedResources s)) \<and>
        (\<forall>s. e = InvalidHelloCluster s \<longleftrightarrow> at_object a = Inl s)
      | Inr a \<Rightarrow> q = P_Done \<and> a = await_change"
    using stage_reconcile_hello[of P "at_library a" "ctx_client cx" "ctx_product_config cx" "at_object a"]
    unfolding stage_ok_def run_attempt_def by blast
  from assms(2) run obtain e where e: "r = Inl e" by (cases r) (auto simp: attempt_failed_def)
  with res assms(1) have "\<forall>s. e \<noteq> InvalidHelloCluster s" by auto
  then have "error_policy e = requeue 5" by (cases e) simp_all
  with run e show ?thesis by (simp add: attempt_action_def next_action_def)
qed

lemma waiting_run_succeeded:
  assumes "at_object a = Inr h" and "attempt_action P cx a = await_change"
  shows "\<exists>ds. run_attempt P cx a = (Inr await_change, at_calls a @ ds)"
proof -
  have "\<not> attempt_failed P cx a" using failed_run_requeues[OF assms(1)] assms(2) by force
  then obtain x where x: "fst (run_attempt P cx a) = Inr x"
    by (auto simp: attempt_failed_def elim: succeeds.elims)
  obtain r ds where run: "run_attempt P cx a = (r, at_calls a @ ds)"
    using answers_ok_reconcile unfolding answers_ok_def run_attempt_def by metis
  with x have "run_attempt P cx a = (Inr x, at_calls a @ ds)" by simp
  moreover from this have "x = await_change"
    using assms(2) by (simp add: attempt_action_def next_action_def)
  ultimately show ?thesis by blast
qed

text \<open>A run that gets past the specification makes at least one call.\<close>

lemma run_makes_progress:
  assumes "reconcile_plan P R pc h addr sa = Inr plan"
  shows "length cs < length (snd (reconcile_hello P R W pc (Inr h) cs))"
proof -
  obtain config rbac where pure: "server_config_of R pc h = Inr config" "rbac_resources R h = Inr rbac"
    using assms unfolding reconcile_plan_Inr by blast
  have "\<exists>k. reconcile_hello P R W pc (Inr h) = io_bind (apply_rbac W h rbac) k \<and> (\<forall>x. answers_ok W (k x))"
    unfolding reconcile_hello_def apply_role_service_def finish_reconcile_def Let_def
    by (simp only: pure err_context_simps io_bind_lift_Inr)
      (rule exI, rule conjI, rule refl, intro allI answers_ok_rules answers_ok_role_groups
        answers_ok_budget answers_ok_resolve)
  then obtain k where run: "reconcile_hello P R W pc (Inr h) = io_bind (apply_rbac W h rbac) k"
    and k: "\<And>x. answers_ok W (k x)" by blast
  obtain r c1 where first: "apply_rbac W h rbac cs = (r, c1)" by fastforce
  then have longer: "length cs < length c1"
    by (simp add: apply_rbac_def io_calls Let_def io_bind_def io_context_def split: sum.splits prod.splits)
      auto
  show ?thesis
  proof (cases r)
    case (Inl e)
    with longer show ?thesis by (simp add: run io_bind_def first)
  next
    case (Inr x)
    obtain r' ds' where "k x c1 = (r', c1 @ ds')" using k unfolding answers_ok_def by blast
    with longer Inr show ?thesis by (simp add: run io_bind_def first)
  qed
qed

section \<open>Retries come to an end\<close>

text \<open>
  As long as runs fail, the calls grow by at least one per run. So a cluster that refuses only
  its first \<open>n\<close> calls sees at most \<open>n\<close> failing runs.
\<close>

lemma retries_succeed_or_go_on:
  assumes contract: "runtime_contract P R cx runs latest"
    and first: "runs 0 = Some a0"
    and object: "\<forall>i a. runs i = Some a \<longrightarrow> at_object a = Inr h"
    and plan: "reconcile_plan P R (ctx_product_config cx) h addr sa = Inr plan"
  shows "(\<exists>j<i. \<exists>a. runs j = Some a \<and> \<not> attempt_failed P cx a \<and>
            (\<forall>k<j. \<exists>b. runs k = Some b \<and> attempt_failed P cx b)) \<or>
         (\<exists>a. runs i = Some a \<and> length (at_calls a0) + i \<le> length (at_calls a) \<and>
            (\<forall>k<i. \<exists>b. runs k = Some b \<and> attempt_failed P cx b))"
proof (induction i)
  case 0
  then show ?case using first by simp
next
  case (Suc i)
  then consider (ended) j where "j < i" "\<exists>a. runs j = Some a \<and> \<not> attempt_failed P cx a \<and>
            (\<forall>k<j. \<exists>b. runs k = Some b \<and> attempt_failed P cx b)"
    | (trying) a where "runs i = Some a" "length (at_calls a0) + i \<le> length (at_calls a)"
        "\<forall>k<i. \<exists>b. runs k = Some b \<and> attempt_failed P cx b"
    by blast
  then show ?case
  proof cases
    case ended
    then show ?thesis using less_SucI by blast
  next
    case trying
    show ?thesis
    proof (cases "attempt_failed P cx a")
      case False
      with trying show ?thesis by blast
    next
      case True
      have a: "at_object a = Inr h" using object trying(1) by blast
      from failed_run_requeues[OF a True] have "attempt_action P cx a = requeue 5" by blast
      then obtain b where b: "runs (Suc i) = Some b" "at_calls b = snd (run_attempt P cx a)"
        using runtime_contract_next[OF contract trying(1)] by blast
      obtain plan' where plan': "reconcile_plan P (at_library a) (ctx_product_config cx) h addr sa = Inr plan'"
        using reordered_plan(1)[OF runtime_contract_library[OF contract trying(1)] plan] by blast
      have "length (at_calls a) < length (at_calls b)"
        using run_makes_progress plan' a b(2) by (simp add: run_attempt_def)
      with b(1) trying True show ?thesis by (auto simp: less_Suc_eq)
    qed
  qed
qed

lemma retry_succeeds:
  assumes "at_object a = Inr h" and "reordered_library R (at_library a)" and "n \<le> length (at_calls a)" and "agreeable_from n (ctx_client cx)"
    and "completes n (resolve_vector_aggregator_address (P_logging P) (ctx_client cx) h)
      (\<lambda>addr. \<forall>sa. \<exists>plan. reconcile_plan P R (ctx_product_config cx) h addr sa = Inr plan)"
  shows "\<not> attempt_failed P cx a"
proof -
  have "completes n (resolve_vector_aggregator_address (P_logging P) (ctx_client cx) h)
      (\<lambda>addr. \<forall>sa. \<exists>plan. reconcile_plan P (at_library a) (ctx_product_config cx) h addr sa = Inr plan)"
    using assms(5) reordered_plan(1)[OF assms(2)] unfolding completes_def by meson
  from completes_result[OF reconcile_completes[OF assms(4) this] assms(3)] assms(1)
  obtain x ds where "run_attempt P cx a = (Inr x, at_calls a @ ds)"
    unfolding run_attempt_def by auto
  then show ?thesis by (simp add: attempt_failed_def)
qed

end
