(* ===== verification/Loop_Properties.thy ===== *)
theory Loop_Properties
  imports Controller_Loop
begin

text \<open>
  The properties of the controller over time: failing runs are repeated until one succeeds, and
  a controller with nothing more to do has made the cluster what the specification says. The
  witnesses use a world that refuses its first calls and the runs of the simplest runtime, one
  that does nothing but repeat failed runs.
\<close>

section \<open>The runtime that only retries\<close>

fun retry_calls :: "platform \<Rightarrow> (nat \<Rightarrow> reconcile_platform) \<Rightarrow> ctx \<Rightarrow> hello_cluster \<Rightarrow> nat \<Rightarrow> call list" where
  "retry_calls P L cx h 0 = []"
| "retry_calls P L cx h (Suc i) =
     snd (run_attempt P cx \<lparr> at_object = Inr h, at_calls = retry_calls P L cx h i, at_library = L i \<rparr>)"

definition retry_attempt ::
  "platform \<Rightarrow> (nat \<Rightarrow> reconcile_platform) \<Rightarrow> ctx \<Rightarrow> hello_cluster \<Rightarrow> nat \<Rightarrow> attempt" where
  "retry_attempt P L cx h i = \<lparr> at_object = Inr h, at_calls = retry_calls P L cx h i, at_library = L i \<rparr>"

definition retry_runs ::
  "platform \<Rightarrow> (nat \<Rightarrow> reconcile_platform) \<Rightarrow> ctx \<Rightarrow> hello_cluster \<Rightarrow> nat \<Rightarrow> attempt option" where
  "retry_runs P L cx h i =
     (if \<forall>j<i. attempt_failed P cx (retry_attempt P L cx h j) then Some (retry_attempt P L cx h i) else None)"

lemma succeeded_attempt_waits:
  assumes "\<not> attempt_failed P cx a"
  shows "attempt_action P cx a = await_change"
proof -
  obtain r ds q where run: "run_attempt P cx a = (r, at_calls a @ ds)"
    and res: "case r of Inl e \<Rightarrow> (q = P_Done \<longleftrightarrow> (\<exists>s. e = DeleteOrphanedResources s)) \<and>
        (\<forall>s. e = InvalidHelloCluster s \<longleftrightarrow> at_object a = Inl s)
      | Inr a \<Rightarrow> q = P_Done \<and> a = await_change"
    using stage_reconcile_hello[of P "at_library a" "ctx_client cx" "ctx_product_config cx" "at_object a"]
    unfolding stage_ok_def run_attempt_def by blast
  with assms show ?thesis
    by (cases r) (simp_all add: attempt_failed_def attempt_action_def next_action_def)
qed

lemma retry_runs_contract:
  assumes "\<And>i. reordered_library R (L i)"
  shows "runtime_contract P R cx (retry_runs P L cx h) (Inr h)"
  unfolding runtime_contract_def
proof (intro conjI allI impI)
  fix i a d
  assume "retry_runs P L cx h i = Some a \<and> attempt_action P cx a = requeue d"
  then have "\<forall>j<i. attempt_failed P cx (retry_attempt P L cx h j)"
    and "attempt_failed P cx (retry_attempt P L cx h i)"
    using succeeded_attempt_waits by (fastforce simp: retry_runs_def split: if_splits)+
  then show "retry_runs P L cx h (Suc i) \<noteq> None" by (simp add: retry_runs_def less_Suc_eq)
qed (auto simp: retry_runs_def retry_attempt_def assms split: if_splits)

text \<open>A world that refuses its first two calls, and is then the example's.\<close>

definition ex_slow_world :: world where
  "ex_slow_world = ex_world\<lparr> answer_add :=
     (\<lambda>h c. if length h < 2 then Inl (ExtError ''unavailable'') else answer_add ex_world h c) \<rparr>"

text \<open>In every second run the library lists its maps in another order.\<close>

definition ex_library :: "nat \<Rightarrow> reconcile_platform" where
  "ex_library i = (if even i then ex_reordered else ex_reconcile)"

lemma ex_library_reordered: "reordered_library ex_reconcile (ex_library i)"
  by (simp add: ex_library_def ex_reordered_library reordered_refl)

lemmas ex_runs_contract = retry_runs_contract[OF ex_library_reordered, where P = ex_platform and h = ex_cluster]

definition ex_slow_ctx :: ctx where
  "ex_slow_ctx = \<lparr> ctx_client = ex_slow_world, ctx_product_config = JNull \<rparr>"

lemma ex_slow_agreeable: "agreeable_from 2 (ctx_client ex_slow_ctx)"
  by (simp add: agreeable_from_def ex_slow_ctx_def ex_slow_world_def ex_world_def)

lemma ex_slow_plan:
  "completes n (resolve_vector_aggregator_address (P_logging ex_platform) (ctx_client ex_slow_ctx) ex_cluster)
     (\<lambda>addr. \<forall>sa. \<exists>plan. reconcile_plan ex_platform ex_reconcile (ctx_product_config ex_slow_ctx) ex_cluster addr sa
       = Inr plan)"
proof -
  have "succeeds (reconcile_plan ex_platform ex_reconcile JNull ex_cluster None sa)" for sa by code_simp
  then have "\<forall>sa. \<exists>plan. reconcile_plan ex_platform ex_reconcile JNull ex_cluster None sa = Inr plan"
    by (metis succeeds.elims(2))
  then show ?thesis
    by (auto simp: completes_def resolve_no_config_map ex_cluster_def ex_cluster_with_def ex_slow_ctx_def)
qed

section \<open>Retries\<close>

text \<open>
  C5: Retries end. If the user leaves the object alone, the cluster refuses none but the first
  \<open>n\<close> calls made for it, and from then on the aggregator's address (if one is asked for) resolves,
  to one for which a plan can be built, then the controller makes at most \<open>n\<close> failing runs, each of
  which is repeated after five seconds, and then one that succeeds and waits for a change. So a
  transient failure of the cluster neither stops the operator nor keeps it busy for ever.
\<close>
theorem retries_converge:
  assumes "runtime_contract P R cx runs latest"
    and "runs 0 = Some a0"
    and "\<forall>i a. runs i = Some a \<longrightarrow> at_object a = Inr h"
    and "agreeable_from n (ctx_client cx)"
    and "completes n (resolve_vector_aggregator_address (P_logging P) (ctx_client cx) h)
      (\<lambda>addr. \<forall>sa. \<exists>plan. reconcile_plan P R (ctx_product_config cx) h addr sa = Inr plan)"
  shows "\<exists>i a ds. i \<le> n - length (at_calls a0) \<and> runs i = Some a \<and>
    run_attempt P cx a = (Inr await_change, at_calls a @ ds) \<and>
    (\<forall>k<i. \<exists>b e. runs k = Some b \<and> fst (run_attempt P cx b) = Inl e \<and>
       attempt_action P cx b = requeue 5)"
proof -
  let ?i = "n - length (at_calls a0)"
  obtain a1 where "\<forall>sa. \<exists>plan. reconcile_plan P R (ctx_product_config cx) h a1 sa = Inr plan"
    using completes_result[OF assms(5), of "replicate n undefined"] by auto
  then obtain plan where plan: "reconcile_plan P R (ctx_product_config cx) h a1 '''' = Inr plan" by blast
  obtain j a where j: "j \<le> ?i" "runs j = Some a" "\<not> attempt_failed P cx a"
    and before: "\<forall>k<j. \<exists>b. runs k = Some b \<and> attempt_failed P cx b"
    using retries_succeed_or_go_on[OF assms(1-3) plan, of ?i]
  proof (elim disjE exE conjE)
    fix a
    assume "runs ?i = Some a" "length (at_calls a0) + ?i \<le> length (at_calls a)"
      and "\<forall>k<?i. \<exists>b. runs k = Some b \<and> attempt_failed P cx b"
    moreover from this have "\<not> attempt_failed P cx a"
      using assms(3) by (intro retry_succeeds[OF _ runtime_contract_library[OF assms(1)] _ assms(4,5)]) auto
    ultimately show thesis by (intro that[of ?i a]) auto
  qed (blast intro: that less_imp_le)
  obtain ds where "run_attempt P cx a = (Inr await_change, at_calls a @ ds)"
    using waiting_run_succeeded[OF _ succeeded_attempt_waits[OF j(3)]] assms(3) j(2) by blast
  moreover have "\<forall>k<j. \<exists>b e. runs k = Some b \<and> fst (run_attempt P cx b) = Inl e \<and>
       attempt_action P cx b = requeue 5"
    using before failed_run_requeues assms(3) by meson
  ultimately show ?thesis using j(1,2) by blast
qed

theorem retries_converge_witness:
  "\<exists>i a ds. i \<le> 2 \<and> retry_runs ex_platform ex_library ex_slow_ctx ex_cluster i = Some a \<and>
     run_attempt ex_platform ex_slow_ctx a = (Inr await_change, at_calls a @ ds)"
proof -
  let ?runs = "retry_runs ex_platform ex_library ex_slow_ctx ex_cluster"
  have first: "?runs 0 = Some \<lparr> at_object = Inr ex_cluster, at_calls = [], at_library = ex_library 0 \<rparr>"
    by (simp add: retry_runs_def retry_attempt_def)
  have object: "\<forall>i a. ?runs i = Some a \<longrightarrow> at_object a = Inr ex_cluster"
    by (auto simp: retry_runs_def retry_attempt_def split: if_splits)
  from retries_converge[OF ex_runs_contract first object ex_slow_agreeable ex_slow_plan]
  show ?thesis by auto
qed

section \<open>Rest\<close>

text \<open>
  C4: When the controller rests, the cluster is as specified. If the runtime has made its last
  run for an object that can be decoded and asks for a cluster that is neither paused nor stopped,
  that run carried out the plan of the object's latest version, and the objects in the cluster
  after it are exactly those of the plan, whatever the run found. (Applying and deleting are
  assumed to do what the library documents, and the runtime to run the reconciler when it says.)
\<close>
theorem idle_cluster_is_as_specified:
  assumes "runtime_contract P R cx runs (Inr h)"
    and "runs i = Some a" and "runs (Suc i) = None"
    and "store_contract (ctx_client cx) (at_calls a) lookup exec"
    and "\<not> reconciliation_paused (cluster_operation_of (spec h))"
    and "\<not> stopped (cluster_operation_of (spec h))"
  shows "\<exists>addr sa plan ds. run_attempt P cx a = (Inr await_change, at_calls a @ ds) \<and>
    reconcile_plan P (at_library a) (ctx_product_config cx) h addr sa = Inr plan \<and>
    lookup (exec_calls exec [] ds s) = objects_map (applied plan)"
proof -
  have a: "at_object a = Inr h" "attempt_action P cx a = await_change"
    using runtime_contract_last[OF assms(1-3)] by simp_all
  then obtain ds where att: "run_attempt P cx a = (Inr await_change, at_calls a @ ds)"
    using waiting_run_succeeded by blast
  then have run: "reconcile_hello P (at_library a) (ctx_client cx) (ctx_product_config cx) (Inr h) (at_calls a) =
      (Inr await_change, at_calls a @ ds)"
    by (simp add: run_attempt_def a(1))
  have ok: "\<forall>e. (Inr await_change :: controller_error + action) = Inl e \<longrightarrow>
      (\<exists>s. e = DeleteOrphanedResources s)" by simp
  obtain addr sa plan where plan: "reconcile_plan P (at_library a) (ctx_product_config cx) h addr sa = Inr plan"
    and "applied ds = applied plan"
    using reconcile_reaches_finish[OF run ok] by (auto dest!: finish_reconcile_Inr)
  moreover have "lookup (exec_calls exec [] ds s) = objects_map (applied ds)"
    by (rule successful_run_store[OF run assms(4-6)])
  ultimately show ?thesis using att by auto
qed

theorem idle_cluster_is_as_specified_witness:
  "\<exists>ds addr sa plan. reconcile_plan ex_platform ex_reordered JNull ex_cluster addr sa = Inr plan \<and>
     exec_calls ex_exec [] ds Map.empty = objects_map (applied plan)"
proof -
  let ?cx = "\<lparr> ctx_client = ex_world, ctx_product_config = JNull \<rparr>"
  let ?runs = "retry_runs ex_platform ex_library ?cx ex_cluster"
  let ?a = "\<lparr> at_object = Inr ex_cluster, at_calls = [], at_library = ex_reordered \<rparr>"
  have first: "?runs 0 = Some ?a" by (simp add: retry_runs_def retry_attempt_def ex_library_def)
  have "fst (reconcile_hello ex_platform ex_reordered ex_world JNull (Inr ex_cluster) []) = Inr await_change"
    by code_simp
  then have "\<not> attempt_failed ex_platform ?cx ?a" by (simp add: attempt_failed_def run_attempt_def)
  then have none: "?runs (Suc 0) = None" by (simp add: retry_runs_def retry_attempt_def ex_library_def)
  have "store_contract (ctx_client ?cx) (at_calls ?a) (\<lambda>s. s) ex_exec" by (rule ex_store_contract)
  from idle_cluster_is_as_specified[OF ex_runs_contract first none this ex_active, of Map.empty]
  show ?thesis by auto
qed

end
