(* ===== verification/Cluster_Names.thy ===== *)
theory Cluster_Names
  imports Plan_Facts "HOL-Library.Sublist"
begin

text \<open>
  Where the objects of a cluster are: their namespace, kind and name. The operator names a role's
  Service after the cluster and a role group's objects after cluster, role and role group; two
  clusters of one namespace therefore share a name exactly if one cluster's name continues the
  other's by the role's name.
\<close>

section \<open>Names\<close>

text \<open>The names of the Services, ConfigMaps and StatefulSets a cluster can have.\<close>

definition own_name :: "string \<Rightarrow> string \<Rightarrow> bool" where
  "own_name n x \<longleftrightarrow> x = n \<or> prefix (n @ ''-server-'') x"

definition name_continues :: "string \<Rightarrow> string \<Rightarrow> bool" where
  "name_continues n m \<longleftrightarrow> m = n @ ''-server'' \<or> prefix (n @ ''-server-'') m"

text \<open>The role's part of a name overlaps itself only in its last hyphen.\<close>

lemma infix_overlap:
  assumes "''-server-'' @ g = x @ ''-server-'' @ g'" and "x \<noteq> []"
  shows "x = ''-server'' \<or> prefix ''-server-'' x"
proof -
  from assms(1) obtain z where "''-server-'' = x @ z \<and> z @ g = ''-server-'' @ g' \<or>
      ''-server-'' @ z = x \<and> g = z @ ''-server-'' @ g'"
    unfolding append_eq_append_conv2[of "''-server-''"] by blast
  then show ?thesis
  proof (elim disjE conjE)
    assume "''-server-'' = x @ z" and "z @ g = ''-server-'' @ g'"
    with assms(2) show ?thesis by (auto simp: Cons_eq_append_conv)
  qed auto
qed

lemma own_names_meet_longer:
  assumes "n @ ''-server-'' @ g = m @ ''-server-'' @ g'" and "m = n @ x"
  shows "n = m \<or> name_continues n m"
proof (cases "x = []")
  case False
  with infix_overlap[of g x g'] assms have "x = ''-server'' \<or> prefix ''-server-'' x"
    by (simp only: append_assoc same_append_eq) blast
  then show ?thesis by (simp only: name_continues_def assms(2) same_prefix_prefix) blast
qed (simp add: assms(2))

text \<open>Two clusters have a name in common exactly if one's name continues the other's.\<close>

lemma own_names_meet_iff:
  "(\<exists>x. own_name n x \<and> own_name m x) \<longleftrightarrow> n = m \<or> name_continues n m \<or> name_continues m n"
proof
  assume "\<exists>x. own_name n x \<and> own_name m x"
  then obtain x where x: "own_name n x" "own_name m x" by blast
  then consider "x = n" | "x = m" | g g' where "x = n @ ''-server-'' @ g" "x = m @ ''-server-'' @ g'"
    unfolding own_name_def prefix_def append_assoc by blast
  then show "n = m \<or> name_continues n m \<or> name_continues m n"
  proof cases
    case 3
    then have eq: "n @ ''-server-'' @ g = m @ ''-server-'' @ g'" by simp
    then have "(\<exists>x. m = n @ x) \<or> (\<exists>x. n = m @ x)"
      unfolding append_eq_append_conv2[of n] by blast
    with own_names_meet_longer eq eq[symmetric] show ?thesis by blast
  qed (use x in \<open>auto simp: own_name_def name_continues_def\<close>)
next
  have meet: "\<exists>x. own_name n x \<and> own_name m x" if "name_continues n m" for n m
    using that unfolding name_continues_def
  proof
    assume "m = n @ ''-server''"
    then show ?thesis by (intro exI[of _ "m @ ''-server-''"]) (simp add: own_name_def)
  qed (auto simp only: own_name_def)
  assume "n = m \<or> name_continues n m \<or> name_continues m n"
  then show "\<exists>x. own_name n x \<and> own_name m x"
    using meet own_name_def by blast
qed

definition names_apart :: "string \<Rightarrow> string \<Rightarrow> bool" where
  "names_apart n m \<longleftrightarrow> n \<noteq> m \<and> \<not> name_continues n m \<and> \<not> name_continues m n"

section \<open>Places\<close>

type_synonym place = "string option \<times> string \<times> string option"

definition library_kinds :: "string list" where
  "library_kinds = [''ServiceAccount'', ''RoleBinding'', ''PodDisruptionBudget'']"

text \<open>
  The names of the service account, the role binding and the disruption budget are the library's:
  a function of the cluster and the kind. An object is in the namespace of its cluster.
\<close>

type_synonym library_names = "hello_cluster \<Rightarrow> string \<Rightarrow> string"

fun object_place :: "library_names \<Rightarrow> hello_cluster \<Rightarrow> kube_object \<Rightarrow> place" where
  "object_place N h (K_ServiceAccount _) =
     (om_namespace (metadata h), ''ServiceAccount'', Some (N h ''ServiceAccount''))"
| "object_place N h (K_RoleBinding _) =
     (om_namespace (metadata h), ''RoleBinding'', Some (N h ''RoleBinding''))"
| "object_place N h (K_PodDisruptionBudget _) =
     (om_namespace (metadata h), ''PodDisruptionBudget'', Some (N h ''PodDisruptionBudget''))"
| "object_place N h (K_Service s) =
     (om_namespace (metadata h), ''Service'', meta_object_name (service_metadata s))"
| "object_place N h (K_ConfigMap c) =
     (om_namespace (metadata h), ''ConfigMap'', meta_object_name (cm_meta c))"
| "object_place N h (K_StatefulSet t) =
     (om_namespace (metadata h), ''StatefulSet'', meta_object_name (sts_metadata t))"

text \<open>The library's name of a role group's objects, as the smoke test asserts it.\<close>

definition naming_contract :: "crd_platform \<Rightarrow> bool" where
  "naming_contract C \<longleftrightarrow> (\<forall>h n g. om_name (metadata h) = Some n \<longrightarrow>
     object_name C (server_rolegroup_ref h g) = n @ ''-server-'' @ g)"

definition own_place :: "library_names \<Rightarrow> hello_cluster \<Rightarrow> place \<Rightarrow> bool" where
  "own_place N h p \<longleftrightarrow> (case p of (ns, kind, name) \<Rightarrow>
     ns = om_namespace (metadata h) \<and>
     (kind \<in> {''Service'', ''ConfigMap'', ''StatefulSet''} \<and>
        (\<exists>n x. om_name (metadata h) = Some n \<and> name = Some x \<and> own_name n x) \<or>
      kind \<in> set library_kinds \<and> name = Some (N h kind)))"

text \<open>No object of one cluster can be at a place of the other.\<close>

definition kept_apart :: "library_names \<Rightarrow> hello_cluster \<Rightarrow> hello_cluster \<Rightarrow> bool" where
  "kept_apart N h h' \<longleftrightarrow>
     om_namespace (metadata h) \<noteq> om_namespace (metadata h') \<or>
     (case (om_name (metadata h), om_name (metadata h')) of
        (Some n, Some n') \<Rightarrow> names_apart n n' \<and>
          list_all (\<lambda>kind. N h kind \<noteq> N h' kind) library_kinds
      | _ \<Rightarrow> False)"

section \<open>Every object is at a place of its cluster\<close>

lemma role_group_places:
  assumes "build_role_group P h img addr sa (g, cfg) = Inr (s, c, t)"
    and "naming_contract (P_crd P)" and "om_name (metadata h) = Some n"
  shows "own_place N h (object_place N h (K_Service s))" "own_place N h (object_place N h (K_ConfigMap c))"
    "own_place N h (object_place N h (K_StatefulSet t))"
proof -
  let ?n = "Some (n @ ''-server-'' @ g)"
  have "object_name (P_crd P) (server_rolegroup_ref h g) = n @ ''-server-'' @ g"
    using assms(2,3) unfolding naming_contract_def by blast
  with group_identities[OF assms(1), of "hello_cluster_resources h"]
  have names: "meta_object_name (service_metadata s) = ?n" "meta_object_name (cm_meta c) = ?n"
    "meta_object_name (sts_metadata t) = ?n" by (simp_all del: append_Cons)
  have "own_name n (n @ ''-server-'' @ g)" by (simp add: own_name_def)
  with assms(3) show "own_place N h (object_place N h (K_Service s))"
    "own_place N h (object_place N h (K_ConfigMap c))" "own_place N h (object_place N h (K_StatefulSet t))"
    by (simp_all add: names own_place_def del: append_Cons)
qed

interpretation territory: applied_invariant P R
  "\<lambda>h obj. naming_contract (P_crd P) \<and> om_name (metadata h) \<noteq> None \<longrightarrow> own_place N h (object_place N h obj)"
  for P R N
proof unfold_locales
  fix h img addr sa rg s c t
  assume rg: "build_role_group P h img addr sa rg = Inr (s, c, t)"
  obtain g cfg where "rg = (g, cfg)" by force
  note places = role_group_places[OF rg[unfolded this]]
  show "naming_contract (P_crd P) \<and> om_name (metadata h) \<noteq> None \<longrightarrow> own_place N h (object_place N h (K_Service s))"
    "naming_contract (P_crd P) \<and> om_name (metadata h) \<noteq> None \<longrightarrow> own_place N h (object_place N h (K_ConfigMap c))"
    "naming_contract (P_crd P) \<and> om_name (metadata h) \<noteq> None \<longrightarrow> own_place N h (object_place N h (K_StatefulSet t))"
    using places by blast+
next
  fix h img s
  assume "build_server_role_service P h img = Inr s"
  from role_service_Inr[OF this]
  show "naming_contract (P_crd P) \<and> om_name (metadata h) \<noteq> None \<longrightarrow> own_place N h (object_place N h (K_Service s))"
    by (auto simp: own_place_def own_name_def)
qed (simp_all add: own_place_def library_kinds_def)

lemma library_kinds_other: "kind \<in> {''Service'', ''ConfigMap'', ''StatefulSet''} \<Longrightarrow> kind \<notin> set library_kinds"
  by (auto simp: library_kinds_def)

lemma own_places_disjoint:
  assumes "kept_apart N h h'" and "own_place N h p" and "own_place N h' p"
  shows False
proof -
  obtain ns kind name where p: "p = (ns, kind, name)" by (metis prod_cases3)
  from assms have "om_namespace (metadata h) = om_namespace (metadata h')"
    by (simp add: own_place_def p)
  with assms(1) obtain n n' where n: "om_name (metadata h) = Some n" "om_name (metadata h') = Some n'"
    and apart: "names_apart n n'"
    and lib: "list_all (\<lambda>kind. N h kind \<noteq> N h' kind) library_kinds"
    unfolding kept_apart_def by (auto split: option.splits)
  let ?built = "kind \<in> {''Service'', ''ConfigMap'', ''StatefulSet''}"
  have place: "?built \<and> (\<exists>x. name = Some x \<and> own_name n x) \<or> kind \<in> set library_kinds \<and> name = Some (N h kind)"
    using assms(2) by (simp only: own_place_def p prod.case n option.inject) blast
  have place': "?built \<and> (\<exists>x. name = Some x \<and> own_name n' x) \<or> kind \<in> set library_kinds \<and> name = Some (N h' kind)"
    using assms(3) by (simp only: own_place_def p prod.case n option.inject) blast
  show False
  proof (cases ?built)
    case True
    then have "kind \<notin> set library_kinds" by (rule library_kinds_other)
    with place place' obtain x where "own_name n x" "own_name n' x" by auto
    then show ?thesis using own_names_meet_iff[of n n'] apart unfolding names_apart_def by blast
  next
    case False
    with place place' have "kind \<in> set library_kinds" "N h kind = N h' kind" by simp_all
    then show ?thesis using lib unfolding list_all_iff by blast
  qed
qed

section \<open>No two objects of a plan are the same\<close>

lemma plan_objects_distinct:
  assumes "reconcile_plan P R pc h addr sa = Inr plan" and "server_config_of R pc h = Inr config"
    and "hm_invar config" and "naming_contract (P_crd P)"
  shows "distinct (map object_identity (applied plan))"
proof -
  obtain svc where "build_server_role_service P h (hello_resolved_image R h) = Inr svc"
    using assms(1) unfolding reconcile_plan_Inr by blast
  then obtain n where n: "om_name (metadata h) = Some n" using role_service_Inr by metis
  then have name: "object_name (P_crd P) (server_rolegroup_ref h g) = n @ ''-server-'' @ g" for g
    using assms(4) unfolding naming_contract_def by blast
  show ?thesis
    by (rule plan_identities_distinct[OF assms(1-3)]) (auto simp: name n inj_on_def)
qed

end
