(* ===== verification/Concurrent_Clusters.thy ===== *)
theory Concurrent_Clusters
  imports Cluster_Names Cluster_Store
begin

text \<open>
  Many clusters at once. The controller runtime runs the reconciler for different objects
  concurrently, and for one object one run after the other. The runs share only the API server,
  so the whole is an interleaving of their calls: \<open>concurrent\<close> starts runs and lets any of the
  unfinished ones make its next call. The store holds the objects of all clusters by place, with
  the cluster they were applied for; \<open>api_contract\<close> states what applying and deleting do to it.
  A world answers a run by the history of its own object, which leaves open what the other runs
  have to do with it. The library may list its hash maps in another order in every run.
\<close>

section \<open>Interleaved runs\<close>

type_synonym cluster_key = "string option \<times> string option"

definition cluster_key :: "hello_cluster \<Rightarrow> cluster_key" where
  "cluster_key h = (om_namespace (metadata h), om_name (metadata h))"

text \<open>The latest run for an object: what it was given, the calls before it, those made and to make.\<close>

record progress =
  pr_object :: "ext_error + hello_cluster"
  pr_before :: "call list"
  pr_made :: "call list"
  pr_left :: "call list"
  pr_result :: "controller_error + action"

record event =
  ev_cluster :: hello_cluster
  ev_before :: "call list"
  ev_made :: "call list"
  ev_call :: call

definition no_run :: progress where
  "no_run = \<lparr> pr_object = Inl (ExtError ''''), pr_before = [], pr_made = [], pr_left = [],
     pr_result = Inr await_change \<rparr>"

definition next_call :: "progress \<Rightarrow> hello_cluster \<Rightarrow> call \<Rightarrow> event" where
  "next_call p h c = \<lparr> ev_cluster = h, ev_before = pr_before p, ev_made = pr_made p, ev_call = c \<rparr>"

inductive concurrent ::
  "platform \<Rightarrow> reconcile_platform \<Rightarrow> (cluster_key \<Rightarrow> world) \<Rightarrow> json
     \<Rightarrow> (cluster_key \<Rightarrow> progress) \<Rightarrow> event list \<Rightarrow> bool"
  for P R Ws pc where
  nothing: "concurrent P R Ws pc (\<lambda>_. no_run) []"
| start: "\<lbrakk> concurrent P R Ws pc S H; pr_left (S k) = [];
            \<forall>h. guarded = Inr h \<longrightarrow> cluster_key h = k;
            reordered_library R R';
            reconcile_hello P R' (Ws k) pc guarded (pr_before (S k) @ pr_made (S k)) =
              (r, (pr_before (S k) @ pr_made (S k)) @ ds) \<rbrakk>
    \<Longrightarrow> concurrent P R Ws pc
          (S(k := \<lparr> pr_object = guarded, pr_before = pr_before (S k) @ pr_made (S k), pr_made = [],
                    pr_left = ds, pr_result = r \<rparr>)) H"
| call: "\<lbrakk> concurrent P R Ws pc S H; pr_object (S k) = Inr h; pr_left (S k) = c # left \<rbrakk>
    \<Longrightarrow> concurrent P R Ws pc
          (S(k := (S k)\<lparr> pr_made := pr_made (S k) @ [c], pr_left := left \<rparr>))
          (H @ [next_call (S k) h c])"

text \<open>The latest run of an object is one of the reconciler, of which a part has been made.\<close>

definition progress_ok ::
  "platform \<Rightarrow> reconcile_platform \<Rightarrow> world \<Rightarrow> json \<Rightarrow> cluster_key \<Rightarrow> progress \<Rightarrow> bool" where
  "progress_ok P R W pc k p \<longleftrightarrow> (\<forall>h. pr_object p = Inr h \<longrightarrow> cluster_key h = k \<and>
     (\<exists>R'. reordered_library R R' \<and>
        reconcile_hello P R' W pc (Inr h) (pr_before p) = (pr_result p, pr_before p @ pr_made p @ pr_left p)))"

lemma concurrent_progress_ok: "concurrent P R Ws pc S H \<Longrightarrow> progress_ok P R (Ws k) pc k (S k)"
proof (induction arbitrary: k rule: concurrent.induct)
  case (call S H k' h c left)
  from call.IH[of k'] call.hyps(2,3) call.IH[of k] show ?case
    by (cases "k = k'") (simp_all add: progress_ok_def)
qed (auto simp: progress_ok_def no_run_def)

lemma progress_calls_ok:
  assumes "progress_ok P R W pc k p" and "pr_object p = Inr h" and "c \<in> set (pr_made p @ pr_left p)"
  shows "call_for P h c"
proof -
  obtain R' where "reconcile_hello P R' W pc (Inr h) (pr_before p) =
      (pr_result p, pr_before p @ pr_made p @ pr_left p)"
    using assms(1,2) unfolding progress_ok_def by blast
  with assms(3) show ?thesis
    using calls_all_run[OF addressed.reconcile_calls] by (metis Pair_inject same_append_eq)
qed

section \<open>The store of all clusters\<close>

type_synonym 'g objects = "'g \<Rightarrow> place \<Rightarrow> (cluster_key \<times> kube_object) option"
type_synonym 'g run_event = "event \<Rightarrow> 'g \<Rightarrow> 'g"

definition active :: "cluster_resources \<Rightarrow> bool" where
  "active cr \<longleftrightarrow> \<not> reconciliation_paused (cr_apply_strategy cr) \<and> \<not> stopped (cr_apply_strategy cr)"

definition ev_succeeded :: "(cluster_key \<Rightarrow> world) \<Rightarrow> event \<Rightarrow> bool" where
  "ev_succeeded Ws e = succeeded (Ws (cluster_key (ev_cluster e))) (ev_before e @ ev_made e) (ev_call e)"

definition resources_key :: "cluster_resources \<Rightarrow> cluster_key" where
  "resources_key cr = cluster_key (cr_cluster cr)"

text \<open>
  A successful application for an active cluster puts the object at its place; any application
  touches that place only, and leaves there what was there or something of the cluster. A
  successful deletion removes the objects of its cluster that this run has not applied; any
  deletion removes objects of its cluster only. Other calls change no object.
\<close>

definition add_contract :: "library_names \<Rightarrow> (cluster_key \<Rightarrow> world) \<Rightarrow> 'g objects \<Rightarrow> 'g run_event \<Rightarrow> bool" where
  "add_contract N Ws objects exec \<longleftrightarrow> (\<forall>e cr obj g. ev_call e = cr_add cr obj \<longrightarrow>
     (let p = object_place N (cr_cluster cr) obj in
      (objects (exec e g) = objects g \<or> (\<exists>v. objects (exec e g) = (objects g)(p \<mapsto> (resources_key cr, v)))) \<and>
      (active cr \<and> ev_succeeded Ws e \<longrightarrow> objects (exec e g) = (objects g)(p \<mapsto> (resources_key cr, obj)))))"

definition delete_contract :: "library_names \<Rightarrow> (cluster_key \<Rightarrow> world) \<Rightarrow> 'g objects \<Rightarrow> 'g run_event \<Rightarrow> bool" where
  "delete_contract N Ws objects exec \<longleftrightarrow> (\<forall>e cr g. ev_call e = delete_orphaned_resources cr \<longrightarrow>
     (\<forall>p. objects (exec e g) p = objects g p \<or>
        objects (exec e g) p = None \<and> (\<exists>v. objects g p = Some (resources_key cr, v))) \<and>
     (active cr \<and> ev_succeeded Ws e \<longrightarrow> (\<forall>p v. objects g p = Some (resources_key cr, v) \<longrightarrow>
        objects (exec e g) p =
          (if p \<in> object_place N (cr_cluster cr) ` set (applied (ev_made e)) then objects g p else None))))"

definition api_contract :: "library_names \<Rightarrow> (cluster_key \<Rightarrow> world) \<Rightarrow> 'g objects \<Rightarrow> 'g run_event \<Rightarrow> bool" where
  "api_contract N Ws objects exec \<longleftrightarrow>
     add_contract N Ws objects exec \<and> delete_contract N Ws objects exec \<and>
     (\<forall>e g. (\<exists>cm ns. ev_call e = client_get_config_map cm ns) \<or> (\<exists>m h st. ev_call e = apply_patch_status m h st)
        \<longrightarrow> objects (exec e g) = objects g)"

definition run_events :: "'g run_event \<Rightarrow> event list \<Rightarrow> 'g \<Rightarrow> 'g" where
  "run_events exec H g = fold exec H g"

text \<open>The objects of one cluster.\<close>

definition cluster_view :: "(place \<Rightarrow> (cluster_key \<times> kube_object) option) \<Rightarrow> cluster_key \<Rightarrow> place \<Rightarrow> kube_object option" where
  "cluster_view m k p = (case m p of Some (k', obj) \<Rightarrow> if k' = k then Some obj else None | None \<Rightarrow> None)"

lemma cluster_view_Some [simp]: "cluster_view m k p = Some obj \<longleftrightarrow> m p = Some (k, obj)"
  by (auto simp: cluster_view_def split: option.splits if_splits)

text \<open>The effect of a call on the objects of a cluster.\<close>

lemma cluster_view_upd [simp]:
  "cluster_view (m(p \<mapsto> (k, obj))) k' = (if k = k' then (cluster_view m k')(p \<mapsto> obj) else (cluster_view m k')(p := None))"
  by (auto simp: cluster_view_def fun_eq_iff)

lemma add_effect:
  assumes "api_contract N Ws objects exec" and "ev_call e = cr_add cr obj"
  shows "objects (exec e g) = objects g \<or>
      (\<exists>v. objects (exec e g) = (objects g)(object_place N (cr_cluster cr) obj \<mapsto> (resources_key cr, v)))"
    and "active cr \<Longrightarrow> ev_succeeded Ws e \<Longrightarrow>
      objects (exec e g) = (objects g)(object_place N (cr_cluster cr) obj \<mapsto> (resources_key cr, obj))"
  using assms unfolding api_contract_def add_contract_def Let_def by blast+

lemma no_effect:
  assumes "api_contract N Ws objects exec"
  shows "ev_call e = client_get_config_map cm ns \<Longrightarrow> objects (exec e g) = objects g"
    and "ev_call e = apply_patch_status m h st \<Longrightarrow> objects (exec e g) = objects g"
  using assms unfolding api_contract_def by blast+

lemma delete_effect:
  assumes "api_contract N Ws objects exec" and "ev_call e = delete_orphaned_resources cr"
  shows "k \<noteq> resources_key cr \<Longrightarrow> cluster_view (objects (exec e g)) k = cluster_view (objects g) k"
    and "active cr \<Longrightarrow> ev_succeeded Ws e \<Longrightarrow> cluster_view (objects (exec e g)) (resources_key cr) =
      cluster_view (objects g) (resources_key cr) |` (object_place N (cr_cluster cr) ` set (applied (ev_made e)))"
proof -
  have some: "objects (exec e g) p = objects g p \<or>
      objects (exec e g) p = None \<and> (\<exists>v. objects g p = Some (resources_key cr, v))" for p
    using assms unfolding api_contract_def delete_contract_def by blast
  show "cluster_view (objects (exec e g)) k = cluster_view (objects g) k" if "k \<noteq> resources_key cr"
  proof
    fix p
    show "cluster_view (objects (exec e g)) k p = cluster_view (objects g) k p"
      using some[of p] that by (auto simp: cluster_view_def)
  qed
  assume "active cr" and "ev_succeeded Ws e"
  with assms have all: "objects (exec e g) p =
      (if p \<in> object_place N (cr_cluster cr) ` set (applied (ev_made e)) then objects g p else None)"
    if "objects g p = Some (resources_key cr, v)" for p v
    using that unfolding api_contract_def delete_contract_def by blast
  show "cluster_view (objects (exec e g)) (resources_key cr) =
      cluster_view (objects g) (resources_key cr) |` (object_place N (cr_cluster cr) ` set (applied (ev_made e)))"
  proof
    fix p
    show "cluster_view (objects (exec e g)) (resources_key cr) p = (cluster_view (objects g) (resources_key cr) |`
        (object_place N (cr_cluster cr) ` set (applied (ev_made e)))) p"
    proof (cases "\<exists>v. objects g p = Some (resources_key cr, v)")
      case True
      then obtain v where v: "objects g p = Some (resources_key cr, v)" by blast
      show ?thesis using all[OF v] v by (simp add: cluster_view_def restrict_map_def)
    next
      case False
      with some[of p] have "objects (exec e g) p = objects g p" by blast
      with False show ?thesis by (auto simp: cluster_view_def restrict_map_def split: option.split)
    qed
  qed
qed

section \<open>What a run has applied stays\<close>

lemma place_namespace: "fst (object_place N h obj) = om_namespace (metadata h)"
  by (cases obj) simp_all

definition places_owned :: "platform \<Rightarrow> library_names \<Rightarrow> hello_cluster \<Rightarrow> call \<Rightarrow> bool" where
  "places_owned P N h = call_sat P (\<lambda>obj. naming_contract (P_crd P) \<and> om_name (metadata h) \<noteq> None \<longrightarrow>
     own_place N h (object_place N h obj)) h"

lemma progress_places_owned:
  assumes "progress_ok P R W pc k p" and "pr_object p = Inr h" and "c \<in> set (pr_made p @ pr_left p)"
  shows "places_owned P N h c"
proof -
  obtain R' where "reconcile_hello P R' W pc (Inr h) (pr_before p) =
      (pr_result p, pr_before p @ pr_made p @ pr_left p)"
    using assms(1,2) unfolding progress_ok_def by blast
  with assms(3) show ?thesis
    unfolding places_owned_def using calls_all_run[OF territory.reconcile_calls] by (metis Pair_inject same_append_eq)
qed

lemma places_differ:
  assumes "naming_contract (P_crd P)" and "kept_apart N h h'"
    and "places_owned P N h (cr_add cr obj)" and "places_owned P N h' (cr_add cr' obj')"
  shows "object_place N h obj \<noteq> object_place N h' obj'"
proof
  assume eq: "object_place N h obj = object_place N h' obj'"
  then have "om_namespace (metadata h) = om_namespace (metadata h')" by (metis place_namespace)
  with assms(2) have "om_name (metadata h) \<noteq> None" "om_name (metadata h') \<noteq> None"
    by (auto simp: kept_apart_def split: option.splits)
  with assms(1,3,4) have "own_place N h (object_place N h obj)" "own_place N h' (object_place N h' obj')"
    by (simp_all add: places_owned_def)
  with own_places_disjoint[OF assms(2)] eq show False by simp
qed

definition made_objects :: "library_names \<Rightarrow> hello_cluster \<Rightarrow> call list \<Rightarrow> place \<Rightarrow> kube_object option" where
  "made_objects N h made = objects_by (object_place N h) (applied made)"

text \<open>
  The objects a run has applied so far are in place, and once it has deleted orphans they are the
  only ones of its cluster.
\<close>

definition holds_made ::
  "library_names \<Rightarrow> (place \<Rightarrow> (cluster_key \<times> kube_object) option) \<Rightarrow> hello_cluster \<Rightarrow> call list \<Rightarrow> bool" where
  "holds_made N m h made \<longleftrightarrow>
     made_objects N h made \<subseteq>\<^sub>m cluster_view m (cluster_key h) \<and>
     (made \<noteq> [] \<and> is_delete (last made) \<longrightarrow> cluster_view m (cluster_key h) = made_objects N h made)"

lemma made_objects_dom: "dom (made_objects N h made) = object_place N h ` set (applied made)"
  by (simp add: made_objects_def objects_by_dom)

lemma hello_resources:
  "resources_key (hello_cluster_resources h) = cluster_key h"
  "cr_cluster (hello_cluster_resources h) = h"
  by (simp_all add: resources_key_def hello_cluster_resources_def)

lemma own_call_holds:
  assumes "api_contract N Ws objects exec" and "active (hello_cluster_resources h)" and "call_for P h c"
    and "ev_call e = c" and "ev_made e = made" and "ev_succeeded Ws e" and "holds_made N (objects g) h made"
  shows "holds_made N (objects (exec e g)) h (made @ [c])"
proof (cases c)
  case (cr_add cr obj)
  then have cr: "cr = hello_cluster_resources h" using assms(3) by simp
  have "objects (exec e g) = (objects g)(object_place N h obj \<mapsto> (cluster_key h, obj))"
    using add_effect(2)[OF assms(1), of e cr obj] assms(2,4,6) cr_add by (simp add: cr hello_resources)
  with assms(7) show ?thesis
    by (auto simp: holds_made_def made_objects_def cr_add intro!: map_le_upd)
next
  case (client_get_config_map cm ns)
  with no_effect(1)[OF assms(1)] assms(4,7) show ?thesis
    by (simp add: holds_made_def made_objects_def)
next
  case (apply_patch_status m h' st)
  with no_effect(2)[OF assms(1)] assms(4,7) show ?thesis
    by (simp add: holds_made_def made_objects_def)
next
  case (delete_orphaned_resources cr)
  then have cr: "cr = hello_cluster_resources h" using assms(3) by simp
  have "cluster_view (objects (exec e g)) (cluster_key h) =
      cluster_view (objects g) (cluster_key h) |` dom (made_objects N h made)"
    using delete_effect(2)[OF assms(1), of e cr g] assms(2,4,5,6) delete_orphaned_resources
    by (simp add: cr hello_resources made_objects_dom)
  also have "\<dots> = made_objects N h made"
    using assms(7) by (auto simp: holds_made_def map_le_def restrict_map_def fun_eq_iff domIff)
  finally show ?thesis
    by (simp add: holds_made_def made_objects_def delete_orphaned_resources)
qed

lemma map_le_upd_None: "m \<subseteq>\<^sub>m n \<Longrightarrow> p \<notin> dom m \<Longrightarrow> m \<subseteq>\<^sub>m n(p := None)"
  by (auto simp: map_le_def)

text \<open>A call for another cluster can at most take away what is at a place this run has not used.\<close>

lemma other_call_view:
  assumes "api_contract N Ws objects exec" and "naming_contract (P_crd P)" and "kept_apart N h h'"
    and "cluster_key h' \<noteq> cluster_key h" and "call_for P h' c" and "places_owned P N h' c"
    and "\<forall>c' \<in> set made. places_owned P N h c'" and "ev_call e = c"
  shows "cluster_view (objects (exec e g)) (cluster_key h) = cluster_view (objects g) (cluster_key h)
    \<or> (\<exists>p. p \<notin> dom (made_objects N h made) \<and>
        cluster_view (objects (exec e g)) (cluster_key h) = (cluster_view (objects g) (cluster_key h))(p := None))"
proof (cases c)
  case (cr_add cr obj)
  then have cr: "cr = hello_cluster_resources h'" using assms(5) by simp
  have notin: "object_place N h' obj \<notin> dom (made_objects N h made)"
  proof
    assume "object_place N h' obj \<in> dom (made_objects N h made)"
    then obtain obj1 where "obj1 \<in> set (applied made)" and eq: "object_place N h obj1 = object_place N h' obj"
      unfolding made_objects_dom by auto
    then obtain cr1 where "cr_add cr1 obj1 \<in> set made" by (auto simp: applied_def split: call.splits)
    with places_differ[OF assms(2,3) _ assms(6)[unfolded cr_add]] assms(7) eq show False by blast
  qed
  consider "objects (exec e g) = objects g"
    | v where "objects (exec e g) = (objects g)(object_place N h' obj \<mapsto> (cluster_key h', v))"
    using add_effect(1)[OF assms(1), of e cr obj g] assms(8) by (auto simp: cr_add cr hello_resources)
  then show ?thesis
  proof cases
    case 2
    with assms(4) have "cluster_view (objects (exec e g)) (cluster_key h) =
        (cluster_view (objects g) (cluster_key h))(object_place N h' obj := None)" by simp
    with notin show ?thesis by blast
  qed simp
next
  case (client_get_config_map cm ns)
  with no_effect(1)[OF assms(1)] assms(8) show ?thesis by simp
next
  case (apply_patch_status m h' st)
  with no_effect(2)[OF assms(1)] assms(8) show ?thesis by simp
next
  case (delete_orphaned_resources cr)
  then have "cr = hello_cluster_resources h'" using assms(5) by simp
  with delete_effect(1)[OF assms(1), of e cr] assms(4,8) delete_orphaned_resources show ?thesis
    by (simp add: hello_resources)
qed

lemma other_call_holds:
  assumes "api_contract N Ws objects exec" and "naming_contract (P_crd P)" and "kept_apart N h h'"
    and "cluster_key h' \<noteq> cluster_key h" and "call_for P h' c" and "places_owned P N h' c"
    and "\<forall>c' \<in> set made. places_owned P N h c'" and "ev_call e = c" and "holds_made N (objects g) h made"
  shows "holds_made N (objects (exec e g)) h made"
  using other_call_view[OF assms(1-8), of g]
proof (elim disjE exE conjE)
    assume "cluster_view (objects (exec e g)) (cluster_key h) = cluster_view (objects g) (cluster_key h)"
    with assms(9) show ?thesis unfolding holds_made_def by metis
  next
    fix p
    assume p: "p \<notin> dom (made_objects N h made)"
      "cluster_view (objects (exec e g)) (cluster_key h) = (cluster_view (objects g) (cluster_key h))(p := None)"
    with assms(9) show ?thesis unfolding holds_made_def p(2) by (metis domIff fun_upd_triv map_le_upd_None)
qed

section \<open>The interleaving keeps what every run has applied\<close>

lemma concurrent_events_ok:
  assumes "concurrent P R Ws pc S H" and "e \<in> set H"
  shows "call_for P (ev_cluster e) (ev_call e) \<and> places_owned P N (ev_cluster e) (ev_call e)"
  using assms
proof (induction rule: concurrent.induct)
  case (call S H k h c left)
  note ok = concurrent_progress_ok[OF call.hyps(1), of k]
  from call.hyps(3) have "c \<in> set (pr_made (S k) @ pr_left (S k))" by simp
  from progress_calls_ok[OF ok call.hyps(2) this] progress_places_owned[OF ok call.hyps(2) this]
  show ?case using call by (auto simp: next_call_def)
qed simp_all

lemma concurrent_holds:
  assumes "concurrent P R Ws pc S H" and "api_contract N Ws objects exec" and "naming_contract (P_crd P)"
    and "pr_object (S k) = Inr h" and "active (hello_cluster_resources h)"
    and "answered (Ws k) (pr_before (S k)) (pr_made (S k))"
    and "\<forall>e \<in> set H. cluster_key (ev_cluster e) \<noteq> k \<longrightarrow> kept_apart N h (ev_cluster e)"
  shows "holds_made N (objects (run_events exec H g)) h (pr_made (S k))"
  using assms(1,4-7)
proof (induction arbitrary: h rule: concurrent.induct)
  case nothing
  then show ?case by (simp add: no_run_def)
next
  case (start S H k' guarded r ds)
  then show ?case by (cases "k = k'") (auto simp: holds_made_def made_objects_def map_le_def)
next
  case (call S H k' h' c left)
  have events: "run_events exec (H @ [e]) g = exec e (run_events exec H g)" for e
    by (simp add: run_events_def)
  note ok' = concurrent_progress_ok[OF call.hyps(1), of k']
  have c: "c \<in> set (pr_made (S k') @ pr_left (S k'))" using call.hyps(3) by simp
  note c_ok = progress_calls_ok[OF ok' call.hyps(2) c]
  have h': "cluster_key h' = k'" using ok' call.hyps(2) by (simp add: progress_ok_def)
  show ?case
  proof (cases "k' = k")
    case True
    with call.prems(1) call.hyps(2) have h: "h' = h" by simp
    let ?e = "next_call (S k) h c"
    have ans: "answered (Ws k) (pr_before (S k)) (pr_made (S k))" "succeeded (Ws k) (pr_before (S k) @ pr_made (S k)) c"
      using call.prems(3) by (simp_all add: True answered_append)
    have "holds_made N (objects (run_events exec H g)) h (pr_made (S k))"
      using call.prems ans call.hyps(2) by (intro call.IH) (auto simp: True h)
    then have "holds_made N (objects (exec ?e (run_events exec H g))) h (pr_made (S k) @ [c])"
      using ans(2) c_ok h' by (intro own_call_holds[OF assms(2) call.prems(2)])
        (simp_all add: next_call_def ev_succeeded_def True h)
    then show ?thesis by (simp add: events True h)
  next
    case False
    let ?e = "next_call (S k') h' c"
    have IH: "holds_made N (objects (run_events exec H g)) h (pr_made (S k))"
      using call.prems False by (intro call.IH) auto
    have ok: "progress_ok P R (Ws k) pc k (S k)" by (rule concurrent_progress_ok[OF call.hyps(1)])
    have obj: "pr_object (S k) = Inr h" using call.prems(1) False by simp
    have "cluster_key h = k" using ok obj by (simp add: progress_ok_def)
    moreover have "kept_apart N h h'" using call.prems(4) False h' by (simp add: next_call_def)
    moreover have "\<forall>c' \<in> set (pr_made (S k)). places_owned P N h c'"
      using progress_places_owned[OF ok obj] by simp
    ultimately have "holds_made N (objects (exec ?e (run_events exec H g))) h (pr_made (S k))"
      using False h' c_ok progress_places_owned[OF ok' call.hyps(2) c] IH
      by (intro other_call_holds[OF assms(2,3)]) (simp_all add: next_call_def)
    then show ?thesis using False by (simp add: events)
  qed
qed

section \<open>The places of a plan\<close>

text \<open>
  The objects of a plan are at different places, so what is in the cluster after applying them does
  not depend on the order in which the run had the role groups.
\<close>

fun identity_place :: "library_names \<Rightarrow> hello_cluster \<Rightarrow> identity \<Rightarrow> place" where
  "identity_place N h (kind, name) =
     (om_namespace (metadata h), kind, if kind \<in> set library_kinds then Some (N h kind) else name)"

lemma object_place_identity: "object_place N h obj = identity_place N h (object_identity obj)"
  by (cases obj) (simp_all add: library_kinds_def)

lemma identity_place_inj:
  "identity_place N h (object_identity x) = identity_place N h (object_identity y) \<Longrightarrow> object_identity x = object_identity y"
  by (cases x; cases y) (simp_all add: library_kinds_def)

lemma plan_places_distinct:
  assumes "reconcile_plan P R pc h addr sa = Inr plan" and "server_config_of R pc h = Inr config"
    and "hm_invar config" and "naming_contract (P_crd P)"
  shows "distinct (map (object_place N h) (applied plan))"
proof -
  have "distinct (map object_identity (applied plan))" by (rule plan_objects_distinct[OF assms])
  then have "distinct (map (identity_place N h) (map object_identity (applied plan)))"
    using identity_place_inj by (subst distinct_map) (auto simp: inj_on_def)
  then show ?thesis by (simp add: object_place_identity[abs_def] comp_def)
qed

lemma reordered_places:
  assumes "reordered_library R R'" and "reconcile_plan P R' pc h addr sa = Inr plan'" and "naming_contract (P_crd P)"
  shows "\<exists>plan. reconcile_plan P R pc h addr sa = Inr plan \<and>
    objects_by (object_place N h) (applied plan') = objects_by (object_place N h) (applied plan)"
proof (cases "R' = R")
  case False
  obtain plan where plan: "reconcile_plan P R pc h addr sa = Inr plan" and mset: "mset plan' = mset plan"
    using reordered_plan(2)[OF assms(1,2)] by blast
  from mset have same: "mset (applied plan') = mset (applied plan)" by (rule applied_mset)
  obtain config where config: "server_config_of R pc h = Inr config"
    using plan unfolding reconcile_plan_Inr by blast
  have "hm_invar config"
    using reordered_config(1)[OF assms(1) False config] by (auto simp: hm_rel_def)
  from objects_by_perm[OF plan_places_distinct[OF plan config this assms(3)] same]
  have "objects_by (object_place N h) (applied plan') = objects_by (object_place N h) (applied plan)" .
  with plan show ?thesis by blast
qed (use assms(2) in blast)

end
