(* ===== verification/Concurrent_Properties.thy ===== *)
theory Concurrent_Properties
  imports Concurrent_Clusters
begin

text \<open>
  The properties of many clusters reconciled at once: they do not disturb each other as long as
  their names are apart, and what happens when they are not.
\<close>

section \<open>Two clusters for the example\<close>

definition ex_names :: library_names where
  "ex_names h kind = (case om_name (metadata h) of Some n \<Rightarrow> n | None \<Rightarrow> '''') @ ''-'' @ kind"

definition ex_run_event :: "(place \<Rightarrow> (cluster_key \<times> kube_object) option) run_event" where
  "ex_run_event e g =
     (case ev_call e of
        cr_add cr obj \<Rightarrow> g(object_place ex_names (cr_cluster cr) obj \<mapsto> (resources_key cr, obj))
      | delete_orphaned_resources cr \<Rightarrow> (\<lambda>p. case g p of
            None \<Rightarrow> None
          | Some (k, obj) \<Rightarrow>
              if k = resources_key cr \<and> p \<notin> object_place ex_names (cr_cluster cr) ` set (applied (ev_made e))
              then None else Some (k, obj))
      | _ \<Rightarrow> g)"

lemma ex_api_contract: "api_contract ex_names Ws (\<lambda>g. g) ex_run_event"
  unfolding api_contract_def add_contract_def delete_contract_def Let_def
  by (auto simp: ex_run_event_def split: option.split)

lemma ex_naming_contract: "naming_contract (P_crd ex_platform)"
  by (auto simp: naming_contract_def ex_platform_def ex_crd_def)

definition ex_other :: hello_cluster where
  "ex_other = ex_cluster\<lparr> metadata := \<lparr> om_name = Some ''shop'', om_namespace = Some ''default'', om_other = JNull \<rparr> \<rparr>"

lemma ex_kept_apart: "kept_apart ex_names ex_cluster ex_other"
  by (simp add: kept_apart_def ex_other_def ex_cluster_def ex_cluster_with_def names_apart_def
      name_continues_def library_kinds_def ex_names_def)

text \<open>A run can be let make all its calls.\<close>

lemma concurrent_finish:
  assumes "concurrent P R Ws pc S H" and "pr_object (S k) = Inr h"
  shows "\<exists>H'. concurrent P R Ws pc (S(k := (S k)\<lparr> pr_made := pr_made (S k) @ pr_left (S k), pr_left := [] \<rparr>)) (H @ H')
    \<and> (\<forall>e \<in> set H'. ev_cluster e = h)"
  using assms
proof (induction "pr_left (S k)" arbitrary: S H)
  case Nil
  then have "S(k := (S k)\<lparr> pr_made := pr_made (S k) @ pr_left (S k), pr_left := [] \<rparr>) = S"
    by (simp add: fun_upd_idem)
  with Nil show ?case by (intro exI[of _ "[]"]) simp
next
  case (Cons c left)
  let ?S = "S(k := (S k)\<lparr> pr_made := pr_made (S k) @ [c], pr_left := left \<rparr>)"
  have "concurrent P R Ws pc ?S (H @ [next_call (S k) h c])"
    using Cons.prems Cons.hyps(2) by (intro concurrent.call) simp_all
  from Cons.hyps(1)[OF _ this] Cons.prems(2) obtain H' where
    "concurrent P R Ws pc (?S(k := (?S k)\<lparr> pr_made := pr_made (?S k) @ left, pr_left := [] \<rparr>)) ((H @ [next_call (S k) h c]) @ H')"
    and "\<forall>e \<in> set H'. ev_cluster e = h" by auto
  then show ?case
    using Cons.hyps(2)[symmetric] by (intro exI[of _ "next_call (S k) h c # H'"]) (simp add: next_call_def)
qed

definition first_run :: "hello_cluster \<Rightarrow> controller_error + action \<Rightarrow> call list \<Rightarrow> progress" where
  "first_run h r ds = \<lparr> pr_object = Inr h, pr_before = [], pr_made = [], pr_left = ds, pr_result = r \<rparr>"

lemma concurrent_start_first:
  assumes "concurrent P R Ws pc S H" and "S k = no_run" and "cluster_key h = k"
    and "reordered_library R R'" and "reconcile_hello P R' (Ws k) pc (Inr h) [] = (r, ds)"
  shows "concurrent P R Ws pc (S(k := first_run h r ds)) H"
proof -
  have "pr_before (S k) @ pr_made (S k) = []" "pr_left (S k) = []" using assms(2) by (simp_all add: no_run_def)
  with concurrent.start[OF assms(1), of k "Inr h" R' r ds] assms(3-5) show ?thesis
    by (simp add: first_run_def)
qed

section \<open>Clusters with names apart\<close>

text \<open>
  C6: Clusters are reconciled independently. Whatever runs for other clusters are interleaved with
  it, once the latest run of an active cluster has succeeded, the objects that belong to this
  cluster are exactly those of its plan: no run for another cluster, finished or not, has replaced
  or deleted one of them, if the other clusters are in other namespaces or have names apart.
\<close>
theorem concurrent_runs_converge:
  assumes "concurrent P R Ws pc S H"
    and "pr_object (S k) = Inr h" and "pr_left (S k) = []" and "pr_result (S k) = Inr a"
    and "\<not> reconciliation_paused (cluster_operation_of (spec h))" and "\<not> stopped (cluster_operation_of (spec h))"
    and "naming_contract (P_crd P)" and "api_contract N Ws objects exec"
    and "\<forall>e \<in> set H. cluster_key (ev_cluster e) \<noteq> k \<longrightarrow> kept_apart N h (ev_cluster e)"
  shows "\<exists>addr sa plan. reconcile_plan P R pc h addr sa = Inr plan \<and>
    cluster_view (objects (run_events exec H g)) k = objects_by (object_place N h) (applied plan)"
proof -
  let ?made = "pr_made (S k)"
  obtain R' where key: "cluster_key h = k" and R': "reordered_library R R'"
    and run: "reconcile_hello P R' (Ws k) pc (Inr h) (pr_before (S k)) = (Inr a, pr_before (S k) @ ?made)"
    using concurrent_progress_ok[OF assms(1), of k] assms(2-4) by (auto simp: progress_ok_def)
  have ok: "\<forall>e. (Inr a :: controller_error + action) = Inl e \<longrightarrow> (\<exists>s. e = DeleteOrphanedResources s)" by simp
  obtain addr sa plan where plan: "reconcile_plan P R' pc h addr sa = Inr plan"
    and "?made \<noteq> [] \<and> is_delete (last ?made)" and "applied ?made = applied plan"
    using reconcile_reaches_finish[OF run ok] by (auto dest!: finish_reconcile_Inr)
  moreover have "holds_made N (objects (run_events exec H g)) h ?made"
    by (rule concurrent_holds[OF assms(1,8,7,2) _ successful_run_answered[OF run] assms(9)])
      (simp add: active_def hello_cluster_resources_def assms(5,6))
  ultimately have "cluster_view (objects (run_events exec H g)) k = objects_by (object_place N h) (applied plan)"
    unfolding holds_made_def made_objects_def key by auto
  with reordered_places[OF R' plan assms(7), of N] show ?thesis by metis
qed

theorem concurrent_runs_converge_witness:
  "\<exists>H addr sa plan. (\<exists>e \<in> set H. ev_cluster e = ex_other) \<and>
     reconcile_plan ex_platform ex_reconcile JNull ex_cluster addr sa = Inr plan \<and>
     cluster_view (run_events ex_run_event H Map.empty) (cluster_key ex_cluster) =
       objects_by (object_place ex_names ex_cluster) (applied plan)"
proof -
  let ?Ws = "\<lambda>_. ex_world" and ?k = "cluster_key ex_cluster" and ?k' = "cluster_key ex_other"
  have keys: "?k \<noteq> ?k'" by (simp add: cluster_key_def ex_other_def ex_cluster_def ex_cluster_with_def)
  obtain ds where run: "reconcile_hello ex_platform ex_reconcile ex_world JNull (Inr ex_cluster) [] =
      (Inr await_change, [] @ ds)" using ex_run_from[of "[]"] by blast
  obtain r c' ds' where run': "reconcile_hello ex_platform ex_reordered ex_world JNull (Inr ex_other) [] = (r, [] @ c' # ds')"
  proof -
    have "snd (reconcile_hello ex_platform ex_reordered ex_world JNull (Inr ex_other) []) \<noteq> []" by code_simp
    then show thesis by (metis append_Nil list.exhaust prod.collapse that)
  qed
  let ?S1 = "(\<lambda>_. no_run)(?k := first_run ex_cluster (Inr await_change) ds)"
  let ?S2 = "?S1(?k' := first_run ex_other r (c' # ds'))"
  let ?S3 = "?S2(?k' := (?S2 ?k')\<lparr> pr_made := pr_made (?S2 ?k') @ [c'], pr_left := ds' \<rparr>)"
  have "concurrent ex_platform ex_reconcile ?Ws JNull ?S1 []"
    using run by (intro concurrent_start_first[OF _ _ _ reordered_refl] concurrent.nothing) simp_all
  then have "concurrent ex_platform ex_reconcile ?Ws JNull ?S2 []"
    by (rule concurrent_start_first[OF _ _ _ ex_reordered_library]) (use run' keys in simp_all)
  from concurrent.call[OF this, where k = ?k' and h = ex_other]
  have "concurrent ex_platform ex_reconcile ?Ws JNull ?S3 [next_call (?S2 ?k') ex_other c']"
    by (simp add: first_run_def)
  from concurrent_finish[OF this, of ?k ex_cluster] keys obtain H' where
    all: "concurrent ex_platform ex_reconcile ?Ws JNull (?S3(?k := (?S3 ?k)\<lparr> pr_made := ds, pr_left := [] \<rparr>))
      ([next_call (?S2 ?k') ex_other c'] @ H')" and H': "\<forall>e \<in> set H'. ev_cluster e = ex_cluster"
    by (auto simp: first_run_def)
  define H where "H = [next_call (?S2 ?k') ex_other c'] @ H'"
  have events: "\<exists>e \<in> set H. ev_cluster e = ex_other" "\<forall>e \<in> set H. ev_cluster e \<in> {ex_cluster, ex_other}"
    using H' by (simp_all add: H_def next_call_def)
  have "\<exists>addr sa plan. reconcile_plan ex_platform ex_reconcile JNull ex_cluster addr sa = Inr plan \<and>
     cluster_view (run_events ex_run_event H Map.empty) ?k = objects_by (object_place ex_names ex_cluster) (applied plan)"
    by (rule concurrent_runs_converge[OF all[folded H_def] _ _ _ ex_active ex_naming_contract ex_api_contract])
      (use keys events(2) ex_kept_apart in \<open>auto simp: first_run_def\<close>)
  with events(1) show ?thesis by blast
qed

section \<open>A cluster named like a role group\<close>





end
