(* ===== verification/Product_Config_Spec.thy ===== *)
theory Product_Config_Spec
  imports Reconcile
begin

text \<open>
  The product configuration specification \<^verbatim>\<open>deploy/config-spec/properties.yaml\<close>, which the library
  validates properties against: the properties it knows, with the file each goes to, its datatype,
  its recommended values and the roles it is for. (The units it defines are used by none of them.)
\<close>

section \<open>The specification\<close>

datatype spec_datatype = DT_integer int

record property_spec =
  ps_name :: string
  ps_kind :: property_name_kind
  ps_datatype :: spec_datatype
  ps_recommended :: "(string \<times> string) list" \<comment> \<open>from which version, and the value\<close>
  ps_roles :: "(string \<times> bool) list" \<comment> \<open>a role, and whether the property is required for it\<close>
  ps_as_of_version :: string

definition jvm_dns_cache_ttl :: property_spec where
  "jvm_dns_cache_ttl =
     \<lparr> ps_name = ''networkaddress.cache.ttl'', ps_kind = File ''security.properties'',
       ps_datatype = DT_integer 0, ps_recommended = [(''0.0.0'', ''30'')],
       ps_roles = [(''server'', True)], ps_as_of_version = ''0.0.0'' \<rparr>"

definition jvm_dns_cache_negative_ttl :: property_spec where
  "jvm_dns_cache_negative_ttl =
     \<lparr> ps_name = ''networkaddress.cache.negative.ttl'', ps_kind = File ''security.properties'',
       ps_datatype = DT_integer 0, ps_recommended = [(''0.0.0'', ''0'')],
       ps_roles = [(''server'', True)], ps_as_of_version = ''0.0.0'' \<rparr>"

definition product_config_spec :: "property_spec list" where
  "product_config_spec = [jvm_dns_cache_ttl, jvm_dns_cache_negative_ttl]"

text \<open>The value recommended from version 0.0.0 on, so for every product version.\<close>

definition recommended_property :: "property_name_kind \<Rightarrow> string \<Rightarrow> string option" where
  "recommended_property kind k =
     (case find (\<lambda>p. ps_kind p = kind \<and> ps_name p = k) product_config_spec of
        Some p \<Rightarrow> map_of (ps_recommended p) ''0.0.0''
      | None \<Rightarrow> None)"

fun in_datatype :: "spec_datatype \<Rightarrow> string \<Rightarrow> bool" where
  "in_datatype (DT_integer least) v = (case read_nat v of Some n \<Rightarrow> least \<le> int n | None \<Rightarrow> False)"

section \<open>It fits the operator\<close>

lemma recommended_property_eq:
  "recommended_property kind k =
     (if kind = File JVM_SECURITY_PROPERTIES then
        (if k = ''networkaddress.cache.ttl'' then Some ''30''
         else if k = ''networkaddress.cache.negative.ttl'' then Some ''0'' else None)
      else None)"
  by (auto simp: recommended_property_def product_config_spec_def jvm_dns_cache_ttl_def
      jvm_dns_cache_negative_ttl_def JVM_SECURITY_PROPERTIES_def)

text \<open>
  Each property is for a role that the operator knows, goes to a file that the reconciler requests
  for that role, and recommends values of its own datatype. So none of them is without effect.
\<close>

lemma specification_used:
  assumes "p \<in> set product_config_spec" and "(r, required) \<in> set (ps_roles p)"
  shows "\<exists>rl_kinds. role_from_str r = Inr Server \<and>
    hm_get (role_request_of rl) r = Some (rl_kinds, rl) \<and> ps_kind p \<in> set rl_kinds \<and>
    (\<forall>(version, v) \<in> set (ps_recommended p). in_datatype (ps_datatype p) v)"
proof -
  have "r = ''server''" "ps_kind p = File JVM_SECURITY_PROPERTIES"
    using assms by (auto simp: product_config_spec_def jvm_dns_cache_ttl_def jvm_dns_cache_negative_ttl_def
        JVM_SECURITY_PROPERTIES_def)
  moreover have "list_all (\<lambda>p. list_all (\<lambda>(version, v). in_datatype (ps_datatype p) v) (ps_recommended p)) product_config_spec"
    by code_simp
  ultimately show ?thesis
    using assms(1) by (auto simp: role_from_str_def role_request_of_def hm_get_def list_all_iff)
qed

end
