(* ===== verification/Config_Pipeline.thy ===== *)
theory Config_Pipeline
  imports Cluster_Store Cluster_Names Product_Config_Spec
begin

text \<open>
  From what the user configures to what the product reads. The properties of a role group come
  from four sources: the role group's overrides, the role's overrides, what the code computes
  (\<open>Configuration for HelloConfigFragment\<close>) and what \<^verbatim>\<open>deploy/config-spec/properties.yaml\<close>
  recommends. The library's product configuration brings them together; \<open>pipeline_contract\<close>
  states what is documented of it, and the lemmas follow the properties through the reconciler
  into the objects it applies.
\<close>

section \<open>The sources of a property\<close>

fun written_override :: "'cfg common_configuration \<Rightarrow> property_name_kind \<Rightarrow> string \<Rightarrow> string option" where
  "written_override c Env k = hm_get (cc_env_overrides c) k"
| "written_override c Cli k = bt_get (cc_cli_overrides c) k"
| "written_override c (File f) k =
     (case hm_get (cc_config_overrides c) f of Some kvs \<Rightarrow> hm_get kvs k | None \<Rightarrow> None)"

fun compute_properties ::
  "configuration_impl \<Rightarrow> hello_config_fragment \<Rightarrow> hello_cluster \<Rightarrow> property_name_kind \<Rightarrow> ext_error + property_map"
  where
  "compute_properties I frag h Env = impl_compute_env I frag h (role_to_string Server)"
| "compute_properties I frag h Cli = impl_compute_cli I frag h (role_to_string Server)"
| "compute_properties I frag h (File f) = impl_compute_files I frag h (role_to_string Server) f"

definition computed_property ::
  "hello_config_fragment \<Rightarrow> hello_cluster \<Rightarrow> property_name_kind \<Rightarrow> string \<Rightarrow> string option" where
  "computed_property frag h kind k =
     (case compute_properties hello_configuration frag h kind of
        Inr kvs \<Rightarrow> (case bt_get kvs k of Some v \<Rightarrow> v | None \<Rightarrow> None)
      | Inl _ \<Rightarrow> None)"

text \<open>
  What the property has to be: the role group's override, else the role's, else the computed
  value, else the recommended one. Which of the two wins where the role overrides a property
  that the code computes is not documented, so then nothing is expected.
\<close>

definition expected_property ::
  "hello_cluster \<Rightarrow> hello_config_fragment role \<Rightarrow> hello_config_fragment role_group
     \<Rightarrow> property_name_kind \<Rightarrow> string \<Rightarrow> string option" where
  "expected_property h rl grp kind k =
     (case written_override (rg_config grp) kind k of
        Some v \<Rightarrow> Some v
      | None \<Rightarrow>
          (case (written_override (role_config_common rl) kind k,
                 computed_property (cc_config (rg_config grp)) h kind k) of
             (Some v, None) \<Rightarrow> Some v
           | (None, Some v) \<Rightarrow> Some v
           | (None, None) \<Rightarrow> recommended_property kind k
           | (Some _, Some _) \<Rightarrow> None))"

lemma computed_env [simp]: "computed_property frag h Env k = None"
  by (simp add: computed_property_def hello_configuration_def compute_env_def bt_get_def)

lemma computed_application_properties:
  "computed_property frag h (File APPLICATION_PROPERTIES) k =
     (if k = LOGGING_CONFIG then Some (STACKABLE_CONFIG_DIR @ ''/'' @ LOGBACK_XML)
      else if k = SERVER_PORT then Some (show_u16 HTTP_PORT)
      else if k = GREETING_COLOR then Some (color (spec h))
      else if k = GREETING_RECIPIENT then Some (recipient (spec h)) else None)"
proof -
  have inv: "bt_invar []" "\<And>k v m. bt_invar m \<Longrightarrow> bt_invar (bt_insert k v m)"
    by (simp_all add: bt.invar_empty bt_invar_insert)
  show ?thesis
    by (simp add: computed_property_def hello_configuration_def compute_files_def bt_get_insert inv
        bt.get_empty del: bt_insert.simps)
qed

section \<open>The documented behaviour of the product configuration\<close>

text \<open>
  For the server role of the cluster: the validated configuration has exactly its role groups,
  each with its properties once, and every expected property of a requested kind is there.
\<close>

definition requested_kinds :: "hello_config_fragment role \<Rightarrow> property_name_kind list" where
  "requested_kinds rl =
     (case hm_get (role_request_of rl) (role_to_string Server) of Some r \<Rightarrow> fst r | None \<Rightarrow> [])"

lemma requested_kinds [simp]:
  "requested_kinds rl = [Env, Cli, File APPLICATION_PROPERTIES, File JVM_SECURITY_PROPERTIES]"
  by (simp add: requested_kinds_def role_request_of_def hm_get_def)

definition group_properties_ok ::
  "hello_cluster \<Rightarrow> hello_config_fragment role \<Rightarrow> string \<Rightarrow> role_group_properties \<Rightarrow> bool" where
  "group_properties_ok h rl g props \<longleftrightarrow>
     hm_invar props \<and> (\<forall>(kind, kvs) \<in> set props. bt_invar kvs) \<and>
     (\<forall>grp kind k v. hm_get (role_groups rl) g = Some grp \<and> kind \<in> set (requested_kinds rl) \<and>
        expected_property h rl grp kind k = Some v \<longrightarrow>
        (\<exists>kvs. hm_get props kind = Some kvs \<and> bt_get kvs k = Some v))"

definition pipeline_contract ::
  "reconcile_platform \<Rightarrow> json \<Rightarrow> hello_cluster \<Rightarrow> hello_config_fragment role \<Rightarrow> bool" where
  "pipeline_contract R pc h rl \<longleftrightarrow>
     (\<forall>transformed validated.
        transform_all_roles_to_config R hello_configuration h (role_request_of rl) = Inr transformed \<and>
        validate_all_roles_and_groups_config R (ri_product_version (hello_resolved_image R h))
          transformed pc False False = Inr validated \<longrightarrow>
        (\<exists>config. hm_get validated (role_to_string Server) = Some config \<and> hm_invar config \<and>
           fst ` set config = fst ` set (role_groups rl) \<and>
           (\<forall>(g, props) \<in> set config. group_properties_ok h rl g props)))"

lemma pipeline_config:
  assumes "pipeline_contract R pc h rl" and "servers (spec h) = Some rl"
    and "server_config_of R pc h = Inr config"
  shows "hm_invar config \<and> fst ` set config = fst ` set (role_groups rl) \<and>
    (\<forall>(g, props) \<in> set config. group_properties_ok h rl g props)"
proof -
  obtain transformed validated where "transform_all_roles_to_config R hello_configuration h (role_request_of rl) =
      Inr transformed"
    and "validate_all_roles_and_groups_config R (ri_product_version (hello_resolved_image R h))
      transformed pc False False = Inr validated"
    and "config = (case hm_get validated (role_to_string Server) of Some m \<Rightarrow> m | None \<Rightarrow> [])"
    using assms(2,3) unfolding server_config_of_def by (auto simp: result_simps)
  with assms(1) show ?thesis unfolding pipeline_contract_def by force
qed

lemma group_property:
  assumes "group_properties_ok h rl g props" and "hm_get (role_groups rl) g = Some grp"
    and "kind \<in> set (requested_kinds rl)" and "expected_property h rl grp kind k = Some v"
  shows "\<exists>kvs. hm_get props kind = Some kvs \<and> bt_get kvs k = Some v \<and> bt_invar kvs"
proof -
  obtain kvs where kvs: "hm_get props kind = Some kvs" "bt_get kvs k = Some v"
    using assms unfolding group_properties_ok_def by blast
  then have "(kind, kvs) \<in> set props" by (simp add: hm_get_def map_of_SomeD)
  with assms(1) kvs show ?thesis unfolding group_properties_ok_def by blast
qed

section \<open>Into the applied objects\<close>

lemma successful_run_groups:
  assumes "reconcile_hello P R W pc (Inr h) cs = (Inr a, cs @ ds)"
  obtains addr sa config groups rbac svc budgets where "server_config_of R pc h = Inr config"
    and "build_all (build_role_group P h (hello_resolved_image R h) addr sa) config = Inr groups"
    and "applied ds = [K_ServiceAccount (fst rbac), K_RoleBinding (snd rbac), K_Service svc]
      @ applied (concat (map (group_calls (hello_cluster_resources h)) groups))
      @ map K_PodDisruptionBudget budgets"
proof -
  have ok: "\<forall>e. (Inr a :: controller_error + action) = Inl e \<longrightarrow> (\<exists>s. e = DeleteOrphanedResources s)" by simp
  obtain addr sa plan where "reconcile_plan P R pc h addr sa = Inr plan" and "applied ds = applied plan"
    using reconcile_reaches_finish[OF assms ok] by (auto dest!: finish_reconcile_Inr)
  then show thesis using that unfolding reconcile_plan_Inr by auto
qed

lemma group_objects_applied:
  assumes "build_all f config = Inr groups" and "x \<in> set config"
  obtains s c t where "f x = Inr (s, c, t)"
    and "{K_Service s, K_ConfigMap c, K_StatefulSet t} \<subseteq> set (applied (concat (map (group_calls cr) groups)))"
proof -
  obtain objs where objs: "objs \<in> set groups" "f x = Inr objs" using build_all_Inr_in[OF assms] by blast
  moreover obtain s c t where "objs = (s, c, t)" by (cases objs)
  moreover have "set (applied (group_calls cr objs)) \<subseteq> set (applied (concat (map (group_calls cr) groups)))"
    using objs(1) by (induction groups) auto
  ultimately show thesis using that by simp
qed

text \<open>The objects of a role group of the specification are built and applied.\<close>

lemma applied_role_group:
  assumes "reconcile_hello P R W pc (Inr h) cs = (Inr a, cs @ ds)"
    and "servers (spec h) = Some rl" and "hm_get (role_groups rl) g = Some grp"
    and "pipeline_contract R pc h rl"
  obtains addr sa props s c t where
    "build_role_group P h (hello_resolved_image R h) addr sa (g, props) = Inr (s, c, t)"
    and "group_properties_ok h rl g props"
    and "{K_Service s, K_ConfigMap c, K_StatefulSet t} \<subseteq> set (applied ds)"
proof -
  obtain addr sa config groups rbac svc budgets where config: "server_config_of R pc h = Inr config"
    and groups: "build_all (build_role_group P h (hello_resolved_image R h) addr sa) config = Inr groups"
    and ds: "applied ds = [K_ServiceAccount (fst rbac), K_RoleBinding (snd rbac), K_Service svc]
      @ applied (concat (map (group_calls (hello_cluster_resources h)) groups))
      @ map K_PodDisruptionBudget budgets"
    using assms(1) by (rule successful_run_groups)
  note pipeline = pipeline_config[OF assms(4,2) config]
  have "g \<in> fst ` set (role_groups rl)" using assms(3) by (force simp: hm_get_def dest: map_of_SomeD)
  then have "g \<in> fst ` set config" using pipeline by simp
  then obtain props where props: "(g, props) \<in> set config" by auto
  have ok: "group_properties_ok h rl g props" using pipeline props by auto
  obtain s c t where built: "build_role_group P h (hello_resolved_image R h) addr sa (g, props) = Inr (s, c, t)"
    and sub: "{K_Service s, K_ConfigMap c, K_StatefulSet t} \<subseteq>
      set (applied (concat (map (group_calls (hello_cluster_resources h)) groups)))"
    using group_objects_applied[OF groups props] by blast
  then have "{K_Service s, K_ConfigMap c, K_StatefulSet t} \<subseteq> set (applied ds)" using ds by auto
  with built ok show thesis by (rule that)
qed

text \<open>And they are in the cluster after the run.\<close>

lemma applied_object_stays:
  assumes "reconcile_hello P R W pc (Inr h) cs = (Inr a, cs @ ds)"
    and "servers (spec h) = Some rl" and "pipeline_contract R pc h rl"
    and "naming_contract (P_crd P)" and "store_contract W cs lookup exec"
    and "\<not> reconciliation_paused (cluster_operation_of (spec h))"
    and "\<not> stopped (cluster_operation_of (spec h))"
    and "obj \<in> set (applied ds)"
  shows "lookup (exec_calls exec [] ds s) (object_identity obj) = Some obj"
proof -
  have ok: "\<forall>e. (Inr a :: controller_error + action) = Inl e \<longrightarrow> (\<exists>s. e = DeleteOrphanedResources s)" by simp
  obtain addr sa plan where plan: "reconcile_plan P R pc h addr sa = Inr plan" and ds: "applied ds = applied plan"
    using reconcile_reaches_finish[OF assms(1) ok] by (auto dest!: finish_reconcile_Inr)
  obtain config where config: "server_config_of R pc h = Inr config"
    using plan unfolding reconcile_plan_Inr by blast
  have "hm_invar config" using pipeline_config[OF assms(3,2) config] by blast
  then have dist: "distinct (map object_identity (applied ds))"
    unfolding ds by (rule plan_objects_distinct[OF plan config _ assms(4)])
  have "lookup (exec_calls exec [] ds s) = objects_map (applied ds)"
    by (rule successful_run_store[OF assms(1,5-7)])
  with dist assms(8) show ?thesis
    by (auto simp: objects_by_distinct intro!: map_of_is_SomeI simp: comp_def)
qed

lemma config_map_file:
  assumes "build_role_group P h img addr sa (g, props) = Inr (s, c, t)" and "hm_invar props"
    and "VECTOR_CONFIG_FILE (P_logging P) \<notin> {APPLICATION_PROPERTIES, JVM_SECURITY_PROPERTIES}"
    and "f \<in> {APPLICATION_PROPERTIES, JVM_SECURITY_PROPERTIES}" and "hm_get props (File f) = Some kvs"
  shows "\<exists>text. cm_entry c f = Some text \<and> to_java_properties_string (P_kube P) (all_some kvs) = Inr text"
proof -
  have names: "APPLICATION_PROPERTIES \<noteq> JVM_SECURITY_PROPERTIES" "LOGBACK_XML \<noteq> f"
    using assms(4) by (auto simp: APPLICATION_PROPERTIES_def JVM_SECURITY_PROPERTIES_def LOGBACK_XML_def)
  obtain m where "build_server_rolegroup_config_map P h img (server_rolegroup_ref h g) props m addr = Inr c"
    using build_role_group_Inr[OF assms(1)] by blast
  from config_map_contents[OF this] obtain app meta jvm where
    app: "application_properties_loop (P_kube P) props '''' = Inr app"
    and jvm: "to_java_properties_string (P_kube P) (jvm_sec_props props) = Inr jvm"
    and c: "c = [cm_metadata meta, cm_add_data APPLICATION_PROPERTIES app,
      cm_add_data JVM_SECURITY_PROPERTIES jvm] @ logging_entries (P_logging P) (server_rolegroup_ref h g) addr
        (hc_logging m)"
    by blast
  have "cm_entry (logging_entries (P_logging P) (server_rolegroup_ref h g) addr (hc_logging m)) f = None"
    using assms(3,4) names(2) by (auto simp: cm_entry_logging_entries)
  then have "cm_entry c f = Some (if f = APPLICATION_PROPERTIES then app else jvm)"
    unfolding c cm_entry_append using assms(4) names(1) by auto
  moreover have "to_java_properties_string (P_kube P) (all_some kvs) =
      Inr (if f = APPLICATION_PROPERTIES then app else jvm)"
    using assms(4,5) app jvm names(1)
    by (auto simp: application_properties_loop_hm[OF assms(2)] jvm_sec_props_def result_simps)
  ultimately show ?thesis by blast
qed

text \<open>The value the container runtime gives a variable: the last one listed.\<close>

definition effective_env :: "(string \<times> string) list \<Rightarrow> string \<Rightarrow> string option" where
  "effective_env vars = map_of (rev vars)"

lemma effective_override:
  assumes "build_role_group P h img addr sa (g, props) = Inr (s, c, t)" and "hm_invar props"
    and "hm_get props Env = Some kvs" and "bt_invar kvs" and "bt_get kvs k = Some v"
    and "k \<notin> {'''', ''CONTAINERDEBUG_LOG_DIRECTORY''}"
  shows "effective_env (env_vars (product_container t)) k = Some v"
proof -
  have "env_vars (product_container t) = filter (\<lambda>(n, _). n \<noteq> '''') kvs
      @ [(''CONTAINERDEBUG_LOG_DIRECTORY'', ''/stackable/log/containerdebug'')]"
    using assms(1)
    by (rule built_role_group)
      (simp add: product_container_built hello_container_env[OF assms(2)] env_overrides_def assms(3))
  moreover have "map_of (rev (filter (\<lambda>(n, _). n \<noteq> '''') kvs)) k = Some v"
  proof (rule map_of_is_SomeI)
    have "distinct (map fst kvs)" using assms(4) by (rule bt_invar_distinct)
    then show "distinct (map fst (rev (filter (\<lambda>(n, _). n \<noteq> '''') kvs)))"
      by (simp add: rev_map[symmetric] distinct_map_filter)
    show "(k, v) \<in> set (rev (filter (\<lambda>(n, _). n \<noteq> '''') kvs))"
      using assms(5,6) by (simp add: bt_get_def map_of_SomeD)
  qed
  ultimately show ?thesis using assms(6) by (simp add: effective_env_def)
qed

end
