(* ===== verification/Config_Properties.thy ===== *)
theory Config_Properties
  imports Config_Pipeline
begin

text \<open>
  The properties that rest on the product configuration: the role groups of a cluster are
  exactly those that are applied, and what the user configures arrives in the ConfigMap and the
  environment of the product. The witnesses use the cluster of the repository's smoke test
  (\<^verbatim>\<open>tests/templates/kuttl/smoke\<close>) and check what its assertions check.
\<close>

section \<open>The cluster of the smoke test\<close>

definition ex_smoke_group :: "hello_config_fragment role_group" where
  "ex_smoke_group =
     \<lparr> rg_config = (ex_common ex_empty_fragment (JStr ''cpu: 110m''))\<lparr>
         cc_config_overrides := [(''application.properties'',
           [(''prop.common'', ''group-value''), (''prop.group'', ''group-value'')])],
         cc_env_overrides := [(''GROUP_VAR'', ''group-value''), (''COMMON_VAR'', ''group-value'')] \<rparr>,
       rg_replicas = Some 1 \<rparr>"

definition ex_smoke_role :: "hello_config_fragment role" where
  "ex_smoke_role =
     \<lparr> role_config_common =
         (ex_common ex_empty_fragment JNull)\<lparr>
           cc_config_overrides := [(''application.properties'',
             [(''prop.common'', ''role-value''), (''prop.role'', ''role-value'')])],
           cc_env_overrides := [(''ROLE_VAR'', ''role-value''), (''COMMON_VAR'', ''role-value'')] \<rparr>,
       role_role_config = \<lparr> pod_disruption_budget = \<lparr> pdb_enabled = True, pdb_max_unavailable = None \<rparr> \<rparr>,
       role_groups = [(''default'', ex_smoke_group)] \<rparr>"

definition ex_smoke_cluster :: hello_cluster where
  "ex_smoke_cluster = ex_cluster_with (Some ex_smoke_role) None"

definition ex_smoke_properties :: role_group_properties where
  "ex_smoke_properties =
     [(File ''security.properties'',
        [(''networkaddress.cache.negative.ttl'', ''0''), (''networkaddress.cache.ttl'', ''30'')]),
      (Env, [(''COMMON_VAR'', ''group-value''), (''GROUP_VAR'', ''group-value''), (''ROLE_VAR'', ''role-value'')]),
      (File ''application.properties'',
        [(''greeting.color'', ''blue''), (''greeting.recipient'', ''Stackable''),
         (''logging.config'', ''/stackable/config/logback.xml''), (''prop.common'', ''group-value''),
         (''prop.group'', ''group-value''), (''prop.role'', ''role-value''), (''server.port'', ''8080'')])]"

definition ex_smoke_reconcile :: reconcile_platform where
  "ex_smoke_reconcile = ex_reconcile\<lparr>
     validate_all_roles_and_groups_config := (\<lambda>_ _ _ _ _. Inr [(''server'', [(''default'', ex_smoke_properties)])]) \<rparr>"

lemma ex_smoke_groups: "role_groups ex_smoke_role = [(''default'', ex_smoke_group)]"
  by (simp add: ex_smoke_role_def)

lemma ex_smoke_overrides:
  "written_override (rg_config ex_smoke_group) Env k =
     (if k = ''GROUP_VAR'' \<or> k = ''COMMON_VAR'' then Some ''group-value'' else None)"
  "written_override (role_config_common ex_smoke_role) Env k =
     (if k = ''ROLE_VAR'' \<or> k = ''COMMON_VAR'' then Some ''role-value'' else None)"
  "written_override (rg_config ex_smoke_group) (File f) k =
     (if f = ''application.properties'' \<and> (k = ''prop.common'' \<or> k = ''prop.group'')
      then Some ''group-value'' else None)"
  "written_override (role_config_common ex_smoke_role) (File f) k =
     (if f = ''application.properties'' \<and> (k = ''prop.common'' \<or> k = ''prop.role'')
      then Some ''role-value'' else None)"
  "written_override (rg_config ex_smoke_group) Cli k = None"
  "written_override (role_config_common ex_smoke_role) Cli k = None"
  by (simp_all add: ex_smoke_group_def ex_smoke_role_def ex_common_def hm_get_def bt_get_def)

text \<open>The expected properties of the smoke test, as tables.\<close>

lemma ex_smoke_expected_env:
  "expected_property ex_smoke_cluster ex_smoke_role ex_smoke_group Env k =
     map_of [(''COMMON_VAR'', ''group-value''), (''GROUP_VAR'', ''group-value''), (''ROLE_VAR'', ''role-value'')] k"
  by (simp add: expected_property_def ex_smoke_overrides recommended_property_eq
      del: written_override.simps)

lemma ex_smoke_expected_security:
  "expected_property ex_smoke_cluster ex_smoke_role ex_smoke_group (File ''security.properties'') k =
     map_of [(''networkaddress.cache.negative.ttl'', ''0''), (''networkaddress.cache.ttl'', ''30'')] k"
proof -
  have "computed_property frag h (File ''security.properties'') k = None" for frag h
    by (simp add: computed_property_def hello_configuration_def compute_files_def bt_get_def
        APPLICATION_PROPERTIES_def)
  then show ?thesis
    by (simp add: expected_property_def ex_smoke_overrides recommended_property_eq JVM_SECURITY_PROPERTIES_def
        del: written_override.simps)
qed

lemma ex_smoke_expected_application:
  "expected_property ex_smoke_cluster ex_smoke_role ex_smoke_group (File ''application.properties'') k =
     map_of [(''greeting.color'', ''blue''), (''greeting.recipient'', ''Stackable''),
         (''logging.config'', ''/stackable/config/logback.xml''), (''prop.common'', ''group-value''),
         (''prop.group'', ''group-value''), (''prop.role'', ''role-value''), (''server.port'', ''8080'')] k"
proof -
  have texts: "STACKABLE_CONFIG_DIR @ ''/'' @ LOGBACK_XML = ''/stackable/config/logback.xml''" by code_simp
  have spec: "color (spec ex_smoke_cluster) = ''blue''" "recipient (spec ex_smoke_cluster) = ''Stackable''"
    by (simp_all add: ex_smoke_cluster_def ex_cluster_with_def)
  have computed: "computed_property frag ex_smoke_cluster (File ''application.properties'') k =
      (if k = ''logging.config'' then Some ''/stackable/config/logback.xml''
       else if k = ''server.port'' then Some ''8080''
       else if k = ''greeting.color'' then Some ''blue''
       else if k = ''greeting.recipient'' then Some ''Stackable'' else None)" for frag k
    using computed_application_properties[of frag ex_smoke_cluster k]
    unfolding texts spec show_http_port
    unfolding APPLICATION_PROPERTIES_def LOGGING_CONFIG_def SERVER_PORT_def GREETING_COLOR_def
      GREETING_RECIPIENT_def .
  note eqs = expected_property_def ex_smoke_overrides recommended_property_eq JVM_SECURITY_PROPERTIES_def computed
  show ?thesis
  proof (cases "k \<in> {''greeting.color'', ''greeting.recipient'', ''logging.config'', ''prop.common'',
      ''prop.group'', ''prop.role'', ''server.port''}")
    case True
    then show ?thesis
      by (elim insertE emptyE) (simp_all add: eqs del: written_override.simps)
  next
    case False
    then show ?thesis by (simp add: eqs del: written_override.simps)
  qed
qed

lemma ex_smoke_expected_cli:
  "expected_property ex_smoke_cluster ex_smoke_role ex_smoke_group Cli k = None"
  by (simp add: expected_property_def ex_smoke_overrides recommended_property_eq computed_property_def
      hello_configuration_def compute_cli_def bt_get_def del: written_override.simps)

lemma ex_smoke_get:
  "hm_get ex_smoke_properties Env =
     Some [(''COMMON_VAR'', ''group-value''), (''GROUP_VAR'', ''group-value''), (''ROLE_VAR'', ''role-value'')]"
  "hm_get ex_smoke_properties (File ''security.properties'') =
     Some [(''networkaddress.cache.negative.ttl'', ''0''), (''networkaddress.cache.ttl'', ''30'')]"
  "hm_get ex_smoke_properties (File ''application.properties'') =
     Some [(''greeting.color'', ''blue''), (''greeting.recipient'', ''Stackable''),
         (''logging.config'', ''/stackable/config/logback.xml''), (''prop.common'', ''group-value''),
         (''prop.group'', ''group-value''), (''prop.role'', ''role-value''), (''server.port'', ''8080'')]"
  by (simp_all add: ex_smoke_properties_def hm_get_def)

lemma ex_smoke_contract:
  "pipeline_contract ex_smoke_reconcile pc ex_smoke_cluster ex_smoke_role"
proof -
  have names: "File APPLICATION_PROPERTIES = File ''application.properties''"
    "File JVM_SECURITY_PROPERTIES = File ''security.properties''"
    by (simp_all add: APPLICATION_PROPERTIES_def JVM_SECURITY_PROPERTIES_def)
  have "group_properties_ok ex_smoke_cluster ex_smoke_role ''default'' ex_smoke_properties"
    unfolding group_properties_ok_def requested_kinds names
  proof (intro conjI allI impI)
    show "hm_invar ex_smoke_properties" by (simp add: ex_smoke_properties_def hm_invar_def)
    have "list_all (\<lambda>(kind, kvs). sorted (map fst kvs) \<and> distinct (map fst kvs)) ex_smoke_properties"
      by code_simp
    then show "\<forall>(kind, kvs) \<in> set ex_smoke_properties. bt_invar kvs"
      by (simp add: list_all_iff bt_invar_def)
  next
    fix grp kind k v
    assume "hm_get (role_groups ex_smoke_role) ''default'' = Some grp \<and>
      kind \<in> set [Env, Cli, File ''application.properties'', File ''security.properties''] \<and>
      expected_property ex_smoke_cluster ex_smoke_role grp kind k = Some v"
    moreover from this have "grp = ex_smoke_group" by (simp add: ex_smoke_groups hm_get_def)
    ultimately show "\<exists>kvs. hm_get ex_smoke_properties kind = Some kvs \<and> bt_get kvs k = Some v"
      by (auto simp only: set_simps insert_iff empty_iff ex_smoke_expected_env ex_smoke_expected_cli
          ex_smoke_expected_application ex_smoke_expected_security ex_smoke_get bt_get_def)
  qed
  then show ?thesis
    by (simp add: pipeline_contract_def ex_smoke_reconcile_def hm_get_def hm_invar_def ex_smoke_groups)
qed

lemma ex_smoke_run:
  "\<exists>ds. reconcile_hello ex_platform ex_smoke_reconcile ex_world JNull (Inr ex_smoke_cluster) [] =
     (Inr await_change, [] @ ds)"
proof -
  have "fst (reconcile_hello ex_platform ex_smoke_reconcile ex_world JNull (Inr ex_smoke_cluster) []) =
      Inr await_change" by code_simp
  then show ?thesis by (metis append_Nil prod.collapse)
qed

section \<open>What the user configures arrives\<close>



section \<open>Role groups are added and removed\<close>

text \<open>
  C10: A cluster that is neither paused nor stopped runs the role groups of its specification and no
  others, if applying, deleting and the product configuration do what the libraries document. After
  a successful run there is a StatefulSet, and a ConfigMap, for each role group of the server role, and none for
  any other name: that of a role group that was added has been made, and that of one that was
  removed from the specification is gone.
\<close>
theorem role_groups_exactly_applied:
  assumes "reconcile_hello P R W pc (Inr h) cs = (Inr a, cs @ ds)"
    and "servers (spec h) = Some rl" and "pipeline_contract R pc h rl"
    and "store_contract W cs lookup exec"
    and "\<not> reconciliation_paused (cluster_operation_of (spec h))"
    and "\<not> stopped (cluster_operation_of (spec h))"
    and "kind \<in> {''StatefulSet'', ''ConfigMap''}"
  shows "lookup (exec_calls exec [] ds s) (kind, Some n) \<noteq> None \<longleftrightarrow>
    (\<exists>g \<in> fst ` set (role_groups rl). n = object_name (P_crd P) (server_rolegroup_ref h g))"
proof -
  obtain addr sa config groups rbac svc budgets where config: "server_config_of R pc h = Inr config"
    and groups: "build_all (build_role_group P h (hello_resolved_image R h) addr sa) config = Inr groups"
    and ds: "applied ds = [K_ServiceAccount (fst rbac), K_RoleBinding (snd rbac), K_Service svc]
      @ applied (concat (map (group_calls (hello_cluster_resources h)) groups))
      @ map K_PodDisruptionBudget budgets"
    using assms(1) by (rule successful_run_groups)
  let ?groups = "applied (concat (map (group_calls (hello_cluster_resources h)) groups))"
  have keys: "set (map fst config) = fst ` set (role_groups rl)"
    using pipeline_config[OF assms(3,2) config] by simp
  have "lookup (exec_calls exec [] ds s) (kind, Some n) \<noteq> None \<longleftrightarrow>
      (kind, Some n) \<in> dom (objects_map (applied ds))"
    using successful_run_store[OF assms(1,4,5,6)] by auto
  also have "\<dots> \<longleftrightarrow> (kind, Some n) \<in> set (map object_identity ?groups)"
    using assms(7) by (auto simp: objects_by_dom ds)
  also have "\<dots> \<longleftrightarrow> (\<exists>g \<in> set (map fst config). n = object_name (P_crd P) (server_rolegroup_ref h g))"
    unfolding groups_identities[OF groups] using assms(7) by auto
  finally show ?thesis unfolding keys .
qed

theorem role_groups_exactly_applied_witness:
  "\<exists>ds. reconcile_hello ex_platform ex_smoke_reconcile ex_world JNull (Inr ex_smoke_cluster) [] =
       (Inr await_change, [] @ ds) \<and>
     (\<forall>n. exec_calls ex_exec [] ds [(''StatefulSet'', Some ''removed'') \<mapsto> K_RoleBinding JNull]
         (''StatefulSet'', Some n) \<noteq> None \<longleftrightarrow> n = ''hello-world-server-default'')"
proof -
  obtain ds where run: "reconcile_hello ex_platform ex_smoke_reconcile ex_world JNull (Inr ex_smoke_cluster) [] =
     (Inr await_change, [] @ ds)" using ex_smoke_run by blast
  have servers: "servers (spec ex_smoke_cluster) = Some ex_smoke_role"
    and active: "\<not> reconciliation_paused (cluster_operation_of (spec ex_smoke_cluster))"
      "\<not> stopped (cluster_operation_of (spec ex_smoke_cluster))"
    by (simp_all add: ex_smoke_cluster_def ex_cluster_with_def)
  have name: "object_name (P_crd ex_platform) (server_rolegroup_ref ex_smoke_cluster ''default'') =
      ''hello-world-server-default''" by code_simp
  have "''StatefulSet'' \<in> {''StatefulSet'', ''ConfigMap''}" by simp
  note applied = role_groups_exactly_applied[OF run servers ex_smoke_contract ex_store_contract active this]
  have "exec_calls ex_exec [] ds s (''StatefulSet'', Some n) \<noteq> None \<longleftrightarrow> n = ''hello-world-server-default''" for s n
    unfolding applied by (simp add: ex_smoke_groups name)
  with run show ?thesis by blast
qed

end
