(* ===== verification/Workload_Properties.thy ===== *)
theory Workload_Properties
  imports Config_Properties
begin

text \<open>
  What the user configures for the pods of a role group arrives in its StatefulSet: replicas,
  shutdown timeout, resources, storage and pod overrides, each from the role group, else the role,
  else the operator's defaults, from the specification to the objects a run applies.
\<close>

section \<open>Settings and defaults\<close>

text \<open>The resources a user can set, and the default of each.\<close>

definition resource_defaults :: "((resources \<Rightarrow> quantity option) \<times> quantity) list" where
  "resource_defaults =
     [(\<lambda>r. cpu_min (res_cpu r), Quantity ''100m''),
      (\<lambda>r. cpu_max (res_cpu r), Quantity ''400m''),
      (\<lambda>r. mem_limit (res_memory r), Quantity ''256Mi''),
      (\<lambda>r. pvc_capacity (ssc_data (res_storage r)), Quantity ''256Mi'')]"

text \<open>Merging and validation, for the resources: field by field, and without a change.\<close>

definition resources_contract :: "crd_platform \<Rightarrow> bool" where
  "resources_contract L \<longleftrightarrow> (\<forall>q \<in> set (map fst resource_defaults).
     (\<forall>a b. q (fr_resources (merge_fragment L a b)) =
        (case q (fr_resources a) of Some x \<Rightarrow> Some x | None \<Rightarrow> q (fr_resources b))) \<and>
     (\<forall>f c. validate_fragment L f = Inr c \<longrightarrow> q (hc_resources c) = q (fr_resources f)))"

definition setting_or ::
  "hello_cluster \<Rightarrow> string \<Rightarrow> (hello_config_fragment \<Rightarrow> 'a option) \<Rightarrow> 'a \<Rightarrow> 'a" where
  "setting_or h g field d = (case user_setting h g field of Some x \<Rightarrow> x | None \<Rightarrow> d)"

lemma default_resources:
  "(q, d) \<in> set resource_defaults \<Longrightarrow> q (fr_resources (default_config L n r)) = Some d"
  by (auto simp: resource_defaults_def default_config_def)

lemma merged_resources:
  assumes "resources_contract L" and "(q, d) \<in> set resource_defaults"
    and "merged_config L h r (server_rolegroup_ref h' g) = Inr m"
  shows "q (hc_resources m) = Some (setting_or h g (\<lambda>f. q (fr_resources f)) d)"
proof -
  have q: "q \<in> set (map fst resource_defaults)" using assms(2) by (auto intro: rev_image_eqI)
  obtain rl rg where found: "servers (spec h) = Some rl" "hm_get (role_groups rl) g = Some rg"
    and valid: "validate_fragment L (merge_fragment L (cc_config (rg_config rg))
      (merge_fragment L (cc_config (role_config_common rl)) (default_config L (name_any L h) r))) = Inr m"
    using merged_config_Inr[OF assms(3)] by auto
  from valid assms(1) q have "q (hc_resources m) = q (fr_resources (merge_fragment L (cc_config (rg_config rg))
      (merge_fragment L (cc_config (role_config_common rl)) (default_config L (name_any L h) r))))"
    unfolding resources_contract_def by blast
  moreover have "q (fr_resources (merge_fragment L a b)) =
      (case q (fr_resources a) of Some x \<Rightarrow> Some x | None \<Rightarrow> q (fr_resources b))" for a b
    using assms(1) q unfolding resources_contract_def by blast
  ultimately show ?thesis
    by (simp add: user_setting_def setting_or_def found default_resources[OF assms(2)] split: option.split)
qed

definition container_resources_of :: "container_call list \<Rightarrow> resource_requirements list" where
  "container_resources_of cs = concat (map (\<lambda>c. case c of container_resources r \<Rightarrow> [r] | _ \<Rightarrow> []) cs)"

lemma container_resources_hello:
  "container_resources_of (hello_container_calls P img cfg m) = [resources_into (hc_resources m)]"
proof -
  have "concat (map (\<lambda>c. case c of container_resources r \<Rightarrow> [r] | _ \<Rightarrow> [])
     (concat (map (\<lambda>(k, m). if k = Env
        then map (\<lambda>(n, v). add_env_var n v) (filter (\<lambda>(n, _). n \<noteq> '''') m) else []) xs))) = []" for xs
    by (induction xs) auto
  then show ?thesis
    by (simp add: container_resources_of_def hello_container_calls_def env_overrides_loop_eq)
qed

lemma ex_resources_contract: "resources_contract (P_crd ex_platform)"
  by (simp add: resources_contract_def resource_defaults_def ex_platform_def ex_crd_def ex_merge_def ex_validate_def
      ex_or_def Let_def split: option.split)

section \<open>From the specification to the StatefulSet\<close>

lemma built_workload:
  assumes "build_role_group P h img addr sa (g, props) = Inr (s, c, t)"
    and "servers (spec h) = Some rl" and "hm_get (role_groups rl) g = Some grp"
  obtains m ss where "merged_config (P_crd P) h Server (server_rolegroup_ref h g) = Inr m"
    and "sts_spec t = Some ss"
    and "meta_object_name (sts_metadata t) = Some (object_name (P_crd P) (server_rolegroup_ref h g))"
    and "replicas ss = map_option i32_from_u16 (rg_replicas grp)"
    and "volume_claim_templates ss = Some [build_pvc (ssc_data (res_storage (hc_resources m)))
      ''data'' (Some [''ReadWriteOnce''])]"
    and "termination_grace_periods (sts_pod t) = (case hc_graceful_shutdown_timeout m of Some d \<Rightarrow> [d] | None \<Rightarrow> [])"
    and "container_resources_of (product_container t) = [resources_into (hc_resources m)]"
    and "sts_overrides t = [cc_pod_overrides (role_config_common rl), cc_pod_overrides (rg_config grp)]"
proof -
  let ?ref = "server_rolegroup_ref h g"
  obtain m where m: "merged_config (P_crd P) h Server ?ref = Inr m"
    and t: "build_server_rolegroup_statefulset P h img Server ?ref props m sa = Inr t"
    using build_role_group_Inr[OF assms(1)] by blast
  let ?pod = "hello_pod_calls P h img ?ref m sa (container_built (hello_container_calls P img props m))"
  from statefulset_Inr[OF t] obtain sel where
    name: "meta_object_name (sts_metadata t) = Some (object_name (P_crd P) ?ref)"
    and spec: "sts_spec t = Some
      \<lparr> pod_management_policy = Some ''Parallel'', replicas = map_option i32_from_u16 (rg_replicas grp),
        match_labels = Some sel, service_name = object_name (P_crd P) ?ref,
        template = merge_from (merge_from (build_template ?pod)
            (cc_pod_overrides (role_config_common rl))) (cc_pod_overrides (rg_config grp)),
        volume_claim_templates = Some [build_pvc (ssc_data (res_storage (hc_resources m)))
          ''data'' (Some [''ReadWriteOnce''])] \<rparr>"
    using assms(2,3) by (auto simp: role_group_server result_simps)
  have pod: "sts_pod t = ?pod" by (simp add: sts_pod_def spec)
  show thesis
    by (rule that[OF m spec name])
      (simp_all add: product_container_built[OF pod] container_resources_hello sts_overrides_def spec,
        simp add: pod termination_grace_periods_hello)
qed

text \<open>
  C9: The workload is what the user configured. After a successful run for a cluster that is
  neither paused nor stopped, the cluster has for each role group of the specification, under the
  name of the role group's objects, a StatefulSet with the role group's replica count; one
  termination grace period, the shutdown timeout of the role group, else of the role, else two
  minutes; for its product container the CPU request and limit and the memory limit, and for its
  claimed storage the size, each of the role group, else of the role, else the default (100m,
  400m, 256Mi, 256Mi); and the role's pod overrides and then the role group's as the last things
  merged into its pod template. (Applying and deleting, naming, merging, validation and the
  product configuration are assumed to do what the libraries document.)
\<close>
theorem workload_as_configured:
  assumes "reconcile_hello P R W pc (Inr h) cs = (Inr a, cs @ ds)"
    and "servers (spec h) = Some rl" and "hm_get (role_groups rl) g = Some grp"
    and "pipeline_contract R pc h rl"
    and "merge_contract (P_crd P)" and "validate_contract (P_crd P)" and "resources_contract (P_crd P)"
    and "naming_contract (P_crd P)" and "store_contract W cs lookup exec"
    and "\<not> reconciliation_paused (cluster_operation_of (spec h))"
    and "\<not> stopped (cluster_operation_of (spec h))"
  shows "\<exists>t ss res. lookup (exec_calls exec [] ds s)
      (''StatefulSet'', Some (object_name (P_crd P) (server_rolegroup_ref h g))) = Some (K_StatefulSet t) \<and>
    sts_spec t = Some ss \<and>
    map_option sint (replicas ss) = map_option (\<lambda>n. int (unat n)) (rg_replicas grp) \<and>
    termination_grace_periods (sts_pod t) =
      [setting_or h g fr_graceful_shutdown_timeout (from_minutes_unchecked 2)] \<and>
    container_resources_of (product_container t) = [resources_into res] \<and>
    cpu_min (res_cpu res) = Some (setting_or h g (\<lambda>f. cpu_min (res_cpu (fr_resources f))) (Quantity ''100m'')) \<and>
    cpu_max (res_cpu res) = Some (setting_or h g (\<lambda>f. cpu_max (res_cpu (fr_resources f))) (Quantity ''400m'')) \<and>
    mem_limit (res_memory res) = Some (setting_or h g (\<lambda>f. mem_limit (res_memory (fr_resources f))) (Quantity ''256Mi'')) \<and>
    (\<exists>pvc. volume_claim_templates ss = Some [build_pvc pvc ''data'' (Some [''ReadWriteOnce''])] \<and>
       pvc_capacity pvc = Some (setting_or h g
         (\<lambda>f. pvc_capacity (ssc_data (res_storage (fr_resources f)))) (Quantity ''256Mi''))) \<and>
    sts_overrides t = [cc_pod_overrides (role_config_common rl), cc_pod_overrides (rg_config grp)]"
proof -
  obtain addr sa props svc c t where
    built: "build_role_group P h (hello_resolved_image R h) addr sa (g, props) = Inr (svc, c, t)"
    and applied: "{K_Service svc, K_ConfigMap c, K_StatefulSet t} \<subseteq> set (applied ds)"
    using assms(1-4) by (rule applied_role_group)
  from applied have "K_StatefulSet t \<in> set (applied ds)" by simp
  note stored = applied_object_stays[OF assms(1,2,4,8-11) this, of s]
  obtain m ss where m: "merged_config (P_crd P) h Server (server_rolegroup_ref h g) = Inr m"
    and spec: "sts_spec t = Some ss"
    and parts: "meta_object_name (sts_metadata t) = Some (object_name (P_crd P) (server_rolegroup_ref h g))"
      "replicas ss = map_option i32_from_u16 (rg_replicas grp)"
      "volume_claim_templates ss = Some [build_pvc (ssc_data (res_storage (hc_resources m)))
        ''data'' (Some [''ReadWriteOnce''])]"
      "container_resources_of (product_container t) = [resources_into (hc_resources m)]"
      "sts_overrides t = [cc_pod_overrides (role_config_common rl), cc_pod_overrides (rg_config grp)]"
    and grace: "termination_grace_periods (sts_pod t) =
      (case hc_graceful_shutdown_timeout m of Some d \<Rightarrow> [d] | None \<Rightarrow> [])"
    using built assms(2,3) by (rule built_workload)
  have "termination_grace_periods (sts_pod t) =
      [setting_or h g fr_graceful_shutdown_timeout (from_minutes_unchecked 2)]"
    using graceful_shutdown_timeout_resolved[OF assms(5,6) m] by (simp add: grace setting_or_def)
  moreover have "map_option sint (replicas ss) = map_option (\<lambda>n. int (unat n)) (rg_replicas grp)"
    unfolding parts by (cases "rg_replicas grp") simp_all
  moreover have "list_all (\<lambda>(q, d). q (hc_resources m) = Some (setting_or h g (\<lambda>f. q (fr_resources f)) d)) resource_defaults"
    using merged_resources[OF assms(7) _ m] by (auto simp: list_all_iff)
  note resources = this[unfolded resource_defaults_def, simplified]
  ultimately show ?thesis
    using stored by (intro exI[of _ t] exI[of _ ss] exI[of _ "hc_resources m"]) (simp add: spec parts resources)
qed

theorem workload_as_configured_witness:
  "\<exists>ds t. reconcile_hello ex_platform ex_smoke_reconcile ex_world JNull (Inr ex_smoke_cluster) [] =
       (Inr await_change, [] @ ds) \<and>
     exec_calls ex_exec [] ds Map.empty (''StatefulSet'', Some ''hello-world-server-default'') = Some (K_StatefulSet t) \<and>
     Option.bind (sts_spec t) replicas \<noteq> None \<and>
     termination_grace_periods (sts_pod t) = [from_minutes_unchecked 2] \<and>
     sts_overrides t = [JNull, JStr ''cpu: 110m'']"
proof -
  obtain ds where run: "reconcile_hello ex_platform ex_smoke_reconcile ex_world JNull (Inr ex_smoke_cluster) [] =
     (Inr await_change, [] @ ds)" using ex_smoke_run by blast
  have servers: "servers (spec ex_smoke_cluster) = Some ex_smoke_role"
    and active: "\<not> reconciliation_paused (cluster_operation_of (spec ex_smoke_cluster))"
      "\<not> stopped (cluster_operation_of (spec ex_smoke_cluster))"
    by (simp_all add: ex_smoke_cluster_def ex_cluster_with_def)
  have group: "hm_get (role_groups ex_smoke_role) ''default'' = Some ex_smoke_group"
    by (simp add: ex_smoke_groups hm_get_def)
  have name: "object_name (P_crd ex_platform) (server_rolegroup_ref ex_smoke_cluster ''default'') =
      ''hello-world-server-default''" by code_simp
  have contracts: "merge_contract (P_crd ex_platform)" "validate_contract (P_crd ex_platform)"
    using ex_merge_contract ex_validate_contract by (simp_all add: ex_platform_def)
  have naming: "naming_contract (P_crd ex_platform)"
    by (auto simp: naming_contract_def ex_platform_def ex_crd_def)
  have timeout: "setting_or ex_smoke_cluster ''default'' fr_graceful_shutdown_timeout d = d" for d
    by (simp add: setting_or_def user_setting_def servers group)
      (simp add: ex_smoke_group_def ex_smoke_role_def ex_common_def ex_empty_fragment_def)
  have group_values: "rg_replicas ex_smoke_group = Some 1"
    "cc_pod_overrides (rg_config ex_smoke_group) = JStr ''cpu: 110m''"
    "cc_pod_overrides (role_config_common ex_smoke_role) = JNull"
    by (simp_all add: ex_smoke_group_def ex_smoke_role_def ex_common_def)
  from workload_as_configured[OF run servers group ex_smoke_contract contracts ex_resources_contract naming
      ex_store_contract active, of Map.empty]
  obtain t ss where "exec_calls ex_exec [] ds Map.empty (''StatefulSet'', Some ''hello-world-server-default'') =
      Some (K_StatefulSet t)" "sts_spec t = Some ss"
    "map_option sint (replicas ss) = map_option (\<lambda>n. int (unat n)) (Some (1 :: u16))"
    "termination_grace_periods (sts_pod t) = [from_minutes_unchecked 2]"
    "sts_overrides t = [JNull, JStr ''cpu: 110m'']"
    unfolding timeout group_values name by blast
  with run show ?thesis by (intro exI[of _ ds] exI[of _ t]) auto
qed

end
