(* ===== verification/Crd_Serde.thy ===== *)
theory Crd_Serde
  imports Crd
begin

text \<open>
  How a HelloCluster is read and written: the \<open>Serialize\<close> and \<open>Deserialize\<close> implementations that
  the attributes of \<^verbatim>\<open>crd.rs\<close> ask for, for the structs declared there. A struct is read from the
  entries of a map, in their order: an unknown key is ignored, a known one may occur once and its
  value is decoded when it is met; afterwards absent fields take their default or are an error.
  The codecs of library types, and what becomes of a value that is no map (or, for an enum, no
  string), are parameters.
\<close>

section \<open>Deserialising a struct\<close>

datatype serde_error =
    Missing_field string
  | Duplicate_field string
  | Unknown_variant string
  | Invalid_type json
  | From_library ext_error

definition err_of :: "'e + 'a \<Rightarrow> 'e option" where
  "err_of r = (case r of Inl e \<Rightarrow> Some e | Inr _ \<Rightarrow> None)"

type_synonym field_table = "(string \<times> (json \<Rightarrow> serde_error option)) list"
type_synonym json_entries = "(string \<times> json) list"

fun visit_fields :: "field_table \<Rightarrow> json_entries \<Rightarrow> json_entries \<Rightarrow> serde_error + json_entries" where
  "visit_fields tbl seen [] = Inr seen"
| "visit_fields tbl seen ((k, v) # kvs) =
     (case map_of tbl k of
        None \<Rightarrow> visit_fields tbl seen kvs
      | Some check \<Rightarrow>
          (if k \<in> set (map fst seen) then Inl (Duplicate_field k)
           else case check v of
             Some e \<Rightarrow> Inl e
           | None \<Rightarrow> visit_fields tbl (seen @ [(k, v)]) kvs))"

definition required :: "string \<Rightarrow> (json \<Rightarrow> serde_error + 'a) \<Rightarrow> json_entries \<Rightarrow> serde_error + 'a" where
  "required name de seen = (case map_of seen name of None \<Rightarrow> Inl (Missing_field name) | Some j \<Rightarrow> de j)"

definition defaulted :: "string \<Rightarrow> (json \<Rightarrow> serde_error + 'a) \<Rightarrow> 'a \<Rightarrow> json_entries \<Rightarrow> serde_error + 'a" where
  "defaulted name de d seen = (case map_of seen name of None \<Rightarrow> Inr d | Some j \<Rightarrow> de j)"

definition de_string :: "json \<Rightarrow> serde_error + string" where
  "de_string j = (case j of JStr s \<Rightarrow> Inr s | _ \<Rightarrow> Inl (Invalid_type j))"

definition de_option :: "(json \<Rightarrow> serde_error + 'a) \<Rightarrow> json \<Rightarrow> serde_error + 'a option" where
  "de_option de j = (if j = JNull then Inr None else and_then (de j) (\<lambda>x. Inr (Some x)))"

definition de_vec :: "(json \<Rightarrow> serde_error + 'a) \<Rightarrow> json \<Rightarrow> serde_error + 'a list" where
  "de_vec de j = (case j of JArr js \<Rightarrow> build_all de js | _ \<Rightarrow> Inl (Invalid_type j))"

text \<open>\<open>skip_serializing_if = "Option::is_none"\<close>.\<close>

definition ser_unless_none :: "string \<Rightarrow> ('a \<Rightarrow> json) \<Rightarrow> 'a option \<Rightarrow> json_entries" where
  "ser_unless_none name ser x = (case x of None \<Rightarrow> [] | Some y \<Rightarrow> [(name, ser y)])"

lemma de_string_iff: "de_string j = Inr x \<longleftrightarrow> j = JStr x"
  by (cases j) (auto simp: de_string_def)

lemma de_vec_map:
  assumes "\<forall>x \<in> set xs. de (ser x) = Inr x"
  shows "de_vec de (JArr (map ser xs)) = Inr xs"
proof -
  have "build_all de (map ser xs) = Inr xs" using assms by (induction xs) simp_all
  then show ?thesis by (simp add: de_vec_def)
qed

section \<open>Codecs\<close>

locale json_codec =
  fixes ser :: "'a \<Rightarrow> json" and de :: "json \<Rightarrow> serde_error + 'a"
  assumes de_ser: "de (ser x) = Inr x"
begin

lemma vec_roundtrip: "de_vec de (JArr (map ser xs)) = Inr xs"
  by (rule de_vec_map) (simp add: de_ser)

end

locale value_codec = json_codec +
  assumes ser_not_null: "ser x \<noteq> JNull"
begin

lemma option_present: "de_option de (ser x) = Inr (Some x)"
  by (simp add: de_option_def de_ser ser_not_null)

text \<open>A field that is left out for None and otherwise written is read back.\<close>

lemma skipped_field_roundtrip:
  assumes "map_of kvs name = map_of (ser_unless_none name ser x) name"
  shows "defaulted name (de_option de) None kvs = Inr x"
  using assms by (cases x) (simp_all add: defaulted_def ser_unless_none_def option_present)

end

interpretation json_string: value_codec JStr de_string
  by unfold_locales (simp_all add: de_string_def)

section \<open>Reading the entries of a map\<close>

lemma map_of_filter_keys: "map_of (filter (\<lambda>(k, _). P k) kvs) k = (if P k then map_of kvs k else None)"
  by (induction kvs) auto

lemma visit_fields_Inr:
  assumes "distinct (map fst kvs)" and "set (map fst seen) \<inter> set (map fst kvs) = {}"
  shows "visit_fields tbl seen kvs = Inr seen' \<longleftrightarrow>
    (\<forall>(k, v) \<in> set kvs. \<forall>check. map_of tbl k = Some check \<longrightarrow> check v = None) \<and>
    seen' = seen @ filter (\<lambda>(k, _). map_of tbl k \<noteq> None) kvs"
  using assms
proof (induction kvs arbitrary: seen)
  case Nil
  then show ?case by auto
next
  case (Cons kv kvs)
  obtain k v where kv: "kv = (k, v)" by force
  show ?case
  proof (cases "map_of tbl k")
    case None
    with Cons show ?thesis by (simp add: kv)
  next
    case (Some check)
    have "k \<notin> fst ` set seen" using Cons.prems(2) by (auto simp: kv)
    moreover have "set (map fst (seen @ [(k, v)])) \<inter> set (map fst kvs) = {}"
      using Cons.prems by (auto simp: kv)
    ultimately show ?thesis
      using Cons Some by (auto simp: kv split: option.split)
  qed
qed

text \<open>
  With distinct keys, reading a struct is looking up its fields: the known ones have to decode,
  and the order of the entries and any other key play no role.
\<close>

definition fields_decode :: "field_table \<Rightarrow> json_entries \<Rightarrow> bool" where
  "fields_decode tbl kvs \<longleftrightarrow>
     (\<forall>(k, check) \<in> set tbl. \<forall>v. map_of kvs k = Some v \<longrightarrow> check v = None)"

lemma visit_fields_lookup:
  assumes "distinct (map fst kvs)" and "distinct (map fst tbl)"
  shows "visit_fields tbl [] kvs = Inr seen \<Longrightarrow>
      fields_decode tbl kvs \<and> (\<forall>k \<in> set (map fst tbl). map_of seen k = map_of kvs k)"
    and "fields_decode tbl kvs \<Longrightarrow> \<exists>seen. visit_fields tbl [] kvs = Inr seen"
proof -
  have decode: "fields_decode tbl kvs \<longleftrightarrow>
      (\<forall>(k, v) \<in> set kvs. \<forall>check. map_of tbl k = Some check \<longrightarrow> check v = None)"
    unfolding fields_decode_def
    by (simp add: Ball_def split_paired_All map_of_eq_Some_iff[OF assms(1)] map_of_eq_Some_iff[OF assms(2)]) blast
  have iff: "visit_fields tbl [] kvs = Inr seen \<longleftrightarrow> fields_decode tbl kvs \<and>
      seen = filter (\<lambda>(k, _). map_of tbl k \<noteq> None) kvs" for seen
    using visit_fields_Inr[OF assms(1), of "[]"] decode by simp
  show "\<exists>seen. visit_fields tbl [] kvs = Inr seen" if "fields_decode tbl kvs"
    using that iff by blast
  show "fields_decode tbl kvs \<and> (\<forall>k \<in> set (map fst tbl). map_of seen k = map_of kvs k)"
    if "visit_fields tbl [] kvs = Inr seen"
    using that unfolding iff by (auto simp: map_of_filter_keys map_of_eq_None_iff)
qed

section \<open>The structs of the custom resource\<close>

record serde_platform =
  sp_cluster_operation_ser :: "cluster_operation \<Rightarrow> json"
  sp_cluster_operation_de :: "json \<Rightarrow> serde_error + cluster_operation"
  sp_cluster_operation_default :: cluster_operation
  sp_image_ser :: "product_image \<Rightarrow> json"
  sp_image_de :: "json \<Rightarrow> serde_error + product_image"
  sp_role_ser :: "(hello_config_fragment \<Rightarrow> json) \<Rightarrow> hello_config_fragment role \<Rightarrow> json"
  sp_role_de :: "(json \<Rightarrow> serde_error + hello_config_fragment) \<Rightarrow> json \<Rightarrow> serde_error + hello_config_fragment role"
  sp_resources_ser :: "resources \<Rightarrow> json"
  sp_resources_de :: "json \<Rightarrow> serde_error + resources"
  sp_resources_default :: resources
  sp_logging_ser :: "json \<Rightarrow> json"
  sp_logging_de :: "json \<Rightarrow> serde_error + json"
  sp_logging_default :: json
  sp_affinity_ser :: "stackable_affinity \<Rightarrow> json"
  sp_affinity_de :: "json \<Rightarrow> serde_error + stackable_affinity"
  sp_affinity_default :: stackable_affinity
  sp_duration_ser :: "duration \<Rightarrow> json"
  sp_duration_de :: "json \<Rightarrow> serde_error + duration"
  sp_condition_ser :: "cluster_condition \<Rightarrow> json"
  sp_condition_de :: "json \<Rightarrow> serde_error + cluster_condition"
  sp_other_listener_class :: "json \<Rightarrow> serde_error + CurrentlySupportedListenerClasses"
  sp_other_cluster_config :: "json \<Rightarrow> serde_error + hello_cluster_config"
  sp_other_fragment :: "json \<Rightarrow> serde_error + hello_config_fragment"

definition listener_class_de :: "serde_platform \<Rightarrow> json \<Rightarrow> serde_error + CurrentlySupportedListenerClasses" where
  "listener_class_de L j =
     (case j of
        JStr s \<Rightarrow> or_missing (listener_class_deserialize s) (Unknown_variant s)
      | _ \<Rightarrow> sp_other_listener_class L j)"

definition cluster_config_fields :: "serde_platform \<Rightarrow> field_table" where
  "cluster_config_fields L =
     [(''vectorAggregatorConfigMapName'', \<lambda>j. err_of (de_option de_string j)),
      (''listenerClass'', \<lambda>j. err_of (listener_class_de L j))]"

definition cluster_config_serialize :: "hello_cluster_config \<Rightarrow> json" where
  "cluster_config_serialize c = JObj
     (ser_unless_none ''vectorAggregatorConfigMapName'' JStr (vector_aggregator_config_map_name c)
      @ [(''listenerClass'', JStr (listener_class_serialize (listener_class c)))])"

text \<open>
  The value built from the entries that were met. An \<open>Option\<close> field may be left out even without
  \<open>#[serde(default)]\<close>.
\<close>

definition cluster_config_build :: "serde_platform \<Rightarrow> json_entries \<Rightarrow> serde_error + hello_cluster_config" where
  "cluster_config_build L seen =
     and_then (defaulted ''vectorAggregatorConfigMapName'' (de_option de_string) None seen) (\<lambda>vector.
     and_then (defaulted ''listenerClass'' (listener_class_de L) listener_class_default seen) (\<lambda>lc.
     Inr \<lparr> vector_aggregator_config_map_name = vector, listener_class = lc \<rparr>))"

definition cluster_config_deserialize :: "serde_platform \<Rightarrow> json \<Rightarrow> serde_error + hello_cluster_config" where
  "cluster_config_deserialize L j =
     (case j of
        JObj kvs \<Rightarrow> and_then (visit_fields (cluster_config_fields L) [] kvs) (cluster_config_build L)
      | _ \<Rightarrow> sp_other_cluster_config L j)"

definition fragment_fields :: "serde_platform \<Rightarrow> field_table" where
  "fragment_fields L =
     [(''resources'', \<lambda>j. err_of (sp_resources_de L j)),
      (''logging'', \<lambda>j. err_of (sp_logging_de L j)),
      (''affinity'', \<lambda>j. err_of (sp_affinity_de L j)),
      (''gracefulShutdownTimeout'', \<lambda>j. err_of (de_option (sp_duration_de L) j))]"

definition fragment_serialize :: "serde_platform \<Rightarrow> hello_config_fragment \<Rightarrow> json" where
  "fragment_serialize L f = JObj
     [(''resources'', sp_resources_ser L (fr_resources f)),
      (''logging'', sp_logging_ser L (fr_logging f)),
      (''affinity'', sp_affinity_ser L (fr_affinity f)),
      (''gracefulShutdownTimeout'',
        case fr_graceful_shutdown_timeout f of None \<Rightarrow> JNull | Some d \<Rightarrow> sp_duration_ser L d)]"

definition fragment_build :: "serde_platform \<Rightarrow> json_entries \<Rightarrow> serde_error + hello_config_fragment" where
  "fragment_build L seen =
     and_then (defaulted ''resources'' (sp_resources_de L) (sp_resources_default L) seen) (\<lambda>res.
     and_then (defaulted ''logging'' (sp_logging_de L) (sp_logging_default L) seen) (\<lambda>lg.
     and_then (defaulted ''affinity'' (sp_affinity_de L) (sp_affinity_default L) seen) (\<lambda>aff.
     and_then (defaulted ''gracefulShutdownTimeout'' (de_option (sp_duration_de L)) None seen) (\<lambda>t.
     Inr \<lparr> fr_resources = res, fr_logging = lg, fr_affinity = aff, fr_graceful_shutdown_timeout = t \<rparr>))))"

definition fragment_deserialize :: "serde_platform \<Rightarrow> json \<Rightarrow> serde_error + hello_config_fragment" where
  "fragment_deserialize L j =
     (case j of
        JObj kvs \<Rightarrow> and_then (visit_fields (fragment_fields L) [] kvs) (fragment_build L)
      | _ \<Rightarrow> sp_other_fragment L j)"

definition spec_fields :: "serde_platform \<Rightarrow> field_table" where
  "spec_fields L =
     [(''clusterConfig'', \<lambda>j. err_of (cluster_config_deserialize L j)),
      (''clusterOperation'', \<lambda>j. err_of (sp_cluster_operation_de L j)),
      (''image'', \<lambda>j. err_of (sp_image_de L j)),
      (''servers'', \<lambda>j. err_of (de_option (sp_role_de L (fragment_deserialize L)) j)),
      (''recipient'', \<lambda>j. err_of (de_string j)),
      (''color'', \<lambda>j. err_of (de_string j))]"

definition spec_serialize :: "serde_platform \<Rightarrow> hello_cluster_spec \<Rightarrow> json_entries" where
  "spec_serialize L s =
     [(''clusterConfig'', cluster_config_serialize (cluster_config s)),
      (''clusterOperation'', sp_cluster_operation_ser L (cluster_operation_of s)),
      (''image'', sp_image_ser L (image s))]
     @ ser_unless_none ''servers'' (sp_role_ser L (fragment_serialize L)) (servers s)
     @ [(''recipient'', JStr (recipient s)),
        (''color'', JStr (color s))]"

definition spec_build :: "serde_platform \<Rightarrow> json_entries \<Rightarrow> serde_error + hello_cluster_spec" where
  "spec_build L seen =
     and_then (required ''clusterConfig'' (cluster_config_deserialize L) seen) (\<lambda>cc.
     and_then (defaulted ''clusterOperation'' (sp_cluster_operation_de L)
         (sp_cluster_operation_default L) seen) (\<lambda>co.
     and_then (required ''image'' (sp_image_de L) seen) (\<lambda>im.
     and_then (defaulted ''servers'' (de_option (sp_role_de L (fragment_deserialize L))) None seen) (\<lambda>sv.
     and_then (required ''recipient'' de_string seen) (\<lambda>r.
     and_then (required ''color'' de_string seen) (\<lambda>c.
     Inr \<lparr> cluster_config = cc, cluster_operation_of = co, image = im, servers = sv,
           recipient = r, color = c \<rparr>))))))"

definition spec_deserialize :: "serde_platform \<Rightarrow> json_entries \<Rightarrow> serde_error + hello_cluster_spec" where
  "spec_deserialize L kvs = and_then (visit_fields (spec_fields L) [] kvs) (spec_build L)"

definition status_fields :: "serde_platform \<Rightarrow> field_table" where
  "status_fields L = [(''conditions'', \<lambda>j. err_of (de_vec (sp_condition_de L) j))]"

definition status_serialize :: "serde_platform \<Rightarrow> hello_cluster_status \<Rightarrow> json_entries" where
  "status_serialize L st = [(''conditions'', JArr (map (sp_condition_ser L) (conditions_of st)))]"

definition status_build :: "serde_platform \<Rightarrow> json_entries \<Rightarrow> serde_error + hello_cluster_status" where
  "status_build L seen =
     and_then (required ''conditions'' (de_vec (sp_condition_de L)) seen) (\<lambda>cs. Inr \<lparr> conditions_of = cs \<rparr>)"

definition status_deserialize :: "serde_platform \<Rightarrow> json_entries \<Rightarrow> serde_error + hello_cluster_status" where
  "status_deserialize L kvs = and_then (visit_fields (status_fields L) [] kvs) (status_build L)"

section \<open>Reading is looking up\<close>

lemma visit_struct:
  assumes "distinct (map fst kvs)" and "distinct (map fst tbl)"
    and "\<And>m m'. (\<And>k. k \<in> set (map fst tbl) \<Longrightarrow> map_of m k = map_of m' k) \<Longrightarrow> build m = build m'"
    and "\<And>x. build kvs = Inr x \<Longrightarrow> fields_decode tbl kvs"
  shows "and_then (visit_fields tbl [] kvs) build = Inr x \<longleftrightarrow> build kvs = Inr x"
proof
  assume "and_then (visit_fields tbl [] kvs) build = Inr x"
  then obtain seen where "visit_fields tbl [] kvs = Inr seen" and x: "build seen = Inr x"
    by (auto simp: and_then_Inr_iff)
  from visit_fields_lookup(1)[OF assms(1,2) this(1)]
  have "\<forall>k \<in> set (map fst tbl). map_of seen k = map_of kvs k" by blast
  with x assms(3)[of seen kvs] show "build kvs = Inr x" by metis
next
  assume x: "build kvs = Inr x"
  obtain seen where seen: "visit_fields tbl [] kvs = Inr seen"
    using visit_fields_lookup(2)[OF assms(1,2) assms(4)[OF x]] by blast
  from visit_fields_lookup(1)[OF assms(1,2) this]
  have "\<forall>k \<in> set (map fst tbl). map_of seen k = map_of kvs k" by blast
  with x seen assms(3)[of seen kvs] show "and_then (visit_fields tbl [] kvs) build = Inr x"
    by (metis and_then_simps(2))
qed

lemma required_Inr_iff:
  "required name de kvs = Inr x \<longleftrightarrow> (\<exists>j. map_of kvs name = Some j \<and> de j = Inr x)"
  by (simp add: required_def split: option.split)

lemma defaulted_Inr_iff:
  "defaulted name de d kvs = Inr x \<longleftrightarrow>
     (map_of kvs name = None \<and> x = d) \<or> (\<exists>j. map_of kvs name = Some j \<and> de j = Inr x)"
  by (auto simp: defaulted_def split: option.split)

lemma defaulted_case:
  "defaulted name de d kvs = Inr x \<longleftrightarrow> (case map_of kvs name of None \<Rightarrow> x = d | Some j \<Rightarrow> de j = Inr x)"
  by (auto simp: defaulted_def split: option.split)

lemma de_option_Inr_iff:
  "de_option de j = Inr x \<longleftrightarrow> (if j = JNull then x = None else \<exists>y. de j = Inr y \<and> x = Some y)"
  by (auto simp: de_option_def and_then_Inr_iff)

lemma err_of_None_iff [simp]: "err_of r = None \<longleftrightarrow> (\<exists>x. r = Inr x)"
  by (cases r) (simp_all add: err_of_def)

lemma cluster_config_de_iff:
  assumes "distinct (map fst kvs)"
  shows "cluster_config_deserialize L (JObj kvs) = Inr c \<longleftrightarrow>
    defaulted ''vectorAggregatorConfigMapName'' (de_option de_string) None kvs =
      Inr (vector_aggregator_config_map_name c) \<and>
    defaulted ''listenerClass'' (listener_class_de L) listener_class_default kvs = Inr (listener_class c)"
proof -
  have "cluster_config_deserialize L (JObj kvs) = Inr c \<longleftrightarrow> cluster_config_build L kvs = Inr c"
    unfolding cluster_config_deserialize_def json.case
    by (rule visit_struct[OF assms])
      (auto simp: cluster_config_build_def cluster_config_fields_def fields_decode_def required_def
        defaulted_def and_then_Inr_iff split: option.splits)
  then show ?thesis by (auto simp: cluster_config_build_def and_then_Inr_iff)
qed

lemma fragment_de_iff:
  assumes "distinct (map fst kvs)"
  shows "fragment_deserialize L (JObj kvs) = Inr f \<longleftrightarrow>
    defaulted ''resources'' (sp_resources_de L) (sp_resources_default L) kvs = Inr (fr_resources f) \<and>
    defaulted ''logging'' (sp_logging_de L) (sp_logging_default L) kvs = Inr (fr_logging f) \<and>
    defaulted ''affinity'' (sp_affinity_de L) (sp_affinity_default L) kvs = Inr (fr_affinity f) \<and>
    defaulted ''gracefulShutdownTimeout'' (de_option (sp_duration_de L)) None kvs =
      Inr (fr_graceful_shutdown_timeout f)"
proof -
  have "fragment_deserialize L (JObj kvs) = Inr f \<longleftrightarrow> fragment_build L kvs = Inr f"
    unfolding fragment_deserialize_def json.case
    by (rule visit_struct[OF assms])
      (auto simp: fragment_build_def fragment_fields_def fields_decode_def required_def
        defaulted_def and_then_Inr_iff split: option.splits)
  then show ?thesis by (auto simp: fragment_build_def and_then_Inr_iff)
qed

lemma spec_de_iff:
  assumes "distinct (map fst kvs)"
  shows "spec_deserialize L kvs = Inr s \<longleftrightarrow>
    required ''clusterConfig'' (cluster_config_deserialize L) kvs = Inr (cluster_config s) \<and>
    defaulted ''clusterOperation'' (sp_cluster_operation_de L) (sp_cluster_operation_default L) kvs =
      Inr (cluster_operation_of s) \<and>
    required ''image'' (sp_image_de L) kvs = Inr (image s) \<and>
    defaulted ''servers'' (de_option (sp_role_de L (fragment_deserialize L))) None kvs = Inr (servers s) \<and>
    required ''recipient'' de_string kvs = Inr (recipient s) \<and>
    required ''color'' de_string kvs = Inr (color s)"
proof -
  have "spec_deserialize L kvs = Inr s \<longleftrightarrow> spec_build L kvs = Inr s"
    unfolding spec_deserialize_def
    by (rule visit_struct[OF assms])
      (auto simp: spec_build_def spec_fields_def fields_decode_def required_def
        defaulted_def and_then_Inr_iff split: option.splits)
  then show ?thesis by (auto simp: spec_build_def and_then_Inr_iff)
qed

section \<open>Reading what was written\<close>

interpretation listener_json: value_codec "\<lambda>c. JStr (listener_class_serialize c)" "listener_class_de L" for L
  by unfold_locales (simp_all add: listener_class_de_def listener.dec_enc)

lemma cluster_config_roundtrip: "cluster_config_deserialize L (cluster_config_serialize c) = Inr c"
proof -
  let ?kvs = "ser_unless_none ''vectorAggregatorConfigMapName'' JStr (vector_aggregator_config_map_name c)
    @ [(''listenerClass'', JStr (listener_class_serialize (listener_class c)))]"
  have "distinct (map fst ?kvs)" by (simp add: ser_unless_none_def split: option.split)
  moreover have "defaulted ''vectorAggregatorConfigMapName'' (de_option de_string) None ?kvs =
      Inr (vector_aggregator_config_map_name c)"
    by (rule json_string.skipped_field_roundtrip) (simp add: ser_unless_none_def split: option.split)
  moreover have "defaulted ''listenerClass'' (listener_class_de L) listener_class_default ?kvs = Inr (listener_class c)"
    by (simp add: defaulted_def ser_unless_none_def listener_json.de_ser split: option.split)
  ultimately show ?thesis unfolding cluster_config_serialize_def by (simp only: cluster_config_de_iff)
qed

interpretation cluster_config_json: value_codec cluster_config_serialize "cluster_config_deserialize L" for L
  by unfold_locales (rule cluster_config_roundtrip, simp add: cluster_config_serialize_def)

text \<open>The library's codecs read back the values that are written.\<close>

definition fragment_codecs :: "serde_platform \<Rightarrow> hello_config_fragment \<Rightarrow> bool" where
  "fragment_codecs L f \<longleftrightarrow>
     sp_resources_de L (sp_resources_ser L (fr_resources f)) = Inr (fr_resources f) \<and>
     sp_logging_de L (sp_logging_ser L (fr_logging f)) = Inr (fr_logging f) \<and>
     sp_affinity_de L (sp_affinity_ser L (fr_affinity f)) = Inr (fr_affinity f) \<and>
     (\<forall>d. fr_graceful_shutdown_timeout f = Some d \<longrightarrow>
        sp_duration_ser L d \<noteq> JNull \<and> sp_duration_de L (sp_duration_ser L d) = Inr d)"

lemma fragment_roundtrip:
  assumes "fragment_codecs L f"
  shows "fragment_deserialize L (fragment_serialize L f) = Inr f"
  using assms unfolding fragment_serialize_def fragment_codecs_def
  by (subst fragment_de_iff) (auto simp: defaulted_def de_option_def split: option.split)

text \<open>
  A role is written and read with the codec of its fragments, so the library's part of the
  contract is for any two functions of which one reads back what the other wrote.
\<close>

definition spec_codecs :: "serde_platform \<Rightarrow> hello_cluster_spec \<Rightarrow> bool" where
  "spec_codecs L s \<longleftrightarrow>
     sp_cluster_operation_de L (sp_cluster_operation_ser L (cluster_operation_of s)) =
       Inr (cluster_operation_of s) \<and>
     sp_image_de L (sp_image_ser L (image s)) = Inr (image s) \<and>
     (\<forall>rl. servers s = Some rl \<longrightarrow>
        (\<forall>f \<in> insert (cc_config (role_config_common rl)) ((\<lambda>(_, g). cc_config (rg_config g)) ` set (role_groups rl)).
           fragment_codecs L f) \<and>
        (\<forall>ser de. (\<forall>f \<in> insert (cc_config (role_config_common rl))
             ((\<lambda>(_, g). cc_config (rg_config g)) ` set (role_groups rl)). de (ser f) = Inr f) \<longrightarrow>
           sp_role_ser L ser rl \<noteq> JNull \<and> sp_role_de L de (sp_role_ser L ser rl) = Inr rl))"

lemma role_roundtrip:
  assumes "spec_codecs L s" and "servers s = Some rl"
  shows "sp_role_ser L (fragment_serialize L) rl \<noteq> JNull \<and>
    sp_role_de L (fragment_deserialize L) (sp_role_ser L (fragment_serialize L) rl) = Inr rl"
  using assms fragment_roundtrip unfolding spec_codecs_def by metis

lemma status_roundtrip:
  assumes "\<forall>c \<in> set (conditions_of st). sp_condition_de L (sp_condition_ser L c) = Inr c"
  shows "status_deserialize L (status_serialize L st) = Inr st"
proof -
  have "de_vec (sp_condition_de L) (JArr (map (sp_condition_ser L) (conditions_of st))) = Inr (conditions_of st)"
    using assms by (rule de_vec_map)
  then show ?thesis
    by (simp add: status_deserialize_def status_serialize_def status_fields_def status_build_def required_def err_of_def)
qed

section \<open>The resource\<close>

text \<open>What \<open>#[kube(..)]\<close> registers the type as; Kubernetes forms the two names from it.\<close>

record crd_names =
  crd_group :: string
  crd_version :: string
  crd_kind :: string
  crd_plural :: string
  crd_shortname :: string
  crd_namespaced :: bool

definition hello_cluster_crd :: crd_names where
  "hello_cluster_crd =
     \<lparr> crd_group = ''hello-world.stackable.tech'', crd_version = ''v1alpha1'', crd_kind = ''HelloCluster'',
       crd_plural = ''hello-world-clusters'', crd_shortname = ''hello-world'', crd_namespaced = True \<rparr>"

definition api_version :: "crd_names \<Rightarrow> string" where
  "api_version c = crd_group c @ ''/'' @ crd_version c"

definition crd_object_name :: "crd_names \<Rightarrow> string" where
  "crd_object_name c = crd_plural c @ ''.'' @ crd_group c"

text \<open>
  The generated definition (\<^verbatim>\<open>crds.yaml\<close>) and the tests use these names; the example manifests
  \<^verbatim>\<open>hello.yaml\<close> and \<^verbatim>\<open>hello-logging.yaml\<close> name another group.
\<close>

lemma crd_names_generated:
  "crd_object_name hello_cluster_crd = ''hello-world-clusters.hello-world.stackable.tech''"
  "api_version hello_cluster_crd = ''hello-world.stackable.tech/v1alpha1''"
  by (simp_all add: crd_object_name_def api_version_def hello_cluster_crd_def)

lemma example_manifest_other_group: "api_version hello_cluster_crd \<noteq> ''hello.stackable.tech/v1alpha1''"
  by (simp add: crd_names_generated)

end
