(* ===== verification/Crd_Schema.thy ===== *)
theory Crd_Schema
  imports Crd_Serde
begin

text \<open>
  The schema generated from the types of \<^verbatim>\<open>crd.rs\<close> (\<open>derive(JsonSchema)\<close>), as it is deployed in
  \<^verbatim>\<open>deploy/helm/hello-world-operator/crds/crds.yaml\<close>: the API server stores an object only if it
  conforms to it, and the operator then has to decode it. The schemas of library types are
  parameters (\<open>validators\<close>), as their codecs are.
\<close>

section \<open>Structural schemas\<close>

datatype schema =
    S_string
  | S_enum "string list"
  | S_array schema
  | S_object "(string \<times> schema) list" "string list"
  | S_nullable schema
  | S_library string
  | S_library_of string schema

record validators =
  v_library :: "string \<Rightarrow> json \<Rightarrow> bool"
  v_library_of :: "string \<Rightarrow> (json \<Rightarrow> bool) \<Rightarrow> json \<Rightarrow> bool"

text \<open>An object has each key once and the required ones; keys without a schema are free.\<close>

fun conforms :: "validators \<Rightarrow> schema \<Rightarrow> json \<Rightarrow> bool" where
  "conforms V S_string j = (case j of JStr _ \<Rightarrow> True | _ \<Rightarrow> False)"
| "conforms V (S_enum vs) j = (case j of JStr s \<Rightarrow> s \<in> set vs | _ \<Rightarrow> False)"
| "conforms V (S_array s) j = (case j of JArr js \<Rightarrow> \<forall>x \<in> set js. conforms V s x | _ \<Rightarrow> False)"
| "conforms V (S_object props req) j =
     (case j of
        JObj kvs \<Rightarrow> distinct (map fst kvs) \<and> set req \<subseteq> fst ` set kvs \<and>
          (\<forall>(k, s) \<in> set props. case map_of kvs k of None \<Rightarrow> True | Some v \<Rightarrow> conforms V s v)
      | _ \<Rightarrow> False)"
| "conforms V (S_nullable s) j = (j = JNull \<or> conforms V s j)"
| "conforms V (S_library n) j = v_library V n j"
| "conforms V (S_library_of n s) j = v_library_of V n (conforms V s) j"

definition cluster_config_schema :: schema where
  "cluster_config_schema = S_object
     [(''listenerClass'', S_enum [''cluster-internal'', ''external-unstable'', ''external-stable'']),
      (''vectorAggregatorConfigMapName'', S_nullable S_string)] []"

definition fragment_schema :: schema where
  "fragment_schema = S_object
     [(''affinity'', S_library ''StackableAffinity''),
      (''gracefulShutdownTimeout'', S_nullable S_string),
      (''logging'', S_library ''Logging''),
      (''resources'', S_library ''Resources'')] []"

definition spec_schema :: schema where
  "spec_schema = S_object
     [(''clusterConfig'', cluster_config_schema),
      (''clusterOperation'', S_library ''ClusterOperation''),
      (''color'', S_string),
      (''image'', S_library ''ProductImage''),
      (''recipient'', S_string),
      (''servers'', S_nullable (S_library_of ''Role'' fragment_schema))]
     [''clusterConfig'', ''color'', ''image'', ''recipient'']"

definition status_schema :: schema where
  "status_schema = S_object [(''conditions'', S_array (S_library ''ClusterCondition''))] [''conditions'']"

section \<open>What conforms can be decoded\<close>

lemma ex_cluster_config:
  "(\<exists>c :: hello_cluster_config. A (vector_aggregator_config_map_name c) \<and> B (listener_class c)) \<longleftrightarrow>
     (\<exists>x. A x) \<and> (\<exists>x. B x)"
  by (metis hello_cluster_config.select_convs(1,2))

lemma ex_fragment:
  "(\<exists>f :: hello_config_fragment. A (fr_resources f) \<and> B (fr_logging f) \<and> C (fr_affinity f) \<and>
      D (fr_graceful_shutdown_timeout f)) \<longleftrightarrow> (\<exists>x. A x) \<and> (\<exists>x. B x) \<and> (\<exists>x. C x) \<and> (\<exists>x. D x)"
  by (metis hello_config_fragment.select_convs(1-4))

lemma ex_spec:
  "(\<exists>s :: hello_cluster_spec. A (cluster_config s) \<and> B (cluster_operation_of s) \<and> C (image s) \<and> D (servers s) \<and>
      E (recipient s) \<and> F (color s)) \<longleftrightarrow>
     (\<exists>x. A x) \<and> (\<exists>x. B x) \<and> (\<exists>x. C x) \<and> (\<exists>x. D x) \<and> (\<exists>x. E x) \<and> (\<exists>x. F x)"
  by (metis hello_cluster_spec.select_convs(1-6))

lemma conforms_object_iff:
  "conforms V (S_object props req) (JObj kvs) \<longleftrightarrow> distinct (map fst kvs) \<and> set req \<subseteq> fst ` set kvs \<and>
     (\<forall>(k, s) \<in> set props. \<forall>v. map_of kvs k = Some v \<longrightarrow> conforms V s v)"
  by (auto split: option.splits)

lemma conforms_object_field:
  assumes "conforms V (S_object props req) (JObj kvs)" and "(k, s) \<in> set props" and "map_of kvs k = Some v"
  shows "conforms V s v"
  using assms by auto

lemma conforms_object_required:
  assumes "conforms V (S_object props req) (JObj kvs)" and "k \<in> set req"
  shows "\<exists>v. map_of kvs k = Some v"
  using assms by (metis (no_types, lifting) conforms.simps(4) json.simps(41) map_of_eq_None_iff option.exhaust subsetD)

lemma conforms_object_distinct: "conforms V (S_object props req) (JObj kvs) \<Longrightarrow> distinct (map fst kvs)"
  by simp

lemma conforms_object_shape: "conforms V (S_object props req) j \<Longrightarrow> \<exists>kvs. j = JObj kvs"
  by (cases j) simp_all

lemma string_conforms: "conforms V S_string j \<longleftrightarrow> (\<exists>s. de_string j = Inr s)"
  by (cases j) (simp_all add: de_string_def)

lemma optional_string_conforms: "conforms V (S_nullable S_string) j \<longleftrightarrow> (\<exists>s. de_option de_string j = Inr s)"
  by (cases j) (simp_all add: de_option_def de_string_def)

lemma listener_class_conforms:
  "conforms V (S_enum [''cluster-internal'', ''external-unstable'', ''external-stable'']) (JStr s) \<longleftrightarrow>
     (\<exists>c. listener_class_de L (JStr s) = Inr c)"
  by (simp add: listener_class_de_def listener_class_deserialize_def)

lemma defaulted_decodes:
  "(\<exists>x. defaulted name de d kvs = Inr x) \<longleftrightarrow> (\<forall>j. map_of kvs name = Some j \<longrightarrow> (\<exists>x. de j = Inr x))"
  by (simp add: defaulted_def split: option.split)

lemma required_decodes:
  "(\<exists>x. required name de kvs = Inr x) \<longleftrightarrow> (\<exists>j x. map_of kvs name = Some j \<and> de j = Inr x)"
  by (auto simp: required_Inr_iff)

lemma de_option_decodes: "(\<exists>x. de_option de j = Inr x) \<longleftrightarrow> j = JNull \<or> (\<exists>x. de j = Inr x)"
  by (cases "j = JNull") (auto simp: de_option_Inr_iff)

text \<open>The schema of the cluster configuration admits exactly what its decoder reads.\<close>

lemma cluster_config_conforms:
  assumes "distinct (map fst kvs)" and "\<forall>j. map_of kvs ''listenerClass'' = Some j \<longrightarrow> (\<exists>s. j = JStr s)"
  shows "conforms V cluster_config_schema (JObj kvs) \<longleftrightarrow> (\<exists>c. cluster_config_deserialize L (JObj kvs) = Inr c)"
proof -
  have listener: "\<forall>v. map_of kvs ''listenerClass'' = Some v \<longrightarrow>
      (conforms V (S_enum [''cluster-internal'', ''external-unstable'', ''external-stable'']) v \<longleftrightarrow>
       (\<exists>c. listener_class_de L v = Inr c))"
    using assms(2) listener_class_conforms by blast
  have "(\<exists>c. cluster_config_deserialize L (JObj kvs) = Inr c) \<longleftrightarrow>
      (\<exists>x. defaulted ''vectorAggregatorConfigMapName'' (de_option de_string) None kvs = Inr x) \<and>
      (\<exists>x. defaulted ''listenerClass'' (listener_class_de L) listener_class_default kvs = Inr x)"
    unfolding cluster_config_de_iff[OF assms(1)]
    by (rule ex_cluster_config)
  also have "\<dots> \<longleftrightarrow> conforms V cluster_config_schema (JObj kvs)"
    unfolding defaulted_decodes cluster_config_schema_def conforms_object_iff optional_string_conforms[symmetric, where V = V]
    using assms(1) listener by (simp del: conforms.simps map_of_eq_Some_iff) blast
  finally show ?thesis by simp
qed

lemma cluster_config_admitted:
  assumes "conforms V cluster_config_schema j"
  shows "\<exists>c. cluster_config_deserialize L j = Inr c"
proof -
  obtain kvs where j: "j = JObj kvs"
    using assms conforms_object_shape unfolding cluster_config_schema_def by blast
  have "\<exists>s. v = JStr s" if "map_of kvs ''listenerClass'' = Some v" for v
    using conforms_object_field[OF assms[unfolded j cluster_config_schema_def] _ that,
        of "S_enum [''cluster-internal'', ''external-unstable'', ''external-stable'']"]
    by (cases v) simp_all
  then show ?thesis
    using assms cluster_config_conforms[of kvs V L] unfolding j cluster_config_schema_def by (simp only: conforms_object_distinct) blast
qed

lemma fragment_admitted:
  assumes "conforms V fragment_schema j"
  shows "\<exists>kvs. j = JObj kvs \<and> ((\<exists>f. fragment_deserialize L j = Inr f) \<longleftrightarrow>
    (\<forall>v. map_of kvs ''resources'' = Some v \<longrightarrow> (\<exists>x. sp_resources_de L v = Inr x)) \<and>
    (\<forall>v. map_of kvs ''logging'' = Some v \<longrightarrow> (\<exists>x. sp_logging_de L v = Inr x)) \<and>
    (\<forall>v. map_of kvs ''affinity'' = Some v \<longrightarrow> (\<exists>x. sp_affinity_de L v = Inr x)) \<and>
    (\<forall>t. map_of kvs ''gracefulShutdownTimeout'' = Some (JStr t) \<longrightarrow> (\<exists>x. sp_duration_de L (JStr t) = Inr x)))"
proof -
  obtain kvs where j: "j = JObj kvs"
    using assms conforms_object_shape unfolding fragment_schema_def by blast
  note obj = assms[unfolded j fragment_schema_def]
  have timeout: "(\<forall>v. map_of kvs ''gracefulShutdownTimeout'' = Some v \<longrightarrow> (\<exists>x. de_option (sp_duration_de L) v = Inr x)) \<longleftrightarrow>
      (\<forall>t. map_of kvs ''gracefulShutdownTimeout'' = Some (JStr t) \<longrightarrow> (\<exists>x. sp_duration_de L (JStr t) = Inr x))"
  proof (cases "map_of kvs ''gracefulShutdownTimeout''")
    case (Some v)
    have "conforms V (S_nullable S_string) v" by (rule conforms_object_field[OF obj _ Some]) simp
    then show ?thesis by (cases v) (auto simp: Some de_option_Inr_iff)
  qed simp
  have "(\<exists>f. fragment_deserialize L (JObj kvs) = Inr f) \<longleftrightarrow>
      (\<exists>x. defaulted ''resources'' (sp_resources_de L) (sp_resources_default L) kvs = Inr x) \<and>
      (\<exists>x. defaulted ''logging'' (sp_logging_de L) (sp_logging_default L) kvs = Inr x) \<and>
      (\<exists>x. defaulted ''affinity'' (sp_affinity_de L) (sp_affinity_default L) kvs = Inr x) \<and>
      (\<exists>x. defaulted ''gracefulShutdownTimeout'' (de_option (sp_duration_de L)) None kvs = Inr x)"
    unfolding fragment_de_iff[OF conforms_object_distinct[OF obj]]
    by (rule ex_fragment)
  then show ?thesis
    unfolding defaulted_decodes timeout by (intro exI[of _ kvs]) (simp only: j simp_thms)
qed

lemma spec_admitted:
  assumes "conforms V spec_schema (JObj kvs)"
  shows "(\<exists>s. spec_deserialize L kvs = Inr s) \<longleftrightarrow>
    (\<exists>v x. map_of kvs ''image'' = Some v \<and> sp_image_de L v = Inr x) \<and>
    (\<forall>v. map_of kvs ''clusterOperation'' = Some v \<longrightarrow> (\<exists>x. sp_cluster_operation_de L v = Inr x)) \<and>
    (\<forall>v. map_of kvs ''servers'' = Some v \<and> v \<noteq> JNull \<longrightarrow> (\<exists>x. sp_role_de L (fragment_deserialize L) v = Inr x))"
proof -
  note obj = assms[unfolded spec_schema_def]
  have "(\<exists>s. spec_deserialize L kvs = Inr s) \<longleftrightarrow>
      (\<exists>x. required ''clusterConfig'' (cluster_config_deserialize L) kvs = Inr x) \<and>
      (\<exists>x. defaulted ''clusterOperation'' (sp_cluster_operation_de L) (sp_cluster_operation_default L) kvs = Inr x) \<and>
      (\<exists>x. required ''image'' (sp_image_de L) kvs = Inr x) \<and>
      (\<exists>x. defaulted ''servers'' (de_option (sp_role_de L (fragment_deserialize L))) None kvs = Inr x) \<and>
      (\<exists>x. required ''recipient'' de_string kvs = Inr x) \<and>
      (\<exists>x. required ''color'' de_string kvs = Inr x)"
    unfolding spec_de_iff[OF conforms_object_distinct[OF obj]]
    by (rule ex_spec)
  moreover have "\<exists>x. required ''clusterConfig'' (cluster_config_deserialize L) kvs = Inr x"
  proof -
    have "''clusterConfig'' \<in> set [''clusterConfig'', ''color'', ''image'', ''recipient'']" by simp
    from conforms_object_required[OF obj this] obtain v where v: "map_of kvs ''clusterConfig'' = Some v" by blast
    have "conforms V cluster_config_schema v" by (rule conforms_object_field[OF obj _ v]) simp
    with v show ?thesis unfolding required_decodes using cluster_config_admitted by blast
  qed
  moreover have "\<exists>x. required name de_string kvs = Inr x"
    if "name \<in> set [''clusterConfig'', ''color'', ''image'', ''recipient'']" "name \<in> {''color'', ''recipient''}" for name
  proof -
    from conforms_object_required[OF obj that(1)] obtain v where v: "map_of kvs name = Some v" by blast
    have "conforms V S_string v" by (rule conforms_object_field[OF obj _ v]) (use that(2) in auto)
    with v show ?thesis unfolding required_decodes string_conforms by blast
  qed
  then have "\<exists>x. required ''recipient'' de_string kvs = Inr x" "\<exists>x. required ''color'' de_string kvs = Inr x"
    by simp_all
  ultimately show ?thesis
    unfolding defaulted_decodes required_decodes de_option_decodes by blast
qed

text \<open>The status the operator writes conforms, if its conditions do.\<close>

lemma status_conforms:
  assumes "\<forall>c \<in> set (conditions_of st). v_library V ''ClusterCondition'' (sp_condition_ser L c)"
  shows "conforms V status_schema (JObj (status_serialize L st))"
  using assms by (simp add: status_schema_def status_serialize_def)

section \<open>Admission and decoding\<close>

text \<open>
  C29: The generated schema and the operator's decoders ask for the same. A specification that the
  API server admits is decoded unless a value of a library type is refused: its image, its cluster
  operation, or its server role; and a role's or role group's configuration that is admitted is
  refused only for its resources, logging or affinity or for a shutdown timeout that is no
  duration. So the operator never misses a field, meets an unknown listener class or a null that
  the API server let through. A status it writes is admitted if its conditions are.
\<close>
theorem admitted_objects_decode:
  assumes "conforms V spec_schema (JObj kvs)"
  shows "((\<exists>s. spec_deserialize L kvs = Inr s) \<longleftrightarrow>
      (\<exists>v x. map_of kvs ''image'' = Some v \<and> sp_image_de L v = Inr x) \<and>
      (\<forall>v. map_of kvs ''clusterOperation'' = Some v \<longrightarrow> (\<exists>x. sp_cluster_operation_de L v = Inr x)) \<and>
      (\<forall>v. map_of kvs ''servers'' = Some v \<and> v \<noteq> JNull \<longrightarrow>
         (\<exists>x. sp_role_de L (fragment_deserialize L) v = Inr x))) \<and>
    (\<forall>j. conforms V fragment_schema j \<longrightarrow> (\<exists>fs. j = JObj fs \<and> ((\<exists>f. fragment_deserialize L j = Inr f) \<longleftrightarrow>
      (\<forall>v. map_of fs ''resources'' = Some v \<longrightarrow> (\<exists>x. sp_resources_de L v = Inr x)) \<and>
      (\<forall>v. map_of fs ''logging'' = Some v \<longrightarrow> (\<exists>x. sp_logging_de L v = Inr x)) \<and>
      (\<forall>v. map_of fs ''affinity'' = Some v \<longrightarrow> (\<exists>x. sp_affinity_de L v = Inr x)) \<and>
      (\<forall>t. map_of fs ''gracefulShutdownTimeout'' = Some (JStr t) \<longrightarrow> (\<exists>x. sp_duration_de L (JStr t) = Inr x))))) \<and>
    (\<forall>st. (\<forall>c \<in> set (conditions_of st). v_library V ''ClusterCondition'' (sp_condition_ser L c)) \<longrightarrow>
       conforms V status_schema (JObj (status_serialize L st)))"
  by (intro conjI allI impI spec_admitted[OF assms] fragment_admitted status_conforms)

text \<open>The specification of the repository's affinity test, under validators that admit everything.\<close>

definition ex_validators :: validators where
  "ex_validators = \<lparr> v_library = (\<lambda>_ _. True), v_library_of = (\<lambda>_ _ _. True) \<rparr>"

definition ex_admitted :: json_entries where
  "ex_admitted =
     [(''image'', JObj [(''productVersion'', JStr ''0.0.1-SNAPSHOT'')]),
      (''clusterConfig'', JObj [(''listenerClass'', JStr ''external-stable'')]),
      (''servers'', JNull), (''recipient'', JStr ''World''), (''color'', JStr ''blue'')]"

theorem admitted_objects_decode_witness:
  "\<forall>L. (\<exists>s. spec_deserialize L ex_admitted = Inr s) \<longleftrightarrow>
     (\<exists>x. sp_image_de L (JObj [(''productVersion'', JStr ''0.0.1-SNAPSHOT'')]) = Inr x)"
proof
  fix L
  have "conforms ex_validators spec_schema (JObj ex_admitted)" by code_simp
  from admitted_objects_decode[OF this, of L]
  show "(\<exists>s. spec_deserialize L ex_admitted = Inr s) \<longleftrightarrow>
     (\<exists>x. sp_image_de L (JObj [(''productVersion'', JStr ''0.0.1-SNAPSHOT'')]) = Inr x)"
    by (simp add: ex_admitted_def)
qed

end
