(* ===== verification/Serde_Properties.thy ===== *)
theory Serde_Properties
  imports Crd_Serde Crd_Properties
begin

text \<open>
  The properties of reading and writing a HelloCluster, and the repository's own test
  \<open>test_affinity_defaults\<close> (\<^verbatim>\<open>affinity.rs\<close>), which goes from the text of an object to its merged
  configuration.
\<close>

section \<open>Reading and writing\<close>

text \<open>
  C30: A HelloCluster can be written and read back. If the library's codecs read back the values of
  its types that occur in it (its image, its timeouts, and so on), reading the written specification gives the same specification, and so does reading the
  written status; an absent server role or aggregator is left out, not written as null.
\<close>
theorem spec_roundtrip:
  assumes "spec_codecs L s"
  shows "spec_deserialize L (spec_serialize L s) = Inr s \<and>
    (servers s = None \<longrightarrow> ''servers'' \<notin> fst ` set (spec_serialize L s)) \<and>
    (\<forall>st. (\<forall>c \<in> set (conditions_of st). sp_condition_de L (sp_condition_ser L c) = Inr c) \<longrightarrow>
       status_deserialize L (status_serialize L st) = Inr st)"
proof (intro conjI)
  let ?kvs = "spec_serialize L s"
  have "distinct (map fst ?kvs)"
    by (simp add: spec_serialize_def ser_unless_none_def split: option.split)
  moreover have "defaulted ''servers'' (de_option (sp_role_de L (fragment_deserialize L))) None ?kvs = Inr (servers s)"
    using role_roundtrip[OF assms]
    by (cases "servers s") (simp_all add: defaulted_def spec_serialize_def ser_unless_none_def de_option_def)
  moreover have "required ''clusterConfig'' (cluster_config_deserialize L) ?kvs = Inr (cluster_config s)"
    "defaulted ''clusterOperation'' (sp_cluster_operation_de L) (sp_cluster_operation_default L) ?kvs =
      Inr (cluster_operation_of s)"
    "required ''image'' (sp_image_de L) ?kvs = Inr (image s)"
    "required ''recipient'' de_string ?kvs = Inr (recipient s)"
    "required ''color'' de_string ?kvs = Inr (color s)"
    using assms
    by (auto simp: spec_codecs_def required_def defaulted_def spec_serialize_def ser_unless_none_def
        cluster_config_json.de_ser json_string.de_ser split: option.split)
  ultimately show "spec_deserialize L ?kvs = Inr s" by (simp only: spec_de_iff)
  show "servers s = None \<longrightarrow> ''servers'' \<notin> fst ` set ?kvs"
    by (simp add: spec_serialize_def ser_unless_none_def)
qed (simp add: status_roundtrip)

text \<open>Codecs for the witness: of each library type, those that know the example's values.\<close>

definition ex_serde :: serde_platform where
  "ex_serde =
     \<lparr> sp_cluster_operation_ser = (\<lambda>co. JObj [(''stopped'', JBool (stopped co))]),
       sp_cluster_operation_de = (\<lambda>_. Inr \<lparr> reconciliation_paused = False, stopped = False \<rparr>),
       sp_cluster_operation_default = \<lparr> reconciliation_paused = False, stopped = False \<rparr>,
       sp_image_ser = (\<lambda>_. JObj []),
       sp_image_de = (\<lambda>_. Inr (image (spec ex_cluster))),
       sp_role_ser = (\<lambda>ser rl. JObj [(''config'', ser (cc_config (role_config_common rl)))]),
       sp_role_de = (\<lambda>de j. case j of
          JObj [(k, c)] \<Rightarrow>
            (if k = ''config'' then and_then (de c) (\<lambda>f. Inr (ex_role f ex_groups))
             else and_then (de (JObj [])) (\<lambda>f. Inr (ex_role f
               [(''default'', \<lparr> rg_config = ex_common f JNull, rg_replicas = Some 1 \<rparr>)])))
        | _ \<Rightarrow> Inl (Invalid_type j)),
       sp_resources_ser = (\<lambda>_. JObj []),
       sp_resources_de = (\<lambda>_. Inr (fr_resources ex_empty_fragment)),
       sp_resources_default = fr_resources ex_empty_fragment,
       sp_logging_ser = (\<lambda>j. j),
       sp_logging_de = Inr,
       sp_logging_default = JNull,
       sp_affinity_ser = (\<lambda>_. JObj []),
       sp_affinity_de = (\<lambda>_. Inr (fr_affinity ex_empty_fragment)),
       sp_affinity_default = fr_affinity ex_empty_fragment,
       sp_duration_ser = (\<lambda>d. JStr (show_nat (dur_secs d) @ ''s'')),
       sp_duration_de = (\<lambda>j. case j of
          JStr t \<Rightarrow> (case read_nat (butlast t) of
              Some n \<Rightarrow> Inr \<lparr> dur_secs = n, dur_nanos = 0 \<rparr> | None \<Rightarrow> Inl (Invalid_type j))
        | _ \<Rightarrow> Inl (Invalid_type j)),
       sp_condition_ser = (\<lambda>j. j),
       sp_condition_de = Inr,
       sp_other_listener_class = (\<lambda>j. Inl (Invalid_type j)),
       sp_other_cluster_config = (\<lambda>j. Inl (Invalid_type j)),
       sp_other_fragment = (\<lambda>j. Inl (Invalid_type j)) \<rparr>"

text \<open>A cluster whose server role sets a shutdown timeout, so that a duration is written and read too.\<close>

definition ex_timeout_fragment :: hello_config_fragment where
  "ex_timeout_fragment = ex_empty_fragment\<lparr> fr_graceful_shutdown_timeout := Some (from_minutes_unchecked 2) \<rparr>"

definition ex_timeout_spec :: hello_cluster_spec where
  "ex_timeout_spec = spec (ex_cluster_with (Some (ex_role ex_timeout_fragment ex_groups)) None)"

lemma ex_fragment_codecs: "fragment_codecs ex_serde ex_empty_fragment" "fragment_codecs ex_serde ex_timeout_fragment"
proof -
  have "sp_duration_de ex_serde (sp_duration_ser ex_serde (from_minutes_unchecked 2)) = Inr (from_minutes_unchecked 2)"
    by code_simp
  then show "fragment_codecs ex_serde ex_timeout_fragment"
    by (simp add: fragment_codecs_def ex_timeout_fragment_def) (simp add: ex_serde_def)
  show "fragment_codecs ex_serde ex_empty_fragment"
    by (simp add: fragment_codecs_def) (simp add: ex_serde_def ex_empty_fragment_def)
qed

lemma ex_spec_codecs: "spec_codecs ex_serde ex_timeout_spec"
  using ex_fragment_codecs
  by (auto simp: spec_codecs_def ex_timeout_spec_def ex_cluster_with_def ex_role_def ex_groups_def ex_group_def
      ex_common_def) (simp_all add: ex_serde_def ex_cluster_def ex_cluster_with_def ex_role_def ex_groups_def
      ex_group_def ex_common_def)

theorem spec_roundtrip_witness:
  "spec_deserialize ex_serde (spec_serialize ex_serde ex_timeout_spec) = Inr ex_timeout_spec"
  using spec_roundtrip[OF ex_spec_codecs] by blast

text \<open>
  C28: What a HelloCluster has to contain. Reading a specification (with each key once) succeeds
  exactly if the cluster configuration, the image, the recipient and the color are there and can
  be decoded, and so can the cluster operation and the server role where they are given; left out,
  the cluster operation is the default and there is no server role. The order of the entries and
  unknown keys play no role.
\<close>
theorem spec_decoding_exact:
  assumes "distinct (map fst kvs)"
  shows "spec_deserialize L kvs = Inr s \<longleftrightarrow>
    (\<exists>j. map_of kvs ''clusterConfig'' = Some j \<and> cluster_config_deserialize L j = Inr (cluster_config s)) \<and>
    (case map_of kvs ''clusterOperation'' of
       None \<Rightarrow> cluster_operation_of s = sp_cluster_operation_default L
     | Some j \<Rightarrow> sp_cluster_operation_de L j = Inr (cluster_operation_of s)) \<and>
    (\<exists>j. map_of kvs ''image'' = Some j \<and> sp_image_de L j = Inr (image s)) \<and>
    (case map_of kvs ''servers'' of
       None \<Rightarrow> servers s = None
     | Some j \<Rightarrow> if j = JNull then servers s = None
         else \<exists>rl. sp_role_de L (fragment_deserialize L) j = Inr rl \<and> servers s = Some rl) \<and>
    map_of kvs ''recipient'' = Some (JStr (recipient s)) \<and>
    map_of kvs ''color'' = Some (JStr (color s))"
  unfolding spec_de_iff[OF assms] required_Inr_iff defaulted_case de_option_Inr_iff de_string_iff
  by simp

theorem spec_decoding_exact_witness:
  "\<not> (\<exists>s. spec_deserialize ex_serde [(''color'', JStr ''blue''), (''recipient'', JStr ''Stackable''),
     (''image'', JObj [])] = Inr s) \<and>
   (\<exists>s. spec_deserialize ex_serde [(''color'', JStr ''blue''), (''unknown'', JNull),
     (''recipient'', JStr ''Stackable''), (''clusterConfig'', JObj []), (''image'', JObj [])] = Inr s \<and>
     servers s = None \<and> listener_class (cluster_config s) = ClusterInternal)"
proof
  show "\<not> (\<exists>s. spec_deserialize ex_serde [(''color'', JStr ''blue''), (''recipient'', JStr ''Stackable''),
     (''image'', JObj [])] = Inr s)"
    by (subst spec_decoding_exact) simp_all
  have config: "cluster_config_deserialize ex_serde (JObj []) =
      Inr \<lparr> vector_aggregator_config_map_name = None, listener_class = ClusterInternal \<rparr>" by code_simp
  show "\<exists>s. spec_deserialize ex_serde [(''color'', JStr ''blue''), (''unknown'', JNull),
     (''recipient'', JStr ''Stackable''), (''clusterConfig'', JObj []), (''image'', JObj [])] = Inr s \<and>
     servers s = None \<and> listener_class (cluster_config s) = ClusterInternal"
    by (intro exI[of _ "(spec ex_cluster)\<lparr> servers := None, cluster_config :=
          \<lparr> vector_aggregator_config_map_name = None, listener_class = ClusterInternal \<rparr> \<rparr>"] conjI,
        subst spec_decoding_exact)
      (simp_all add: config, simp_all add: ex_serde_def ex_cluster_def ex_cluster_with_def)
qed

section \<open>The repository's test of the affinity\<close>

text \<open>The object the test reads, the YAML text as the value it stands for, and what it expects.\<close>

definition affinity_test_servers :: json where
  "affinity_test_servers = JObj [(''roleGroups'', JObj [(''default'', JObj [(''replicas'', JNum 1)])])]"

definition affinity_test_spec :: json_entries where
  "affinity_test_spec =
     [(''image'', JObj [(''productVersion'', JStr ''0.1.0'')]),
      (''recipient'', JStr ''Stackable''),
      (''color'', JStr ''blue''),
      (''clusterConfig'', JObj [(''listenerClass'', JStr ''external-unstable'')]),
      (''servers'', affinity_test_servers)]"

definition affinity_test_hello :: "hello_cluster_spec \<Rightarrow> hello_cluster" where
  "affinity_test_hello s =
     \<lparr> metadata = \<lparr> om_name = Some ''hello-world'', om_namespace = None, om_other = JNull \<rparr>,
       spec = s, status = None \<rparr>"

definition affinity_test_term :: "HelloRole \<Rightarrow> weighted_pod_affinity_term" where
  "affinity_test_term r =
     \<lparr> wt_pod_affinity_term =
         \<lparr> pat_label_selector = Some
             \<lparr> ls_match_expressions = None,
               ls_match_labels = Some (bt_collect
                 [(''app.kubernetes.io/name'', ''hello-world''),
                  (''app.kubernetes.io/instance'', ''hello-world''),
                  (''app.kubernetes.io/component'', role_to_string r)]) \<rparr>,
           pat_topology_key = ''kubernetes.io/hostname'',
           pat_other = JNull \<rparr>,
       wt_weight = 70 \<rparr>"

definition affinity_test_expected :: "HelloRole \<Rightarrow> stackable_affinity" where
  "affinity_test_expected r =
     \<lparr> pod_affinity = None,
       pod_anti_affinity_of = Some
         \<lparr> preferred_during_scheduling = Some [affinity_test_term r],
           required_during_scheduling = None \<rparr>,
       node_affinity = None,
       node_selector = None \<rparr>"

text \<open>The test: whether its assertion holds, or nothing where one of its unwraps panics before.\<close>

definition affinity_test_outcome :: "serde_platform \<Rightarrow> crd_platform \<Rightarrow> HelloRole \<Rightarrow> bool option" where
  "affinity_test_outcome S L r =
     (case spec_deserialize S affinity_test_spec of
        Inl _ \<Rightarrow> None
      | Inr s \<Rightarrow>
          let hello = affinity_test_hello s in
          (case merged_config L hello r (rolegroup_ref r hello ''default'') of
             Inl _ \<Rightarrow> None
           | Inr config \<Rightarrow> Some (hc_affinity config = affinity_test_expected r)))"

text \<open>Merging an affinity field by field, and a fragment that sets none.\<close>

definition merge_affinity_contract :: "crd_platform \<Rightarrow> bool" where
  "merge_affinity_contract L \<longleftrightarrow> (\<forall>a b.
     (fr_affinity a = \<lparr> pod_affinity = None, pod_anti_affinity_of = None, node_affinity = None,
        node_selector = None \<rparr> \<longrightarrow> fr_affinity (merge_fragment L a b) = fr_affinity b))"

definition no_affinity :: "hello_config_fragment \<Rightarrow> bool" where
  "no_affinity f \<longleftrightarrow> fr_affinity f =
     \<lparr> pod_affinity = None, pod_anti_affinity_of = None, node_affinity = None, node_selector = None \<rparr>"

lemma affinity_test_spec_read:
  assumes "sp_image_de S (JObj [(''productVersion'', JStr ''0.1.0'')]) = Inr img"
    and "sp_role_de S (fragment_deserialize S) affinity_test_servers = Inr rl"
  shows "\<exists>s. spec_deserialize S affinity_test_spec = Inr s \<and> servers s = Some rl"
proof -
  have dist: "distinct (map fst affinity_test_spec)" by (simp add: affinity_test_spec_def)
  have config: "cluster_config_deserialize S (JObj [(''listenerClass'', JStr ''external-unstable'')]) =
      Inr \<lparr> vector_aggregator_config_map_name = None, listener_class = ExternalUnstable \<rparr>"
    by (simp add: cluster_config_de_iff defaulted_case listener_class_de_def listener_class_deserialize_def)
  let ?s = "\<lparr> cluster_config = \<lparr> vector_aggregator_config_map_name = None, listener_class = ExternalUnstable \<rparr>,
    cluster_operation_of = sp_cluster_operation_default S, image = img, servers = Some rl,
    recipient = ''Stackable'', color = ''blue'' \<rparr>"
  have "spec_deserialize S affinity_test_spec = Inr ?s"
    unfolding spec_de_iff[OF dist] required_Inr_iff defaulted_case de_option_Inr_iff de_string_iff
    using assms config by (simp add: affinity_test_spec_def affinity_test_servers_def)
  then show ?thesis by auto
qed

text \<open>
  C31: What the test \<open>test_affinity_defaults\<close> checks, exactly. If the libraries read the image and the
  role of the test's text (a role group \<open>default\<close> and no affinity anywhere), take an object's name
  from its metadata, and merge an affinity that is not set to the default, then reading the
  specification does not panic; the test panics exactly if the merged defaults are not valid; and
  otherwise it passes exactly if the library's affinity term for the application, the object's name,
  the role and the weight 70 is the term the test spells out. So it tests nothing else of
  \<^verbatim>\<open>affinity.rs\<close> than these arguments and that no other affinity is set.
\<close>
theorem affinity_test_outcome_exact:
  assumes "sp_image_de S (JObj [(''productVersion'', JStr ''0.1.0'')]) = Inr img"
    and "sp_role_de S (fragment_deserialize S) affinity_test_servers = Inr rl"
    and "no_affinity (cc_config (role_config_common rl))"
    and "hm_get (role_groups rl) ''default'' = Some g" and "no_affinity (cc_config (rg_config g))"
    and "\<And>h n. om_name (metadata h) = Some n \<Longrightarrow> name_any L h = n"
    and "merge_affinity_contract L" and "validate_contract L"
  shows "affinity_test_outcome S L r =
    (case validate_fragment L (merge_fragment L (cc_config (rg_config g))
        (merge_fragment L (cc_config (role_config_common rl)) (default_config L ''hello-world'' r))) of
       Inl _ \<Rightarrow> None
     | Inr _ \<Rightarrow> Some (affinity_between_role_pods L ''hello-world'' ''hello-world'' (role_to_string r) 70 =
         affinity_test_term r))"
proof -
  let ?def = "default_config L ''hello-world'' r"
  let ?merged = "merge_fragment L (cc_config (rg_config g)) (merge_fragment L (cc_config (role_config_common rl)) ?def)"
  obtain s where s: "spec_deserialize S affinity_test_spec = Inr s" "servers s = Some rl"
    using affinity_test_spec_read[OF assms(1,2)] by blast
  have name: "name_any L (affinity_test_hello s) = ''hello-world''"
    by (rule assms(6)) (simp add: affinity_test_hello_def)
  have merged: "merged_config L (affinity_test_hello s) r (rolegroup_ref r (affinity_test_hello s) ''default'') =
      err_context (validate_fragment L ?merged) FragmentValidationFailure"
    unfolding merged_config_every_branch name
    using s(2) assms(4) by (cases r) (simp add: affinity_test_hello_def rolegroup_ref_def)
  have "fr_affinity ?merged = fr_affinity ?def"
    using assms(3,5,7) unfolding merge_affinity_contract_def no_affinity_def by simp
  then have affinity: "hc_affinity c = get_affinity (affinity_between_role_pods L) ''hello-world'' r"
    if "validate_fragment L ?merged = Inr c" for c
    using assms(8) that by (simp add: validate_contract_def default_config_def)
  show ?thesis
    by (cases "validate_fragment L ?merged")
      (auto simp: affinity_test_outcome_def s merged Let_def affinity get_affinity_def affinity_test_expected_def
        APP_NAME_def)
qed

theorem affinity_test_outcome_exact_witness:
  "affinity_test_outcome ex_serde ex_crd Server = Some True \<and>
   affinity_test_outcome ex_serde (ex_crd\<lparr> affinity_between_role_pods := (\<lambda>app cluster r w.
     (ex_affinity_term app cluster r w)\<lparr> wt_weight := 50 \<rparr>) \<rparr>) Server = Some False"
proof -
  let ?other = "ex_crd\<lparr> affinity_between_role_pods := (\<lambda>app cluster r w.
     (ex_affinity_term app cluster r w)\<lparr> wt_weight := 50 \<rparr>) \<rparr>"
  let ?rl = "ex_role ex_empty_fragment [(''default'', \<lparr> rg_config = ex_common ex_empty_fragment JNull, rg_replicas = Some 1 \<rparr>)]"
  let ?g = "\<lparr> rg_config = ex_common ex_empty_fragment JNull, rg_replicas = Some 1 \<rparr>"
  have image: "sp_image_de ex_serde j = Inr (image (spec ex_cluster))" for j by (simp add: ex_serde_def)
  have "fragment_deserialize ex_serde (JObj []) = Inr ex_empty_fragment" by code_simp
  then have role: "sp_role_de ex_serde (fragment_deserialize ex_serde) affinity_test_servers = Inr ?rl"
    by (simp add: ex_serde_def affinity_test_servers_def)
  have none: "no_affinity (cc_config (role_config_common ?rl))" "hm_get (role_groups ?rl) ''default'' = Some ?g"
    "no_affinity (cc_config (rg_config ?g))"
    by (simp_all add: no_affinity_def ex_role_def ex_common_def ex_empty_fragment_def hm_get_def)
  have contracts: "merge_affinity_contract ex_crd" "merge_affinity_contract ?other"
    by (simp_all add: merge_affinity_contract_def ex_crd_def ex_merge_def ex_or_def)
  have valid: "validate_contract ex_crd" "validate_contract ?other"
    using ex_validate_contract by (simp_all add: validate_contract_def)
  have names: "name_any ex_crd h = n" "name_any ?other h = n" if "om_name (metadata h) = Some n" for h n
    using that by (simp_all add: ex_crd_def)
  note outcomes = affinity_test_outcome_exact[OF image role none names(1) contracts(1) valid(1)]
    affinity_test_outcome_exact[OF image role none names(2) contracts(2) valid(2)]
  have "affinity_test_outcome ex_serde ex_crd Server = Some True"
    by (subst outcomes(1)) (assumption, code_simp)
  moreover have "affinity_test_outcome ex_serde ?other Server = Some False"
    by (subst outcomes(2)) (assumption, code_simp)
  ultimately show ?thesis by blast
qed

end
