(* ===== verification/Object_Typing.thy ===== *)
theory Object_Typing
  imports Plan_Facts
begin

text \<open>
  The objects as the Kubernetes API takes them. Its types leave much optional that it requires
  in fact; \<open>well_formed\<close> states these rules for the parts of an object that the code fills in,
  and the interpretation of \<open>applied_invariant\<close> shows that every builder of the operator keeps to
  them. It is about the objects that the operator builds (\<open>operator_built\<close>), and about the pod
  template of a StatefulSet as the operator builds it, into which the library then merges the pod
  overrides of the user, who can make of it what they like.
\<close>

section \<open>Well-formed objects\<close>

definition port_ok :: "i32 \<Rightarrow> bool" where
  "port_ok p \<longleftrightarrow> 1 \<le> sint p \<and> sint p \<le> 65535"

definition service_port_ok :: "service_port \<Rightarrow> bool" where
  "service_port_ok sp \<longleftrightarrow> sp_name sp \<noteq> None \<and> port_ok (sp_port sp) \<and>
     sp_protocol sp \<in> {None, Some ''TCP'', Some ''UDP'', Some ''SCTP''}"

text \<open>A headless Service is one of the type \<open>ClusterIP\<close> with no address.\<close>

definition service_spec_ok :: "service_spec \<Rightarrow> bool" where
  "service_spec_ok ss \<longleftrightarrow>
     svc_type ss \<in> {Some ''ClusterIP'', Some ''NodePort'', Some ''LoadBalancer''} \<and>
     (cluster_ip ss = Some ''None'' \<longrightarrow> svc_type ss = Some ''ClusterIP'') \<and> selector ss \<noteq> None \<and>
     (case ports ss of
        None \<Rightarrow> False
      | Some sps \<Rightarrow> sps \<noteq> [] \<and> distinct (map sp_name sps) \<and> list_all service_port_ok sps)"

definition positive_or_unset :: "i32 option \<Rightarrow> bool" where
  "positive_or_unset n \<longleftrightarrow> (case n of None \<Rightarrow> True | Some k \<Rightarrow> 1 \<le> sint k)"

definition probe_ok :: "string list \<Rightarrow> probe \<Rightarrow> bool" where
  "probe_ok port_names p \<longleftrightarrow>
     positive_or_unset (period_seconds p) \<and> positive_or_unset (failure_threshold p) \<and>
     positive_or_unset (initial_delay_seconds p) \<and>
     (case tcp_socket_port p of
        None \<Rightarrow> False
      | Some (IntValue k) \<Rightarrow> port_ok k
      | Some (StringValue n) \<Rightarrow> n \<in> set port_names)"

definition probes :: "container_call list \<Rightarrow> probe list" where
  "probes cs = concat (map (\<lambda>c. case c of readiness_probe p \<Rightarrow> [p] | liveness_probe p \<Rightarrow> [p] | _ \<Rightarrow> []) cs)"

definition container_ok :: "string list \<Rightarrow> container \<Rightarrow> bool" where
  "container_ok volumes k \<longleftrightarrow>
     (case k of
        container_built cs \<Rightarrow>
          distinct (map fst (container_ports cs)) \<and> list_all (\<lambda>(_, p). port_ok p) (container_ports cs) \<and>
          set (map fst (volume_mounts cs)) \<subseteq> set volumes \<and> distinct (map snd (volume_mounts cs)) \<and>
          list_all (probe_ok (map fst (container_ports cs))) (probes cs)
      | vector_container _ config logs _ _ \<Rightarrow> {config, logs} \<subseteq> set volumes)"

text \<open>A volume has exactly one source.\<close>

definition volume_ok :: "volume \<Rightarrow> bool" where
  "volume_ok v \<longleftrightarrow> (vol_config_map v = None) \<noteq> (vol_empty_dir v = None)"

definition pod_ok :: "pod_call list \<Rightarrow> bool" where
  "pod_ok cs \<longleftrightarrow> pod_containers cs \<noteq> [] \<and>
     distinct (map vol_name (pod_volumes cs)) \<and> list_all volume_ok (pod_volumes cs) \<and>
     list_all (container_ok (map vol_name (pod_volumes cs))) (pod_containers cs)"

definition stateful_set_spec_ok :: "stateful_set_spec \<Rightarrow> bool" where
  "stateful_set_spec_ok ss \<longleftrightarrow>
     pod_management_policy ss \<in> {None, Some ''OrderedReady'', Some ''Parallel''} \<and>
     (case replicas ss of None \<Rightarrow> True | Some n \<Rightarrow> 0 \<le> sint n) \<and>
     match_labels ss \<noteq> None \<and> pod_ok (template_base (template ss))"

text \<open>The service account and the role binding are built by the library.\<close>

fun operator_built :: "kube_object \<Rightarrow> bool" where
  "operator_built (K_ServiceAccount _) = False"
| "operator_built (K_RoleBinding _) = False"
| "operator_built _ = True"

fun well_formed :: "kube_object \<Rightarrow> bool" where
  "well_formed (K_Service s) \<longleftrightarrow> meta_object_name (service_metadata s) \<noteq> None \<and>
     (case service_spec_of s of None \<Rightarrow> False | Some ss \<Rightarrow> service_spec_ok ss)"
| "well_formed (K_ConfigMap c) \<longleftrightarrow> meta_object_name (cm_meta c) \<noteq> None"
| "well_formed (K_StatefulSet t) \<longleftrightarrow> meta_object_name (sts_metadata t) \<noteq> None \<and>
     (case sts_spec t of None \<Rightarrow> False | Some ss \<Rightarrow> stateful_set_spec_ok ss)"
| "well_formed (K_PodDisruptionBudget b) \<longleftrightarrow> pdb_role b \<in> range role_to_string"
| "well_formed _ \<longleftrightarrow> False"

section \<open>Services\<close>

lemma http_port_ok: "port_ok (i32_from_u16 HTTP_PORT)"
  by (simp add: port_ok_def HTTP_PORT_def)

lemma service_ports_ok: "service_ports \<noteq> [] \<and> distinct (map sp_name service_ports) \<and>
    list_all service_port_ok service_ports"
  by (simp add: service_ports_def service_port_ok_def http_port_ok)

lemma k8s_service_type_ok: "Some (k8s_service_type lc) \<in> {Some ''ClusterIP'', Some ''NodePort'', Some ''LoadBalancer''}"
  by (cases lc) simp_all

lemma role_service_well_formed:
  "build_server_role_service P h img = Inr svc \<Longrightarrow> well_formed (K_Service svc)"
  using service_ports_ok k8s_service_type_ok
  by (auto dest!: role_service_Inr simp: service_spec_ok_def)

section \<open>StatefulSets\<close>

lemma probes_append [simp]: "probes (xs @ ys) = probes xs @ probes ys"
  by (simp add: probes_def)

lemma no_ports_in_overrides:
  "container_ports (env_overrides_loop cfg [container_new n]) = []"
  "probes (env_overrides_loop cfg [container_new n]) = []"
proof -
  have "container_ports (map (\<lambda>(n, v). add_env_var n v) kvs) = []"
    "probes (map (\<lambda>(n, v). add_env_var n v) kvs) = []" for kvs
    by (induction kvs) (auto simp: probes_def)
  then have "container_ports (concat (map (\<lambda>(k, m). if k = Env
      then map (\<lambda>(n, v). add_env_var n v) (filter (\<lambda>(n, _). n \<noteq> '''') m) else []) xs)) = []"
    "probes (concat (map (\<lambda>(k, m). if k = Env
      then map (\<lambda>(n, v). add_env_var n v) (filter (\<lambda>(n, _). n \<noteq> '''') m) else []) xs)) = []" for xs
    by (induction xs) (auto simp: probes_def)
  then show "container_ports (env_overrides_loop cfg [container_new n]) = []"
    "probes (env_overrides_loop cfg [container_new n]) = []"
    by (simp_all add: env_overrides_loop_eq) (simp add: probes_def)
qed

lemma hello_container_ok:
  assumes "{STACKABLE_CONFIG_DIR_NAME, STACKABLE_LOG_DIR_NAME, STACKABLE_LOG_CONFIG_MOUNT_DIR_NAME} \<subseteq> set volumes"
  shows "container_ok volumes (container_built (hello_container_calls P img cfg m))"
proof -
  have port_list: "container_ports (hello_container_calls P img cfg m) = [(HTTP_PORT_NAME, i32_from_u16 HTTP_PORT)]"
    by (simp add: hello_container_calls_def no_ports_in_overrides)
  have probe_list: "probes (hello_container_calls P img cfg m) = [hello_readiness_probe, hello_liveness_probe]"
    by (simp add: hello_container_calls_def no_ports_in_overrides) (simp add: probes_def)
  have "probe_ok [HTTP_PORT_NAME] hello_readiness_probe" "probe_ok [HTTP_PORT_NAME] hello_liveness_probe"
    by (simp_all add: probe_ok_def positive_or_unset_def hello_readiness_probe_def hello_liveness_probe_def)
  with assms show ?thesis
    by (simp add: container_ok_def port_list probe_list hello_container_mounts http_port_ok
        STACKABLE_CONFIG_DIR_def STACKABLE_LOG_DIR_def STACKABLE_LOG_CONFIG_MOUNT_DIR_def)
qed

lemma volumes_ok:
  "volume_ok (config_map_volume n cm)" "volume_ok (log_volume LP)" "volume_ok (log_config_volume P m rg)"
  by (simp_all add: volume_ok_def config_map_volume_def log_volume_def log_config_volume_def
      split: option.split container_log_config_choice.split)

lemma hello_pod_ok:
  "pod_ok (hello_pod_calls P h img rg m sa (container_built (hello_container_calls P img cfg m)))"
proof -
  have "map vol_name (pod_volumes (hello_pod_calls P h img rg m sa c)) =
      [STACKABLE_CONFIG_DIR_NAME, STACKABLE_LOG_DIR_NAME, STACKABLE_LOG_CONFIG_MOUNT_DIR_NAME]" for c
    by (simp add: pod_volumes_hello) (simp add: config_map_volume_def log_volume_def)
  moreover have "distinct [STACKABLE_CONFIG_DIR_NAME, STACKABLE_LOG_DIR_NAME, STACKABLE_LOG_CONFIG_MOUNT_DIR_NAME]"
    by (simp add: STACKABLE_CONFIG_DIR_NAME_def STACKABLE_LOG_DIR_NAME_def STACKABLE_LOG_CONFIG_MOUNT_DIR_NAME_def)
  moreover have "container_ok volumes (vector_agent_container img m)"
    if "{STACKABLE_CONFIG_DIR_NAME, STACKABLE_LOG_DIR_NAME} \<subseteq> set volumes" for volumes
    using that by (simp add: container_ok_def vector_agent_container_def)
  ultimately show ?thesis
    unfolding pod_ok_def pod_containers_hello
    by (simp del: container_ok_def add: hello_container_ok) (simp add: pod_volumes_hello volumes_ok)
qed

section \<open>Every object of a run\<close>

lemma role_group_well_formed:
  assumes "build_role_group P h img addr sa (g, cfg) = Inr (s, c, t)"
  shows "well_formed (K_Service s) \<and> well_formed (K_ConfigMap c) \<and> well_formed (K_StatefulSet t)"
proof -
  obtain m where m: "build_server_rolegroup_config_map P h img (server_rolegroup_ref h g) cfg m addr = Inr c"
    and t: "build_server_rolegroup_statefulset P h img Server (server_rolegroup_ref h g) cfg m sa = Inr t"
    and s: "build_rolegroup_service P h img (server_rolegroup_ref h g) = Inr s"
    using build_role_group_Inr[OF assms] by blast
  have "0 \<le> sint (i32_from_u16 n)" for n by simp
  then have "well_formed (K_StatefulSet t)"
    using statefulset_Inr[OF t] hello_pod_ok by (auto simp: stateful_set_spec_ok_def split: option.split)
  moreover have "well_formed (K_Service s)"
    using rolegroup_service_Inr[OF s] service_ports_ok by (auto simp: service_spec_ok_def)
  moreover have "well_formed (K_ConfigMap c)" using config_map_contents[OF m] by auto
  ultimately show ?thesis by blast
qed

interpretation typing: applied_invariant P R "\<lambda>_ obj. operator_built obj \<longrightarrow> well_formed obj" for P R
proof unfold_locales
  fix h img addr sa rg s c t
  assume "build_role_group P h img addr sa rg = Inr (s, c, t)"
  then show "operator_built (K_Service s) \<longrightarrow> well_formed (K_Service s)"
    "operator_built (K_ConfigMap c) \<longrightarrow> well_formed (K_ConfigMap c)"
    "operator_built (K_StatefulSet t) \<longrightarrow> well_formed (K_StatefulSet t)"
    by (cases rg; metis role_group_well_formed)+
next
  fix h pdb b
  assume "build_pdb (P_pdb P) h Server (pdb_max_unavailable_or_default pdb Server) = Inr b"
  then have "b = role_budget pdb h Server" by (rule build_pdb_Inr)
  then have "pdb_role b = role_to_string Server" by (simp add: role_budget_def)
  then show "operator_built (K_PodDisruptionBudget b) \<longrightarrow> well_formed (K_PodDisruptionBudget b)"
    by (metis rangeI well_formed.simps(4))
qed (simp_all only: role_service_well_formed operator_built.simps simp_thms)

text \<open>
  C14: Every object that the operator builds itself and a run applies (all but the service account and
  the role binding, which the library builds) is well formed, whatever the cluster answers and
  however the run ends. Services have a name, a type, a selector and named ports in range; a
  ConfigMap has a name; a budget is for a role there is; a StatefulSet has a name, a pod selector, a
  replica count that is not negative, and a pod template in which, before the user's pod overrides
  are merged into it, volumes have distinct names and one source each, every mount names a volume,
  mount paths do not collide, and every probe is positive and names a port of its container.
\<close>
theorem built_objects_well_formed:
  "\<exists>r ds. reconcile_hello P R W pc guarded cs = (r, cs @ ds) \<and>
     list_all well_formed (filter operator_built (applied ds))"
proof (cases guarded)
  case (Inl e)
  then show ?thesis by (simp add: reconcile_hello_def)
next
  case (Inr h)
  obtain r ds where run: "reconcile_hello P R W pc (Inr h) cs = (r, cs @ ds)"
    using calls_all_run[OF typing.reconcile_calls] by blast
  with typing.run_objects[OF run] Inr show ?thesis by (auto simp: list_all_iff)
qed

text \<open>
  The storage the operator claims for a pod is not one of the volumes its product container
  mounts.
\<close>

lemma claimed_storage_not_mounted:
  assumes "build_role_group P h img addr sa (g, cfg) = Inr (s, c, t)"
  shows "(\<exists>pvc modes. Option.bind (sts_spec t) volume_claim_templates = Some [build_pvc pvc ''data'' modes]) \<and>
    ''data'' \<notin> fst ` set (volume_mounts (product_container t))"
proof -
  obtain m where t: "build_server_rolegroup_statefulset P h img Server (server_rolegroup_ref h g) cfg m sa = Inr t"
    using build_role_group_Inr[OF assms] by blast
  from assms have "''data'' \<notin> fst ` set (volume_mounts (product_container t))"
    by (rule built_role_group)
      (simp add: product_container_built hello_container_mounts STACKABLE_CONFIG_DIR_NAME_def
        STACKABLE_LOG_DIR_NAME_def STACKABLE_LOG_CONFIG_MOUNT_DIR_NAME_def)
  with statefulset_Inr[OF t] show ?thesis by auto
qed

end
