(* ===== verification/Error_Display.thy ===== *)
theory Error_Display
  imports Controller_Error
begin

text \<open>
  The messages of the error types, as their \<open>snafu(display(..))\<close> attributes give them. How a
  role group reference is displayed is the library's; the escaping of a string in Rust's debug
  format is a parameter too. The message of a wrapped error is not part of a message.
\<close>

record display_platform =
  dp_rolegroup :: "rolegroup_ref \<Rightarrow> string"
  dp_debug_str :: "string \<Rightarrow> string"

text \<open>The debug format of a vector of strings.\<close>

fun join_with :: "string \<Rightarrow> string list \<Rightarrow> string" where
  "join_with sep [] = ''''"
| "join_with sep [x] = x"
| "join_with sep (x # y # xs) = x @ sep @ join_with sep (y # xs)"

definition debug_strings :: "display_platform \<Rightarrow> string list \<Rightarrow> string" where
  "debug_strings D ss = ''['' @ join_with '', '' (map (dp_debug_str D) ss) @ '']''"

fun display_crd_error :: "display_platform \<Rightarrow> crd_error \<Rightarrow> string" where
  "display_crd_error D (FragmentValidationFailure _) = ''fragment validation failure''"
| "display_crd_error D (UnknownHelloRole _ r rs) =
     ''unknown role '' @ r @ ''. Should be one of '' @ debug_strings D rs"
| "display_crd_error D (CannotRetrieveHelloRole r) = ''the role '' @ r @ '' is not defined''"
| "display_crd_error D (CannotRetrieveHelloRoleGroup g) = ''the role group '' @ g @ '' is not defined''"

definition display_no_namespace_error :: "no_namespace_error \<Rightarrow> string" where
  "display_no_namespace_error _ = ''object has no namespace associated''"

fun display_logging_error :: "logging_error \<Rightarrow> string" where
  "display_logging_error ObjectHasNoNamespace_logging = ''object has no namespace''"
| "display_logging_error (ConfigMapNotFound _ cm) = ''failed to retrieve the ConfigMap ['' @ cm @ '']''"
| "display_logging_error (MissingConfigMapEntry entry cm) =
     ''failed to retrieve the entry ['' @ entry @ ''] for ConfigMap ['' @ cm @ '']''"
| "display_logging_error (CrdValidationFailure _) = ''crd validation failure''"
| "display_logging_error MissingVectorAggregatorAddress = ''vectorAggregatorConfigMapName must be set''"

fun display_pdb_error :: "pdb_error \<Rightarrow> string" where
  "display_pdb_error (CreatePdb _ r) = ''Cannot create PodDisruptionBudget for role ['' @ r @ '']''"
| "display_pdb_error (ApplyPdb _ name) = ''Cannot apply PodDisruptionBudget ['' @ name @ '']''"

fun display_graceful_shutdown_error :: "graceful_shutdown_error \<Rightarrow> string" where
  "display_graceful_shutdown_error (SetTerminationGracePeriod _) = ''Failed to set terminationGracePeriod''"

fun display_error :: "display_platform \<Rightarrow> controller_error \<Rightarrow> string" where
  "display_error D (InternalOperatorFailure _) = ''internal operator failure''"
| "display_error D ObjectHasNoNamespace = ''object defines no namespace''"
| "display_error D NoServerRole = ''object defines no hello role''"
| "display_error D GlobalServiceNameNotFound = ''failed to calculate global service name''"
| "display_error D (ApplyRoleService _) = ''failed to apply global Service''"
| "display_error D (ApplyRoleGroupService _ rg) = ''failed to apply Service for '' @ dp_rolegroup D rg"
| "display_error D (PropertiesWriteError _) = ''failed to format runtime properties''"
| "display_error D (BuildRoleGroupConfig _ rg) = ''failed to build ConfigMap for '' @ dp_rolegroup D rg"
| "display_error D (ApplyRoleGroupConfig _ rg) = ''failed to apply ConfigMap for '' @ dp_rolegroup D rg"
| "display_error D (ApplyRoleGroupStatefulSet _ rg) = ''failed to apply StatefulSet for '' @ dp_rolegroup D rg"
| "display_error D (GenerateProductConfig _) = ''failed to generate product config''"
| "display_error D (InvalidProductConfig _) = ''invalid product config''"
| "display_error D (ObjectMissingMetadataForOwnerRef _) =
     ''object is missing metadata to build owner reference''"
| "display_error D (ApplyStatus _) = ''failed to update status''"
| "display_error D (FailedToResolveResourceConfig _) =
     ''failed to resolve and merge resource config for role and role group''"
| "display_error D (FailedToCreateHelloContainer _ name) = ''failed to create hello container ['' @ name @ '']''"
| "display_error D (CreateClusterResources _) = ''failed to create cluster resources''"
| "display_error D (DeleteOrphanedResources _) = ''failed to delete orphaned resources''"
| "display_error D (ResolveVectorAggregatorAddress _) = ''failed to resolve the Vector aggregator address''"
| "display_error D (InvalidLoggingConfig _ cm) =
     ''failed to add the logging configuration to the ConfigMap ['' @ cm @ '']''"
| "display_error D (ApplyServiceAccount _) = ''failed to patch service account''"
| "display_error D (ApplyRoleBinding _) = ''failed to patch role binding''"
| "display_error D (BuildRbacResources _) = ''failed to build RBAC resources''"
| "display_error D (JvmSecurityProperties _ rg) =
     ''failed to serialize ['' @ JVM_SECURITY_PROPERTIES @ ''] for group '' @ rg"
| "display_error D (FailedToCreatePdb _) = ''failed to create PodDisruptionBudget''"
| "display_error D (GracefulShutdown _) = ''failed to configure graceful shutdown''"
| "display_error D (LabelBuild _) = ''failed to build Labels''"
| "display_error D (MetadataBuild _) = ''failed to build Metadata''"
| "display_error D (GetRequiredLabels _) = ''failed to get required Labels''"
| "display_error D (ConfigureLogging _) = ''failed to configure logging''"
| "display_error D (AddVolume _) = ''failed to add needed volume''"
| "display_error D (AddVolumeMount _) = ''failed to add needed volumeMount''"
| "display_error D (InvalidHelloCluster _) = ''HelloCluster object is invalid''"

lemma display_error_same_category: "display_error D e = display_error D e' \<Longrightarrow> category e = category e'"
  by (cases e; cases e') simp_all

text \<open>
  C39: A message tells which error occurred. Two errors of the reconciler with the same message
  are of the same category, so they are also treated alike; messages differ between categories
  whatever the names of role groups, containers and ConfigMaps in them are.
\<close>
theorem messages_tell_errors_apart:
  assumes "display_error D e = display_error D e'"
  shows "category e = category e' \<and> error_policy e = error_policy e'"
  using display_error_same_category[OF assms] error_policy_by_category by metis

theorem messages_tell_errors_apart_witness:
  "category (LabelBuild (ExtError ''a'')) = category (LabelBuild (ExtError ''b''))"
proof -
  have "display_error \<lparr> dp_rolegroup = rgr_role_group, dp_debug_str = id \<rparr> (LabelBuild (ExtError ''a'')) =
      display_error \<lparr> dp_rolegroup = rgr_role_group, dp_debug_str = id \<rparr> (LabelBuild (ExtError ''b''))" by simp
  from messages_tell_errors_apart[OF this] show ?thesis by blast
qed

end
