(* ===== verification/Helm_Chart.thy ===== *)
theory Helm_Chart
  imports Operator_Main Crd_Serde "HOL-Library.Sublist"
begin

text \<open>
  The Helm chart that deploys the operator, \<^verbatim>\<open>deploy/helm/hello-world-operator\<close>: the names its
  templates make (\<^verbatim>\<open>_helpers.tpl\<close>), the cluster roles (\<^verbatim>\<open>roles.yaml\<close>), the account and its binding
  (\<^verbatim>\<open>serviceaccount.yaml\<close>), and what the operator's container sees of its files
  (\<^verbatim>\<open>deployment.yaml\<close>, \<^verbatim>\<open>configmap.yaml\<close>, \<^verbatim>\<open>docker/Dockerfile\<close>). The templates' functions are those of
  the template language; what the API server permits on the strength of roles is a parameter.
\<close>

section \<open>Values and names\<close>

text \<open>The values of \<^verbatim>\<open>values.yaml\<close> that names and permissions depend on, and the installed release.\<close>

record chart_values =
  name_override :: string
  fullname_override :: string
  service_account_create :: bool

record helm_release =
  release_name :: string
  release_namespace :: string

definition CHART_NAME :: string where "CHART_NAME = ''hello-world-operator''"

definition default_values :: chart_values where
  "default_values = \<lparr> name_override = '''', fullname_override = '''', service_account_create = True \<rparr>"

definition tpl_default :: "string \<Rightarrow> string \<Rightarrow> string" where
  "tpl_default d x = (if x = '''' then d else x)"

definition trim_suffix :: "string \<Rightarrow> string \<Rightarrow> string" where
  "trim_suffix s x = (if suffix s x then take (length x - length s) x else x)"

definition chart_operator_name :: "chart_values \<Rightarrow> string" where
  "chart_operator_name v = trim_suffix ''-operator'' (take 63 (tpl_default CHART_NAME (name_override v)))"

definition chart_appname :: "chart_values \<Rightarrow> string" where
  "chart_appname v = trim_suffix ''-'' (take 63 (tpl_default CHART_NAME (name_override v)))"

definition chart_fullname :: "chart_values \<Rightarrow> helm_release \<Rightarrow> string" where
  "chart_fullname v rel =
     (if fullname_override v \<noteq> '''' then trim_suffix ''-'' (take 63 (fullname_override v))
      else let name = tpl_default CHART_NAME (name_override v) in
        if sublist name (release_name rel) then trim_suffix ''-'' (take 63 (release_name rel))
        else trim_suffix ''-'' (take 63 (release_name rel @ ''-'' @ name)))"

section \<open>Roles and bindings\<close>

record policy_rule =
  api_groups :: "string list"
  rule_resources :: "string list"
  verbs :: "string list"
  resource_names :: "string list"

record cluster_role =
  cluster_role_name :: string
  rules :: "policy_rule list"

definition rule :: "string list \<Rightarrow> string list \<Rightarrow> string list \<Rightarrow> policy_rule" where
  "rule groups res vs = \<lparr> api_groups = groups, rule_resources = res, verbs = vs, resource_names = [] \<rparr>"

definition managing_verbs :: "string list" where
  "managing_verbs = [''create'', ''delete'', ''get'', ''list'', ''patch'', ''update'', ''watch'']"

definition operator_rules :: "string \<Rightarrow> policy_rule list" where
  "operator_rules name =
     [rule [''''] [''nodes''] [''list'', ''watch''],
      rule [''''] [''pods'', ''configmaps'', ''secrets'', ''services'', ''endpoints'', ''serviceaccounts''] managing_verbs,
      rule [''rbac.authorization.k8s.io''] [''rolebindings''] managing_verbs,
      rule [''apps''] [''statefulsets''] [''get'', ''create'', ''delete'', ''list'', ''patch'', ''update'', ''watch''],
      rule [''batch''] [''jobs''] managing_verbs,
      rule [''policy''] [''poddisruptionbudgets''] managing_verbs,
      rule [''apiextensions.k8s.io''] [''customresourcedefinitions''] [''get''],
      rule [''events.k8s.io''] [''events''] [''create''],
      rule [name @ ''.stackable.tech''] [name @ ''-clusters''] [''get'', ''list'', ''patch'', ''watch''],
      rule [name @ ''.stackable.tech''] [name @ ''-clusters/status''] [''patch''],
      rule [''s3.stackable.tech''] [''s3connections''] [''get'', ''list'', ''watch''],
      (rule [''rbac.authorization.k8s.io''] [''clusterroles''] [''bind''])
        \<lparr> resource_names := [name @ ''-clusterrole''] \<rparr>]"

definition operator_cluster_role :: "chart_values \<Rightarrow> helm_release \<Rightarrow> cluster_role" where
  "operator_cluster_role v rel =
     \<lparr> cluster_role_name = chart_fullname v rel @ ''-clusterrole'',
       rules = operator_rules (chart_operator_name v) \<rparr>"

text \<open>The role of the product's pods; on OpenShift it has one rule more.\<close>

definition product_cluster_role :: "bool \<Rightarrow> chart_values \<Rightarrow> cluster_role" where
  "product_cluster_role openshift v =
     \<lparr> cluster_role_name = chart_operator_name v @ ''-clusterrole'',
       rules =
         [rule [''''] [''configmaps'', ''secrets'', ''serviceaccounts''] [''get''],
          rule [''events.k8s.io''] [''events''] [''create'']]
         @ (if openshift
            then [(rule [''security.openshift.io''] [''securitycontextconstraints''] [''use''])
                    \<lparr> resource_names := [''hello-scc''] \<rparr>]
            else []) \<rparr>"

definition deployed_roles :: "bool \<Rightarrow> chart_values \<Rightarrow> helm_release \<Rightarrow> cluster_role list" where
  "deployed_roles openshift v rel = [operator_cluster_role v rel, product_cluster_role openshift v]"

record account =
  account_name :: string
  account_namespace :: string

record cluster_role_binding =
  binding_subject :: account
  binding_role :: string

definition chart_service_account :: "chart_values \<Rightarrow> helm_release \<Rightarrow> account" where
  "chart_service_account v rel =
     \<lparr> account_name = chart_fullname v rel @ ''-serviceaccount'', account_namespace = release_namespace rel \<rparr>"

definition deployed_bindings :: "chart_values \<Rightarrow> helm_release \<Rightarrow> cluster_role_binding list" where
  "deployed_bindings v rel =
     (if service_account_create v
      then [\<lparr> binding_subject = chart_service_account v rel, binding_role = chart_fullname v rel @ ''-clusterrole'' \<rparr>]
      else [])"

text \<open>The account the operator's pod runs under, in the namespace of the release.\<close>

definition deployment_account :: "chart_values \<Rightarrow> helm_release \<Rightarrow> account" where
  "deployment_account v rel =
     \<lparr> account_name = chart_fullname v rel @ ''-serviceaccount'', account_namespace = release_namespace rel \<rparr>"

section \<open>The files of the operator's container\<close>

datatype file_origin = From_image | From_config_map

text \<open>What the image has under \<^verbatim>\<open>/etc/stackable\<close>, and what the ConfigMap made of \<^verbatim>\<open>configs/\<close> holds.\<close>

definition image_files :: "string list" where
  "image_files = [''/etc/stackable/hello-world-operator/config-spec/properties.yaml'']"

definition config_map_keys :: "string list" where "config_map_keys = [''properties.yaml'']"

definition config_spec_mount :: "chart_values \<Rightarrow> string" where
  "config_spec_mount v = ''/etc/stackable/'' @ chart_appname v @ ''/config-spec''"

text \<open>A mounted volume hides what the image has at and below its path.\<close>

definition container_file :: "chart_values \<Rightarrow> string \<Rightarrow> file_origin option" where
  "container_file v path =
     (if prefix (config_spec_mount v @ ''/'') path
      then if path \<in> (\<lambda>k. config_spec_mount v @ ''/'' @ k) ` set config_map_keys then Some From_config_map else None
      else if path \<in> set image_files then Some From_image else None)"

end
