(* ===== verification/Deployment_Properties.thy ===== *)
theory Deployment_Properties
  imports Helm_Chart Plan_Facts
begin

text \<open>
  The deployed operator: what the roles of the Helm chart have to permit for the runs of
  \<open>reconcile_hello\<close> and the controller's watches, for which values of the chart they do, and where
  the operator finds its product configuration.
\<close>

section \<open>What the API server permits and what the client needs\<close>

text \<open>\<open>request_name\<close> is the object's name where a rule may be limited to names.\<close>

record api_request =
  request_group :: string
  request_resource :: string
  request_verb :: string
  request_name :: string

type_synonym authorizer = "policy_rule list \<Rightarrow> api_request \<Rightarrow> bool"

fun rule_grants :: "policy_rule \<Rightarrow> api_request \<Rightarrow> bool" where
  "rule_grants r rq =
     (request_group rq \<in> set (api_groups r) \<and> request_resource rq \<in> set (rule_resources r) \<and>
      request_verb rq \<in> set (verbs r) \<and>
      (resource_names r = [] \<or> request_name rq \<in> set (resource_names r)))"

text \<open>Role based access control as Kubernetes documents it: what some rule grants, and nothing else.\<close>

definition authorizer_contract :: "authorizer \<Rightarrow> bool" where
  "authorizer_contract A \<longleftrightarrow> (\<forall>rs rq. A rs rq \<longleftrightarrow> (\<exists>r \<in> set rs. rule_grants r rq))"

definition account_may ::
  "authorizer \<Rightarrow> cluster_role list \<Rightarrow> cluster_role_binding list \<Rightarrow> account \<Rightarrow> api_request \<Rightarrow> bool" where
  "account_may A deployed bindings acc rq \<longleftrightarrow>
     (\<exists>b \<in> set bindings. binding_subject b = acc \<and>
       (\<exists>r \<in> set deployed. cluster_role_name r = binding_role b \<and> A (rules r) rq))"

abbreviation operator_may :: "authorizer \<Rightarrow> bool \<Rightarrow> chart_values \<Rightarrow> helm_release \<Rightarrow> api_request \<Rightarrow> bool" where
  "operator_may A openshift v rel \<equiv>
     account_may A (deployed_roles openshift v rel) (deployed_bindings v rel) (deployment_account v rel)"

text \<open>The resource an object is of, by its type.\<close>

fun object_resource :: "kube_object \<Rightarrow> string \<times> string" where
  "object_resource (K_ServiceAccount _) = ('''', ''serviceaccounts'')"
| "object_resource (K_RoleBinding _) = (''rbac.authorization.k8s.io'', ''rolebindings'')"
| "object_resource (K_Service _) = ('''', ''services'')"
| "object_resource (K_ConfigMap _) = ('''', ''configmaps'')"
| "object_resource (K_StatefulSet _) = (''apps'', ''statefulsets'')"
| "object_resource (K_PodDisruptionBudget _) = (''policy'', ''poddisruptionbudgets'')"

definition applied_resources :: "(string \<times> string) list" where
  "applied_resources =
     [('''', ''serviceaccounts''), (''rbac.authorization.k8s.io'', ''rolebindings''), ('''', ''services''),
      ('''', ''configmaps''), (''apps'', ''statefulsets''), (''policy'', ''poddisruptionbudgets'')]"


fun watched_resource :: "watched_kind \<Rightarrow> string \<times> string" where
  "watched_resource W_HelloCluster = (crd_group hello_cluster_crd, crd_plural hello_cluster_crd)"
| "watched_resource W_Service = ('''', ''services'')"
| "watched_resource W_StatefulSet = (''apps'', ''statefulsets'')"
| "watched_resource W_ConfigMap = ('''', ''configmaps'')"

definition requests :: "string list \<Rightarrow> string \<times> string \<Rightarrow> api_request set" where
  "requests vs res = (\<lambda>verb. \<lparr> request_group = fst res, request_resource = snd res, request_verb = verb,
     request_name = '''' \<rparr>) ` set vs"

text \<open>
  The requests the library makes for a call, or a watch, without which it fails, and the cluster
  role a built RoleBinding binds. Applying reads, creates or patches the object; binding a role has
  to be permitted for that role; orphans are listed and deleted, among the kinds that are applied.
\<close>

record client_needs =
  needs_call :: "call \<Rightarrow> api_request set"
  needs_watch :: "watched_kind \<Rightarrow> api_request set"
  bound_role :: "json \<Rightarrow> string"

definition bind_request :: "string \<Rightarrow> api_request" where
  "bind_request crole = \<lparr> request_group = ''rbac.authorization.k8s.io'', request_resource = ''clusterroles'',
     request_verb = ''bind'', request_name = crole \<rparr>"

fun call_requests :: "(json \<Rightarrow> string) \<Rightarrow> call \<Rightarrow> api_request set" where
  "call_requests bound (cr_add cr obj) =
     requests [''get'', ''create'', ''patch''] (object_resource obj)
     \<union> (case obj of K_RoleBinding rb \<Rightarrow> {bind_request (bound rb)} | _ \<Rightarrow> {})"
| "call_requests bound (client_get_config_map name ns) = requests [''get''] ('''', ''configmaps'')"
| "call_requests bound (apply_patch_status manager hello st) =
     requests [''patch''] (crd_group hello_cluster_crd, crd_plural hello_cluster_crd @ ''/status'')"
| "call_requests bound (delete_orphaned_resources cr) =
     (\<Union>res \<in> set applied_resources. requests [''list'', ''delete''] res)"

definition watch_contract :: "client_needs \<Rightarrow> bool" where
  "watch_contract N \<longleftrightarrow> (\<forall>k. needs_watch N k = requests [''list'', ''watch''] (watched_resource k))"

definition needs_contract :: "client_needs \<Rightarrow> reconcile_platform \<Rightarrow> bool" where
  "needs_contract N R \<longleftrightarrow>
     (\<forall>c. needs_call N c \<subseteq> call_requests (bound_role N) c) \<and>
     watch_contract N \<and>
     (\<forall>h app labels rbac. build_rbac_resources R h app labels = Inr rbac \<longrightarrow>
        bound_role N (snd rbac) = app @ ''-clusterrole'')"

section \<open>For which values the names are the operator's\<close>

lemma trim_suffix_iff: "trim_suffix s x = y \<longleftrightarrow> x = y @ s \<or> \<not> suffix s x \<and> x = y"
  by (auto simp: trim_suffix_def suffix_def)

lemma take_shorter_iff: "length y < n \<Longrightarrow> take n x = y \<longleftrightarrow> x = y"
  by (auto simp: min_def split: if_splits)

text \<open>The operator's name in the chart is the one in the code for three values of \<open>nameOverride\<close>.\<close>

definition operator_named_values :: "string list" where
  "operator_named_values = ['''', ''hello-world'', ''hello-world-operator'']"

lemma chart_operator_name_iff:
  "chart_operator_name v = APP_NAME \<longleftrightarrow> name_override v \<in> set operator_named_values"
proof -
  have "chart_operator_name v = APP_NAME \<longleftrightarrow>
      tpl_default CHART_NAME (name_override v) \<in> {''hello-world'', ''hello-world-operator''}"
    unfolding chart_operator_name_def trim_suffix_iff
    by (auto simp: take_shorter_iff APP_NAME_def suffix_def)
  then show ?thesis by (simp add: tpl_default_def CHART_NAME_def operator_named_values_def)
qed


section \<open>What the chart's roles grant\<close>

lemma operator_may_iff:
  assumes "authorizer_contract A" and "chart_fullname v rel \<noteq> chart_operator_name v"
  shows "operator_may A openshift v rel rq \<longleftrightarrow>
    service_account_create v \<and> (\<exists>r \<in> set (operator_rules (chart_operator_name v)). rule_grants r rq)"
  using assms
  by (auto simp: authorizer_contract_def account_may_def deployed_bindings_def deployed_roles_def
      deployment_account_def chart_service_account_def operator_cluster_role_def product_cluster_role_def
      simp del: rule_grants.simps)

definition operator_grants :: "string \<Rightarrow> api_request \<Rightarrow> bool" where
  "operator_grants name rq \<longleftrightarrow> (\<exists>r \<in> set (operator_rules name). rule_grants r rq)"

lemma granted_if:
  "list_ex (\<lambda>r. rule_grants r rq) (operator_rules name) \<Longrightarrow> operator_grants name rq"
  by (simp add: operator_grants_def list_ex_iff)

lemma applied_resources_granted:
  assumes "res \<in> set applied_resources" and "rq \<in> requests [''get'', ''create'', ''patch'', ''list'', ''delete'', ''watch''] res"
  shows "operator_grants name rq"
proof -
  have "list_all (\<lambda>res. list_all (\<lambda>verb. list_ex (\<lambda>r. rule_grants r
      \<lparr> request_group = fst res, request_resource = snd res, request_verb = verb, request_name = '''' \<rparr>)
      (operator_rules name)) [''get'', ''create'', ''patch'', ''list'', ''delete'', ''watch'']) applied_resources"
    by (simp add: operator_rules_def rule_def managing_verbs_def applied_resources_def)
  with assms show ?thesis
    unfolding list_all_iff by (auto simp: requests_def simp del: rule_grants.simps intro!: granted_if)
qed

lemma requests_mono: "set vs \<subseteq> set ws \<Longrightarrow> requests vs res \<subseteq> requests ws res"
  by (auto simp: requests_def)


text \<open>The rules for the operator's own resource are in the API group that bears the chart's name.\<close>

lemma crd_group_eq [simp]:
  "''hello-world.stackable.tech'' = name @ ''.stackable.tech'' \<longleftrightarrow> name = ''hello-world''"
proof -
  have "''hello-world.stackable.tech'' = ''hello-world'' @ ''.stackable.tech''" by simp
  then show ?thesis by (metis append_same_eq)
qed

lemma crd_request_granted:
  "operator_grants name \<lparr> request_group = ''hello-world.stackable.tech'', request_resource = res,
     request_verb = vb, request_name = nm \<rparr> \<longleftrightarrow> name = ''hello-world'' \<and>
   (res = ''hello-world-clusters'' \<and> vb \<in> {''get'', ''list'', ''patch'', ''watch''} \<or>
    res = ''hello-world-clusters/status'' \<and> vb = ''patch'')"
  by (simp add: operator_grants_def operator_rules_def rule_def managing_verbs_def conj_disj_distribL
      cong: conj_cong)


lemma watch_granted_iff:
  "(\<forall>rq \<in> requests [''list'', ''watch''] (watched_resource k). operator_grants name rq) \<longleftrightarrow>
     (k = W_HelloCluster \<longrightarrow> name = APP_NAME)"
proof (cases "k = W_HelloCluster")
  case True
  then show ?thesis by (simp add: requests_def hello_cluster_crd_def APP_NAME_def crd_request_granted)
next
  case False
  then have "watched_resource k \<in> set applied_resources" by (cases k) (simp_all add: applied_resources_def)
  moreover have "requests [''list'', ''watch''] (watched_resource k) \<subseteq>
      requests [''get'', ''create'', ''patch'', ''list'', ''delete'', ''watch''] (watched_resource k)"
    by (rule requests_mono) simp
  ultimately show ?thesis using False applied_resources_granted by blast
qed

section \<open>Every request of a run\<close>





section \<open>A concrete cluster\<close>

definition ex_authorizer :: authorizer where
  "ex_authorizer rs rq = list_ex (\<lambda>r. rule_grants r rq) rs"

definition ex_needs :: client_needs where
  "ex_needs =
     (let bound = (\<lambda>j. case j of JStr s \<Rightarrow> s | _ \<Rightarrow> '''') in
      \<lparr> needs_call = call_requests bound,
        needs_watch = (\<lambda>k. requests [''list'', ''watch''] (watched_resource k)), bound_role = bound \<rparr>)"

definition ex_release :: helm_release where
  "ex_release = \<lparr> release_name = ''stackable'', release_namespace = ''stackable-operators'' \<rparr>"

lemma ex_authorizer_contract: "authorizer_contract ex_authorizer"
  by (simp add: authorizer_contract_def ex_authorizer_def list_ex_iff)

lemma ex_needs_contract: "needs_contract ex_needs ex_reconcile"
  by (simp add: needs_contract_def watch_contract_def ex_needs_def ex_reconcile_def Let_def)



text \<open>
  C26: And for no other values. If the chart's full name is not the operator's name, the operator may
  list and watch what it watches exactly if the chart creates its service account and
  \<open>nameOverride\<close> is absent, \<open>hello-world\<close> or \<open>hello-world-operator\<close>. Any other \<open>nameOverride\<close> takes
  it the right to read the HelloClusters and to update their status, because the roles are then
  written for an API group and a resource that do not exist; and the cluster role that its role
  bindings name is not installed under that name.
\<close>
theorem permitted_exactly_for_operator_name:
  assumes "authorizer_contract A" and "watch_contract N"
    and "chart_fullname v rel \<noteq> chart_operator_name v"
  shows "((\<forall>k \<in> set (watched_kinds (controller_setup ns pc)). \<forall>rq \<in> needs_watch N k.
       operator_may A openshift v rel rq) \<longleftrightarrow>
     service_account_create v \<and> name_override v \<in> {'''', ''hello-world'', ''hello-world-operator''}) \<and>
   (name_override v \<notin> {'''', ''hello-world'', ''hello-world-operator''} \<longrightarrow>
     (\<forall>rq \<in> needs_watch N W_HelloCluster. \<not> operator_may A openshift v rel rq) \<and>
     (\<forall>rq \<in> call_requests bound (apply_patch_status manager h st). \<not> operator_may A openshift v rel rq) \<and>
     (cluster_role_name (product_cluster_role openshift v) \<noteq> APP_NAME @ ''-clusterrole''))"
proof -
  let ?name = "chart_operator_name v"
  have names: "{'''', ''hello-world'', ''hello-world-operator''} = set operator_named_values"
    by (simp add: operator_named_values_def)
  note may = operator_may_iff[OF assms(1,3), folded operator_grants_def]
  have watch: "needs_watch N k = requests [''list'', ''watch''] (watched_resource k)" for k
    using assms(2) unfolding watch_contract_def by blast
  have "(\<forall>rq \<in> needs_watch N k. operator_may A openshift v rel rq) \<longleftrightarrow>
      service_account_create v \<and> (k = W_HelloCluster \<longrightarrow> ?name = APP_NAME)" for k
    using watch_granted_iff[of k ?name] by (auto simp: may watch requests_def)
  then have watched: "(\<forall>k \<in> set (watched_kinds (controller_setup ns pc)). \<forall>rq \<in> needs_watch N k.
      operator_may A openshift v rel rq) \<longleftrightarrow> service_account_create v \<and> ?name = APP_NAME"
    by simp blast
  have refused: "\<not> operator_may A openshift v rel rq"
    if "?name \<noteq> APP_NAME" "rq \<in> requests vs (crd_group hello_cluster_crd, res)" for rq vs res
    using that by (auto simp: may requests_def hello_cluster_crd_def crd_request_granted APP_NAME_def)
  have role: "cluster_role_name (product_cluster_role openshift v) = APP_NAME @ ''-clusterrole'' \<longleftrightarrow> ?name = APP_NAME"
    unfolding product_cluster_role_def cluster_role.simps append_same_eq ..
  show ?thesis
    unfolding names chart_operator_name_iff[symmetric]
    using watched refused role by (simp add: watch)
qed

theorem permitted_exactly_for_operator_name_witness:
  "\<not> (\<forall>k \<in> set (watched_kinds (controller_setup None JNull)). \<forall>rq \<in> needs_watch ex_needs k.
     operator_may ex_authorizer False (default_values\<lparr>name_override := ''hello''\<rparr>) ex_release rq)"
proof -
  have watch: "watch_contract ex_needs" using ex_needs_contract by (simp add: needs_contract_def)
  have "chart_fullname (default_values\<lparr>name_override := ''hello''\<rparr>) ex_release \<noteq>
      chart_operator_name (default_values\<lparr>name_override := ''hello''\<rparr>)"
    by code_simp
  note permitted_exactly_for_operator_name[OF ex_authorizer_contract watch this]
  from conjunct1[OF this] show ?thesis by (simp only:) simp
qed

section \<open>Reporting results\<close>

text \<open>
  C27: The operator may create events and do nothing else with them, for all values of the chart: of
  the requests on events it is permitted exactly those to create one, and these exactly if the
  chart creates its service account. The binary shares one event recorder among all its reports,
  so that repeated results are aggregated, which the client library does by patching the event that
  is already there: this is refused in every installation.
\<close>
theorem reporting_rights_exact:
  assumes "authorizer_contract A"
    and "request_group rq = ''events.k8s.io''" and "request_resource rq = ''events''"
  shows "operator_may A openshift v rel rq \<longleftrightarrow> service_account_create v \<and> request_verb rq = ''create''"
proof -
  have no_chart_group: "''events.k8s.io'' \<noteq> name @ ''.stackable.tech''" for name
  proof
    assume "''events.k8s.io'' = name @ ''.stackable.tech''"
    then have "drop (length name) ''events.k8s.io'' = ''.stackable.tech''" by simp
    then have "length ''events.k8s.io'' - length name = length ''.stackable.tech''" by (metis length_drop)
    then show False by simp
  qed
  have "A (rules r) rq \<longleftrightarrow> request_verb rq = ''create''" if "r \<in> set (deployed_roles openshift v rel)" for r
    using that assms no_chart_group
    by (auto simp: authorizer_contract_def deployed_roles_def operator_cluster_role_def product_cluster_role_def
        operator_rules_def rule_def)
  moreover have "operator_cluster_role v rel \<in> set (deployed_roles openshift v rel)"
    by (simp add: deployed_roles_def)
  ultimately show ?thesis
    unfolding account_may_def deployed_bindings_def deployment_account_def chart_service_account_def
    by (auto simp: operator_cluster_role_def intro: bexI[of _ "operator_cluster_role v rel"])
qed

theorem reporting_rights_exact_witness:
  "\<exists>rq. request_verb rq = ''patch'' \<and> \<not> operator_may ex_authorizer False default_values ex_release rq"
proof -
  let ?rq = "\<lparr> request_group = ''events.k8s.io'', request_resource = ''events'', request_verb = ''patch'',
    request_name = ''hello-world.1'' \<rparr>"
  have "\<not> operator_may ex_authorizer False default_values ex_release ?rq"
    by (subst reporting_rights_exact[OF ex_authorizer_contract]) simp_all
  then show ?thesis by (intro exI[of _ ?rq]) simp
qed

section \<open>The product configuration\<close>

lemma config_spec_mounted_iff:
  "prefix (config_spec_mount v @ ''/'') ''/etc/stackable/hello-world-operator/config-spec/properties.yaml'' \<longleftrightarrow>
    chart_appname v = CHART_NAME"
proof -
  have "prefix (a @ ''/config-spec/'') ''hello-world-operator/config-spec/properties.yaml'' \<longleftrightarrow>
      a = ''hello-world-operator''" for a
    by (auto simp: prefix_def Cons_eq_append_conv)
  then show ?thesis by (simp add: config_spec_mount_def CHART_NAME_def)
qed

text \<open>
  C37: The operator finds its product configuration wherever the chart is installed: one of the
  default paths the run command loads from exists in the operator's container for all values of the
  chart. It is the file of the chart's ConfigMap exactly if \<open>nameOverride\<close> leaves the mount where
  the operator looks; otherwise the image's own copy is read and the ConfigMap is without effect.
\<close>
theorem product_config_found:
  "\<exists>path \<in> set product_config_paths. container_file v path \<noteq> None \<and>
    (container_file v path = Some From_config_map \<longleftrightarrow>
      name_override v \<in> {'''', ''hello-world-operator'', ''hello-world-operator-''})"
proof -
  let ?path = "''/etc/stackable/hello-world-operator/config-spec/properties.yaml''"
  have "chart_appname v = CHART_NAME \<longleftrightarrow> name_override v \<in> {'''', ''hello-world-operator'', ''hello-world-operator-''}"
    unfolding chart_appname_def trim_suffix_iff
    by (auto simp: take_shorter_iff CHART_NAME_def tpl_default_def suffix_def)
  moreover have "container_file v ?path = (if chart_appname v = CHART_NAME then Some From_config_map else Some From_image)"
    unfolding container_file_def config_spec_mounted_iff
    by (simp add: config_spec_mount_def config_map_keys_def image_files_def CHART_NAME_def)
  ultimately show ?thesis by (intro bexI[of _ ?path]) (simp_all add: product_config_paths_def)
qed

end
