(* ===== verification/Example_Manifests.thy ===== *)
theory Example_Manifests
  imports Crd_Schema Serde_Properties
begin

text \<open>
  The HelloCluster manifests of the repository: the two examples (\<^verbatim>\<open>hello.yaml\<close>,
  \<^verbatim>\<open>hello-logging.yaml\<close>) and those of the integration tests (\<^verbatim>\<open>tests/templates/kuttl\<close>). All four have
  a specification that the generated schema admits and the operator decodes; the examples are for
  an API group in which there is no HelloCluster.
\<close>

section \<open>The manifests, as the values their texts stand for\<close>

record manifest =
  mf_api_version :: string
  mf_kind :: string
  mf_name :: string
  mf_spec :: json_entries

definition manifest_of ::
  "string \<Rightarrow> json_entries \<Rightarrow> json_entries \<Rightarrow> json_entries \<Rightarrow> manifest" where
  "manifest_of version image_extra config_extra server_role =
     \<lparr> mf_api_version = version, mf_kind = ''HelloCluster'', mf_name = ''hello-world'',
       mf_spec =
         [(''image'', JObj ([(''custom'', JStr ''oci.stackable.tech/sdp/hello-world:0.0.1-SNAPSHOT-stackable0.0.0-dev''),
            (''productVersion'', JStr ''0.0.1'')] @ image_extra)),
          (''recipient'', JStr ''Stackable''),
          (''color'', JStr ''blue''),
          (''clusterConfig'', JObj ((''listenerClass'', JStr ''external-unstable'') # config_extra)),
          (''servers'', JObj server_role)] \<rparr>"

definition one_replica :: "string \<times> json" where
  "one_replica = (''roleGroups'', JObj [(''default'', JObj [(''replicas'', JNum 1)])])"

definition storage_config :: json where
  "storage_config = JObj [(''resources'', JObj [(''storage'', JObj [(''data'', JObj [(''capacity'', JStr ''1Gi'')])])])]"

definition logging_config :: json where
  "logging_config = JObj
     [(''logging'', JObj
        [(''enableVectorAgent'', JBool True),
         (''containers'', JObj [(''hello'', JObj
            [(''console'', JObj [(''level'', JStr ''INFO'')]),
             (''file'', JObj [(''level'', JStr ''INFO'')]),
             (''loggers'', JObj [(''ROOT'', JObj [(''level'', JStr ''INFO'')])])])])])]"

definition hello_manifest :: manifest where
  "hello_manifest = manifest_of ''hello.stackable.tech/v1alpha1'' [] [] [one_replica]"

definition hello_logging_manifest :: manifest where
  "hello_logging_manifest = manifest_of ''hello.stackable.tech/v1alpha1'' []
     [(''vectorAggregatorConfigMapName'', JStr ''vector-aggregator-discovery'')]
     [(''config'', logging_config), one_replica]"

definition check_name_manifest :: manifest where
  "check_name_manifest = manifest_of ''hello-world.stackable.tech/v1alpha1'' [(''pullPolicy'', JStr ''IfNotPresent'')] []
     [(''config'', storage_config), one_replica]"

definition smoke_pod_overrides :: json where
  "smoke_pod_overrides = JObj [(''spec'', JObj [(''containers'', JArr [JObj
     [(''name'', JStr ''hello-world''),
      (''resources'', JObj [(''requests'', JObj [(''cpu'', JStr ''110m'')]),
                            (''limits'', JObj [(''cpu'', JStr ''410m'')])])]])])]"

definition smoke_manifest :: manifest where
  "smoke_manifest = manifest_of ''hello-world.stackable.tech/v1alpha1'' [(''pullPolicy'', JStr ''IfNotPresent'')] []
     [(''envOverrides'', JObj [(''ROLE_VAR'', JStr ''role-value''), (''COMMON_VAR'', JStr ''role-value'')]),
      (''configOverrides'', JObj [(''application.properties'', JObj
         [(''prop.common'', JStr ''role-value''), (''prop.role'', JStr ''role-value'')])]),
      (''config'', storage_config),
      (''roleGroups'', JObj [(''default'', JObj
         [(''replicas'', JNum 1),
          (''podOverrides'', smoke_pod_overrides),
          (''envOverrides'', JObj [(''GROUP_VAR'', JStr ''group-value''), (''COMMON_VAR'', JStr ''group-value'')]),
          (''configOverrides'', JObj [(''application.properties'', JObj
             [(''prop.common'', JStr ''group-value''), (''prop.group'', JStr ''group-value'')])])])])]"

definition manifests :: "manifest list" where
  "manifests = [hello_manifest, hello_logging_manifest, check_name_manifest, smoke_manifest]"

text \<open>The API server knows the resource under the version and kind it was registered with.\<close>

definition served_by :: "crd_names \<Rightarrow> manifest \<Rightarrow> bool" where
  "served_by c m \<longleftrightarrow> mf_api_version m = api_version c \<and> mf_kind m = crd_kind c"

section \<open>What becomes of them\<close>

lemmas manifest_defs = hello_manifest_def hello_logging_manifest_def check_name_manifest_def smoke_manifest_def

theorem manifests_served: "filter (served_by hello_cluster_crd) manifests = [check_name_manifest, smoke_manifest]"
  by (simp add: manifests_def served_by_def crd_names_generated manifest_defs manifest_of_def)
    (simp add: hello_cluster_crd_def)

lemma manifest_entries:
  "map fst (mf_spec (manifest_of v i c r)) = [''image'', ''recipient'', ''color'', ''clusterConfig'', ''servers'']"
  "map_of (mf_spec (manifest_of v i c r)) ''recipient'' = Some (JStr ''Stackable'')"
  "map_of (mf_spec (manifest_of v i c r)) ''color'' = Some (JStr ''blue'')"
  "map_of (mf_spec (manifest_of v i c r)) ''clusterOperation'' = None"
  "map_of (mf_spec (manifest_of v i c r)) ''servers'' = Some (JObj r)"
  "map_of (mf_spec (manifest_of v i c r)) ''clusterConfig'' =
     Some (JObj ((''listenerClass'', JStr ''external-unstable'') # c))"
  by (simp_all add: manifest_of_def)

text \<open>The manifests differ, for the operator's own types, in the aggregator alone.\<close>

lemma manifest_config:
  assumes "m \<in> set manifests"
  obtains v i c r where "m = manifest_of v i c r"
    and "c = (if m = hello_logging_manifest
      then [(''vectorAggregatorConfigMapName'', JStr ''vector-aggregator-discovery'')] else [])"
proof -
  have others: "hello_manifest \<noteq> hello_logging_manifest" "check_name_manifest \<noteq> hello_logging_manifest"
    "smoke_manifest \<noteq> hello_logging_manifest"
    by (simp_all add: manifest_defs manifest_of_def one_replica_def)
  from assms consider "m = hello_manifest" | "m = hello_logging_manifest" | "m = check_name_manifest" | "m = smoke_manifest"
    unfolding manifests_def by auto
  then show thesis
  proof cases
    case 1
    then show ?thesis by (rule that[OF trans[OF _ hello_manifest_def]]) (simp add: 1 others)
  next
    case 2
    then show ?thesis by (rule that[OF trans[OF _ hello_logging_manifest_def]]) (simp add: 2)
  next
    case 3
    then show ?thesis by (rule that[OF trans[OF _ check_name_manifest_def]]) (simp add: 3 others)
  next
    case 4
    then show ?thesis by (rule that[OF trans[OF _ smoke_manifest_def]]) (simp add: 4 others)
  qed
qed

text \<open>Admission of each rests on the library's types in it alone, the image and the role.\<close>

theorem manifests_admitted:
  assumes "m \<in> set manifests"
  shows "\<exists>im rl. map_of (mf_spec m) ''image'' = Some im \<and> map_of (mf_spec m) ''servers'' = Some rl \<and>
    (conforms V spec_schema (JObj (mf_spec m)) \<longleftrightarrow>
      v_library V ''ProductImage'' im \<and> v_library_of V ''Role'' (conforms V fragment_schema) rl)"
proof -
  obtain v i c r where m: "m = manifest_of v i c r"
    and c: "c \<in> {[], [(''vectorAggregatorConfigMapName'', JStr ''vector-aggregator-discovery'')]}"
    using assms by (rule manifest_config) (metis insertI1 insertI2)
  have "conforms V cluster_config_schema (JObj ((''listenerClass'', JStr ''external-unstable'') # c))"
    using c by (auto simp: cluster_config_schema_def)
  then show ?thesis by (simp add: m manifest_of_def spec_schema_def)
qed

theorem manifests_decoded:
  assumes "m \<in> set manifests" and "map_of (mf_spec m) ''image'' = Some im" and "map_of (mf_spec m) ''servers'' = Some rj"
    and "sp_image_de L im = Inr img" and "sp_role_de L (fragment_deserialize L) rj = Inr rl"
  shows "spec_deserialize L (mf_spec m) = Inr
    \<lparr> cluster_config =
        \<lparr> vector_aggregator_config_map_name =
            (if m = hello_logging_manifest then Some ''vector-aggregator-discovery'' else None),
          listener_class = ExternalUnstable \<rparr>,
      cluster_operation_of = sp_cluster_operation_default L, image = img, servers = Some rl,
      recipient = ''Stackable'', color = ''blue'' \<rparr>"
proof -
  obtain v i c r where m: "m = manifest_of v i c r"
    and c: "c = (if m = hello_logging_manifest
      then [(''vectorAggregatorConfigMapName'', JStr ''vector-aggregator-discovery'')] else [])"
    using assms(1) by (rule manifest_config)
  have config: "cluster_config_deserialize L (JObj ((''listenerClass'', JStr ''external-unstable'') # c)) = Inr
        \<lparr> vector_aggregator_config_map_name =
            (if m = hello_logging_manifest then Some ''vector-aggregator-discovery'' else None),
          listener_class = ExternalUnstable \<rparr>"
    unfolding c by (cases "m = hello_logging_manifest")
      (simp_all add: cluster_config_de_iff defaulted_def de_option_def de_string_def listener_class_de_def
        listener_class_deserialize_def result_simps)
  have keys: "distinct (map fst (mf_spec m))" unfolding m manifest_entries by simp
  note entries = manifest_entries[of v i c r, folded m]
  show ?thesis
    unfolding spec_de_iff[OF keys] required_Inr_iff defaulted_case de_option_Inr_iff de_string_iff entries
    using assms(2-5) config entries(5) by auto
qed

end
