(* ===== verification/Spec2Isabelle.thy ===== *)
theory Spec2Isabelle
  imports Loop_Properties Concurrent_Properties Workload_Properties Crd_Schema Serde_Properties Object_Typing Error_Display
    Deployment_Properties Example_Manifests
begin

text \<open>
  A verification development for the Stackable hello-world operator (Rust, the crate
  \<^verbatim>\<open>rust/operator-binary\<close> of the repository; paths below are relative to its \<^verbatim>\<open>src\<close>).

  \<^bold>\<open>The program.\<close> The operator runs web servers on Kubernetes. A user writes a \<open>HelloCluster\<close>
  object; \<^verbatim>\<open>main.rs\<close> starts a controller that calls \<open>reconcile_hello\<close> (\<^verbatim>\<open>controller.rs\<close>) whenever
  such an object, or one of the objects made for it, changes. A reconciliation computes, from the
  object alone, everything the cluster should consist of (service account, role binding, one
  Service per role, and a Service, a ConfigMap and a StatefulSet per role group, a
  PodDisruptionBudget), applies it, writes the status, and deletes what is no longer wanted.
  The object and its defaults are \<^verbatim>\<open>crd.rs\<close>, with \<^verbatim>\<open>affinity.rs\<close>; log configuration is
  \<^verbatim>\<open>product_logging.rs\<close>; budgets and shutdown periods are \<^verbatim>\<open>operations/\<close>.

  \<^bold>\<open>Theories.\<close>
  \<^item> \<open>Prelude\<close>, \<open>Rust_Collections\<close>, \<open>Rust_Text\<close>: what the code uses of Rust and its standard
    library. Results are sums; the operator \<open>?\<close> is \<open>and_then\<close> and \<open>.context\<close> is
    \<open>err_context\<close> or \<open>or_missing\<close>. A \<open>BTreeMap\<close> is the sorted association list it iterates over, a
    \<open>HashMap\<close> an association list in an arbitrary order (locales \<open>finite_map\<close>, \<open>ordered_map\<close>, with
    the two maps as interpretations). Text forms satisfy the locales \<open>text_codec\<close>, \<open>exact_codec\<close>.
  \<^item> \<open>Platform_Data\<close>, \<open>Kube_Objects\<close>: the data of the libraries that the code takes apart or fills
    in. A library builder is the history of the calls made on it, because its code is not in the
    repository but its state can only depend on that history; which calls it refuses is a
    parameter. What can be read off a history (mounts, environment, entries) is defined on it.
  \<^item> \<open>Crd_Enums\<close>, \<open>Affinity\<close>, \<open>Crd\<close>, \<open>Crd_Pods\<close>: \<^verbatim>\<open>crd.rs\<close> and \<^verbatim>\<open>affinity.rs\<close>: constants, enums
    and their text forms, the spec and status records, role and role group lookup, defaults,
    merging (\<open>merged_config\<close>), the \<open>Configuration\<close> functions, and the predicted pods.
  \<^item> \<open>Crd_Serde\<close>: reading and writing the structs of \<^verbatim>\<open>crd.rs\<close>, as their serde attributes ask for:
    entry by entry (\<open>visit_fields\<close>), with required, optional and defaulted fields. The locales
    \<open>json_codec\<close> and \<open>value_codec\<close> are what a field's type owes. The names of the resource.
  \<^item> \<open>Crd_Schema\<close>: the schema generated from these structs, as deployed in \<^verbatim>\<open>crds.yaml\<close>, and what
    it means for a value to conform to it. \<open>Example_Manifests\<close>: the HelloCluster manifests of the
    repository, which of them are for the registered resource, and that all of them are admitted
    and decoded.
  \<^item> \<open>Trace_Monad\<close>: effects. An effectful function takes the calls made so far and returns its
    result and the calls made by its end; a call is answered by an arbitrary function of the
    history (\<open>world\<close>), so the cluster may do anything. \<open>stage_ok\<close> is a small logic for protocols over
    such functions, \<open>completes\<close> one for success, and the locale \<open>closing_protocol\<close> the contract of a
    final, destructive call.
  \<^item> \<open>Controller_Error\<close>, \<open>Error_Display\<close>: all error types, their categories and messages, and
    \<open>error_policy\<close>.
  \<^item> \<open>Operator_World\<close>, \<open>Product_Logging\<close>, \<open>Operations\<close>, \<open>Controller_Build\<close>, \<open>Reconcile\<close>,
    \<open>Operator_Main\<close>: the functions of \<^verbatim>\<open>product_logging.rs\<close>, \<^verbatim>\<open>operations/\<close>, \<^verbatim>\<open>controller.rs\<close> and
    \<^verbatim>\<open>main.rs\<close>, under their names. \<open>build_server_rolegroup_statefulset\<close> and \<open>reconcile_hello\<close> are
    long; their consecutive parts have names of their own here (\<open>hello_container\<close>,
    \<open>hello_pod_template\<close>, \<open>hello_stateful_set\<close>; \<open>server_config_of\<close>, \<open>rbac_resources\<close>, \<open>apply_rbac\<close>,
    \<open>apply_role_service\<close>, \<open>reconcile_role_group\<close>, \<open>apply_budget\<close>, \<open>finish_reconcile\<close>) and are composed
    in the code's order.
  \<^item> \<open>Reconcile_Protocol\<close>: the allowed order of calls as a step relation (\<open>phase_step\<close>), and that
    every stage keeps to it. \<open>Reconcile_Spec\<close>: the abstract specification, \<open>reconcile_plan\<close>, a pure
    function from the cluster to the calls it asks for, and the refinement of each stage to its
    part. \<open>Build_Facts\<close>, \<open>Plan_Facts\<close>: what successful builders produce, the identities of applied
    objects, and the locale \<open>applied_invariant\<close>: what every builder establishes holds for all objects
    of a run. It is interpreted for ownership there and for well-formedness in \<open>Object_Typing\<close>,
    which is about the objects the operator builds itself, before pod overrides are merged.
  \<^item> \<open>Hash_Order\<close>: a hash map is iterated in another order in every run. A \<open>reconcile_platform\<close> is
    the library as it behaves in one run; \<open>reordered_library\<close> relates it to that of another run.
    Plans are then the same up to the order of the role groups. A theorem on one run holds for
    any order; those on several runs (\<open>Controller_Loop\<close>, \<open>Concurrent_Clusters\<close>, the comparison of
    two runs below) let each run have its own.
  \<^item> \<open>Cluster_Store\<close>: the effect of a run on the objects in the cluster, under the contract of
    applying and deleting. \<open>Product_Config_Spec\<close>: the properties \<^verbatim>\<open>properties.yaml\<close> specifies.
    \<open>Config_Pipeline\<close>: the properties of a role group from their sources to the applied objects,
    under the contract of the product configuration. \<open>Controller_Loop\<close>: the sequence of runs for
    one object, under the contract of the controller runtime.
  \<^item> \<open>Cluster_Names\<close>: where the objects of a cluster are (\<open>object_place\<close>) and exactly when two clusters
    of one namespace have a place in common; \<open>applied_invariant\<close> is interpreted once more, for the
    places of a cluster. \<open>Concurrent_Clusters\<close>: the runs for many clusters as an interleaving of their
    calls (\<open>concurrent\<close>, a step relation) on one store, and by rule induction that what a run has
    applied stays in place whatever the others do.
  \<^item> \<open>Helm_Chart\<close>: how the chart deploys the operator: the names its templates make, cluster roles,
    account and binding, and the files its container sees. \<open>Deployment_Properties\<close>: whether the
    deployed roles permit what the operator's runs need, for which values of the chart, what they
    permit of reporting events, and where it finds its product configuration; \<open>applied_invariant\<close>
    is interpreted for the role bindings.
  \<^item> \<open>Example_Platform\<close>: one concrete cluster, library and world, used by the witnesses only.
  \<^item> \<open>Crd_Properties\<close>, \<open>Serde_Properties\<close>, \<open>Crd_Schema\<close>, \<open>Build_Properties\<close>, \<open>Object_Typing\<close>,
    \<open>Config_Properties\<close>, \<open>Workload_Properties\<close>, \<open>Loop_Properties\<close>, \<open>Concurrent_Properties\<close>,
    \<open>Deployment_Properties\<close>, \<open>Error_Display\<close> and this theory: the properties, of the custom resource,
    of the built objects, of what the user configures, of the controller over time and of many
    clusters at once, of the deployed operator, of messages, and of whole reconciliations and the
    binary. Each is numbered C1, C2, ... in the order of their
    importance, across the theories.

  \<^bold>\<open>What is assumed.\<close> Functions of \<^verbatim>\<open>stackable_operator\<close>, \<^verbatim>\<open>kube\<close> and \<^verbatim>\<open>product_config\<close> are fields of
  the records \<open>crd_platform\<close>, \<open>serde_platform\<close>, \<open>builder_platform\<close>, \<open>logging_platform\<close>, \<open>pdb_platform\<close>,
  \<open>kube_platform\<close>, \<open>reconcile_platform\<close>, \<open>main_platform\<close>, \<open>display_platform\<close>, and arbitrary. Where a
  property needs their documented behaviour it says so by name: \<open>merge_contract\<close>,
  \<open>merge_affinity_contract\<close>, \<open>resources_contract\<close>, \<open>validate_contract\<close>, \<open>affinity_term_contract\<close>,
  \<open>memory_contract\<close>, \<open>naming_contract\<close> (the names the smoke test asserts),
  \<open>spec_codecs\<close> (the libraries' types), \<open>pipeline_contract\<close> (the product configuration: the overrides
  that the smoke test asserts and the values \<^verbatim>\<open>properties.yaml\<close> recommends), \<open>store_contract\<close> (applying
  and deleting orphans, for one cluster) and \<open>api_contract\<close> (for all of them),
  \<open>runtime_contract\<close> (when the controller runtime runs the reconciler),
  \<open>authorizer_contract\<close> (role based access control), \<open>needs_contract\<close> and \<open>watch_contract\<close> (the
  requests the client makes for a call and a watch);
  \<open>hm_invar\<close> says that a hash map has each key once.
  All recursion is structural, so no fuel is needed; the one loop over a range is bounded by a
  \<open>u16\<close>, and that the repetition of failing runs ends is a property. Machine integers are words
  (\<open>u16\<close>, \<open>u32\<close>, \<open>i32\<close>) with the conversions the code makes.

  \<^bold>\<open>What is not modelled.\<close> The libraries themselves, logging output, the schemas of library
  types in the CRD, what the command line parser accepts, the version information the build script
  writes, event reporting, and what is neither Rust nor the operator's deployment: the Java
  application, Nix and test files (but for the manifests, and the smoke test's cluster and
  \<^verbatim>\<open>properties.yaml\<close>, which document contracts). Of the Helm chart, labels, images, resources,
  telemetry variables and the OpenShift constraints are left out. Reconciliations of different objects share no
  state of the operator. A run is modelled against a world that may change arbitrarily between any
  two of its calls; that other clusters' runs are among what changes it is the subject of
  \<open>Concurrent_Clusters\<close>. The contracts of the store are for clusters that are neither paused nor
  stopped; what the apply strategies of those do is the library's part.
\<close>

section \<open>A reconciliation that succeeds\<close>

text \<open>
  C1: A reconciliation that succeeds has done exactly what the cluster's specification asks
  for: the decoded cluster has a plan, for the service account name the API server answered and
  the resolved aggregator address, and the calls of the run are that plan, in order, followed by
  the status update and the deletion of orphaned objects. The status is computed from the
  StatefulSets as the API server returned them in this run.
\<close>
theorem reconcile_carries_out_plan:
  assumes "reconcile_hello P R W pc guarded cs = (Inr a, cs')"
  shows "\<exists>h addr sa_name plan. guarded = Inr h \<and>
    reconcile_plan P R pc h addr sa_name = Inr plan \<and>
    (\<exists>j. answer_add W cs (hd plan) = Inr j \<and> sa_name = sa_name_any R j) \<and>
    (\<exists>c c'. resolve_vector_aggregator_address (P_logging P) W h c = (Inr addr, c')) \<and>
    cs' = cs @ plan @
      [apply_patch_status ''hello.stackable.tech'' h
         \<lparr> conditions_of = compute_conditions R h (sts_answers W cs plan) (cluster_operation_of (spec h)) \<rparr>,
       delete_orphaned_resources (hello_cluster_resources h)] \<and>
    a = await_change"
proof -
  have "\<forall>e. (Inr a :: controller_error + action) = Inl e \<longrightarrow> (\<exists>s. e = DeleteOrphanedResources s)" by simp
  from reconcile_reaches_finish[OF assms this] obtain h addr sa_name plan where
    run: "guarded = Inr h" "reconcile_plan P R pc h addr sa_name = Inr plan"
    "\<exists>j. answer_add W cs (hd plan) = Inr j \<and> sa_name = sa_name_any R j"
    "\<exists>c c'. resolve_vector_aggregator_address (P_logging P) W h c = (Inr addr, c')"
    and fin: "finish_reconcile R W h (sts_answers W cs plan) (cs @ plan) = (Inr a, cs')"
    by blast
  from finish_reconcile_Inr[OF fin] run show ?thesis
    by (auto simp: reconciled_status_def OPERATOR_NAME_def)
qed

theorem reconcile_carries_out_plan_witness:
  "\<exists>plan. reconcile_plan ex_platform ex_reconcile JNull ex_cluster None ''hello-serviceaccount'' = Inr plan \<and>
     (\<exists>st. snd (reconcile_hello ex_platform ex_reconcile ex_world JNull (Inr ex_cluster) []) = plan @
       [apply_patch_status ''hello.stackable.tech'' ex_cluster st,
        delete_orphaned_resources (hello_cluster_resources ex_cluster)])"
proof -
  obtain cs where run: "reconcile_hello ex_platform ex_reconcile ex_world JNull (Inr ex_cluster) [] =
      (Inr await_change, cs)" using ex_run by blast
  have no_address: "addr = None"
    if "resolve_vector_aggregator_address (P_logging ex_platform) ex_world ex_cluster c = (Inr addr, c')" for addr c c'
    using that by (simp add: resolve_no_config_map ex_cluster_def ex_cluster_with_def)
  have name: "sa_name_any ex_reconcile j = ''hello-serviceaccount''" for j by (simp add: ex_reconcile_def)
  from reconcile_carries_out_plan[OF run] run show ?thesis
    by (auto dest!: no_address simp: name)
qed

text \<open>
  C11: Reconciliation completes. If every builder of the plan succeeds, the aggregator's address
  (if one is asked for) resolves and the cluster accepts every call, the run returns, without an
  error, and asks to be called again only when an object changes.
\<close>
theorem reconcile_terminates_successfully:
  assumes "agreeable W"
    and "\<And>cs. \<exists>addr cs'. resolve_vector_aggregator_address (P_logging P) W h cs = (Inr addr, cs')"
    and "\<And>cs addr cs' sa_name. resolve_vector_aggregator_address (P_logging P) W h cs = (Inr addr, cs')
      \<Longrightarrow> \<exists>plan. reconcile_plan P R pc h addr sa_name = Inr plan"
  shows "\<exists>cs'. reconcile_hello P R W pc (Inr h) cs = (Inr await_change, cs')"
proof -
  let ?resolve = "resolve_vector_aggregator_address (P_logging P) W h"
  have "completes 0 ?resolve (\<lambda>addr. \<forall>sa. \<exists>plan. reconcile_plan P R pc h addr sa = Inr plan)"
    unfolding completes_def using assms(2,3) resolve_address_Inr by metis
  moreover have "agreeable_from 0 W" using assms(1) by (simp add: agreeable_from_0)
  ultimately show ?thesis using completes_result[OF reconcile_completes] by fastforce
qed

theorem reconcile_terminates_successfully_witness:
  "\<exists>cs'. reconcile_hello ex_platform ex_reconcile ex_world JNull (Inr ex_cluster) [] = (Inr await_change, cs')"
proof (rule reconcile_terminates_successfully[OF ex_agreeable])
  have none: "resolve_vector_aggregator_address (P_logging ex_platform) ex_world ex_cluster cs = (Inr None, cs)" for cs
    by (simp add: resolve_no_config_map ex_cluster_def ex_cluster_with_def)
  show "\<exists>addr cs'. resolve_vector_aggregator_address (P_logging ex_platform) ex_world ex_cluster cs = (Inr addr, cs')" for cs
    using none by blast
  show "\<exists>plan. reconcile_plan ex_platform ex_reconcile JNull ex_cluster addr sa_name = Inr plan"
    if "resolve_vector_aggregator_address (P_logging ex_platform) ex_world ex_cluster cs = (Inr addr, cs')"
    for cs addr cs' sa_name
  proof -
    have "addr = None" using that none by simp
    moreover have "succeeds (reconcile_plan ex_platform ex_reconcile JNull ex_cluster None sa_name)" by code_simp
    ultimately show ?thesis by (metis succeeds.elims(2))
  qed
qed

section \<open>A reconciliation that fails\<close>

text \<open>
  C2: Orphaned objects are deleted only by a run that carried out the whole plan and updated the
  status, and the deletion is its last call: a run contains a deletion exactly if it succeeds or
  fails in the deletion itself, and then its calls are a whole plan without any deletion, one
  status update, and one deletion for this cluster.
\<close>
theorem orphans_deleted_only_after_plan:
  "\<exists>r ds. reconcile_hello P R W pc guarded cs = (r, cs @ ds) \<and>
    ((\<exists>c \<in> set ds. is_delete c) \<longleftrightarrow> r = Inr await_change \<or> (\<exists>s. r = Inl (DeleteOrphanedResources s))) \<and>
    ((\<exists>c \<in> set ds. is_delete c) \<longrightarrow> (\<exists>h addr sa_name plan st. guarded = Inr h \<and>
       reconcile_plan P R pc h addr sa_name = Inr plan \<and> (\<forall>c \<in> set plan. \<not> is_delete c) \<and>
       ds = plan @ [apply_patch_status OPERATOR_NAME h st, delete_orphaned_resources (hello_cluster_resources h)]))"
proof -
  obtain r ds q where run: "reconcile_hello P R W pc guarded cs = (r, cs @ ds)"
    and ds: "follows phase_step P_Start ds q"
    and res: "case r of Inl e \<Rightarrow> (q = P_Done \<longleftrightarrow> (\<exists>s. e = DeleteOrphanedResources s)) \<and>
        (\<forall>s. e = InvalidHelloCluster s \<longleftrightarrow> guarded = Inl s)
      | Inr a \<Rightarrow> q = P_Done \<and> a = await_change"
    using stage_reconcile_hello[of P R W pc guarded] unfolding stage_ok_def by blast
  have outcome: "q = P_Done \<longleftrightarrow> r = Inr await_change \<or> (\<exists>s. r = Inl (DeleteOrphanedResources s))"
    using res by (cases r) auto
  have deletes: "(\<exists>c \<in> set ds. is_delete c) \<longleftrightarrow> q = P_Done"
    using orphan_deletion.not_final_not_closed[OF ds] orphan_deletion.final_closed[OF ds]
    by (metis last_in_set phase.distinct(19))
  have "\<exists>h addr sa_name plan st. guarded = Inr h \<and>
       reconcile_plan P R pc h addr sa_name = Inr plan \<and> (\<forall>c \<in> set plan. \<not> is_delete c) \<and>
       ds = plan @ [apply_patch_status OPERATOR_NAME h st, delete_orphaned_resources (hello_cluster_resources h)]"
    if "q = P_Done"
  proof -
    have r: "\<forall>e. r = Inl e \<longrightarrow> (\<exists>s. e = DeleteOrphanedResources s)" using that outcome by auto
    from reconcile_reaches_finish[OF run r] finish_reconcile_calls[OF _ r]
    show ?thesis using plan_not_delete by fastforce
  qed
  with run outcome deletes show ?thesis by blast
qed

theorem orphans_deleted_only_after_plan_witness:
  "\<exists>c \<in> set (snd (reconcile_hello ex_platform ex_reconcile ex_world JNull (Inr ex_cluster) [])). is_delete c"
proof -
  obtain cs where run: "reconcile_hello ex_platform ex_reconcile ex_world JNull (Inr ex_cluster) [] =
      (Inr await_change, cs)" using ex_run by blast
  with orphans_deleted_only_after_plan[of ex_platform ex_reconcile ex_world JNull "Inr ex_cluster" "[]"]
  show ?thesis by auto
qed

text \<open>
  C7: Whatever the cluster answers, the calls of a run keep to the order of \<open>phase_step\<close>: the
  service account before the role binding, both before the role's Service, that before the
  aggregator's ConfigMap is read, and for each role group the Service before the ConfigMap
  before the StatefulSet; then the budget, the status and the deletion. A run that succeeds has
  reached the end of the protocol; one that fails before the deletion stops short of it.
\<close>
theorem reconcile_keeps_protocol:
  "\<exists>r ds q. reconcile_hello P R W pc guarded cs = (r, cs @ ds) \<and> follows phase_step P_Start ds q \<and>
    (q = P_Done \<longleftrightarrow> r = Inr await_change \<or> (\<exists>s. r = Inl (DeleteOrphanedResources s)))"
proof -
  obtain r ds q where run: "reconcile_hello P R W pc guarded cs = (r, cs @ ds)"
    "follows phase_step P_Start ds q"
    and res: "case r of Inl e \<Rightarrow> (q = P_Done \<longleftrightarrow> (\<exists>s. e = DeleteOrphanedResources s)) \<and>
        (\<forall>s. e = InvalidHelloCluster s \<longleftrightarrow> guarded = Inl s)
      | Inr a \<Rightarrow> q = P_Done \<and> a = await_change"
    using stage_reconcile_hello[of P R W pc guarded] unfolding stage_ok_def by blast
  from res have "q = P_Done \<longleftrightarrow> r = Inr await_change \<or> (\<exists>s. r = Inl (DeleteOrphanedResources s))"
    by (cases r) auto
  with run show ?thesis by blast
qed

text \<open>
  C15: What happens after a run. An object that cannot be decoded causes no call, and the
  operator waits until it changes; after any other failure the run is repeated in five seconds;
  after a success it waits for a change. So no transient failure is dropped, and a broken object
  does not keep the operator busy. The category reported for an error tells the two apart.
\<close>
theorem next_action_exact:
  "reconcile_hello P R W pc (Inl e) cs = (Inl (InvalidHelloCluster e), cs) \<and>
   next_action (fst (reconcile_hello P R W pc guarded cs)) =
     (case (guarded, fst (reconcile_hello P R W pc guarded cs)) of
        (Inr _, Inl _) \<Rightarrow> requeue 5 | _ \<Rightarrow> await_change) \<and>
   error_policy err = (if category err = ''InvalidHelloCluster'' then await_change else requeue 5)"
proof (intro conjI error_policy_by_category)
  show "reconcile_hello P R W pc (Inl e) cs = (Inl (InvalidHelloCluster e), cs)"
    by (simp add: reconcile_hello_def)
  obtain r ds q where run: "reconcile_hello P R W pc guarded cs = (r, cs @ ds)"
    and res: "case r of Inl e \<Rightarrow> (q = P_Done \<longleftrightarrow> (\<exists>s. e = DeleteOrphanedResources s)) \<and>
        (\<forall>s. e = InvalidHelloCluster s \<longleftrightarrow> guarded = Inl s)
      | Inr a \<Rightarrow> q = P_Done \<and> a = await_change"
    using stage_reconcile_hello[of P R W pc guarded] unfolding stage_ok_def by blast
  show "next_action (fst (reconcile_hello P R W pc guarded cs)) =
     (case (guarded, fst (reconcile_hello P R W pc guarded cs)) of
        (Inr _, Inl _) \<Rightarrow> requeue 5 | _ \<Rightarrow> await_change)"
  proof (cases r)
    case (Inr a)
    with run res show ?thesis by (auto simp: next_action_def split: sum.split)
  next
    case (Inl err)
    show ?thesis
    proof (cases guarded)
      case (Inl s)
      then show ?thesis by (simp add: reconcile_hello_def next_action_def)
    next
      case (Inr h)
      with res \<open>r = Inl err\<close> have "\<nexists>s. err = InvalidHelloCluster s" by auto
      then have "error_policy err = requeue 5" by (cases err) auto
      with run Inr \<open>r = Inl err\<close> show ?thesis by (simp add: next_action_def)
    qed
  qed
qed

text \<open>
  Errors that the specification alone causes are found before the cluster is touched: if
  there is no server role, the product configuration is invalid, or the RBAC objects cannot be
  built, the run fails with that error and makes no call.
\<close>
theorem bad_specification_touches_nothing:
  assumes "server_config_of R pc h = Inl e \<or>
    (\<exists>config. server_config_of R pc h = Inr config) \<and> rbac_resources R h = Inl e"
  shows "reconcile_hello P R W pc (Inr h) cs = (Inl e, cs)"
  using assms by (auto simp: reconcile_hello_def Let_def)

theorem bad_specification_touches_nothing_witness:
  "reconcile_hello ex_platform ex_reconcile ex_world JNull (Inr (ex_cluster_with None None)) [] =
     (Inl NoServerRole, [])"
  by (rule bad_specification_touches_nothing) (simp add: server_config_of_def ex_cluster_with_def)



section \<open>What a run leaves behind\<close>

text \<open>
  C3: A successful run makes the cluster what the specification says. For a cluster that is neither
  paused nor stopped, if the applied objects have distinct identities, and under the documented
  behaviour of applying and of deleting orphans, the objects that belong to the cluster after
  the run are exactly those the run applied, whatever was there before: missing and changed
  objects are restored, those of removed role groups are gone, and runs started from different
  states end in the same one.
\<close>
theorem successful_run_converges:
  assumes "reconcile_hello P R W pc (Inr h) cs = (Inr a, cs @ ds)"
    and "store_contract W cs lookup exec"
    and "\<not> reconciliation_paused (cluster_operation_of (spec h))"
    and "\<not> stopped (cluster_operation_of (spec h))"
    and "distinct (map object_identity (applied ds))"
  shows "lookup (exec_calls exec [] ds s) = map_of (map (\<lambda>obj. (object_identity obj, obj)) (applied ds))"
  using successful_run_store[OF assms(1-4)] objects_by_distinct[OF assms(5)] by simp

theorem successful_run_converges_witness:
  "\<exists>ds. reconcile_hello ex_platform ex_reconcile ex_world JNull (Inr ex_cluster) [] = (Inr await_change, ds) \<and>
     exec_calls ex_exec [] ds [(''Service'', Some ''orphan'') \<mapsto> K_RoleBinding JNull] =
     exec_calls ex_exec [] ds Map.empty"
proof -
  obtain ds where run: "reconcile_hello ex_platform ex_reconcile ex_world JNull (Inr ex_cluster) [] =
      (Inr await_change, [] @ ds)" using ex_run_from[of "[]"] by blast
  have "distinct (map object_identity (applied ds))" using ex_run_distinct run by simp
  from successful_run_converges[OF run ex_store_contract ex_active this] run show ?thesis by auto
qed

section \<open>What the objects of a run are\<close>

text \<open>
  C12: Every call of every run, successful or not, is made for the cluster being reconciled: the
  Services, ConfigMaps and StatefulSets carry exactly one owner reference, to that cluster as
  their controller, and its recommended labels; the service account and the role binding are the
  ones the library built for this cluster and the product; the budget is built for it; the
  aggregator's ConfigMap is the one the cluster names, read in the cluster's own namespace; the
  status is written to it; and deletion is limited to its own resources.
\<close>
theorem every_call_for_this_cluster:
  "\<exists>r ds. reconcile_hello P R W pc (Inr h) cs = (r, cs @ ds) \<and> list_all (call_ok P R h) ds"
proof -
  obtain r ds where "reconcile_hello P R W pc (Inr h) cs = (r, cs @ ds)" "\<forall>c \<in> set ds. call_ok P R h c"
    using calls_all_run[OF ownership.reconcile_calls] by blast
  then show ?thesis by (auto simp: list_all_iff)
qed



text \<open>
  C20: Reconciliation is a function of the specification, up to the order in which the library
  lists its hash maps: two runs on the same cluster object that succeed apply the same objects,
  each as often, whatever was done before and whatever else the two worlds answer, if the
  aggregator's address, where one is asked for, resolves to the same and both name the service
  account alike. Only the order of the role groups can differ. A repeated run therefore changes
  nothing.
\<close>
theorem applied_objects_determined:
  assumes "reordered_library R R'"
    and "reconcile_hello P R W pc (Inr h) cs = (Inr a, cs @ ds)"
    and "reconcile_hello P R' W' pc (Inr h) cs' = (Inr a', cs' @ ds')"
    and "\<And>c d c' d' addr addr'. resolve_vector_aggregator_address (P_logging P) W h c = (Inr addr, d) \<Longrightarrow>
      resolve_vector_aggregator_address (P_logging P) W' h c' = (Inr addr', d') \<Longrightarrow> addr = addr'"
    and "\<And>c j j'. answer_add W cs c = Inr j \<Longrightarrow> answer_add W' cs' c = Inr j' \<Longrightarrow>
      sa_name_any R j = sa_name_any R j'"
  shows "mset (applied ds) = mset (applied ds')"
proof -
  have ok: "\<forall>e. (Inr b :: controller_error + action) = Inl e \<longrightarrow> (\<exists>s. e = DeleteOrphanedResources s)" for b
    by simp
  obtain addr c d sa plan j where addr: "resolve_vector_aggregator_address (P_logging P) W h c = (Inr addr, d)"
    and plan: "reconcile_plan P R pc h addr sa = Inr plan"
    "answer_add W cs (hd plan) = Inr j" "sa = sa_name_any R j" "applied ds = applied plan"
    using reconcile_reaches_finish[OF assms(2) ok] by (auto dest!: finish_reconcile_Inr)
  obtain addr' c' d' sa' plan' j' where addr': "resolve_vector_aggregator_address (P_logging P) W' h c' = (Inr addr', d')"
    and plan': "reconcile_plan P R' pc h addr' sa' = Inr plan'"
    "answer_add W' cs' (hd plan') = Inr j'" "sa' = sa_name_any R' j'" "applied ds' = applied plan'"
    using reconcile_reaches_finish[OF assms(3) ok] by (auto dest!: finish_reconcile_Inr)
  have "hd plan' = hd plan"
    using plan(1) plan'(1) reordered_same(2)[OF assms(1)] unfolding reconcile_plan_Inr by auto
  then have "sa' = sa" using assms(5) plan(2,3) plan'(2,3) reordered_same(3)[OF assms(1)] by metis
  moreover have "addr' = addr" using assms(4)[OF addr addr'] by simp
  ultimately have "mset plan' = mset plan"
    using reordered_plan(1)[OF assms(1) plan(1)] plan'(1) by auto
  with plan(4) plan'(4) show ?thesis using applied_mset by metis
qed

theorem applied_objects_determined_witness:
  "\<exists>ds ds'. reconcile_hello ex_platform ex_reconcile ex_world JNull (Inr ex_cluster) [] = (Inr await_change, ds) \<and>
     reconcile_hello ex_platform ex_reordered ex_world JNull (Inr ex_cluster) [] = (Inr await_change, ds') \<and>
     applied ds' \<noteq> applied ds \<and> mset (applied ds) = mset (applied ds')"
proof -
  let ?run = "\<lambda>R. reconcile_hello ex_platform R ex_world JNull (Inr ex_cluster) []"
  obtain ds where run: "?run ex_reconcile = (Inr await_change, [] @ ds)" using ex_run_from[of "[]"] by blast
  have "fst (?run ex_reordered) = Inr await_change" by code_simp
  then obtain ds' where run': "?run ex_reordered = (Inr await_change, [] @ ds')" by (metis append_Nil prod.collapse)
  have "map object_identity (applied (snd (?run ex_reordered))) \<noteq> map object_identity (applied (snd (?run ex_reconcile)))"
    by code_simp
  then have "applied ds' \<noteq> applied ds" unfolding run run' by auto
  moreover have "mset (applied ds) = mset (applied ds')"
    by (rule applied_objects_determined[OF ex_reordered_library run run'])
      (auto simp: resolve_no_config_map ex_cluster_def ex_cluster_with_def ex_reconcile_def)
  ultimately show ?thesis using run run' by auto
qed

section \<open>The binary\<close>

text \<open>
  C38: The controller is started by the run command only, and only once the arguments were
  understood, the product configuration was loaded and the client initialised: then with that
  configuration and for the namespaces asked for. It watches the clusters and the three kinds of
  objects a role group consists of.
\<close>
theorem controller_started_iff:
  "start_controller setup \<in> set (snd (operator_process M argv)) \<longleftrightarrow>
     (\<exists>cli opts product_config. parse_args M argv = Inr cli \<and> opts_cmd cli = Command_Run opts \<and>
        answer_load M (take 2 (snd (operator_process M argv))) = Inr product_config \<and>
        answer_initialize M (take 3 (snd (operator_process M argv))) = Inr () \<and>
        setup = controller_setup (run_watch_namespace opts) product_config \<and>
        set (watched_kinds setup) = insert W_HelloCluster {k. \<exists>obj. watched_as obj = Some k})"
proof (cases "parse_args M argv")
  case (Inl e)
  then show ?thesis by (simp add: operator_process_def)
next
  case (Inr cli)
  then show ?thesis
    by (cases "opts_cmd cli")
      (auto simp: operator_process_def watched_as_kinds main_def unit_call_def io_bind_def split: sum.splits)
qed

end
